(* ===== verification/Prelude.thy ===== *)
theory Prelude
  imports Main "HOL-Library.Sublist" "HOL-Library.Char_ord"
begin

text \<open>
  Shared vocabulary of the development: the result type of Python code that may raise, Python's
  list indexing and slicing with signed indices, and generic lemmas on lists. The collections
  \<open>py_simps\<close> (unfolding the sequencing of results) and \<open>scan_simps\<close> (facts about the text a
  scanner consumes) carry the component proofs.
\<close>

named_theorems py_simps
named_theorems scan_simps

section \<open>Results of Python code\<close>

text \<open>
  The exceptions that the modelled code can raise, one constructor for each, and \<open>Hang\<close> for a loop
  of the code that never ends.
\<close>

datatype py_exn =
    IndexError
  | KeyError
  | ValueError
  | AttributeError
  | ReError
  | AssertionError
  | IOError
  | SystemExit
  | Hang

type_synonym 'a py = "py_exn + 'a"

text \<open>Sequencing: an exception ends the computation, as an uncaught raise does.\<close>

definition py_bind :: "'a py \<Rightarrow> ('a \<Rightarrow> 'b py) \<Rightarrow> 'b py" where
  "py_bind m f = (case m of Inl e \<Rightarrow> Inl e | Inr x \<Rightarrow> f x)"

text \<open>A computation that returns, for statements that no exception is raised.\<close>

definition returns :: "'a py \<Rightarrow> bool" where
  "returns m \<longleftrightarrow> (\<exists>x. m = Inr x)"

lemma py_bind_simps [simp, py_simps]:
  "py_bind (Inr x) f = f x"
  "py_bind (Inl e) f = Inl e"
  by (simp_all add: py_bind_def)

lemma py_bind_eq_Inr [py_simps]:
  "py_bind m f = Inr y \<longleftrightarrow> (\<exists>x. m = Inr x \<and> f x = Inr y)"
  by (cases m) auto

lemma py_bind_eq_Inl:
  "py_bind m f = Inl e \<longleftrightarrow> m = Inl e \<or> (\<exists>x. m = Inr x \<and> f x = Inl e)"
  by (cases m) auto

lemma py_bind_assoc: "py_bind (py_bind m f) g = py_bind m (\<lambda>x. py_bind (f x) g)"
  by (cases m) auto

lemma py_bind_Inr_right [simp]: "py_bind m Inr = m"
  by (cases m) auto

lemma returns_simps [simp, code]: "returns (Inr x) = True" "returns (Inl e) = False"
  by (simp_all add: returns_def)

lemma returns_bind:
  "returns m \<Longrightarrow> (\<And>x. m = Inr x \<Longrightarrow> returns (f x)) \<Longrightarrow> returns (py_bind m f)"
  by (auto simp: returns_def)

lemma not_returns: "\<not> returns m \<longleftrightarrow> (\<exists>e. m = Inl e)"
  by (cases m) auto

text \<open>A loop over a list whose body may raise.\<close>

fun py_fold :: "('a \<Rightarrow> 's \<Rightarrow> 's py) \<Rightarrow> 'a list \<Rightarrow> 's \<Rightarrow> 's py" where
  "py_fold f [] s = Inr s"
| "py_fold f (x # xs) s = py_bind (f x s) (py_fold f xs)"

lemma py_fold_append [simp]: "py_fold f (xs @ ys) s = py_bind (py_fold f xs s) (py_fold f ys)"
  by (induction xs arbitrary: s) (auto simp: py_bind_def split: sum.split)

lemma py_fold_invariant:
  assumes "\<And>x s s'. x \<in> set xs \<Longrightarrow> I s \<Longrightarrow> f x s = Inr s' \<Longrightarrow> I s'"
    and "I s" "py_fold f xs s = Inr s'"
  shows "I s'"
  using assms by (induction xs arbitrary: s) (auto simp: py_bind_eq_Inr)

lemma py_fold_returns:
  assumes "\<And>x s. x \<in> set xs \<Longrightarrow> I s \<Longrightarrow> \<exists>s'. f x s = Inr s' \<and> I s'"
    and "I s"
  shows "\<exists>s'. py_fold f xs s = Inr s' \<and> I s'"
  using assms
proof (induction xs arbitrary: s)
  case (Cons x xs)
  then obtain t where "f x s = Inr t" "I t" by (meson list.set_intros(1))
  with Cons show ?case by auto
qed auto

section \<open>Indexing and slicing\<close>

text \<open>
  Python's \<open>xs[i]\<close>: a negative index counts from the end, an index out of range raises
  \<open>IndexError\<close>.
\<close>

definition py_get :: "'a list \<Rightarrow> int \<Rightarrow> 'a py" where
  "py_get xs i =
     (let j = (if i < 0 then int (length xs) + i else i)
      in if 0 \<le> j \<and> j < int (length xs) then Inr (xs ! nat j) else Inl IndexError)"

text \<open>Python's slice bounds: a negative bound counts from the end, then both are clamped.\<close>

definition slice_bound :: "nat \<Rightarrow> int \<Rightarrow> nat" where
  "slice_bound n i = (if i < 0 then nat (int n + i) else min n (nat i))"

definition slice_from :: "'a list \<Rightarrow> int \<Rightarrow> 'a list" where
  "slice_from xs i = drop (slice_bound (length xs) i) xs"

definition slice_to :: "'a list \<Rightarrow> int \<Rightarrow> 'a list" where
  "slice_to xs i = take (slice_bound (length xs) i) xs"

lemma py_get_nat [simp]: "py_get xs (int i) = (if i < length xs then Inr (xs ! i) else Inl IndexError)"
  by (auto simp: py_get_def Let_def)

lemma nat_int_pred [simp]: "nat (int n - 1) = n - 1"
  by linarith

lemma py_get_last [simp]: "xs \<noteq> [] \<Longrightarrow> py_get xs (-1) = Inr (last xs)"
  by (auto simp: py_get_def Let_def last_conv_nth)

lemma py_get_pred [simp]: "0 < i \<Longrightarrow> i \<le> length xs \<Longrightarrow> py_get xs (int i - 1) = Inr (xs ! (i - 1))"
  by (auto simp: py_get_def Let_def)

lemma returns_py_get: "returns (py_get xs i) \<longleftrightarrow> - int (length xs) \<le> i \<and> i < int (length xs)"
  by (auto simp: py_get_def Let_def)

lemma slice_from_nat [simp]: "slice_from xs (int i) = drop i xs"
  by (auto simp: slice_from_def slice_bound_def min_def)

lemma slice_to_nat [simp]: "slice_to xs (int i) = take i xs"
  by (auto simp: slice_to_def slice_bound_def min_def)

lemma slice_from_to: "slice_to xs i @ slice_from xs i = xs"
  by (simp add: slice_to_def slice_from_def)

section \<open>Generic list lemmas\<close>

lemma concat_map_singleton [simp]: "concat (map (\<lambda>x. [f x]) xs) = map f xs"
  by (induction xs) auto

lemma takeWhile_split_first:
  assumes "c \<in> set xs" and "P c"
  obtains ys d zs where "xs = ys @ d # zs" "P d" "\<forall>x\<in>set ys. \<not> P x"
  using assms split_list_first_prop [of xs P] by metis

lemma dropWhile_Nil_conv: "dropWhile P xs = [] \<longleftrightarrow> (\<forall>x\<in>set xs. P x)"
  by (induction xs) auto

lemma dropWhile_Cons_conv:
  "dropWhile P xs = c # zs \<Longrightarrow> xs = takeWhile P xs @ c # zs \<and> \<not> P c"
  by (metis hd_dropWhile list.distinct(1) list.sel(1) takeWhile_dropWhile_id)

lemma filter_takeWhile_not [simp]: "filter P (takeWhile (\<lambda>x. \<not> P x) xs) = []"
  by (induction xs) auto

lemma filter_dropWhile_not: "filter P (dropWhile (\<lambda>x. \<not> P x) xs) = filter P xs"
  by (induction xs) auto

end
