(* ===== verification/Py_String.thy ===== *)
theory Py_String
  imports Prelude
begin

text \<open>
  Python's string methods as the linter uses them. Text is a list of code points below 256 (one
  \<^typ>\<open>char\<close> each); the predicates on characters are those of Python 2's \<open>unicode\<close> type on that
  range, since source lines are decoded before they are checked. Each operation comes with the
  lemmas that characterise it: what \<open>find\<close> returns, what \<open>count\<close> counts, that \<open>split\<close> and
  \<open>join\<close> are inverse, that \<open>strip\<close> leaves no white space at either end.
\<close>

section \<open>Character predicates\<close>

definition in_range :: "char \<Rightarrow> char \<Rightarrow> char \<Rightarrow> bool" where
  "in_range lo hi c \<longleftrightarrow> lo \<le> c \<and> c \<le> hi"

text \<open>\<open>unicode.isspace\<close>, \<open>unicode.isdigit\<close> and \<open>unicode.isalnum\<close> for one character.\<close>

definition py_space :: "char \<Rightarrow> bool" where
  "py_space c \<longleftrightarrow> c = CHR '' '' \<or> in_range (CHR 0x09) (CHR 0x0D) c
     \<or> in_range (CHR 0x1C) (CHR 0x1F) c \<or> c = CHR 0x85 \<or> c = CHR 0xA0"

definition ascii_digit :: "char \<Rightarrow> bool" where
  "ascii_digit c \<longleftrightarrow> in_range (CHR ''0'') (CHR ''9'') c"

definition ascii_alpha :: "char \<Rightarrow> bool" where
  "ascii_alpha c \<longleftrightarrow> in_range (CHR ''a'') (CHR ''z'') c \<or> in_range (CHR ''A'') (CHR ''Z'') c"

definition py_isdigit :: "char \<Rightarrow> bool" where
  "py_isdigit c \<longleftrightarrow> ascii_digit c \<or> c = CHR 0xB2 \<or> c = CHR 0xB3 \<or> c = CHR 0xB9"

definition py_isalnum :: "char \<Rightarrow> bool" where
  "py_isalnum c \<longleftrightarrow> ascii_alpha c \<or> py_isdigit c
     \<or> c = CHR 0xAA \<or> c = CHR 0xB5 \<or> c = CHR 0xBA
     \<or> in_range (CHR 0xBC) (CHR 0xBE) c
     \<or> (in_range (CHR 0xC0) (CHR 0xFF) c \<and> c \<noteq> CHR 0xD7 \<and> c \<noteq> CHR 0xF7)"

text \<open>\<open>unicode.lower\<close> on text, \<open>str.upper\<close> and \<open>str.lower\<close> on bytes (ASCII letters only).\<close>

definition lower_char :: "char \<Rightarrow> char" where
  "lower_char c = (if in_range (CHR ''A'') (CHR ''Z'') c
       \<or> (in_range (CHR 0xC0) (CHR 0xDE) c \<and> c \<noteq> CHR 0xD7)
     then char_of (of_char c + (32 :: nat)) else c)"

definition py_lower :: "string \<Rightarrow> string" where
  "py_lower s = map lower_char s"

definition ascii_upper :: "char \<Rightarrow> char" where
  "ascii_upper c = (if in_range (CHR ''a'') (CHR ''z'') c then char_of (of_char c - (32 :: nat)) else c)"

definition ascii_lower :: "char \<Rightarrow> char" where
  "ascii_lower c = (if in_range (CHR ''A'') (CHR ''Z'') c then char_of (of_char c + (32 :: nat)) else c)"

section \<open>Searching\<close>

definition py_startswith :: "string \<Rightarrow> string \<Rightarrow> bool" where
  "py_startswith s p \<longleftrightarrow> take (length p) s = p"

definition py_endswith :: "string \<Rightarrow> string \<Rightarrow> bool" where
  "py_endswith s p \<longleftrightarrow> length p \<le> length s \<and> drop (length s - length p) s = p"

fun find_at :: "nat \<Rightarrow> string \<Rightarrow> string \<Rightarrow> int" where
  "find_at i sub [] = (if sub = [] then int i else -1)"
| "find_at i sub (c # cs) =
     (if py_startswith (c # cs) sub then int i else find_at (Suc i) sub cs)"

definition py_find :: "string \<Rightarrow> string \<Rightarrow> int" where
  "py_find s sub = find_at 0 sub s"

text \<open>\<open>s.find(sub, start)\<close>.\<close>

definition py_find_from :: "string \<Rightarrow> string \<Rightarrow> int \<Rightarrow> int" where
  "py_find_from s sub start =
     (if int (length s) < start then -1
      else let k = slice_bound (length s) start in find_at k sub (drop k s))"

fun rfind_at :: "nat \<Rightarrow> string \<Rightarrow> string \<Rightarrow> int" where
  "rfind_at i sub [] = (if sub = [] then int i else -1)"
| "rfind_at i sub (c # cs) =
     (let r = rfind_at (Suc i) sub cs
      in if r \<noteq> -1 then r else if py_startswith (c # cs) sub then int i else -1)"

definition py_rfind :: "string \<Rightarrow> string \<Rightarrow> int" where
  "py_rfind s sub = rfind_at 0 sub s"

text \<open>\<open>sub in s\<close>.\<close>

definition py_in :: "string \<Rightarrow> string \<Rightarrow> bool" where
  "py_in sub s \<longleftrightarrow> py_find s sub \<noteq> -1"

text \<open>\<open>s.count(sub)\<close> and \<open>s.replace(old, new)\<close>, for the non-empty patterns the code uses.\<close>

function py_count :: "string \<Rightarrow> string \<Rightarrow> nat" where
  "py_count [] sub = 0"
| "py_count (c # cs) sub =
     (if sub \<noteq> [] \<and> py_startswith (c # cs) sub
      then Suc (py_count (drop (length sub) (c # cs)) sub)
      else py_count cs sub)"
  by pat_completeness auto
termination
  by (relation "measure (\<lambda>(s, sub). length s)") auto

function py_replace :: "string \<Rightarrow> string \<Rightarrow> string \<Rightarrow> string" where
  "py_replace [] old new = []"
| "py_replace (c # cs) old new =
     (if old \<noteq> [] \<and> py_startswith (c # cs) old
      then new @ py_replace (drop (length old) (c # cs)) old new
      else c # py_replace cs old new)"
  by pat_completeness auto
termination
  by (relation "measure (\<lambda>(s, old, new). length s)") auto

section \<open>Trimming, splitting, joining\<close>

definition py_lstrip :: "string \<Rightarrow> string" where
  "py_lstrip s = dropWhile py_space s"

definition py_rstrip :: "string \<Rightarrow> string" where
  "py_rstrip s = rev (dropWhile py_space (rev s))"

definition py_strip :: "string \<Rightarrow> string" where
  "py_strip s = py_rstrip (py_lstrip s)"

definition rstrip_char :: "char \<Rightarrow> string \<Rightarrow> string" where
  "rstrip_char c s = rev (dropWhile (\<lambda>x. x = c) (rev s))"

definition py_isspace :: "string \<Rightarrow> bool" where
  "py_isspace s \<longleftrightarrow> s \<noteq> [] \<and> list_all py_space s"

text \<open>\<open>s.split()\<close>: the maximal runs without white space.\<close>

fun words_from :: "string \<Rightarrow> string \<Rightarrow> string list" where
  "words_from acc [] = (if acc = [] then [] else [rev acc])"
| "words_from acc (c # cs) =
     (if py_space c then (if acc = [] then words_from [] cs else rev acc # words_from [] cs)
      else words_from (c # acc) cs)"

definition py_words :: "string \<Rightarrow> string list" where
  "py_words s = words_from [] s"

text \<open>\<open>s.split(sep)\<close> for a non-empty separator; \<open>acc\<close> is the field read so far, reversed.\<close>

function split_from :: "string \<Rightarrow> string \<Rightarrow> string \<Rightarrow> string list" where
  "split_from sep acc [] = [rev acc]"
| "split_from sep acc (c # cs) =
     (if sep \<noteq> [] \<and> py_startswith (c # cs) sep
      then rev acc # split_from sep [] (drop (length sep) (c # cs))
      else split_from sep (c # acc) cs)"
  by pat_completeness auto
termination
  by (relation "measure (\<lambda>(sep, acc, s). length s)") auto

definition py_split :: "string \<Rightarrow> string \<Rightarrow> string list" where
  "py_split s sep = split_from sep [] s"

fun py_join :: "string \<Rightarrow> string list \<Rightarrow> string" where
  "py_join sep [] = []"
| "py_join sep [x] = x"
| "py_join sep (x # y # ys) = x @ sep @ py_join sep (y # ys)"

section \<open>Decimal numbers\<close>

fun show_nat :: "nat \<Rightarrow> string" where
  "show_nat n = (if n < 10 then [char_of (48 + n)] else show_nat (n div 10) @ [char_of (48 + n mod 10)])"

declare show_nat.simps [simp del]

definition show_int :: "int \<Rightarrow> string" where
  "show_int i = (if i < 0 then CHR ''-'' # show_nat (nat (- i)) else show_nat (nat i))"

section \<open>What the operations return\<close>

lemma startswith_prefix: "py_startswith s p \<longleftrightarrow> prefix p s"
  by (metis append_eq_conv_conj append_take_drop_id prefix_def py_startswith_def)

lemma startswith_append [simp]: "py_startswith (p @ s) p"
  by (simp add: py_startswith_def)

lemma startswith_conv: "py_startswith s p \<longleftrightarrow> (\<exists>t. s = p @ t)"
  by (simp add: startswith_prefix prefix_def)

lemma endswith_suffix: "py_endswith s p \<longleftrightarrow> suffix p s"
  by (auto simp: py_endswith_def suffix_def) (metis append_take_drop_id)

lemma startswith_single: "py_startswith s [c] \<longleftrightarrow> s \<noteq> [] \<and> hd s = c"
  by (cases s) (auto simp: py_startswith_def)

lemma startswith_Cons_single [simp]: "py_startswith (x # xs) [c] \<longleftrightarrow> x = c"
  by (simp add: py_startswith_def)

lemma find_at_found:
  "find_at i sub s \<noteq> -1 \<Longrightarrow>
     \<exists>pre post. s = pre @ sub @ post \<and> find_at i sub s = int (i + length pre)
       \<and> (\<forall>k<length pre. \<not> py_startswith (drop k s) sub)"
proof (induction i sub s rule: find_at.induct)
  case (1 i sub)
  then show ?case by (auto split: if_splits)
next
  case (2 i sub c cs)
  show ?case
  proof (cases "py_startswith (c # cs) sub")
    case True
    then have f: "find_at i sub (c # cs) = int i" by simp
    from True obtain post where "c # cs = [] @ sub @ post" by (auto simp: startswith_conv)
    with f show ?thesis by (metis add.right_neutral list.size(3) not_less_zero)
  next
    case False
    with 2 obtain pre post where d: "cs = pre @ sub @ post"
      "find_at (Suc i) sub cs = int (Suc i + length pre)"
      "\<forall>k<length pre. \<not> py_startswith (drop k cs) sub"
      by auto
    then have "\<forall>k<length (c # pre). \<not> py_startswith (drop k (c # cs)) sub"
      using False by (auto simp: less_Suc_eq_0_disj)
    with d False have "c # cs = (c # pre) @ sub @ post \<and> find_at i sub (c # cs) = int (i + length (c # pre))
        \<and> (\<forall>k<length (c # pre). \<not> py_startswith (drop k (c # cs)) sub)"
      by simp
    then show ?thesis by blast
  qed
qed

lemma find_at_missing: "find_at i sub s = -1 \<Longrightarrow> s \<noteq> pre @ sub @ post"
  by (induction i sub s arbitrary: pre rule: find_at.induct)
    (auto simp: startswith_conv Cons_eq_append_conv split: if_splits)

lemma py_find_neg_iff: "py_find s sub = -1 \<longleftrightarrow> \<not> sublist sub s"
  unfolding py_find_def sublist_def using find_at_found [of 0 sub s] find_at_missing [of 0 sub s]
  by metis

lemma py_find_ge: "-1 \<le> py_find s sub"
  using find_at_found [of 0 sub s] by (cases "py_find s sub = -1") (auto simp: py_find_def)

lemma py_in_sublist: "py_in sub s \<longleftrightarrow> sublist sub s"
  by (simp add: py_in_def py_find_neg_iff)

lemma py_find_first:
  assumes "py_find s sub = int i"
  shows "i + length sub \<le> length s" "take (length sub) (drop i s) = sub"
    "\<forall>k<i. \<not> py_startswith (drop k s) sub"
proof -
  have "find_at 0 sub s \<noteq> -1" using assms by (simp add: py_find_def)
  then obtain pre post where "s = pre @ sub @ post" "length pre = i"
    "\<forall>k<length pre. \<not> py_startswith (drop k s) sub"
    using find_at_found [of 0 sub s] assms by (auto simp: py_find_def)
  then show "i + length sub \<le> length s" "take (length sub) (drop i s) = sub"
    "\<forall>k<i. \<not> py_startswith (drop k s) sub" by auto
qed

lemma sublist_single: "sublist [c] s \<longleftrightarrow> c \<in> set s"
  by (auto simp: sublist_def in_set_conv_decomp)

lemma py_find_char_neg [simp]: "py_find s [c] = -1 \<longleftrightarrow> c \<notin> set s"
  by (simp add: py_find_neg_iff sublist_single)

lemma find_at_char:
  "find_at i [c] s = (if c \<in> set s then int (i + length (takeWhile (\<lambda>x. x \<noteq> c) s)) else -1)"
  by (induction i "[c]" s rule: find_at.induct) auto

lemma py_find_char:
  "py_find s [c] = (if c \<in> set s then int (length (takeWhile (\<lambda>x. x \<noteq> c) s)) else -1)"
  by (simp add: py_find_def find_at_char)

lemma py_count_char [simp]: "py_count s [c] = count_list s c"
  by (induction s) auto

lemma py_count_0_iff:
  assumes "sub \<noteq> []" shows "py_count s sub = 0 \<longleftrightarrow> \<not> sublist sub s"
  using assms
proof (induction s sub rule: py_count.induct)
  case (2 c cs sub)
  then show ?case by (auto simp: sublist_Cons_right startswith_prefix)
qed auto

lemma py_replace_no_occurrence: "\<not> sublist old s \<Longrightarrow> py_replace s old new = s"
  by (induction s old new rule: py_replace.induct) (auto simp: sublist_Cons_right startswith_prefix)

lemma py_count_mult: "sub \<noteq> [] \<Longrightarrow> py_count s sub * length sub \<le> length s"
proof (induction s sub rule: py_count.induct)
  case (2 c cs sub)
  show ?case
  proof (cases "py_startswith (c # cs) sub")
    case True
    then obtain t where t: "c # cs = sub @ t" by (auto simp: startswith_conv)
    then have "length (c # cs) = length sub + length t" by simp
    moreover have "py_count t sub * length sub \<le> length t" using 2 True t by simp
    moreover have "py_count (c # cs) sub = Suc (py_count (drop (length sub) (c # cs)) sub)"
      using 2 True by simp
    then have "py_count (c # cs) sub = Suc (py_count t sub)" using t by simp
    ultimately show ?thesis by simp
  next
    case False
    with 2 show ?thesis by simp
  qed
qed simp

lemma py_strip_ends:
  assumes "py_strip s \<noteq> []"
  shows "\<not> py_space (hd (py_strip s))" "\<not> py_space (last (py_strip s))"
proof -
  let ?l = "dropWhile py_space s"
  have r: "py_strip s = rev (dropWhile py_space (rev ?l))"
    by (simp add: py_strip_def py_rstrip_def py_lstrip_def)
  with assms have ne: "dropWhile py_space (rev ?l) \<noteq> []" by simp
  with r show "\<not> py_space (last (py_strip s))" by (simp add: last_rev hd_dropWhile)
  have "?l \<noteq> []"
  proof
    assume "?l = []"
    then have "dropWhile py_space (rev ?l) = []" by (simp only: rev.simps dropWhile.simps)
    with ne show False by contradiction
  qed
  then have h: "\<not> py_space (hd ?l)" by (rule hd_dropWhile)
  obtain u where u: "?l = py_strip s @ u"
    unfolding r by (metis rev_append rev_rev_ident takeWhile_dropWhile_id)
  from h u assms show "\<not> py_space (hd (py_strip s))" by simp
qed

lemma py_strip_empty_iff: "py_strip s = [] \<longleftrightarrow> (\<forall>c\<in>set s. py_space c)"
proof -
  have "py_strip s = [] \<longleftrightarrow> dropWhile py_space (rev (dropWhile py_space s)) = []"
    by (simp only: py_strip_def py_rstrip_def py_lstrip_def rev_is_Nil_conv)
  also have "\<dots> \<longleftrightarrow> dropWhile py_space s = []"
    unfolding dropWhile_Nil_conv set_rev by (metis dropWhile_Nil_conv dropWhile_idem)
  also have "\<dots> \<longleftrightarrow> (\<forall>c\<in>set s. py_space c)"
    by (rule dropWhile_Nil_conv)
  finally show ?thesis .
qed

lemma split_from_nonempty [simp]: "split_from sep acc s \<noteq> []"
  by (induction sep acc s rule: split_from.induct) auto

lemma split_from_join: "sep \<noteq> [] \<Longrightarrow> py_join sep (split_from sep acc s) = rev acc @ s"
proof (induction sep acc s rule: split_from.induct)
  case (2 sep acc c cs)
  note ne = split_from_nonempty [of sep]
  show ?case
  proof (cases "py_startswith (c # cs) sep")
    case True
    with 2 have ih: "py_join sep (split_from sep [] (drop (length sep) (c # cs))) = drop (length sep) (c # cs)"
      by simp
    obtain y ys where "split_from sep [] (drop (length sep) (c # cs)) = y # ys"
      using ne by (meson neq_Nil_conv)
    with ih True 2 show ?thesis by (auto simp: startswith_conv)
  qed (use 2 in auto)
qed simp

lemma split_join: "sep \<noteq> [] \<Longrightarrow> py_join sep (py_split s sep) = s"
  by (simp add: py_split_def split_from_join)

lemma py_split_nonempty [simp]: "py_split s sep \<noteq> []"
  by (simp add: py_split_def)

definition solid :: "string \<Rightarrow> bool" where
  "solid w \<longleftrightarrow> w \<noteq> [] \<and> list_all (\<lambda>c. \<not> py_space c) w"

lemma words_from_solid:
  "list_all (\<lambda>c. \<not> py_space c) acc \<Longrightarrow> list_all solid (words_from acc s)"
  by (induction acc s rule: words_from.induct) (auto simp: solid_def)

lemma py_words_solid: "list_all solid (py_words s)"
  by (simp add: py_words_def words_from_solid)

lemma split_from_no_sep:
  "c \<notin> set x \<Longrightarrow> split_from [c] acc (x @ c # y) = (rev acc @ x) # split_from [c] [] y"
  by (induction x arbitrary: acc) auto

lemma split_from_plain: "c \<notin> set x \<Longrightarrow> split_from [c] acc x = [rev acc @ x]"
  by (induction x arbitrary: acc) auto

lemma join_split:
  "xs \<noteq> [] \<Longrightarrow> \<forall>x\<in>set xs. c \<notin> set x \<Longrightarrow> py_split (py_join [c] xs) [c] = xs"
proof (induction "[c]" xs rule: py_join.induct)
  case (3 x y ys)
  then show ?case by (simp add: py_split_def split_from_no_sep)
qed (simp_all add: py_split_def split_from_plain)

lemma py_strip_id:
  assumes "s \<noteq> []" "\<not> py_space (hd s)" "\<not> py_space (last s)"
  shows "py_strip s = s"
proof -
  have "py_lstrip s = s" using assms by (cases s) (simp_all add: py_lstrip_def)
  moreover have "dropWhile py_space (rev s) = rev s"
    using assms by (cases s rule: rev_cases) simp_all
  ultimately show ?thesis by (simp add: py_strip_def py_rstrip_def)
qed

lemma py_replace_char: "py_replace s [c] [d] = map (\<lambda>x. if x = c then d else x) s"
  by (induction s) auto

lemma of_char_lower:
  "of_char (lower_char c) = (let n = of_char c :: nat in
     if 65 \<le> n \<and> n \<le> 90 \<or> 192 \<le> n \<and> n \<le> 222 \<and> n \<noteq> 215 then n + 32 else n)"
proof -
  have "of_char (CHR 0xD7) = (215 :: nat)" by simp
  then have "c \<noteq> CHR 0xD7 \<longleftrightarrow> of_char c \<noteq> (215 :: nat)" by (metis of_char_eq_iff)
  then show ?thesis by (simp add: lower_char_def in_range_def less_eq_char_def Let_def)
qed

lemma lower_char_facts:
  "lower_char (lower_char c) = lower_char c" "\<not> in_range (CHR ''A'') (CHR ''Z'') (lower_char c)"
  "lower_char c = CHR ''-'' \<Longrightarrow> c = CHR ''-''"
proof -
  have "of_char (lower_char (lower_char c)) = (of_char (lower_char c) :: nat)"
    by (simp add: of_char_lower Let_def)
  then show "lower_char (lower_char c) = lower_char c" by (simp only: of_char_eq_iff)
  show "\<not> in_range (CHR ''A'') (CHR ''Z'') (lower_char c)"
    by (simp add: in_range_def less_eq_char_def of_char_lower Let_def)
  assume "lower_char c = CHR ''-''"
  then have "of_char (lower_char c) = (45 :: nat)" by simp
  then have "of_char c = (of_char (CHR ''-'') :: nat)" by (simp add: of_char_lower Let_def split: if_splits)
  then show "c = CHR ''-''" by (simp only: of_char_eq_iff)
qed

lemma strip_first:
  assumes "list_all py_space ws" "\<not> py_space c"
  shows "\<exists>z'. py_strip (ws @ c # z) = c # z'"
proof -
  have l: "py_lstrip (ws @ c # z) = c # z" using assms by (induction ws) (auto simp: py_lstrip_def)
  have "\<exists>y. dropWhile py_space (xs @ [c]) = y @ [c]" for xs using assms(2) by (induction xs) auto
  then obtain y where "dropWhile py_space (rev z @ [c]) = y @ [c]" by blast
  then show ?thesis unfolding py_strip_def l py_rstrip_def by simp
qed

lemma strip_first_iff:
  "(\<exists>z'. py_strip f = c # z') \<longleftrightarrow> (\<exists>ws z. f = ws @ c # z \<and> list_all py_space ws \<and> \<not> py_space c)"
proof
  assume "\<exists>z'. py_strip f = c # z'"
  then obtain z' where z': "py_strip f = c # z'" by blast
  then have "\<not> (\<forall>x\<in>set f. py_space x)" using py_strip_empty_iff [of f] by simp
  then obtain ws d z where f: "f = ws @ d # z" "\<not> py_space d" "list_all py_space ws"
    using split_list_first_prop [of f "\<lambda>x. \<not> py_space x"] by (auto simp: list_all_iff)
  with strip_first [OF f(3,2), of z] z' show "\<exists>ws z. f = ws @ c # z \<and> list_all py_space ws \<and> \<not> py_space c" by auto
next
  assume "\<exists>ws z. f = ws @ c # z \<and> list_all py_space ws \<and> \<not> py_space c"
  then show "\<exists>z'. py_strip f = c # z'" using strip_first by auto
qed

lemma split_no_sep: "f \<in> set (py_split s [c]) \<Longrightarrow> c \<notin> set f"
proof -
  have "c \<notin> set acc \<Longrightarrow> f \<in> set (split_from [c] acc s) \<Longrightarrow> c \<notin> set f" for acc
  proof (induction s arbitrary: acc)
    case (Cons x s)
    from Cons.IH [of "[]"] Cons.IH [of "x # acc"] Cons.prems show ?case by (auto split: if_splits)
  qed simp
  from this [of "[]"] show "f \<in> set (py_split s [c]) \<Longrightarrow> c \<notin> set f" by (simp add: py_split_def)
qed

text \<open>A field whose first character, after white space, satisfies \<open>P\<close>, seen in the text itself.\<close>

definition field_starts :: "(char \<Rightarrow> bool) \<Rightarrow> string \<Rightarrow> bool" where
  "field_starts P s \<longleftrightarrow> (\<exists>pre ws c post. s = pre @ ws @ c # post \<and> (pre = [] \<or> last pre = CHR '','')
     \<and> list_all py_space ws \<and> \<not> py_space c \<and> P c)"

lemma field_starts_comma:
  assumes "CHR '','' \<notin> set x" "\<not> P (CHR '','')"
  shows "field_starts P (x @ CHR '','' # y) \<longleftrightarrow> field_starts P x \<or> field_starts P y"
proof
  have sp: "\<not> py_space (CHR '','')" by (simp add: py_space_def in_range_def)
  assume "field_starts P (x @ CHR '','' # y)"
  then obtain pre ws c post where d: "x @ CHR '','' # y = pre @ ws @ c # post" "pre = [] \<or> last pre = CHR '',''"
    "list_all py_space ws" "\<not> py_space c" "P c" by (auto simp: field_starts_def)
  show "field_starts P x \<or> field_starts P y"
  proof (cases "pre = []")
    case True
    have "CHR '','' \<notin> set (ws @ [c])" using d(3,5) sp assms(2) by (auto simp: list_all_iff)
    moreover have "x @ CHR '','' # y = (ws @ [c]) @ post" using d(1) True by simp
    ultimately obtain z where "x = (ws @ [c]) @ z"
      by (auto simp: append_eq_append_conv2 Cons_eq_append_conv append_eq_Cons_conv)
    then show ?thesis using d(3-5) unfolding field_starts_def by (intro disjI1 exI [of _ "[]"] exI [of _ ws] exI [of _ c] exI [of _ z]) auto
  next
    case False
    with d(2) obtain q where q: "pre = q @ '',''" by (metis append_butlast_last_id)
    have "x @ CHR '','' # y = q @ CHR '','' # (ws @ c # post)" using d(1) q by simp
    then obtain q' where "pre = x @ CHR '','' # q'" "y = q' @ ws @ c # post"
      using assms(1) unfolding q by (auto simp: append_eq_append_conv2 Cons_eq_append_conv append_eq_Cons_conv)
    moreover then have "q' = [] \<or> last q' = CHR '',''" using d(2) False by (auto split: if_splits)
    ultimately show ?thesis using d(3-5) unfolding field_starts_def by blast
  qed
next
  assume "field_starts P x \<or> field_starts P y"
  then show "field_starts P (x @ CHR '','' # y)"
  proof
    assume "field_starts P y"
    then obtain pre ws c post where "y = pre @ ws @ c # post" "pre = [] \<or> last pre = CHR '',''"
      "list_all py_space ws" "\<not> py_space c" "P c" by (auto simp: field_starts_def)
    then show ?thesis unfolding field_starts_def by (intro exI [of _ "x @ CHR '','' # pre"] exI [of _ ws] exI [of _ c] exI [of _ post]) auto
  next
    assume "field_starts P x"
    then obtain pre ws c post where "x = pre @ ws @ c # post" "pre = [] \<or> last pre = CHR '',''"
      "list_all py_space ws" "\<not> py_space c" "P c" by (auto simp: field_starts_def)
    then show ?thesis unfolding field_starts_def
      by (intro exI [of _ pre] exI [of _ ws] exI [of _ c] exI [of _ "post @ CHR '','' # y"]) simp
  qed
qed

lemma field_starts_split:
  assumes "\<not> P (CHR '','')"
  shows "field_starts P s \<longleftrightarrow> (\<exists>f\<in>set (py_split s '',''). \<exists>c z. py_strip f = c # z \<and> P c)"
proof (induction "length s" arbitrary: s rule: less_induct)
  case less
  show ?case
  proof (cases "CHR '','' \<in> set s")
    case True
    then obtain x y where s: "s = x @ CHR '','' # y" "CHR '','' \<notin> set x" by (meson split_list_first)
    have "py_split s '','' = x # py_split y '',''" by (simp add: s py_split_def split_from_no_sep)
    moreover have "py_split x '','' = [x]" by (simp add: s py_split_def split_from_plain)
    ultimately show ?thesis using less [of x] less [of y] by (simp add: s field_starts_comma [where P = P, OF s(2) assms])
  next
    case False
    have "field_starts P s \<longleftrightarrow> (\<exists>c. P c \<and> (\<exists>ws z. s = ws @ c # z \<and> list_all py_space ws \<and> \<not> py_space c))"
    proof
      assume "field_starts P s"
      then obtain pre ws c post where d: "s = pre @ ws @ c # post" "pre = [] \<or> last pre = CHR '',''"
        "list_all py_space ws" "\<not> py_space c" "P c" by (auto simp: field_starts_def)
      moreover have "pre = []" using d(1,2) False by (metis UnCI last_in_set set_append)
      ultimately show "\<exists>c. P c \<and> (\<exists>ws z. s = ws @ c # z \<and> list_all py_space ws \<and> \<not> py_space c)" by auto
    next
      assume "\<exists>c. P c \<and> (\<exists>ws z. s = ws @ c # z \<and> list_all py_space ws \<and> \<not> py_space c)"
      then obtain c ws z where "P c" "s = [] @ ws @ c # z" "list_all py_space ws" "\<not> py_space c" by auto
      then show "field_starts P s" unfolding field_starts_def by blast
    qed
    also have "\<dots> \<longleftrightarrow> (\<exists>c. P c \<and> (\<exists>z. py_strip s = c # z))" by (simp only: strip_first_iff)
    finally show ?thesis using False by (auto simp: py_split_def split_from_plain)
  qed
qed

end
