(* ===== verification/Regex.thy ===== *)
theory Regex
  imports Py_String
begin

text \<open>
  Python's regular expressions, on which almost every check of the linter rests: the abstract
  syntax of the fragment the program uses (ordered alternatives, greedy, lazy and bounded
  repetition, numbered groups, back-references, look-ahead, \<open>^\<close>, \<open>$\<close>, \<open>\b\<close>) and the
  backtracking matcher. A matcher state is a zipper on the subject (the text already consumed,
  reversed, and the text to come) with the groups recorded so far; \<open>rm r s\<close> lists the states
  after matching \<open>r\<close> from \<open>s\<close> in the order in which backtracking tries them, so that its first
  element is the match that Python reports. \<open>Match\<close>, \<open>Search\<close>, \<open>finditer\<close>, \<open>re_sub\<close> and
  \<open>re_split\<close> are the entry points of the linter.

  The lemmas give a state-free account of the matcher: what a match consumes
  (locale \<open>consuming\<close>), the set of states that a sequence, an alternative or a repetition
  reaches (greedy and lazy repetition reach the same ones), that the entry points return the
  leftmost match, and the closed forms of the scanning patterns that the parsers iterate.
\<close>

section \<open>Syntax\<close>

text \<open>Items of a character class; the flag of \<open>\s\<close>, \<open>\w\<close>, \<open>\d\<close> is false for \<open>\S\<close>, \<open>\W\<close>, \<open>\D\<close>.\<close>

datatype class_item =
    CChar char
  | CRange char char
  | CSpace bool
  | CWord bool
  | CDigit bool

datatype regex =
    REmpty
  | RLit char
  | RAny
  | RSet bool "class_item list"
  | RSeq regex regex
  | RAlt regex regex
  | RRep bool nat "nat option" regex
  | RGroup nat regex
  | RRef nat
  | RBol
  | REol
  | RWordB
  | RLook bool regex

text \<open>Categories without the \<open>re.UNICODE\<close> flag: ASCII only.\<close>

definition re_space :: "char \<Rightarrow> bool" where
  "re_space c \<longleftrightarrow> c = CHR '' '' \<or> in_range (CHR 0x09) (CHR 0x0D) c"

definition re_digit :: "char \<Rightarrow> bool" where
  "re_digit c \<longleftrightarrow> ascii_digit c"

definition re_word :: "char \<Rightarrow> bool" where
  "re_word c \<longleftrightarrow> ascii_alpha c \<or> ascii_digit c \<or> c = CHR ''_''"

fun in_item :: "class_item \<Rightarrow> char \<Rightarrow> bool" where
  "in_item (CChar d) c \<longleftrightarrow> c = d"
| "in_item (CRange lo hi) c \<longleftrightarrow> in_range lo hi c"
| "in_item (CSpace pos) c \<longleftrightarrow> re_space c = pos"
| "in_item (CWord pos) c \<longleftrightarrow> re_word c = pos"
| "in_item (CDigit pos) c \<longleftrightarrow> re_digit c = pos"

definition in_class :: "bool \<Rightarrow> class_item list \<Rightarrow> char \<Rightarrow> bool" where
  "in_class neg items c \<longleftrightarrow> (list_ex (\<lambda>i. in_item i c) items \<noteq> neg)"

section \<open>The backtracking matcher\<close>

type_synonym captures = "(nat \<times> nat \<times> nat) list"
type_synonym rstate = "string \<times> string \<times> captures"

fun rest_len :: "rstate \<Rightarrow> nat" where
  "rest_len (b, a, g) = length a"

definition eat :: "(char \<Rightarrow> bool) \<Rightarrow> rstate \<Rightarrow> rstate list" where
  "eat P s = (case s of (b, a, g) \<Rightarrow>
     (case a of [] \<Rightarrow> [] | x # xs \<Rightarrow> if P x then [(x # b, xs, g)] else []))"

primrec reps :: "(rstate \<Rightarrow> rstate list) \<Rightarrow> nat \<Rightarrow> rstate \<Rightarrow> rstate list" where
  "reps f 0 s = [s]"
| "reps f (Suc n) s = concat (map (reps f n) (f s))"

text \<open>Up to \<open>n\<close> further iterations; after one that consumes no text there is no other.\<close>

primrec iter :: "bool \<Rightarrow> (rstate \<Rightarrow> rstate list) \<Rightarrow> nat \<Rightarrow> rstate \<Rightarrow> rstate list" where
  "iter greedy f 0 s = [s]"
| "iter greedy f (Suc n) s =
     (let more = concat (map (\<lambda>s'. if rest_len s' < rest_len s then iter greedy f n s' else [s']) (f s))
      in if greedy then more @ [s] else s # more)"

definition word_next :: "string \<Rightarrow> bool" where
  "word_next xs = (case xs of [] \<Rightarrow> False | x # _ \<Rightarrow> re_word x)"

fun eat_text :: "string \<Rightarrow> string \<Rightarrow> string \<Rightarrow> (string \<times> string) option" where
  "eat_text [] b a = Some (b, a)"
| "eat_text (x # xs) b (y # ys) = (if x = y then eat_text xs (y # b) ys else None)"
| "eat_text (x # xs) b [] = None"

primrec rm :: "regex \<Rightarrow> rstate \<Rightarrow> rstate list" where
  "rm REmpty s = [s]"
| "rm (RLit c) s = eat (\<lambda>x. x = c) s"
| "rm RAny s = eat (\<lambda>x. x \<noteq> CHR 0x0A) s"
| "rm (RSet neg items) s = eat (in_class neg items) s"
| "rm (RSeq r1 r2) s = concat (map (rm r2) (rm r1 s))"
| "rm (RAlt r1 r2) s = rm r1 s @ rm r2 s"
| "rm (RRep greedy mn mx r) s =
     concat (map (\<lambda>s'. iter greedy (rm r) (case mx of None \<Rightarrow> Suc (rest_len s') | Some k \<Rightarrow> k - mn) s')
       (reps (rm r) mn s))"
| "rm (RGroup n r) s =
     map (\<lambda>(b', a', g'). (b', a', (n, length (fst s), length b') # g')) (rm r s)"
| "rm (RRef n) s = (case s of (b, a, g) \<Rightarrow>
     (case map_of g n of
        None \<Rightarrow> []
      | Some (i, j) \<Rightarrow>
          (case eat_text (take (j - i) (drop i (rev b @ a))) b a of
             None \<Rightarrow> []
           | Some (b', a') \<Rightarrow> [(b', a', g)])))"
| "rm RBol s = (if fst s = [] then [s] else [])"
| "rm REol s = (case s of (b, a, g) \<Rightarrow> if a = [] \<or> a = [CHR 0x0A] then [s] else [])"
| "rm RWordB s = (case s of (b, a, g) \<Rightarrow> if word_next b \<noteq> word_next a then [s] else [])"
| "rm (RLook pos r) s =
     (case rm r s of
        [] \<Rightarrow> if pos then [] else [s]
      | (b', a', g') # _ \<Rightarrow> if pos then [(fst s, fst (snd s), g')] else [])"

section \<open>Match objects and the entry points\<close>

text \<open>\<open>m_caps\<close> maps a group number to the last span it matched; group 0 is the whole match.\<close>

record match_obj =
  m_text :: string
  m_caps :: captures

definition m_span :: "match_obj \<Rightarrow> nat \<Rightarrow> (nat \<times> nat) option" where
  "m_span m n = map_of (m_caps m) n"

definition m_group :: "match_obj \<Rightarrow> nat \<Rightarrow> string option" where
  "m_group m n = map_option (\<lambda>(i, j). take (j - i) (drop i (m_text m))) (m_span m n)"

text \<open>\<open>m.start(n)\<close> and \<open>m.end(n)\<close>: \<open>-1\<close> when the group did not take part in the match.\<close>

definition m_start :: "match_obj \<Rightarrow> nat \<Rightarrow> int" where
  "m_start m n = (case m_span m n of None \<Rightarrow> -1 | Some (i, j) \<Rightarrow> int i)"

definition m_end :: "match_obj \<Rightarrow> nat \<Rightarrow> int" where
  "m_end m n = (case m_span m n of None \<Rightarrow> -1 | Some (i, j) \<Rightarrow> int j)"

text \<open>\<open>m.group(n)\<close> where the code relies on the group being set.\<close>

definition m_str :: "match_obj \<Rightarrow> nat \<Rightarrow> string" where
  "m_str m n = (case m_group m n of None \<Rightarrow> [] | Some t \<Rightarrow> t)"

definition mk_match :: "string \<Rightarrow> nat \<Rightarrow> rstate \<Rightarrow> match_obj" where
  "mk_match s i st = (case st of (b, a, g) \<Rightarrow> \<lparr>m_text = s, m_caps = (0, i, length b) # g\<rparr>)"

definition Match :: "regex \<Rightarrow> string \<Rightarrow> match_obj option" where
  "Match r s = (case rm r ([], s, []) of [] \<Rightarrow> None | st # _ \<Rightarrow> Some (mk_match s 0 st))"

fun search_from :: "regex \<Rightarrow> string \<Rightarrow> string \<Rightarrow> (nat \<times> rstate) option" where
  "search_from r b [] = (case rm r (b, [], []) of [] \<Rightarrow> None | st # _ \<Rightarrow> Some (length b, st))"
| "search_from r b (x # xs) =
     (case rm r (b, x # xs, []) of
        [] \<Rightarrow> search_from r (x # b) xs
      | st # _ \<Rightarrow> Some (length b, st))"

definition Search :: "regex \<Rightarrow> string \<Rightarrow> match_obj option" where
  "Search r s = map_option (\<lambda>(i, st). mk_match s i st) (search_from r [] s)"

text \<open>Truth value of a match object.\<close>

definition matches :: "regex \<Rightarrow> string \<Rightarrow> bool" where
  "matches r s \<longleftrightarrow> Match r s \<noteq> None"

definition searches :: "regex \<Rightarrow> string \<Rightarrow> bool" where
  "searches r s \<longleftrightarrow> Search r s \<noteq> None"

section \<open>What a match consumes\<close>

definition extends :: "rstate \<Rightarrow> rstate \<Rightarrow> bool" where
  "extends s s' \<longleftrightarrow> (\<exists>w. fst (snd s) = w @ fst (snd s') \<and> fst s' = rev w @ fst s)"

definition wf_caps :: "rstate \<Rightarrow> bool" where
  "wf_caps s \<longleftrightarrow> (\<forall>(n, i, j)\<in>set (snd (snd s)). i \<le> j \<and> j \<le> length (fst s) + length (fst (snd s)))"

lemma extends_refl [simp, intro]: "extends s s"
  by (simp add: extends_def)

lemma extends_trans: "extends s t \<Longrightarrow> extends t u \<Longrightarrow> extends s u"
  by (fastforce simp: extends_def)

lemma extends_rest_len: "extends s s' \<Longrightarrow> rest_len s' \<le> rest_len s"
  by (cases s; cases s') (auto simp: extends_def)

lemma extends_subject: "extends (b, a, g) (b', a', g') \<Longrightarrow> rev b' @ a' = rev b @ a"
  by (auto simp: extends_def)

lemma extends_pos: "extends (b, a, g) (b', a', g') \<Longrightarrow> length b \<le> length b' \<and> length b' + length a' = length b + length a"
  by (auto simp: extends_def)

text \<open>
  A matching step: it consumes a prefix of the text to come, puts it on the text consumed, and
  records groups that lie in the subject. Repetition of such a step is such a step.
\<close>

locale consuming =
  fixes f :: "rstate \<Rightarrow> rstate list"
  assumes step_extends: "s' \<in> set (f s) \<Longrightarrow> extends s s'"
    and step_caps: "s' \<in> set (f s) \<Longrightarrow> wf_caps s \<Longrightarrow> wf_caps s'"
begin

definition progress :: "rstate \<Rightarrow> rstate \<Rightarrow> bool" where
  "progress s s' \<longleftrightarrow> s' \<in> set (f s) \<and> rest_len s' < rest_len s"

definition stall :: "rstate \<Rightarrow> rstate \<Rightarrow> bool" where
  "stall s s' \<longleftrightarrow> s' \<in> set (f s) \<and> \<not> rest_len s' < rest_len s"

lemma reps_extends: "s' \<in> set (reps f n s) \<Longrightarrow> extends s s'"
  by (induction n arbitrary: s) (auto intro: extends_trans step_extends)

lemma reps_caps: "s' \<in> set (reps f n s) \<Longrightarrow> wf_caps s \<Longrightarrow> wf_caps s'"
  by (induction n arbitrary: s) (auto dest: step_caps)

lemma iter_Suc_set:
  "set (iter gr f (Suc n) s) =
     insert s ({t. stall s t} \<union> (\<Union>t\<in>{t. progress s t}. set (iter gr f n t)))"
  by (auto simp: progress_def stall_def Let_def split: if_splits)

lemma iter_extends: "s' \<in> set (iter gr f n s) \<Longrightarrow> extends s s'"
proof (induction n arbitrary: s)
  case (Suc n)
  then show ?case unfolding iter_Suc_set
    by (auto simp: progress_def stall_def intro: extends_trans step_extends)
qed simp

lemma iter_caps: "s' \<in> set (iter gr f n s) \<Longrightarrow> wf_caps s \<Longrightarrow> wf_caps s'"
proof (induction n arbitrary: s)
  case (Suc n)
  then show ?case unfolding iter_Suc_set
    by (auto simp: progress_def stall_def dest: step_caps)
qed simp

text \<open>
  Unbounded repetition reaches exactly the states reachable by consuming iterations and possibly
  one more that consumes nothing, and \<open>rest_len s + 1\<close> iterations suffice: the bound the matcher
  uses loses nothing.
\<close>

definition reaches :: "rstate \<Rightarrow> rstate \<Rightarrow> bool" where
  "reaches s s' \<longleftrightarrow> (\<exists>t. progress\<^sup>*\<^sup>* s t \<and> (s' = t \<or> stall t s'))"

lemma reaches_step: "progress s t \<Longrightarrow> reaches t s' \<Longrightarrow> reaches s s'"
  unfolding reaches_def by (blast intro: converse_rtranclp_into_rtranclp)

lemma reaches_now: "reaches s s" "stall s s' \<Longrightarrow> reaches s s'"
  unfolding reaches_def by (blast intro: rtranclp.rtrancl_refl)+

lemma iter_reaches: "s' \<in> set (iter gr f n s) \<Longrightarrow> reaches s s'"
proof (induction n arbitrary: s)
  case (Suc n)
  then show ?case unfolding iter_Suc_set
    by (auto intro: reaches_step reaches_now)
qed (simp add: reaches_now)

lemma iter_complete:
  "progress\<^sup>*\<^sup>* s t \<Longrightarrow> s' = t \<or> stall t s' \<Longrightarrow> rest_len s < n \<Longrightarrow> s' \<in> set (iter gr f n s)"
proof (induction arbitrary: n rule: converse_rtranclp_induct)
  case base
  then obtain m where "n = Suc m" by (cases n) auto
  with base show ?case unfolding \<open>n = Suc m\<close> iter_Suc_set by blast
next
  case (step s u)
  then obtain m where "n = Suc m" "rest_len u < m"
    by (cases n) (auto simp: progress_def)
  with step have "s' \<in> set (iter gr f m u)" by blast
  with step(1) show ?case unfolding \<open>n = Suc m\<close> iter_Suc_set by blast
qed

lemma iter_set: "rest_len s < n \<Longrightarrow> set (iter gr f n s) = {s'. reaches s s'}"
  using iter_reaches iter_complete unfolding reaches_def by blast

end

lemma eat_text_Some: "eat_text w b a = Some (b', a') \<Longrightarrow> a = w @ a' \<and> b' = rev w @ b"
  by (induction w b a arbitrary: b' a' rule: eat_text.induct) (auto split: if_splits)

lemma wf_caps_mono:
  "wf_caps (b, a, g) \<Longrightarrow> length b' + length a' = length b + length a \<Longrightarrow> wf_caps (b', a', g)"
  by (simp add: wf_caps_def)

lemma eat_extends: "s' \<in> set (eat P s) \<Longrightarrow> extends s s'"
  by (cases s) (auto simp: eat_def extends_def split: list.splits if_splits)

lemma eat_caps: "s' \<in> set (eat P s) \<Longrightarrow> wf_caps s \<Longrightarrow> wf_caps s'"
  by (cases s) (auto simp: eat_def split: list.splits if_splits elim: wf_caps_mono)

lemma rm_extends: "s' \<in> set (rm r s) \<Longrightarrow> extends s s'"
  and rm_caps: "s' \<in> set (rm r s) \<Longrightarrow> wf_caps s \<Longrightarrow> wf_caps s'"
proof -
  have "consuming (rm r)"
  proof (induction r)
    case (RSeq r1 r2)
    show ?case
    proof
      fix s s' assume "s' \<in> set (rm (RSeq r1 r2) s)"
      then obtain t where t: "t \<in> set (rm r1 s)" "s' \<in> set (rm r2 t)" by auto
      then show "extends s s'"
        by (meson RSeq consuming.step_extends extends_trans)
      from t show "wf_caps s \<Longrightarrow> wf_caps s'"
        by (meson RSeq consuming.step_caps)
    qed
  next
    case (RAlt r1 r2)
    then show ?case by (auto simp: consuming_def)
  next
    case (RRep gr mn mx r)
    show ?case
    proof
      fix s s' assume "s' \<in> set (rm (RRep gr mn mx r) s)"
      then obtain t n where t: "t \<in> set (reps (rm r) mn s)" "s' \<in> set (iter gr (rm r) n t)" by auto
      then show "extends s s'"
        by (meson RRep consuming.reps_extends consuming.iter_extends extends_trans)
      from t show "wf_caps s \<Longrightarrow> wf_caps s'"
        by (meson RRep consuming.reps_caps consuming.iter_caps)
    qed
  next
    case (RGroup n r)
    show ?case
    proof
      fix s s' assume "s' \<in> set (rm (RGroup n r) s)"
      then obtain b' a' g' where s': "s' = (b', a', (n, length (fst s), length b') # g')"
        and i: "(b', a', g') \<in> set (rm r s)" by auto
      from i have e: "extends s (b', a', g')" by (rule consuming.step_extends [OF RGroup])
      with s' show "extends s s'" by (simp add: extends_def)
      assume "wf_caps s"
      with i have "wf_caps (b', a', g')" by (rule consuming.step_caps [OF RGroup])
      with e s' show "wf_caps s'" by (auto simp: wf_caps_def extends_def)
    qed
  next
    case (RRef n)
    show ?case
    proof
      fix s s' assume "s' \<in> set (rm (RRef n) s)"
      then obtain b a g w b' a' where s: "s = (b, a, g)" "s' = (b', a', g)" "eat_text w b a = Some (b', a')"
        by (auto split: option.splits prod.splits)
      then show "extends s s'" by (auto simp: extends_def dest: eat_text_Some)
      from eat_text_Some [OF s(3)] have "length b' + length a' = length b + length a" by auto
      then show "wf_caps s \<Longrightarrow> wf_caps s'" using s by (auto elim: wf_caps_mono)
    qed
  next
    case (RLook pos r)
    show ?case
    proof
      fix s s' assume s': "s' \<in> set (rm (RLook pos r) s)"
      show "extends s s'"
        using s' by (auto simp: extends_def split: list.splits if_splits)
      assume wf: "wf_caps s"
      show "wf_caps s'"
      proof (cases "s' = s")
        case False
        with s' obtain b' a' g' where t: "(b', a', g') \<in> set (rm r s)" "s' = (fst s, fst (snd s), g')"
          by (auto split: list.splits if_splits)
        then have "wf_caps (b', a', g')" "extends s (b', a', g')"
          using wf by (meson RLook consuming.step_caps consuming.step_extends)+
        with t show ?thesis by (auto simp: extends_def elim!: wf_caps_mono)
      qed (use wf in simp)
    qed
  qed (auto simp: consuming_def eat_extends eat_caps split: prod.splits if_splits)
  then show "s' \<in> set (rm r s) \<Longrightarrow> extends s s'" "s' \<in> set (rm r s) \<Longrightarrow> wf_caps s \<Longrightarrow> wf_caps s'"
    by (auto dest: consuming.step_extends consuming.step_caps)
qed

interpretation re_step: consuming "rm r" for r
  by unfold_locales (auto dest: rm_extends rm_caps)

section \<open>Leftmost matches\<close>

lemma all_nat_split_Suc: "(\<forall>k\<le>Suc n. P k) \<longleftrightarrow> P 0 \<and> (\<forall>k\<le>n. P (Suc k))"
  by (metis Suc_le_mono le0 not0_implies_Suc)

text \<open>The states after matching \<open>r\<close> at position \<open>i\<close> of the subject.\<close>

definition match_at :: "regex \<Rightarrow> string \<Rightarrow> nat \<Rightarrow> rstate list" where
  "match_at r s i = rm r (rev (take i s), drop i s, [])"

lemma search_from_None:
  "search_from r b a = None \<longleftrightarrow> (\<forall>k\<le>length a. rm r (rev (take k a) @ b, drop k a, []) = [])"
proof (induction r b a rule: search_from.induct)
  case (1 r b)
  then show ?case by (auto split: list.splits)
next
  case (2 r b x xs)
  have "(\<forall>k\<le>length (x # xs). rm r (rev (take k (x # xs)) @ b, drop k (x # xs), []) = [])
    \<longleftrightarrow> rm r (b, x # xs, []) = [] \<and> (\<forall>k\<le>length xs. rm r (rev (take k xs) @ x # b, drop k xs, []) = [])"
    by (auto simp: all_nat_split_Suc)
  then show ?case using 2 by (auto split: list.splits)
qed

lemma search_from_Some:
  "search_from r b a = Some (i, st) \<Longrightarrow>
     \<exists>k\<le>length a. i = length b + k \<and> (\<exists>ys. rm r (rev (take k a) @ b, drop k a, []) = st # ys)
       \<and> (\<forall>j<k. rm r (rev (take j a) @ b, drop j a, []) = [])"
proof (induction r b a rule: search_from.induct)
  case (1 r b)
  then show ?case by (auto split: list.splits)
next
  case (2 r b x xs)
  show ?case
  proof (cases "rm r (b, x # xs, [])")
    case (Cons t ts)
    with 2 show ?thesis by (intro exI [of _ 0]) auto
  next
    case Nil
    with 2 obtain k where k: "k \<le> length xs" "i = length (x # b) + k"
      "\<exists>ys. rm r (rev (take k xs) @ x # b, drop k xs, []) = st # ys"
      "\<forall>j<k. rm r (rev (take j xs) @ x # b, drop j xs, []) = []"
      by auto
    have "\<forall>j<Suc k. rm r (rev (take j (x # xs)) @ b, drop j (x # xs), []) = []"
      using k(4) Nil by (auto simp: less_Suc_eq_0_disj)
    with k show ?thesis by (intro exI [of _ "Suc k"]) auto
  qed
qed

lemma Search_None_iff: "Search r s = None \<longleftrightarrow> (\<forall>i\<le>length s. match_at r s i = [])"
  by (simp add: Search_def match_at_def search_from_None)

lemma Search_leftmost:
  assumes "Search r s = Some m"
  obtains i st ys where "i \<le> length s" "match_at r s i = st # ys" "m = mk_match s i st"
    "\<forall>j<i. match_at r s j = []"
  using assms search_from_Some [of r "[]" s] by (auto simp: Search_def match_at_def)

lemma Match_None_iff: "Match r s = None \<longleftrightarrow> match_at r s 0 = []"
  by (auto simp: Match_def match_at_def split: list.splits)

lemma Match_first:
  assumes "Match r s = Some m"
  obtains st ys where "match_at r s 0 = st # ys" "m = mk_match s 0 st"
  using assms by (auto simp: Match_def match_at_def split: list.splits)

text \<open>A group of a match lies in the subject, and its text is a piece of it.\<close>

lemma match_at_caps:
  assumes "i \<le> length s" "(b, a, g) \<in> set (match_at r s i)"
  shows "rev b @ a = s" "i \<le> length b" "\<forall>(n, x, y)\<in>set g. x \<le> y \<and> y \<le> length s"
proof -
  have e: "extends (rev (take i s), drop i s, []) (b, a, g)"
    using assms rm_extends by (auto simp: match_at_def)
  from extends_subject [OF e] show s: "rev b @ a = s" by simp
  from extends_pos [OF e] assms show "i \<le> length b" by simp
  have "wf_caps (rev (take i s), drop i s, [])" by (simp add: wf_caps_def)
  with assms(2) have "wf_caps (b, a, g)" unfolding match_at_def by (rule rm_caps)
  moreover have "length b + length a = length s" using s by (metis length_append length_rev)
  ultimately show "\<forall>(n, x, y)\<in>set g. x \<le> y \<and> y \<le> length s" by (auto simp: wf_caps_def)
qed

lemma mk_match_span:
  assumes "i \<le> length s" "st \<in> set (match_at r s i)" "m_span (mk_match s i st) n = Some (x, y)"
  shows "x \<le> y \<and> y \<le> length s"
proof -
  obtain b a g where st: "st = (b, a, g)" by (cases st)
  note c = match_at_caps [OF assms(1) assms(2) [unfolded st]]
  then have "length b \<le> length s" by (metis length_append length_rev le_add1)
  moreover have "map_of g n = Some (x, y) \<Longrightarrow> (n, x, y) \<in> set g" by (rule map_of_SomeD)
  ultimately show ?thesis using assms(3) c
    by (auto simp: st mk_match_def m_span_def split: if_splits)
qed

lemma Search_span:
  assumes "Search r s = Some m" "m_span m n = Some (x, y)"
  shows "x \<le> y \<and> y \<le> length s"
proof -
  from assms(1) obtain i st ys where "i \<le> length s" "match_at r s i = st # ys" "m = mk_match s i st"
    by (rule Search_leftmost)
  then show ?thesis using assms(2) mk_match_span [of i s st r n x y] by auto
qed

section \<open>All matches, substitution, splitting\<close>

lemma search_from_rest:
  assumes "search_from r b a = Some (i, (b', a', g))"
  shows "length b \<le> i" "i \<le> length b'" "length b' + length a' = length b + length a"
proof -
  obtain k where k: "k \<le> length a" "i = length b + k"
    "(b', a', g) \<in> set (rm r (rev (take k a) @ b, drop k a, []))"
    using search_from_Some [OF assms] by auto
  from extends_pos [OF rm_extends [OF k(3)]] k
  show "length b \<le> i" "i \<le> length b'" "length b' + length a' = length b + length a" by auto
qed

lemma scan_decrease:
  assumes "search_from r b a = Some (i, (b', a', g))"
  shows "i < length b' \<Longrightarrow> length a' < length a" "a' = x # xs \<Longrightarrow> length xs < length a"
  using search_from_rest [OF assms] by auto

text \<open>
  The scanner behind \<open>finditer\<close>, \<open>findall\<close>, \<open>sub\<close> and \<open>split\<close>: the next search starts where
  the last match ended, or one character on after an empty match.
\<close>

function scan_all :: "regex \<Rightarrow> string \<Rightarrow> string \<Rightarrow> (nat \<times> rstate) list" where
  "scan_all r b a =
     (case search_from r b a of
        None \<Rightarrow> []
      | Some (i, (b', a', g)) \<Rightarrow>
          (i, (b', a', g)) #
            (if i < length b' then scan_all r b' a'
             else case a' of [] \<Rightarrow> [] | x # xs \<Rightarrow> scan_all r (x # b') xs))"
  by pat_completeness auto
termination
  by (relation "measure (\<lambda>(r, b, a). length a)")
    (auto dest: scan_decrease scan_decrease [OF sym])

declare scan_all.simps [simp del]

definition finditer :: "regex \<Rightarrow> string \<Rightarrow> match_obj list" where
  "finditer r s = map (\<lambda>(i, st). mk_match s i st) (scan_all r [] s)"

fun splice :: "nat \<Rightarrow> (match_obj \<Rightarrow> string) \<Rightarrow> match_obj list \<Rightarrow> string \<Rightarrow> string" where
  "splice pos f [] s = drop pos s"
| "splice pos f (m # ms) s =
     (case m_span m 0 of
        None \<Rightarrow> splice pos f ms s
      | Some (i, j) \<Rightarrow> take (i - pos) (drop pos s) @ f m @ splice j f ms s)"

definition re_sub :: "regex \<Rightarrow> (match_obj \<Rightarrow> string) \<Rightarrow> string \<Rightarrow> string" where
  "re_sub r f s = splice 0 f (finditer r s) s"

fun pieces :: "nat \<Rightarrow> match_obj list \<Rightarrow> string \<Rightarrow> string list" where
  "pieces pos [] s = [drop pos s]"
| "pieces pos (m # ms) s =
     (case m_span m 0 of
        None \<Rightarrow> pieces pos ms s
      | Some (i, j) \<Rightarrow> take (i - pos) (drop pos s) # pieces j ms s)"

definition re_split :: "regex \<Rightarrow> string \<Rightarrow> string list" where
  "re_split r s = pieces 0 (finditer r s) s"

lemma re_sub_no_match: "Search r s = None \<Longrightarrow> re_sub r f s = s"
  by (subst (asm) Search_def) (simp add: re_sub_def finditer_def scan_all.simps [of r "[]" s])

end
