(* ===== verification/Regex_Parser.thy ===== *)
theory Regex_Parser
  imports Regex
begin

text \<open>
  \<open>re.compile\<close> on the fragment of the pattern language that the linter uses. A pattern is
  first cut into tokens (\<open>re_lex\<close>), then a stack of open groups assembles the syntax tree
  (\<open>assemble\<close>). The result is \<open>None\<close> where Python raises \<open>re.error\<close> (nothing to repeat,
  multiple repeat, bad range, unbalanced parenthesis, unterminated class, trailing backslash) and
  on constructs outside the fragment (look-behind, named groups, octal and hexadecimal escapes).

  Patterns are written with a grave accent in place of the backslash (\<open>raw_pat\<close>), since Isabelle's
  string literals hold no backslash; no pattern of the program contains a grave accent.
\<close>

section \<open>Tokens\<close>

datatype group_kind = GCapture | GPlain | GLook bool

datatype rtoken =
    TAtom regex
  | TRep bool nat "nat option"
  | TOpen group_kind
  | TClose
  | TBar
  | TIgnoreCase

definition raw_pat :: "string \<Rightarrow> string" where
  "raw_pat s = map (\<lambda>c. if c = CHR 0x60 then CHR 0x5C else c) s"

fun esc_category :: "char \<Rightarrow> class_item option" where
  "esc_category e =
     (if e = CHR ''s'' then Some (CSpace True) else if e = CHR ''S'' then Some (CSpace False)
      else if e = CHR ''w'' then Some (CWord True) else if e = CHR ''W'' then Some (CWord False)
      else if e = CHR ''d'' then Some (CDigit True) else if e = CHR ''D'' then Some (CDigit False)
      else None)"

fun control_char :: "char \<Rightarrow> char option" where
  "control_char e =
     (if e = CHR ''n'' then Some (CHR 0x0A) else if e = CHR ''t'' then Some (CHR 0x09)
      else if e = CHR ''r'' then Some (CHR 0x0D) else if e = CHR ''f'' then Some (CHR 0x0C)
      else if e = CHR ''v'' then Some (CHR 0x0B) else if e = CHR ''a'' then Some (CHR 0x07)
      else None)"

text \<open>An escape inside a class; \<open>None\<close> for octal and hexadecimal ones.\<close>

definition class_escape :: "char \<Rightarrow> class_item option" where
  "class_escape e =
     (if ascii_digit e \<or> e = CHR ''x'' then None
      else case esc_category e of
        Some i \<Rightarrow> Some i
      | None \<Rightarrow> (case control_char e of
          Some c \<Rightarrow> Some (CChar c)
        | None \<Rightarrow> Some (CChar (if e = CHR ''b'' then CHR 0x08 else e))))"

fun class_one :: "string \<Rightarrow> (class_item \<times> string) option" where
  "class_one [] = None"
| "class_one (c # cs) =
     (if c = CHR 0x5C then
        (case cs of [] \<Rightarrow> None | e # es \<Rightarrow> map_option (\<lambda>i. (i, es)) (class_escape e))
      else Some (CChar c, cs))"

lemma class_one_shorter: "class_one s = Some (i, t) \<Longrightarrow> length t < length s"
  by (cases s) (auto split: if_splits list.splits)

text \<open>
  The items up to the closing bracket. A bracket in first position is an ordinary character, a
  hyphen before the closing bracket too.
\<close>

function class_items :: "bool \<Rightarrow> class_item list \<Rightarrow> string \<Rightarrow> (class_item list \<times> string) option" where
  "class_items first acc s =
     (if \<not> first \<and> s \<noteq> [] \<and> hd s = CHR '']'' then Some (rev acc, tl s)
      else case class_one s of
        None \<Rightarrow> None
      | Some (i, t) \<Rightarrow>
          (if t \<noteq> [] \<and> hd t = CHR ''-'' then
             (if tl t \<noteq> [] \<and> hd (tl t) = CHR '']'' then Some (rev (CChar (CHR ''-'') # i # acc), tl (tl t))
              else case class_one (tl t) of
                Some (CChar hi, u) \<Rightarrow>
                  (case i of
                     CChar lo \<Rightarrow> if hi < lo then None else class_items False (CRange lo hi # acc) u
                   | _ \<Rightarrow> None)
              | _ \<Rightarrow> None)
           else class_items False (i # acc) t))"
  by pat_completeness auto
termination
proof (relation "measure (\<lambda>(first, acc, s). length s)", goal_cases)
  case (2 first acc s x2 i t x2' i' u hi lo)
  then have "length u < length (tl t)" "length t < length s"
    by (auto dest: class_one_shorter)
  then show ?case by (cases t) auto
qed (auto dest: class_one_shorter)

declare class_items.simps [simp del]

definition esc_atom :: "char \<Rightarrow> string \<Rightarrow> regex option" where
  "esc_atom e next =
     (if ascii_digit e then
        (if e = CHR ''0'' \<or> (next \<noteq> [] \<and> ascii_digit (hd next)) then None
         else Some (RRef (of_char e - 48)))
      else if e = CHR ''b'' then Some RWordB
      else if e = CHR ''x'' \<or> e = CHR ''A'' \<or> e = CHR ''B'' \<or> e = CHR ''Z'' then None
      else case esc_category e of
        Some i \<Rightarrow> Some (RSet False [i])
      | None \<Rightarrow> (case control_char e of Some c \<Rightarrow> Some (RLit c) | None \<Rightarrow> Some (RLit e)))"

definition digits_value :: "string \<Rightarrow> nat" where
  "digits_value ds = foldl (\<lambda>n d. 10 * n + (of_char d - 48)) 0 ds"

text \<open>The bounds after an opening brace; \<open>None\<close> when the brace is an ordinary character.\<close>

definition brace_bounds :: "string \<Rightarrow> (nat \<times> nat option \<times> string) option" where
  "brace_bounds s =
     (if s \<noteq> [] \<and> hd s = CHR ''}'' then None
      else
        let lo = takeWhile ascii_digit s; t = dropWhile ascii_digit s
        in if t \<noteq> [] \<and> hd t = CHR '','' then
             (let hi = takeWhile ascii_digit (tl t); u = dropWhile ascii_digit (tl t)
              in if u \<noteq> [] \<and> hd u = CHR ''}''
                 then Some (digits_value lo, if hi = [] then None else Some (digits_value hi), tl u)
                 else None)
           else if t \<noteq> [] \<and> hd t = CHR ''}''
             then Some (digits_value lo, if lo = [] then None else Some (digits_value lo), tl t)
             else None)"

lemma length_dropWhile_tl: "length (tl (dropWhile P s)) \<le> length s"
  by (metis diff_le_self dual_order.trans length_dropWhile_le length_tl)

lemma brace_bounds_shorter: "brace_bounds s = Some (m, n, t) \<Longrightarrow> length t \<le> length s"
  by (auto simp: brace_bounds_def Let_def split: if_splits)
    (metis (no_types, lifting) diff_le_self dual_order.trans length_dropWhile_le length_tl)+

definition quantifier :: "char \<Rightarrow> string \<Rightarrow> (nat \<times> nat option \<times> string) option" where
  "quantifier c cs =
     (if c = CHR ''*'' then Some (0, None, cs)
      else if c = CHR ''+'' then Some (1, None, cs)
      else if c = CHR ''?'' then Some (0, Some 1, cs)
      else if c = CHR ''{'' then brace_bounds cs
      else None)"

lemma quantifier_shorter: "quantifier c cs = Some (m, n, t) \<Longrightarrow> length t \<le> length cs"
  by (auto simp: quantifier_def split: if_splits dest: brace_bounds_shorter)

definition open_group :: "string \<Rightarrow> (rtoken \<times> string) option" where
  "open_group cs =
     (if cs = [] \<or> hd cs \<noteq> CHR ''?'' then Some (TOpen GCapture, cs)
      else case tl cs of
        [] \<Rightarrow> None
      | k # ks \<Rightarrow>
          (if k = CHR '':'' then Some (TOpen GPlain, ks)
           else if k = CHR ''='' then Some (TOpen (GLook True), ks)
           else if k = CHR ''!'' then Some (TOpen (GLook False), ks)
           else if k = CHR ''i'' \<and> ks \<noteq> [] \<and> hd ks = CHR '')'' then Some (TIgnoreCase, tl ks)
           else None))"

lemma open_group_shorter: "open_group cs = Some (t, u) \<Longrightarrow> length u \<le> length cs"
  by (cases cs) (auto simp: open_group_def split: if_splits list.splits)

definition tok_cons :: "rtoken \<Rightarrow> rtoken list option \<Rightarrow> rtoken list option" where
  "tok_cons t ts = map_option (\<lambda>us. t # us) ts"

text \<open>The lexer; \<open>v\<close> is the flag \<open>re.VERBOSE\<close>.\<close>

function re_lex :: "bool \<Rightarrow> string \<Rightarrow> rtoken list option" where
  "re_lex v [] = Some []"
| "re_lex v (c # cs) =
     (if v \<and> re_space c then re_lex v cs
      else if v \<and> c = CHR ''#'' then re_lex v (dropWhile (\<lambda>x. x \<noteq> CHR 0x0A) cs)
      else if c = CHR 0x5C then
        (case cs of
           [] \<Rightarrow> None
         | e # es \<Rightarrow> (case esc_atom e es of None \<Rightarrow> None | Some r \<Rightarrow> tok_cons (TAtom r) (re_lex v es)))
      else if c = CHR ''['' then
        (if cs \<noteq> [] \<and> hd cs = CHR ''^''
         then (case class_items True [] (tl cs) of
                 None \<Rightarrow> None
               | Some (is, t) \<Rightarrow> if length t < length cs then tok_cons (TAtom (RSet True is)) (re_lex v t) else None)
         else (case class_items True [] cs of
                 None \<Rightarrow> None
               | Some (is, t) \<Rightarrow> if length t < length cs then tok_cons (TAtom (RSet False is)) (re_lex v t) else None))
      else if c = CHR ''('' then
        (case open_group cs of None \<Rightarrow> None | Some (t, u) \<Rightarrow> tok_cons t (re_lex v u))
      else if c = CHR '')'' then tok_cons TClose (re_lex v cs)
      else if c = CHR ''|'' then tok_cons TBar (re_lex v cs)
      else if c = CHR ''.'' then tok_cons (TAtom RAny) (re_lex v cs)
      else if c = CHR ''^'' then tok_cons (TAtom RBol) (re_lex v cs)
      else if c = CHR ''$'' then tok_cons (TAtom REol) (re_lex v cs)
      else case quantifier c cs of
        None \<Rightarrow> tok_cons (TAtom (RLit c)) (re_lex v cs)
      | Some (m, n, u) \<Rightarrow>
          (if u \<noteq> [] \<and> hd u = CHR ''?'' then tok_cons (TRep False m n) (re_lex v (tl u))
           else tok_cons (TRep True m n) (re_lex v u)))"
  by pat_completeness auto
termination
  by (relation "measure (\<lambda>(v, s). length s)")
    (auto dest!: open_group_shorter quantifier_shorter simp: less_Suc_eq_le le_diff_conv
      intro: le_trans [OF length_dropWhile_le])

declare re_lex.simps(2) [simp del]

section \<open>Assembling the tree\<close>

fun seq_of :: "regex list \<Rightarrow> regex" where
  "seq_of [] = REmpty"
| "seq_of [r] = r"
| "seq_of (r # s # rs) = RSeq r (seq_of (s # rs))"

fun alt_of :: "regex list \<Rightarrow> regex" where
  "alt_of [] = REmpty"
| "alt_of [r] = r"
| "alt_of (r # s # rs) = RAlt r (alt_of (s # rs))"

text \<open>
  An open group: its kind and number, the finished alternatives and the items of the current one,
  both reversed. An item carries whether a quantifier may follow it.
\<close>

type_synonym frame = "group_kind \<times> nat \<times> regex list \<times> (bool \<times> regex) list"

definition branches :: "regex list \<Rightarrow> (bool \<times> regex) list \<Rightarrow> regex" where
  "branches alts cur = alt_of (rev (seq_of (map snd (rev cur)) # alts))"

fun close_group :: "group_kind \<Rightarrow> nat \<Rightarrow> regex \<Rightarrow> regex" where
  "close_group GCapture n r = RGroup n r"
| "close_group GPlain n r = r"
| "close_group (GLook pos) n r = RLook pos r"

fun repeatable :: "regex \<Rightarrow> bool" where
  "repeatable RBol = False"
| "repeatable REol = False"
| "repeatable RWordB = False"
| "repeatable _ = True"

fun assemble :: "nat \<Rightarrow> frame list \<Rightarrow> regex list \<Rightarrow> (bool \<times> regex) list \<Rightarrow> rtoken list \<Rightarrow> regex option" where
  "assemble n fs alts cur [] = (if fs = [] then Some (branches alts cur) else None)"
| "assemble n fs alts cur (TAtom r # ts) = assemble n fs alts ((repeatable r, r) # cur) ts"
| "assemble n fs alts cur (TRep g lo hi # ts) =
     (case cur of
        (True, r) # rest \<Rightarrow>
          (if (case hi of None \<Rightarrow> False | Some k \<Rightarrow> k < lo) then None
           else assemble n fs alts ((False, RRep g lo hi r) # rest) ts)
      | _ \<Rightarrow> None)"
| "assemble n fs alts cur (TBar # ts) = assemble n fs (seq_of (map snd (rev cur)) # alts) [] ts"
| "assemble n fs alts cur (TOpen GCapture # ts) = assemble (Suc n) ((GCapture, n, alts, cur) # fs) [] [] ts"
| "assemble n fs alts cur (TOpen k # ts) = assemble n ((k, n, alts, cur) # fs) [] [] ts"
| "assemble n [] alts cur (TClose # ts) = None"
| "assemble n ((k, m, alts', cur') # fs) alts cur (TClose # ts) =
     assemble n fs alts' ((True, close_group k m (branches alts cur)) # cur') ts"
| "assemble n fs alts cur (TIgnoreCase # ts) = assemble n fs alts cur ts"

text \<open>
  \<open>re.IGNORECASE\<close> compiled into the tree: a literal becomes the class of its two cases. A range or
  a class in a case-insensitive pattern is outside the fragment.
\<close>

fun fold_case :: "regex \<Rightarrow> regex option" where
  "fold_case (RLit c) =
     Some (if ascii_alpha c then RSet False [CChar (ascii_lower c), CChar (ascii_upper c)] else RLit c)"
| "fold_case (RSet neg is) =
     (if list_all (\<lambda>i. case i of CChar _ \<Rightarrow> False | CRange _ _ \<Rightarrow> False | _ \<Rightarrow> True) is then Some (RSet neg is) else None)"
| "fold_case (RSeq r1 r2) =
     (case fold_case r1 of None \<Rightarrow> None | Some s1 \<Rightarrow> map_option (RSeq s1) (fold_case r2))"
| "fold_case (RAlt r1 r2) =
     (case fold_case r1 of None \<Rightarrow> None | Some s1 \<Rightarrow> map_option (RAlt s1) (fold_case r2))"
| "fold_case (RRep g lo hi r) = map_option (RRep g lo hi) (fold_case r)"
| "fold_case (RGroup n r) = map_option (RGroup n) (fold_case r)"
| "fold_case (RLook pos r) = map_option (RLook pos) (fold_case r)"
| "fold_case (RRef n) = None"
| "fold_case r = Some r"

definition re_compile :: "bool \<Rightarrow> bool \<Rightarrow> string \<Rightarrow> regex option" where
  "re_compile ignorecase verbose pat =
     (case re_lex verbose pat of
        None \<Rightarrow> None
      | Some ts \<Rightarrow>
          (case assemble 1 [] [] [] ts of
             None \<Rightarrow> None
           | Some r \<Rightarrow> if ignorecase \<or> list_ex (\<lambda>t. t = TIgnoreCase) ts then fold_case r else Some r))"

text \<open>A pattern literal of the program: without flags, with \<open>re.I\<close>, with \<open>re.VERBOSE\<close>.\<close>

definition rx :: "string \<Rightarrow> regex" where
  "rx p = the (re_compile False False (raw_pat p))"

definition rx_i :: "string \<Rightarrow> regex" where
  "rx_i p = the (re_compile True False (raw_pat p))"

definition rx_x :: "string \<Rightarrow> regex" where
  "rx_x p = the (re_compile False True (raw_pat p))"

text \<open>Compilation of a pattern that the program builds at run time.\<close>

definition re_compile_py :: "string \<Rightarrow> regex py" where
  "re_compile_py pat = (case re_compile False False pat of None \<Rightarrow> Inl ReError | Some r \<Rightarrow> Inr r)"

text \<open>\<open>re.escape\<close>: a backslash before everything that is not an ASCII letter or digit.\<close>

definition re_escape :: "string \<Rightarrow> string" where
  "re_escape s = concat (map (\<lambda>c. if ascii_alpha c \<or> ascii_digit c then [c] else [CHR 0x5C, c]) s)"

end
