(* ===== verification/Patterns.thy ===== *)
theory Patterns
  imports Regex_Parser
begin

text \<open>
  The regular expressions of the linter, each as the text that the source passes to
  \<open>re.compile\<close>, \<open>Match\<close> or \<open>Search\<close> (with a grave accent for the backslash, see \<open>raw_pat\<close>) run
  through the modelled compiler. The second part evaluates the compiler once on each of them.
  Patterns that the source builds at run time are compiled where they are used.
\<close>

section \<open>The texts\<close>

definition RE_ALT_TOKEN :: regex where
  \<open>RE_ALT_TOKEN = rx ''[ =()](and|bitor|or|xor|compl|bitand|and_eq|or_eq|xor_eq|not|not_eq)(?=[ (]|$)''\<close>

definition RE_MATCH_ASM :: regex where
  \<open>RE_MATCH_ASM = rx ''^`s*(?:asm|_asm|__asm|__asm__)(?:`s+(volatile|__volatile__))?`s*[{(]''\<close>

definition RE_SUPPRESSION :: regex where
  \<open>RE_SUPPRESSION = rx ''`bNOLINT`b(`([^)]*`))?''\<close>

definition RE_TEST_FN :: regex where
  \<open>RE_TEST_FN = rx ''T(EST|est)''\<close>

definition RE_CLEANSE_ESCAPES :: regex where
  \<open>RE_CLEANSE_ESCAPES = rx ''``([abfnrtv?"```\']|`d+|x[0-9a-fA-F]+)''\<close>

definition RE_CLEANSE_DOUBLE_QUOTES :: regex where
  \<open>RE_CLEANSE_DOUBLE_QUOTES = rx ''"[^"]*"''\<close>

definition RE_CLEANSE_SINGLE_QUOTES :: regex where
  \<open>RE_CLEANSE_SINGLE_QUOTES = rx (CHR 0x27 # ''.'' @ [CHR 0x27])\<close>

definition RE_CLEANSE_C_COMMENTS :: regex where
  \<open>RE_CLEANSE_C_COMMENTS = rx_x ''(`s*/`*.*`*/`s*$|\<newline>            /`*.*`*/`s+|\<newline>         `s+/`*.*`*/(?=`W)|\<newline>            /`*.*`*/)''\<close>

definition RE_INCLUDE :: regex where
  \<open>RE_INCLUDE = rx ''^`s*#`s*include`s*([<"])([^>"]*)[>"].*$''\<close>

definition RE_INCLUDE_NEW_STYLE :: regex where
  \<open>RE_INCLUDE_NEW_STYLE = rx ''#include +"[^/]+`.h"''\<close>

definition RE_CONDITION_DIRECTIVE :: regex where
  \<open>RE_CONDITION_DIRECTIVE = rx ''^`s*#`s*(?:if|ifdef|ifndef|elif|else|endif).*$''\<close>

definition RE_ENDIF_DIRECTIVE :: regex where
  \<open>RE_ENDIF_DIRECTIVE = rx ''^`s*#`s*endif.*$''\<close>

definition RE_ELIF_OR_ELSE_DIRECTIVE :: regex where
  \<open>RE_ELIF_OR_ELSE_DIRECTIVE = rx ''^`s*#`s*(?:elif|else).*$''\<close>

definition RE_FIRST_COMPONENT :: regex where
  \<open>RE_FIRST_COMPONENT = rx ''^[^-_.]+''\<close>

definition RE_COPYRIGHT :: regex where
  \<open>RE_COPYRIGHT = rx_i ''Copyright''\<close>

definition RE_INVALID_INCREMENT :: regex where
  \<open>RE_INVALID_INCREMENT = rx ''^`s*`*`w+(`+`+|--);''\<close>

definition RE_BARE_COLON :: regex where
  \<open>RE_BARE_COLON = rx ''(^|[^:]):($|[^:])''\<close>

definition RE_NS_END_SHORT :: regex where
  \<open>RE_NS_END_SHORT = rx ''};*`s*(//|/`*).*`bnamespace`b''\<close>

definition RE_NS_END_ANON :: regex where
  \<open>RE_NS_END_ANON = rx ''};*`s*(//|/`*).*`bnamespace[`*/`.```s]*$''\<close>

definition RE_PP_IF :: regex where
  \<open>RE_PP_IF = rx ''^`s*#`s*(if|ifdef|ifndef)`b''\<close>

definition RE_PP_ELSE :: regex where
  \<open>RE_PP_ELSE = rx ''^`s*#`s*(else|elif)`b''\<close>

definition RE_PP_ENDIF :: regex where
  \<open>RE_PP_ENDIF = rx ''^`s*#`s*endif`b''\<close>

definition RE_NAMESPACE :: regex where
  \<open>RE_NAMESPACE = rx ''^`s*namespace`b`s*([:`w]+)?(.*)$''\<close>

definition RE_CLASS_DECL :: regex where
  \<open>RE_CLASS_DECL = rx ''`s*(template`s*<[`w`s<>,:]*>`s*)?(class|struct)`s+([A-Z_]+`s+)*(`w+(?:::`w+)*)(([^=>]|<[^<>]*>)*)$''\<close>

definition RE_ACCESS :: regex where
  \<open>RE_ACCESS = rx ''`s*(public|private|protected)`s*:''\<close>

definition RE_BRACE_TOKEN :: regex where
  \<open>RE_BRACE_TOKEN = rx ''^[^{;)}]*([{;)}])(.*)$''\<close>

definition RE_FN_START :: regex where
  \<open>RE_FN_START = rx ''(`w(`w|::|`*|`&|`s)*)`(''\<close>

definition RE_ALL_CAPS :: regex where
  \<open>RE_ALL_CAPS = rx ''[A-Z_]+$''\<close>

definition RE_SEMI_OR_CLOSE :: regex where
  \<open>RE_SEMI_OR_CLOSE = rx ''(;|})''\<close>

definition RE_OPEN_BRACE :: regex where
  \<open>RE_OPEN_BRACE = rx ''{''\<close>

definition RE_FN_NAME :: regex where
  \<open>RE_FN_NAME = rx ''((`w|:)*)`(''\<close>

definition RE_TEST_MACRO :: regex where
  \<open>RE_TEST_MACRO = rx ''TEST''\<close>

definition RE_PARENS :: regex where
  \<open>RE_PARENS = rx ''(`(.*`))''\<close>

definition RE_FN_END :: regex where
  \<open>RE_FN_END = rx ''^`}`s*$''\<close>

definition RE_BLANK :: regex where
  \<open>RE_BLANK = rx ''^`s*$''\<close>

definition RE_TODO :: regex where
  \<open>RE_TODO = rx ''^//(`s*)TODO(`(.+?`))?:?(`s|$)?''\<close>

definition RE_DISALLOW :: regex where
  \<open>RE_DISALLOW = rx ''`s*(DISALLOW_COPY_AND_ASSIGN|DISALLOW_EVIL_CONSTRUCTORS|DISALLOW_IMPLICIT_CONSTRUCTORS)''\<close>

definition RE_NEXT_ANGLE :: regex where
  \<open>RE_NEXT_ANGLE = rx ''^[^<>(),;`[`]]*([<>(),;`[`]])(.*)$''\<close>

definition RE_PREV_ANGLE :: regex where
  \<open>RE_PREV_ANGLE = rx ''^(.*)([<>(),;`[`]])[^<>(),;`[`]]*$''\<close>

definition RE_LONE_OPEN :: regex where
  \<open>RE_LONE_OPEN = rx ''`s*{`s*$''\<close>

definition RE_ENDS_STMT :: regex where
  \<open>RE_ENDS_STMT = rx ''[;:}{]`s*$''\<close>

definition RE_ELSE_LINE :: regex where
  \<open>RE_ELSE_LINE = rx ''`s*else`s*''\<close>

definition RE_LONE_CLOSE :: regex where
  \<open>RE_LONE_CLOSE = rx ''`s*}`s*$''\<close>

definition RE_CLOSE_ELSE :: regex where
  \<open>RE_CLOSE_ELSE = rx ''}`s*else[^{]*$''\<close>

definition RE_ELSE_OPEN :: regex where
  \<open>RE_ELSE_OPEN = rx ''[^}]*else`s*{''\<close>

definition RE_CLOSE_ELSE_IF :: regex where
  \<open>RE_CLOSE_ELSE_IF = rx ''}`s*else if([^{]*)$''\<close>

definition RE_ELSE_CODE :: regex where
  \<open>RE_ELSE_CODE = rx ''`belse [^`s{]''\<close>

definition RE_ELSE_IF :: regex where
  \<open>RE_ELSE_IF = rx ''`belse if`b''\<close>

definition RE_DO_CODE :: regex where
  \<open>RE_DO_CODE = rx ''`s*do [^`s{]''\<close>

definition RE_INDENTED_BRACES_SEMI :: regex where
  \<open>RE_INDENTED_BRACES_SEMI = rx ''`s+{.*}`s*;''\<close>

definition RE_BRACES_SEMI :: regex where
  \<open>RE_BRACES_SEMI = rx ''{.*}`s*;''\<close>

definition RE_STRUCT_INIT :: regex where
  \<open>RE_STRUCT_INIT = rx ''struct|class|enum|`s*=`s*{''\<close>

definition RE_LOOP_HEAD :: regex where
  \<open>RE_LOOP_HEAD = rx ''`s*(for|while)`s*`(''\<close>

definition RE_SEMI :: regex where
  \<open>RE_SEMI = rx '';''\<close>

definition RE_NULL_OR_BOOL :: regex where
  \<open>RE_NULL_OR_BOOL = rx ''NULL|&&|`|`|''\<close>

definition RE_HASH_LINE :: regex where
  \<open>RE_HASH_LINE = rx ''^`s*#''\<close>

definition RE_GLOBAL_COMMENT :: regex where
  \<open>RE_GLOBAL_COMMENT = rx ''//`s*GLOBAL_NOLINT''\<close>

definition RE_SUPPRESSION_GLOBAL :: regex where
  \<open>RE_SUPPRESSION_GLOBAL = rx ''`bGLOBAL_NOLINT`b(`([^)]*`))?''\<close>

definition RE_MAKE_PAIR :: regex where
  \<open>RE_MAKE_PAIR = rx ''`bmake_pair`s*<''\<close>

definition RE_FLYMAKE_H :: regex where
  \<open>RE_FLYMAKE_H = rx ''_flymake`.h$''\<close>

definition RE_FLYMAKE_DIR :: regex where
  \<open>RE_FLYMAKE_DIR = rx ''/`.flymake/([^/]*)$''\<close>

definition RE_GUARD_CHARS :: regex where
  \<open>RE_GUARD_CHARS = rx ''[-./`s]''\<close>

definition RE_CPP_HEADER :: regex where
  \<open>RE_CPP_HEADER = rx ''^((ext|tr1)/)?[a-z_]+$''\<close>

definition RE_STREAM_HEADER :: regex where
  \<open>RE_STREAM_HEADER = rx ''(f|ind|io|i|o|parse|pf|stdio|str|)?stream$''\<close>

definition RE_FLYMAKE_CC :: regex where
  \<open>RE_FLYMAKE_CC = rx ''_flymake`.cc$''\<close>

section \<open>The trees\<close>

text \<open>
  What the compiler makes of each pattern. As code equations these let an evaluation start from the
  tree instead of the text.
\<close>

lemma RE_ALT_TOKEN_tree [code]:
  \<open>RE_ALT_TOKEN =
     RSeq (RSet False [CChar CHR 0x20, CChar CHR ''='', CChar CHR ''('', CChar CHR '')'']) (RSeq
     (RGroup 1 (RAlt (RSeq (RLit CHR ''a'') (RSeq (RLit CHR ''n'') (RLit CHR ''d''))) (RAlt
     (RSeq (RLit CHR ''b'') (RSeq (RLit CHR ''i'') (RSeq (RLit CHR ''t'') (RSeq (RLit CHR ''o'')
     (RLit CHR ''r''))))) (RAlt (RSeq (RLit CHR ''o'') (RLit CHR ''r'')) (RAlt (RSeq (RLit CHR
     ''x'') (RSeq (RLit CHR ''o'') (RLit CHR ''r''))) (RAlt (RSeq (RLit CHR ''c'') (RSeq (RLit
     CHR ''o'') (RSeq (RLit CHR ''m'') (RSeq (RLit CHR ''p'') (RLit CHR ''l''))))) (RAlt (RSeq
     (RLit CHR ''b'') (RSeq (RLit CHR ''i'') (RSeq (RLit CHR ''t'') (RSeq (RLit CHR ''a'') (RSeq
     (RLit CHR ''n'') (RLit CHR ''d'')))))) (RAlt (RSeq (RLit CHR ''a'') (RSeq (RLit CHR ''n'')
     (RSeq (RLit CHR ''d'') (RSeq (RLit CHR ''_'') (RSeq (RLit CHR ''e'') (RLit CHR ''q''))))))
     (RAlt (RSeq (RLit CHR ''o'') (RSeq (RLit CHR ''r'') (RSeq (RLit CHR ''_'') (RSeq (RLit CHR
     ''e'') (RLit CHR ''q''))))) (RAlt (RSeq (RLit CHR ''x'') (RSeq (RLit CHR ''o'') (RSeq (RLit
     CHR ''r'') (RSeq (RLit CHR ''_'') (RSeq (RLit CHR ''e'') (RLit CHR ''q'')))))) (RAlt (RSeq
     (RLit CHR ''n'') (RSeq (RLit CHR ''o'') (RLit CHR ''t''))) (RSeq (RLit CHR ''n'') (RSeq
     (RLit CHR ''o'') (RSeq (RLit CHR ''t'') (RSeq (RLit CHR ''_'') (RSeq (RLit CHR ''e'') (RLit
     CHR ''q''))))))))))))))))) (RLook True (RAlt (RSet False [CChar CHR 0x20, CChar CHR ''(''])
     REol)))\<close>
  by code_simp

lemma RE_MATCH_ASM_tree [code]:
  \<open>RE_MATCH_ASM =
     RSeq RBol (RSeq (RRep True 0 None (RSet False [CSpace True])) (RSeq (RAlt (RSeq (RLit CHR
     ''a'') (RSeq (RLit CHR ''s'') (RLit CHR ''m''))) (RAlt (RSeq (RLit CHR ''_'') (RSeq (RLit
     CHR ''a'') (RSeq (RLit CHR ''s'') (RLit CHR ''m'')))) (RAlt (RSeq (RLit CHR ''_'') (RSeq
     (RLit CHR ''_'') (RSeq (RLit CHR ''a'') (RSeq (RLit CHR ''s'') (RLit CHR ''m''))))) (RSeq
     (RLit CHR ''_'') (RSeq (RLit CHR ''_'') (RSeq (RLit CHR ''a'') (RSeq (RLit CHR ''s'') (RSeq
     (RLit CHR ''m'') (RSeq (RLit CHR ''_'') (RLit CHR ''_'')))))))))) (RSeq (RRep True 0 (Some
     1) (RSeq (RRep True 1 None (RSet False [CSpace True])) (RGroup 1 (RAlt (RSeq (RLit CHR
     ''v'') (RSeq (RLit CHR ''o'') (RSeq (RLit CHR ''l'') (RSeq (RLit CHR ''a'') (RSeq (RLit CHR
     ''t'') (RSeq (RLit CHR ''i'') (RSeq (RLit CHR ''l'') (RLit CHR ''e'')))))))) (RSeq (RLit
     CHR ''_'') (RSeq (RLit CHR ''_'') (RSeq (RLit CHR ''v'') (RSeq (RLit CHR ''o'') (RSeq (RLit
     CHR ''l'') (RSeq (RLit CHR ''a'') (RSeq (RLit CHR ''t'') (RSeq (RLit CHR ''i'') (RSeq (RLit
     CHR ''l'') (RSeq (RLit CHR ''e'') (RSeq (RLit CHR ''_'') (RLit CHR ''_''))))))))))))))))
     (RSeq (RRep True 0 None (RSet False [CSpace True])) (RSet False [CChar CHR ''{'', CChar CHR
     ''(''])))))\<close>
  by code_simp

lemma RE_SUPPRESSION_tree [code]:
  \<open>RE_SUPPRESSION =
     RSeq RWordB (RSeq (RLit CHR ''N'') (RSeq (RLit CHR ''O'') (RSeq (RLit CHR ''L'') (RSeq
     (RLit CHR ''I'') (RSeq (RLit CHR ''N'') (RSeq (RLit CHR ''T'') (RSeq RWordB (RRep True 0
     (Some 1) (RGroup 1 (RSeq (RLit CHR ''('') (RSeq (RRep True 0 None (RSet True [CChar CHR
     '')''])) (RLit CHR '')''))))))))))))\<close>
  by code_simp

lemma RE_TEST_FN_tree [code]:
  \<open>RE_TEST_FN =
     RSeq (RLit CHR ''T'') (RGroup 1 (RAlt (RSeq (RLit CHR ''E'') (RSeq (RLit CHR ''S'') (RLit
     CHR ''T''))) (RSeq (RLit CHR ''e'') (RSeq (RLit CHR ''s'') (RLit CHR ''t'')))))\<close>
  by code_simp

lemma RE_CLEANSE_ESCAPES_tree [code]:
  \<open>RE_CLEANSE_ESCAPES =
     RSeq (RLit CHR 0x5C) (RGroup 1 (RAlt (RSet False [CChar CHR ''a'', CChar CHR ''b'', CChar
     CHR ''f'', CChar CHR ''n'', CChar CHR ''r'', CChar CHR ''t'', CChar CHR ''v'', CChar CHR
     ''?'', CChar CHR 0x22, CChar CHR 0x5C, CChar CHR 0x27]) (RAlt (RRep True 1 None (RSet False
     [CDigit True])) (RSeq (RLit CHR ''x'') (RRep True 1 None (RSet False [CRange CHR ''0'' CHR
     ''9'', CRange CHR ''a'' CHR ''f'', CRange CHR ''A'' CHR ''F'']))))))\<close>
  by code_simp

lemma RE_CLEANSE_DOUBLE_QUOTES_tree [code]:
  \<open>RE_CLEANSE_DOUBLE_QUOTES =
     RSeq (RLit CHR 0x22) (RSeq (RRep True 0 None (RSet True [CChar CHR 0x22])) (RLit CHR 0x22))\<close>
  by code_simp

lemma RE_CLEANSE_SINGLE_QUOTES_tree [code]:
  \<open>RE_CLEANSE_SINGLE_QUOTES =
     RSeq (RLit CHR 0x27) (RSeq RAny (RLit CHR 0x27))\<close>
  by code_simp

lemma RE_CLEANSE_C_COMMENTS_tree [code]:
  \<open>RE_CLEANSE_C_COMMENTS =
     RGroup 1 (RAlt (RSeq (RRep True 0 None (RSet False [CSpace True])) (RSeq (RLit CHR ''/'')
     (RSeq (RLit CHR ''*'') (RSeq (RRep True 0 None RAny) (RSeq (RLit CHR ''*'') (RSeq (RLit CHR
     ''/'') (RSeq (RRep True 0 None (RSet False [CSpace True])) REol))))))) (RAlt (RSeq (RLit
     CHR ''/'') (RSeq (RLit CHR ''*'') (RSeq (RRep True 0 None RAny) (RSeq (RLit CHR ''*'')
     (RSeq (RLit CHR ''/'') (RRep True 1 None (RSet False [CSpace True]))))))) (RAlt (RSeq (RRep
     True 1 None (RSet False [CSpace True])) (RSeq (RLit CHR ''/'') (RSeq (RLit CHR ''*'') (RSeq
     (RRep True 0 None RAny) (RSeq (RLit CHR ''*'') (RSeq (RLit CHR ''/'') (RLook True (RSet
     False [CWord False])))))))) (RSeq (RLit CHR ''/'') (RSeq (RLit CHR ''*'') (RSeq (RRep True
     0 None RAny) (RSeq (RLit CHR ''*'') (RLit CHR ''/''))))))))\<close>
  by code_simp

lemma RE_INCLUDE_tree [code]:
  \<open>RE_INCLUDE =
     RSeq RBol (RSeq (RRep True 0 None (RSet False [CSpace True])) (RSeq (RLit CHR ''#'') (RSeq
     (RRep True 0 None (RSet False [CSpace True])) (RSeq (RLit CHR ''i'') (RSeq (RLit CHR ''n'')
     (RSeq (RLit CHR ''c'') (RSeq (RLit CHR ''l'') (RSeq (RLit CHR ''u'') (RSeq (RLit CHR ''d'')
     (RSeq (RLit CHR ''e'') (RSeq (RRep True 0 None (RSet False [CSpace True])) (RSeq (RGroup 1
     (RSet False [CChar CHR ''<'', CChar CHR 0x22])) (RSeq (RGroup 2 (RRep True 0 None (RSet
     True [CChar CHR ''>'', CChar CHR 0x22]))) (RSeq (RSet False [CChar CHR ''>'', CChar CHR
     0x22]) (RSeq (RRep True 0 None RAny) REol)))))))))))))))\<close>
  by code_simp

lemma RE_INCLUDE_NEW_STYLE_tree [code]:
  \<open>RE_INCLUDE_NEW_STYLE =
     RSeq (RLit CHR ''#'') (RSeq (RLit CHR ''i'') (RSeq (RLit CHR ''n'') (RSeq (RLit CHR ''c'')
     (RSeq (RLit CHR ''l'') (RSeq (RLit CHR ''u'') (RSeq (RLit CHR ''d'') (RSeq (RLit CHR ''e'')
     (RSeq (RRep True 1 None (RLit CHR 0x20)) (RSeq (RLit CHR 0x22) (RSeq (RRep True 1 None
     (RSet True [CChar CHR ''/''])) (RSeq (RLit CHR ''.'') (RSeq (RLit CHR ''h'') (RLit CHR
     0x22)))))))))))))\<close>
  by code_simp

lemma RE_CONDITION_DIRECTIVE_tree [code]:
  \<open>RE_CONDITION_DIRECTIVE =
     RSeq RBol (RSeq (RRep True 0 None (RSet False [CSpace True])) (RSeq (RLit CHR ''#'') (RSeq
     (RRep True 0 None (RSet False [CSpace True])) (RSeq (RAlt (RSeq (RLit CHR ''i'') (RLit CHR
     ''f'')) (RAlt (RSeq (RLit CHR ''i'') (RSeq (RLit CHR ''f'') (RSeq (RLit CHR ''d'') (RSeq
     (RLit CHR ''e'') (RLit CHR ''f''))))) (RAlt (RSeq (RLit CHR ''i'') (RSeq (RLit CHR ''f'')
     (RSeq (RLit CHR ''n'') (RSeq (RLit CHR ''d'') (RSeq (RLit CHR ''e'') (RLit CHR ''f''))))))
     (RAlt (RSeq (RLit CHR ''e'') (RSeq (RLit CHR ''l'') (RSeq (RLit CHR ''i'') (RLit CHR
     ''f'')))) (RAlt (RSeq (RLit CHR ''e'') (RSeq (RLit CHR ''l'') (RSeq (RLit CHR ''s'') (RLit
     CHR ''e'')))) (RSeq (RLit CHR ''e'') (RSeq (RLit CHR ''n'') (RSeq (RLit CHR ''d'') (RSeq
     (RLit CHR ''i'') (RLit CHR ''f'')))))))))) (RSeq (RRep True 0 None RAny) REol)))))\<close>
  by code_simp

lemma RE_ENDIF_DIRECTIVE_tree [code]:
  \<open>RE_ENDIF_DIRECTIVE =
     RSeq RBol (RSeq (RRep True 0 None (RSet False [CSpace True])) (RSeq (RLit CHR ''#'') (RSeq
     (RRep True 0 None (RSet False [CSpace True])) (RSeq (RLit CHR ''e'') (RSeq (RLit CHR ''n'')
     (RSeq (RLit CHR ''d'') (RSeq (RLit CHR ''i'') (RSeq (RLit CHR ''f'') (RSeq (RRep True 0
     None RAny) REol)))))))))\<close>
  by code_simp

lemma RE_ELIF_OR_ELSE_DIRECTIVE_tree [code]:
  \<open>RE_ELIF_OR_ELSE_DIRECTIVE =
     RSeq RBol (RSeq (RRep True 0 None (RSet False [CSpace True])) (RSeq (RLit CHR ''#'') (RSeq
     (RRep True 0 None (RSet False [CSpace True])) (RSeq (RAlt (RSeq (RLit CHR ''e'') (RSeq
     (RLit CHR ''l'') (RSeq (RLit CHR ''i'') (RLit CHR ''f'')))) (RSeq (RLit CHR ''e'') (RSeq
     (RLit CHR ''l'') (RSeq (RLit CHR ''s'') (RLit CHR ''e''))))) (RSeq (RRep True 0 None RAny)
     REol)))))\<close>
  by code_simp

lemma RE_FIRST_COMPONENT_tree [code]:
  \<open>RE_FIRST_COMPONENT =
     RSeq RBol (RRep True 1 None (RSet True [CChar CHR ''-'', CChar CHR ''_'', CChar CHR
     ''.'']))\<close>
  by code_simp

lemma RE_COPYRIGHT_tree [code]:
  \<open>RE_COPYRIGHT =
     RSeq (RSet False [CChar CHR ''c'', CChar CHR ''C'']) (RSeq (RSet False [CChar CHR ''o'',
     CChar CHR ''O'']) (RSeq (RSet False [CChar CHR ''p'', CChar CHR ''P'']) (RSeq (RSet False
     [CChar CHR ''y'', CChar CHR ''Y'']) (RSeq (RSet False [CChar CHR ''r'', CChar CHR ''R''])
     (RSeq (RSet False [CChar CHR ''i'', CChar CHR ''I'']) (RSeq (RSet False [CChar CHR ''g'',
     CChar CHR ''G'']) (RSeq (RSet False [CChar CHR ''h'', CChar CHR ''H'']) (RSet False [CChar
     CHR ''t'', CChar CHR ''T'']))))))))\<close>
  by code_simp

lemma RE_INVALID_INCREMENT_tree [code]:
  \<open>RE_INVALID_INCREMENT =
     RSeq RBol (RSeq (RRep True 0 None (RSet False [CSpace True])) (RSeq (RLit CHR ''*'') (RSeq
     (RRep True 1 None (RSet False [CWord True])) (RSeq (RGroup 1 (RAlt (RSeq (RLit CHR ''+'')
     (RLit CHR ''+'')) (RSeq (RLit CHR ''-'') (RLit CHR ''-'')))) (RLit CHR '';'')))))\<close>
  by code_simp

lemma RE_BARE_COLON_tree [code]:
  \<open>RE_BARE_COLON =
     RSeq (RGroup 1 (RAlt RBol (RSet True [CChar CHR '':'']))) (RSeq (RLit CHR '':'') (RGroup 2
     (RAlt REol (RSet True [CChar CHR '':'']))))\<close>
  by code_simp

lemma RE_NS_END_SHORT_tree [code]:
  \<open>RE_NS_END_SHORT =
     RSeq (RLit CHR ''}'') (RSeq (RRep True 0 None (RLit CHR '';'')) (RSeq (RRep True 0 None
     (RSet False [CSpace True])) (RSeq (RGroup 1 (RAlt (RSeq (RLit CHR ''/'') (RLit CHR ''/''))
     (RSeq (RLit CHR ''/'') (RLit CHR ''*'')))) (RSeq (RRep True 0 None RAny) (RSeq RWordB (RSeq
     (RLit CHR ''n'') (RSeq (RLit CHR ''a'') (RSeq (RLit CHR ''m'') (RSeq (RLit CHR ''e'') (RSeq
     (RLit CHR ''s'') (RSeq (RLit CHR ''p'') (RSeq (RLit CHR ''a'') (RSeq (RLit CHR ''c'') (RSeq
     (RLit CHR ''e'') RWordB))))))))))))))\<close>
  by code_simp

lemma RE_NS_END_ANON_tree [code]:
  \<open>RE_NS_END_ANON =
     RSeq (RLit CHR ''}'') (RSeq (RRep True 0 None (RLit CHR '';'')) (RSeq (RRep True 0 None
     (RSet False [CSpace True])) (RSeq (RGroup 1 (RAlt (RSeq (RLit CHR ''/'') (RLit CHR ''/''))
     (RSeq (RLit CHR ''/'') (RLit CHR ''*'')))) (RSeq (RRep True 0 None RAny) (RSeq RWordB (RSeq
     (RLit CHR ''n'') (RSeq (RLit CHR ''a'') (RSeq (RLit CHR ''m'') (RSeq (RLit CHR ''e'') (RSeq
     (RLit CHR ''s'') (RSeq (RLit CHR ''p'') (RSeq (RLit CHR ''a'') (RSeq (RLit CHR ''c'') (RSeq
     (RLit CHR ''e'') (RSeq (RRep True 0 None (RSet False [CChar CHR ''*'', CChar CHR ''/'',
     CChar CHR ''.'', CChar CHR 0x5C, CSpace True])) REol)))))))))))))))\<close>
  by code_simp

lemma RE_PP_IF_tree [code]:
  \<open>RE_PP_IF =
     RSeq RBol (RSeq (RRep True 0 None (RSet False [CSpace True])) (RSeq (RLit CHR ''#'') (RSeq
     (RRep True 0 None (RSet False [CSpace True])) (RSeq (RGroup 1 (RAlt (RSeq (RLit CHR ''i'')
     (RLit CHR ''f'')) (RAlt (RSeq (RLit CHR ''i'') (RSeq (RLit CHR ''f'') (RSeq (RLit CHR
     ''d'') (RSeq (RLit CHR ''e'') (RLit CHR ''f''))))) (RSeq (RLit CHR ''i'') (RSeq (RLit CHR
     ''f'') (RSeq (RLit CHR ''n'') (RSeq (RLit CHR ''d'') (RSeq (RLit CHR ''e'') (RLit CHR
     ''f''))))))))) RWordB))))\<close>
  by code_simp

lemma RE_PP_ELSE_tree [code]:
  \<open>RE_PP_ELSE =
     RSeq RBol (RSeq (RRep True 0 None (RSet False [CSpace True])) (RSeq (RLit CHR ''#'') (RSeq
     (RRep True 0 None (RSet False [CSpace True])) (RSeq (RGroup 1 (RAlt (RSeq (RLit CHR ''e'')
     (RSeq (RLit CHR ''l'') (RSeq (RLit CHR ''s'') (RLit CHR ''e'')))) (RSeq (RLit CHR ''e'')
     (RSeq (RLit CHR ''l'') (RSeq (RLit CHR ''i'') (RLit CHR ''f'')))))) RWordB))))\<close>
  by code_simp

lemma RE_PP_ENDIF_tree [code]:
  \<open>RE_PP_ENDIF =
     RSeq RBol (RSeq (RRep True 0 None (RSet False [CSpace True])) (RSeq (RLit CHR ''#'') (RSeq
     (RRep True 0 None (RSet False [CSpace True])) (RSeq (RLit CHR ''e'') (RSeq (RLit CHR ''n'')
     (RSeq (RLit CHR ''d'') (RSeq (RLit CHR ''i'') (RSeq (RLit CHR ''f'') RWordB))))))))\<close>
  by code_simp

lemma RE_NAMESPACE_tree [code]:
  \<open>RE_NAMESPACE =
     RSeq RBol (RSeq (RRep True 0 None (RSet False [CSpace True])) (RSeq (RLit CHR ''n'') (RSeq
     (RLit CHR ''a'') (RSeq (RLit CHR ''m'') (RSeq (RLit CHR ''e'') (RSeq (RLit CHR ''s'') (RSeq
     (RLit CHR ''p'') (RSeq (RLit CHR ''a'') (RSeq (RLit CHR ''c'') (RSeq (RLit CHR ''e'') (RSeq
     RWordB (RSeq (RRep True 0 None (RSet False [CSpace True])) (RSeq (RRep True 0 (Some 1)
     (RGroup 1 (RRep True 1 None (RSet False [CChar CHR '':'', CWord True])))) (RSeq (RGroup 2
     (RRep True 0 None RAny)) REol))))))))))))))\<close>
  by code_simp

lemma RE_CLASS_DECL_tree [code]:
  \<open>RE_CLASS_DECL =
     RSeq (RRep True 0 None (RSet False [CSpace True])) (RSeq (RRep True 0 (Some 1) (RGroup 1
     (RSeq (RLit CHR ''t'') (RSeq (RLit CHR ''e'') (RSeq (RLit CHR ''m'') (RSeq (RLit CHR ''p'')
     (RSeq (RLit CHR ''l'') (RSeq (RLit CHR ''a'') (RSeq (RLit CHR ''t'') (RSeq (RLit CHR ''e'')
     (RSeq (RRep True 0 None (RSet False [CSpace True])) (RSeq (RLit CHR ''<'') (RSeq (RRep True
     0 None (RSet False [CWord True, CSpace True, CChar CHR ''<'', CChar CHR ''>'', CChar CHR
     '','', CChar CHR '':''])) (RSeq (RLit CHR ''>'') (RRep True 0 None (RSet False [CSpace
     True])))))))))))))))) (RSeq (RGroup 2 (RAlt (RSeq (RLit CHR ''c'') (RSeq (RLit CHR ''l'')
     (RSeq (RLit CHR ''a'') (RSeq (RLit CHR ''s'') (RLit CHR ''s''))))) (RSeq (RLit CHR ''s'')
     (RSeq (RLit CHR ''t'') (RSeq (RLit CHR ''r'') (RSeq (RLit CHR ''u'') (RSeq (RLit CHR ''c'')
     (RLit CHR ''t'')))))))) (RSeq (RRep True 1 None (RSet False [CSpace True])) (RSeq (RRep
     True 0 None (RGroup 3 (RSeq (RRep True 1 None (RSet False [CRange CHR ''A'' CHR ''Z'',
     CChar CHR ''_''])) (RRep True 1 None (RSet False [CSpace True]))))) (RSeq (RGroup 4 (RSeq
     (RRep True 1 None (RSet False [CWord True])) (RRep True 0 None (RSeq (RLit CHR '':'') (RSeq
     (RLit CHR '':'') (RRep True 1 None (RSet False [CWord True]))))))) (RSeq (RGroup 5 (RRep
     True 0 None (RGroup 6 (RAlt (RSet True [CChar CHR ''='', CChar CHR ''>'']) (RSeq (RLit CHR
     ''<'') (RSeq (RRep True 0 None (RSet True [CChar CHR ''<'', CChar CHR ''>''])) (RLit CHR
     ''>''))))))) REol))))))\<close>
  by code_simp

lemma RE_ACCESS_tree [code]:
  \<open>RE_ACCESS =
     RSeq (RRep True 0 None (RSet False [CSpace True])) (RSeq (RGroup 1 (RAlt (RSeq (RLit CHR
     ''p'') (RSeq (RLit CHR ''u'') (RSeq (RLit CHR ''b'') (RSeq (RLit CHR ''l'') (RSeq (RLit CHR
     ''i'') (RLit CHR ''c'')))))) (RAlt (RSeq (RLit CHR ''p'') (RSeq (RLit CHR ''r'') (RSeq
     (RLit CHR ''i'') (RSeq (RLit CHR ''v'') (RSeq (RLit CHR ''a'') (RSeq (RLit CHR ''t'') (RLit
     CHR ''e''))))))) (RSeq (RLit CHR ''p'') (RSeq (RLit CHR ''r'') (RSeq (RLit CHR ''o'') (RSeq
     (RLit CHR ''t'') (RSeq (RLit CHR ''e'') (RSeq (RLit CHR ''c'') (RSeq (RLit CHR ''t'') (RSeq
     (RLit CHR ''e'') (RLit CHR ''d'')))))))))))) (RSeq (RRep True 0 None (RSet False [CSpace
     True])) (RLit CHR '':'')))\<close>
  by code_simp

lemma RE_BRACE_TOKEN_tree [code]:
  \<open>RE_BRACE_TOKEN =
     RSeq RBol (RSeq (RRep True 0 None (RSet True [CChar CHR ''{'', CChar CHR '';'', CChar CHR
     '')'', CChar CHR ''}''])) (RSeq (RGroup 1 (RSet False [CChar CHR ''{'', CChar CHR '';'',
     CChar CHR '')'', CChar CHR ''}''])) (RSeq (RGroup 2 (RRep True 0 None RAny)) REol)))\<close>
  by code_simp

lemma RE_FN_START_tree [code]:
  \<open>RE_FN_START =
     RSeq (RGroup 1 (RSeq (RSet False [CWord True]) (RRep True 0 None (RGroup 2 (RAlt (RSet
     False [CWord True]) (RAlt (RSeq (RLit CHR '':'') (RLit CHR '':'')) (RAlt (RLit CHR ''*'')
     (RAlt (RLit CHR ''&'') (RSet False [CSpace True]))))))))) (RLit CHR ''('')\<close>
  by code_simp

lemma RE_ALL_CAPS_tree [code]:
  \<open>RE_ALL_CAPS =
     RSeq (RRep True 1 None (RSet False [CRange CHR ''A'' CHR ''Z'', CChar CHR ''_''])) REol\<close>
  by code_simp

lemma RE_SEMI_OR_CLOSE_tree [code]:
  \<open>RE_SEMI_OR_CLOSE =
     RGroup 1 (RAlt (RLit CHR '';'') (RLit CHR ''}''))\<close>
  by code_simp

lemma RE_OPEN_BRACE_tree [code]:
  \<open>RE_OPEN_BRACE =
     RLit CHR ''{''\<close>
  by code_simp

lemma RE_FN_NAME_tree [code]:
  \<open>RE_FN_NAME =
     RSeq (RGroup 1 (RRep True 0 None (RGroup 2 (RAlt (RSet False [CWord True]) (RLit CHR
     '':''))))) (RLit CHR ''('')\<close>
  by code_simp

lemma RE_TEST_MACRO_tree [code]:
  \<open>RE_TEST_MACRO =
     RSeq (RLit CHR ''T'') (RSeq (RLit CHR ''E'') (RSeq (RLit CHR ''S'') (RLit CHR ''T'')))\<close>
  by code_simp

lemma RE_PARENS_tree [code]:
  \<open>RE_PARENS =
     RGroup 1 (RSeq (RLit CHR ''('') (RSeq (RRep True 0 None RAny) (RLit CHR '')'')))\<close>
  by code_simp

lemma RE_FN_END_tree [code]:
  \<open>RE_FN_END =
     RSeq RBol (RSeq (RLit CHR ''}'') (RSeq (RRep True 0 None (RSet False [CSpace True])) REol))\<close>
  by code_simp

lemma RE_BLANK_tree [code]:
  \<open>RE_BLANK =
     RSeq RBol (RSeq (RRep True 0 None (RSet False [CSpace True])) REol)\<close>
  by code_simp

lemma RE_TODO_tree [code]:
  \<open>RE_TODO =
     RSeq RBol (RSeq (RLit CHR ''/'') (RSeq (RLit CHR ''/'') (RSeq (RGroup 1 (RRep True 0 None
     (RSet False [CSpace True]))) (RSeq (RLit CHR ''T'') (RSeq (RLit CHR ''O'') (RSeq (RLit CHR
     ''D'') (RSeq (RLit CHR ''O'') (RSeq (RRep True 0 (Some 1) (RGroup 2 (RSeq (RLit CHR ''('')
     (RSeq (RRep False 1 None RAny) (RLit CHR '')''))))) (RSeq (RRep True 0 (Some 1) (RLit CHR
     '':'')) (RRep True 0 (Some 1) (RGroup 3 (RAlt (RSet False [CSpace True]) REol))))))))))))\<close>
  by code_simp

lemma RE_DISALLOW_tree [code]:
  \<open>RE_DISALLOW =
     RSeq (RRep True 0 None (RSet False [CSpace True])) (RGroup 1 (RAlt (RSeq (RLit CHR ''D'')
     (RSeq (RLit CHR ''I'') (RSeq (RLit CHR ''S'') (RSeq (RLit CHR ''A'') (RSeq (RLit CHR ''L'')
     (RSeq (RLit CHR ''L'') (RSeq (RLit CHR ''O'') (RSeq (RLit CHR ''W'') (RSeq (RLit CHR ''_'')
     (RSeq (RLit CHR ''C'') (RSeq (RLit CHR ''O'') (RSeq (RLit CHR ''P'') (RSeq (RLit CHR ''Y'')
     (RSeq (RLit CHR ''_'') (RSeq (RLit CHR ''A'') (RSeq (RLit CHR ''N'') (RSeq (RLit CHR ''D'')
     (RSeq (RLit CHR ''_'') (RSeq (RLit CHR ''A'') (RSeq (RLit CHR ''S'') (RSeq (RLit CHR ''S'')
     (RSeq (RLit CHR ''I'') (RSeq (RLit CHR ''G'') (RLit CHR ''N'')))))))))))))))))))))))) (RAlt
     (RSeq (RLit CHR ''D'') (RSeq (RLit CHR ''I'') (RSeq (RLit CHR ''S'') (RSeq (RLit CHR ''A'')
     (RSeq (RLit CHR ''L'') (RSeq (RLit CHR ''L'') (RSeq (RLit CHR ''O'') (RSeq (RLit CHR ''W'')
     (RSeq (RLit CHR ''_'') (RSeq (RLit CHR ''E'') (RSeq (RLit CHR ''V'') (RSeq (RLit CHR ''I'')
     (RSeq (RLit CHR ''L'') (RSeq (RLit CHR ''_'') (RSeq (RLit CHR ''C'') (RSeq (RLit CHR ''O'')
     (RSeq (RLit CHR ''N'') (RSeq (RLit CHR ''S'') (RSeq (RLit CHR ''T'') (RSeq (RLit CHR ''R'')
     (RSeq (RLit CHR ''U'') (RSeq (RLit CHR ''C'') (RSeq (RLit CHR ''T'') (RSeq (RLit CHR ''O'')
     (RSeq (RLit CHR ''R'') (RLit CHR ''S'')))))))))))))))))))))))))) (RSeq (RLit CHR ''D'')
     (RSeq (RLit CHR ''I'') (RSeq (RLit CHR ''S'') (RSeq (RLit CHR ''A'') (RSeq (RLit CHR ''L'')
     (RSeq (RLit CHR ''L'') (RSeq (RLit CHR ''O'') (RSeq (RLit CHR ''W'') (RSeq (RLit CHR ''_'')
     (RSeq (RLit CHR ''I'') (RSeq (RLit CHR ''M'') (RSeq (RLit CHR ''P'') (RSeq (RLit CHR ''L'')
     (RSeq (RLit CHR ''I'') (RSeq (RLit CHR ''C'') (RSeq (RLit CHR ''I'') (RSeq (RLit CHR ''T'')
     (RSeq (RLit CHR ''_'') (RSeq (RLit CHR ''C'') (RSeq (RLit CHR ''O'') (RSeq (RLit CHR ''N'')
     (RSeq (RLit CHR ''S'') (RSeq (RLit CHR ''T'') (RSeq (RLit CHR ''R'') (RSeq (RLit CHR ''U'')
     (RSeq (RLit CHR ''C'') (RSeq (RLit CHR ''T'') (RSeq (RLit CHR ''O'') (RSeq (RLit CHR ''R'')
     (RLit CHR ''S'')))))))))))))))))))))))))))))))))\<close>
  by code_simp

lemma RE_NEXT_ANGLE_tree [code]:
  \<open>RE_NEXT_ANGLE =
     RSeq RBol (RSeq (RRep True 0 None (RSet True [CChar CHR ''<'', CChar CHR ''>'', CChar CHR
     ''('', CChar CHR '')'', CChar CHR '','', CChar CHR '';'', CChar CHR ''['', CChar CHR
     '']''])) (RSeq (RGroup 1 (RSet False [CChar CHR ''<'', CChar CHR ''>'', CChar CHR ''('',
     CChar CHR '')'', CChar CHR '','', CChar CHR '';'', CChar CHR ''['', CChar CHR '']'']))
     (RSeq (RGroup 2 (RRep True 0 None RAny)) REol)))\<close>
  by code_simp

lemma RE_PREV_ANGLE_tree [code]:
  \<open>RE_PREV_ANGLE =
     RSeq RBol (RSeq (RGroup 1 (RRep True 0 None RAny)) (RSeq (RGroup 2 (RSet False [CChar CHR
     ''<'', CChar CHR ''>'', CChar CHR ''('', CChar CHR '')'', CChar CHR '','', CChar CHR '';'',
     CChar CHR ''['', CChar CHR '']''])) (RSeq (RRep True 0 None (RSet True [CChar CHR ''<'',
     CChar CHR ''>'', CChar CHR ''('', CChar CHR '')'', CChar CHR '','', CChar CHR '';'', CChar
     CHR ''['', CChar CHR '']''])) REol)))\<close>
  by code_simp

lemma RE_LONE_OPEN_tree [code]:
  \<open>RE_LONE_OPEN =
     RSeq (RRep True 0 None (RSet False [CSpace True])) (RSeq (RLit CHR ''{'') (RSeq (RRep True
     0 None (RSet False [CSpace True])) REol))\<close>
  by code_simp

lemma RE_ENDS_STMT_tree [code]:
  \<open>RE_ENDS_STMT =
     RSeq (RSet False [CChar CHR '';'', CChar CHR '':'', CChar CHR ''}'', CChar CHR ''{''])
     (RSeq (RRep True 0 None (RSet False [CSpace True])) REol)\<close>
  by code_simp

lemma RE_ELSE_LINE_tree [code]:
  \<open>RE_ELSE_LINE =
     RSeq (RRep True 0 None (RSet False [CSpace True])) (RSeq (RLit CHR ''e'') (RSeq (RLit CHR
     ''l'') (RSeq (RLit CHR ''s'') (RSeq (RLit CHR ''e'') (RRep True 0 None (RSet False [CSpace
     True]))))))\<close>
  by code_simp

lemma RE_LONE_CLOSE_tree [code]:
  \<open>RE_LONE_CLOSE =
     RSeq (RRep True 0 None (RSet False [CSpace True])) (RSeq (RLit CHR ''}'') (RSeq (RRep True
     0 None (RSet False [CSpace True])) REol))\<close>
  by code_simp

lemma RE_CLOSE_ELSE_tree [code]:
  \<open>RE_CLOSE_ELSE =
     RSeq (RLit CHR ''}'') (RSeq (RRep True 0 None (RSet False [CSpace True])) (RSeq (RLit CHR
     ''e'') (RSeq (RLit CHR ''l'') (RSeq (RLit CHR ''s'') (RSeq (RLit CHR ''e'') (RSeq (RRep
     True 0 None (RSet True [CChar CHR ''{''])) REol))))))\<close>
  by code_simp

lemma RE_ELSE_OPEN_tree [code]:
  \<open>RE_ELSE_OPEN =
     RSeq (RRep True 0 None (RSet True [CChar CHR ''}''])) (RSeq (RLit CHR ''e'') (RSeq (RLit
     CHR ''l'') (RSeq (RLit CHR ''s'') (RSeq (RLit CHR ''e'') (RSeq (RRep True 0 None (RSet
     False [CSpace True])) (RLit CHR ''{''))))))\<close>
  by code_simp

lemma RE_CLOSE_ELSE_IF_tree [code]:
  \<open>RE_CLOSE_ELSE_IF =
     RSeq (RLit CHR ''}'') (RSeq (RRep True 0 None (RSet False [CSpace True])) (RSeq (RLit CHR
     ''e'') (RSeq (RLit CHR ''l'') (RSeq (RLit CHR ''s'') (RSeq (RLit CHR ''e'') (RSeq (RLit CHR
     0x20) (RSeq (RLit CHR ''i'') (RSeq (RLit CHR ''f'') (RSeq (RGroup 1 (RRep True 0 None (RSet
     True [CChar CHR ''{'']))) REol)))))))))\<close>
  by code_simp

lemma RE_ELSE_CODE_tree [code]:
  \<open>RE_ELSE_CODE =
     RSeq RWordB (RSeq (RLit CHR ''e'') (RSeq (RLit CHR ''l'') (RSeq (RLit CHR ''s'') (RSeq
     (RLit CHR ''e'') (RSeq (RLit CHR 0x20) (RSet True [CSpace True, CChar CHR ''{'']))))))\<close>
  by code_simp

lemma RE_ELSE_IF_tree [code]:
  \<open>RE_ELSE_IF =
     RSeq RWordB (RSeq (RLit CHR ''e'') (RSeq (RLit CHR ''l'') (RSeq (RLit CHR ''s'') (RSeq
     (RLit CHR ''e'') (RSeq (RLit CHR 0x20) (RSeq (RLit CHR ''i'') (RSeq (RLit CHR ''f'')
     RWordB)))))))\<close>
  by code_simp

lemma RE_DO_CODE_tree [code]:
  \<open>RE_DO_CODE =
     RSeq (RRep True 0 None (RSet False [CSpace True])) (RSeq (RLit CHR ''d'') (RSeq (RLit CHR
     ''o'') (RSeq (RLit CHR 0x20) (RSet True [CSpace True, CChar CHR ''{'']))))\<close>
  by code_simp

lemma RE_INDENTED_BRACES_SEMI_tree [code]:
  \<open>RE_INDENTED_BRACES_SEMI =
     RSeq (RRep True 1 None (RSet False [CSpace True])) (RSeq (RLit CHR ''{'') (RSeq (RRep True
     0 None RAny) (RSeq (RLit CHR ''}'') (RSeq (RRep True 0 None (RSet False [CSpace True]))
     (RLit CHR '';'')))))\<close>
  by code_simp

lemma RE_BRACES_SEMI_tree [code]:
  \<open>RE_BRACES_SEMI =
     RSeq (RLit CHR ''{'') (RSeq (RRep True 0 None RAny) (RSeq (RLit CHR ''}'') (RSeq (RRep True
     0 None (RSet False [CSpace True])) (RLit CHR '';''))))\<close>
  by code_simp

lemma RE_STRUCT_INIT_tree [code]:
  \<open>RE_STRUCT_INIT =
     RAlt (RSeq (RLit CHR ''s'') (RSeq (RLit CHR ''t'') (RSeq (RLit CHR ''r'') (RSeq (RLit CHR
     ''u'') (RSeq (RLit CHR ''c'') (RLit CHR ''t'')))))) (RAlt (RSeq (RLit CHR ''c'') (RSeq
     (RLit CHR ''l'') (RSeq (RLit CHR ''a'') (RSeq (RLit CHR ''s'') (RLit CHR ''s''))))) (RAlt
     (RSeq (RLit CHR ''e'') (RSeq (RLit CHR ''n'') (RSeq (RLit CHR ''u'') (RLit CHR ''m''))))
     (RSeq (RRep True 0 None (RSet False [CSpace True])) (RSeq (RLit CHR ''='') (RSeq (RRep True
     0 None (RSet False [CSpace True])) (RLit CHR ''{''))))))\<close>
  by code_simp

lemma RE_LOOP_HEAD_tree [code]:
  \<open>RE_LOOP_HEAD =
     RSeq (RRep True 0 None (RSet False [CSpace True])) (RSeq (RGroup 1 (RAlt (RSeq (RLit CHR
     ''f'') (RSeq (RLit CHR ''o'') (RLit CHR ''r''))) (RSeq (RLit CHR ''w'') (RSeq (RLit CHR
     ''h'') (RSeq (RLit CHR ''i'') (RSeq (RLit CHR ''l'') (RLit CHR ''e''))))))) (RSeq (RRep
     True 0 None (RSet False [CSpace True])) (RLit CHR ''('')))\<close>
  by code_simp

lemma RE_SEMI_tree [code]:
  \<open>RE_SEMI =
     RLit CHR '';''\<close>
  by code_simp

lemma RE_NULL_OR_BOOL_tree [code]:
  \<open>RE_NULL_OR_BOOL =
     RAlt (RSeq (RLit CHR ''N'') (RSeq (RLit CHR ''U'') (RSeq (RLit CHR ''L'') (RLit CHR
     ''L'')))) (RAlt (RSeq (RLit CHR ''&'') (RLit CHR ''&'')) (RSeq (RLit CHR ''|'') (RLit CHR
     ''|'')))\<close>
  by code_simp

lemma RE_HASH_LINE_tree [code]:
  \<open>RE_HASH_LINE =
     RSeq RBol (RSeq (RRep True 0 None (RSet False [CSpace True])) (RLit CHR ''#''))\<close>
  by code_simp

lemma RE_GLOBAL_COMMENT_tree [code]:
  \<open>RE_GLOBAL_COMMENT =
     RSeq (RLit CHR ''/'') (RSeq (RLit CHR ''/'') (RSeq (RRep True 0 None (RSet False [CSpace
     True])) (RSeq (RLit CHR ''G'') (RSeq (RLit CHR ''L'') (RSeq (RLit CHR ''O'') (RSeq (RLit
     CHR ''B'') (RSeq (RLit CHR ''A'') (RSeq (RLit CHR ''L'') (RSeq (RLit CHR ''_'') (RSeq (RLit
     CHR ''N'') (RSeq (RLit CHR ''O'') (RSeq (RLit CHR ''L'') (RSeq (RLit CHR ''I'') (RSeq (RLit
     CHR ''N'') (RLit CHR ''T'')))))))))))))))\<close>
  by code_simp

lemma RE_SUPPRESSION_GLOBAL_tree [code]:
  \<open>RE_SUPPRESSION_GLOBAL =
     RSeq RWordB (RSeq (RLit CHR ''G'') (RSeq (RLit CHR ''L'') (RSeq (RLit CHR ''O'') (RSeq
     (RLit CHR ''B'') (RSeq (RLit CHR ''A'') (RSeq (RLit CHR ''L'') (RSeq (RLit CHR ''_'') (RSeq
     (RLit CHR ''N'') (RSeq (RLit CHR ''O'') (RSeq (RLit CHR ''L'') (RSeq (RLit CHR ''I'') (RSeq
     (RLit CHR ''N'') (RSeq (RLit CHR ''T'') (RSeq RWordB (RRep True 0 (Some 1) (RGroup 1 (RSeq
     (RLit CHR ''('') (RSeq (RRep True 0 None (RSet True [CChar CHR '')''])) (RLit CHR
     '')'')))))))))))))))))))\<close>
  by code_simp

lemma RE_MAKE_PAIR_tree [code]:
  \<open>RE_MAKE_PAIR =
     RSeq RWordB (RSeq (RLit CHR ''m'') (RSeq (RLit CHR ''a'') (RSeq (RLit CHR ''k'') (RSeq
     (RLit CHR ''e'') (RSeq (RLit CHR ''_'') (RSeq (RLit CHR ''p'') (RSeq (RLit CHR ''a'') (RSeq
     (RLit CHR ''i'') (RSeq (RLit CHR ''r'') (RSeq (RRep True 0 None (RSet False [CSpace True]))
     (RLit CHR ''<'')))))))))))\<close>
  by code_simp

lemma RE_FLYMAKE_H_tree [code]:
  \<open>RE_FLYMAKE_H =
     RSeq (RLit CHR ''_'') (RSeq (RLit CHR ''f'') (RSeq (RLit CHR ''l'') (RSeq (RLit CHR ''y'')
     (RSeq (RLit CHR ''m'') (RSeq (RLit CHR ''a'') (RSeq (RLit CHR ''k'') (RSeq (RLit CHR ''e'')
     (RSeq (RLit CHR ''.'') (RSeq (RLit CHR ''h'') REol)))))))))\<close>
  by code_simp

lemma RE_FLYMAKE_DIR_tree [code]:
  \<open>RE_FLYMAKE_DIR =
     RSeq (RLit CHR ''/'') (RSeq (RLit CHR ''.'') (RSeq (RLit CHR ''f'') (RSeq (RLit CHR ''l'')
     (RSeq (RLit CHR ''y'') (RSeq (RLit CHR ''m'') (RSeq (RLit CHR ''a'') (RSeq (RLit CHR ''k'')
     (RSeq (RLit CHR ''e'') (RSeq (RLit CHR ''/'') (RSeq (RGroup 1 (RRep True 0 None (RSet True
     [CChar CHR ''/'']))) REol))))))))))\<close>
  by code_simp

lemma RE_GUARD_CHARS_tree [code]:
  \<open>RE_GUARD_CHARS =
     RSet False [CChar CHR ''-'', CChar CHR ''.'', CChar CHR ''/'', CSpace True]\<close>
  by code_simp

lemma RE_CPP_HEADER_tree [code]:
  \<open>RE_CPP_HEADER =
     RSeq RBol (RSeq (RRep True 0 (Some 1) (RGroup 1 (RSeq (RGroup 2 (RAlt (RSeq (RLit CHR
     ''e'') (RSeq (RLit CHR ''x'') (RLit CHR ''t''))) (RSeq (RLit CHR ''t'') (RSeq (RLit CHR
     ''r'') (RLit CHR ''1''))))) (RLit CHR ''/'')))) (RSeq (RRep True 1 None (RSet False [CRange
     CHR ''a'' CHR ''z'', CChar CHR ''_''])) REol))\<close>
  by code_simp

lemma RE_STREAM_HEADER_tree [code]:
  \<open>RE_STREAM_HEADER =
     RSeq (RRep True 0 (Some 1) (RGroup 1 (RAlt (RLit CHR ''f'') (RAlt (RSeq (RLit CHR ''i'')
     (RSeq (RLit CHR ''n'') (RLit CHR ''d''))) (RAlt (RSeq (RLit CHR ''i'') (RLit CHR ''o''))
     (RAlt (RLit CHR ''i'') (RAlt (RLit CHR ''o'') (RAlt (RSeq (RLit CHR ''p'') (RSeq (RLit CHR
     ''a'') (RSeq (RLit CHR ''r'') (RSeq (RLit CHR ''s'') (RLit CHR ''e''))))) (RAlt (RSeq (RLit
     CHR ''p'') (RLit CHR ''f'')) (RAlt (RSeq (RLit CHR ''s'') (RSeq (RLit CHR ''t'') (RSeq
     (RLit CHR ''d'') (RSeq (RLit CHR ''i'') (RLit CHR ''o''))))) (RAlt (RSeq (RLit CHR ''s'')
     (RSeq (RLit CHR ''t'') (RLit CHR ''r''))) REmpty))))))))))) (RSeq (RLit CHR ''s'') (RSeq
     (RLit CHR ''t'') (RSeq (RLit CHR ''r'') (RSeq (RLit CHR ''e'') (RSeq (RLit CHR ''a'') (RSeq
     (RLit CHR ''m'') REol))))))\<close>
  by code_simp

lemma RE_FLYMAKE_CC_tree [code]:
  \<open>RE_FLYMAKE_CC =
     RSeq (RLit CHR ''_'') (RSeq (RLit CHR ''f'') (RSeq (RLit CHR ''l'') (RSeq (RLit CHR ''y'')
     (RSeq (RLit CHR ''m'') (RSeq (RLit CHR ''a'') (RSeq (RLit CHR ''k'') (RSeq (RLit CHR ''e'')
     (RSeq (RLit CHR ''.'') (RSeq (RLit CHR ''c'') (RSeq (RLit CHR ''c'') REol))))))))))\<close>
  by code_simp

end
