(* ===== verification/Tables.thy ===== *)
theory Tables
  imports Py_String
begin

text \<open>
  The constant tables of the linter: the error categories and default filters, the header names it
  knows, the assertion macros with their suggested replacements, the alternative tokens, and the
  functions that are not thread-safe.
\<close>

definition ERROR_CATEGORIES :: "string list" where
  "ERROR_CATEGORIES =
     [''build/class'', ''build/deprecated'', ''build/endif_comment'',
      ''build/explicit_make_pair'', ''build/forward_decl'', ''build/header_guard'',
      ''build/include'', ''build/include_alpha'', ''build/include_order'',
      ''build/include_what_you_use'', ''build/namespaces'', ''build/printf_format'',
      ''build/storage_class'', ''legal/copyright'', ''readability/alt_tokens'',
      ''readability/braces'', ''readability/casting'', ''readability/check'',
      ''readability/class_name'', ''readability/constructors'', ''readability/fn_name'',
      ''readability/fn_size'', ''readability/function'', ''readability/multiline_comment'',
      ''readability/multiline_string'', ''readability/namespace'', ''readability/nolint'',
      ''readability/streams'', ''readability/todo'', ''readability/utf8'', ''runtime/arrays'',
      ''runtime/casting'', ''runtime/explicit'', ''runtime/int'', ''runtime/init'',
      ''runtime/invalid_increment'', ''runtime/member_string_references'', ''runtime/memset'',
      ''runtime/operator'', ''runtime/printf'', ''runtime/printf_format'',
      ''runtime/references'', ''runtime/rtti'', ''runtime/sizeof'', ''runtime/string'',
      ''runtime/threadsafe_fn'', ''whitespace/blank_line'', ''whitespace/braces'',
      ''whitespace/braces_pos'', ''whitespace/comma'', ''whitespace/comments'',
      ''whitespace/empty_loop_body'', ''whitespace/end_of_line'', ''whitespace/ending_newline'',
      ''whitespace/forcolon'', ''whitespace/indent'', ''whitespace/labels'',
      ''whitespace/line_length'', ''whitespace/newline'', ''whitespace/operators'',
      ''whitespace/parens'', ''whitespace/semicolon'', ''whitespace/tab'', ''whitespace/todo'']"

definition DEFAULT_FILTERS :: "string list" where
  "DEFAULT_FILTERS =
     [''-whitespace/braces_pos'', ''-readability/utf8'', ''-readability/multiline_string'',
      ''-readability/streams'']"

definition STL_HEADERS :: "string list" where
  "STL_HEADERS =
     [''algobase.h'', ''algorithm'', ''alloc.h'', ''atomic'', ''bitset'', ''deque'',
      ''exception'', ''function.h'', ''functional'', ''future'', ''hash_map'', ''hash_map.h'',
      ''hash_set'', ''hash_set.h'', ''iterator'', ''list'', ''list.h'', ''map'', ''memory'',
      ''mutex'', ''new'', ''pair.h'', ''pthread_alloc'', ''queue'', ''set'', ''set.h'',
      ''sstream'', ''stack'', ''stl_alloc.h'', ''stl_relops.h'', ''type_traits.h'', ''utility'',
      ''vector'', ''vector.h'']"

definition CPP_HEADERS :: "string list" where
  "CPP_HEADERS =
     [''algo.h'', ''builtinbuf.h'', ''bvector.h'', ''cassert'', ''cctype'', ''cerrno'',
      ''cfloat'', ''ciso646'', ''climits'', ''clocale'', ''cmath'', ''complex'', ''complex.h'',
      ''csetjmp'', ''csignal'', ''cstdarg'', ''cstddef'', ''cstdio'', ''cstdlib'', ''cstring'',
      ''ctime'', ''cwchar'', ''cwctype'', ''defalloc.h'', ''deque.h'', ''editbuf.h'',
      ''exception'', ''fstream'', ''fstream.h'', ''hashtable.h'', ''heap.h'', ''indstream.h'',
      ''iomanip'', ''iomanip.h'', ''ios'', ''iosfwd'', ''iostream'', ''iostream.h'',
      ''istream'', ''istream.h'', ''iterator.h'', ''limits'', ''map.h'', ''multimap.h'',
      ''multiset.h'', ''numeric'', ''ostream'', ''ostream.h'', ''parsestream.h'',
      ''pfstream.h'', ''PlotFile.h'', ''procbuf.h'', ''pthread_alloc.h'', ''rope'', ''rope.h'',
      ''ropeimpl.h'', ''SFile.h'', ''slist'', ''slist.h'', ''stack.h'', ''stdexcept'',
      ''stdiostream.h'', ''streambuf.h'', ''stream.h'', ''strfile.h'', ''string'',
      ''strstream'', ''strstream.h'', ''tempbuf.h'', ''tree.h'', ''typeinfo'', ''valarray'']"

definition CHECK_MACROS :: "string list" where
  "CHECK_MACROS =
     [''DCHECK'', ''CHECK'', ''EXPECT_TRUE_M'', ''EXPECT_TRUE'', ''ASSERT_TRUE_M'',
      ''ASSERT_TRUE'', ''EXPECT_FALSE_M'', ''EXPECT_FALSE'', ''ASSERT_FALSE_M'',
      ''ASSERT_FALSE'']"

definition ALT_TOKEN_REPLACEMENT :: "(string \<times> string) list" where
  "ALT_TOKEN_REPLACEMENT =
     [(''and'', ''&&''),
      (''bitor'', ''|''),
      (''or'', ''||''),
      (''xor'', ''^''),
      (''compl'', ''~''),
      (''bitand'', ''&''),
      (''and_eq'', ''&=''),
      (''or_eq'', ''|=''),
      (''xor_eq'', ''^=''),
      (''not'', ''!''),
      (''not_eq'', ''!='')]"

definition threading_list :: "(string \<times> string) list" where
  "threading_list =
     [(''asctime('', ''asctime_r(''),
      (''ctime('', ''ctime_r(''),
      (''getgrgid('', ''getgrgid_r(''),
      (''getgrnam('', ''getgrnam_r(''),
      (''getlogin('', ''getlogin_r(''),
      (''getpwnam('', ''getpwnam_r(''),
      (''getpwuid('', ''getpwuid_r(''),
      (''gmtime('', ''gmtime_r(''),
      (''localtime('', ''localtime_r(''),
      (''rand('', ''rand_r(''),
      (''readdir('', ''readdir_r(''),
      (''strtok('', ''strtok_r(''),
      (''ttyname('', ''ttyname_r('')]"

text \<open>
  \<open>_CHECK_REPLACEMENT[macro][op]\<close>: the two loops that fill the table, one for the macros that
  assert truth and one, with the operator inverted, for those that assert falsehood.
\<close>

definition op_name :: "string \<Rightarrow> string option" where
  "op_name = map_of [(''=='', ''EQ''), (''!='', ''NE''), (''>='', ''GE''), (''>'', ''GT''),
     (''<='', ''LE''), (''<'', ''LT'')]"

definition inv_op_name :: "string \<Rightarrow> string option" where
  "inv_op_name = map_of [(''=='', ''NE''), (''!='', ''EQ''), (''>='', ''LT''), (''>'', ''LE''),
     (''<='', ''GT''), (''<'', ''GE'')]"

definition CHECK_REPLACEMENT :: "string \<Rightarrow> string \<Rightarrow> string option" where
  "CHECK_REPLACEMENT macro op =
     (if macro = ''DCHECK'' then map_option (\<lambda>r. ''DCHECK_'' @ r) (op_name op)
      else if macro = ''CHECK'' then map_option (\<lambda>r. ''CHECK_'' @ r) (op_name op)
      else if macro = ''EXPECT_TRUE'' then map_option (\<lambda>r. ''EXPECT_'' @ r) (op_name op)
      else if macro = ''ASSERT_TRUE'' then map_option (\<lambda>r. ''ASSERT_'' @ r) (op_name op)
      else if macro = ''EXPECT_TRUE_M'' then map_option (\<lambda>r. ''EXPECT_'' @ r @ ''_M'') (op_name op)
      else if macro = ''ASSERT_TRUE_M'' then map_option (\<lambda>r. ''ASSERT_'' @ r @ ''_M'') (op_name op)
      else if macro = ''EXPECT_FALSE'' then map_option (\<lambda>r. ''EXPECT_'' @ r) (inv_op_name op)
      else if macro = ''ASSERT_FALSE'' then map_option (\<lambda>r. ''ASSERT_'' @ r) (inv_op_name op)
      else if macro = ''EXPECT_FALSE_M'' then map_option (\<lambda>r. ''EXPECT_'' @ r @ ''_M'') (inv_op_name op)
      else if macro = ''ASSERT_FALSE_M'' then map_option (\<lambda>r. ''ASSERT_'' @ r @ ''_M'') (inv_op_name op)
      else None)"

end
