(* ===== verification/Paths.thy ===== *)
theory Paths
  imports Patterns Tables
begin

text \<open>
  File names: the functions of \<open>os.path\<close> (the POSIX flavour) that the linter calls, the class
  \<open>FileInfo\<close>, and the functions that relate a source file to its headers. What the file system
  holds and the working directory are a record passed to the definitions.

  The lemmas state how a path is taken apart and put together again, that the walks up the
  directory tree end (and in which two situations they do not), and what the answers of
  \<open>FilesBelongToSameModule\<close> and the repository-relative names mean.
\<close>

section \<open>The file system\<close>

text \<open>
  \<open>fs_text\<close> is the decoded content of a file that can be opened; \<open>fs_exists\<close> and \<open>fs_isfile\<close>
  are \<open>os.path.exists\<close> and \<open>os.path.isfile\<close>.
\<close>

record file_system =
  fs_cwd :: string
  fs_exists :: "string \<Rightarrow> bool"
  fs_isfile :: "string \<Rightarrow> bool"
  fs_text :: "string \<Rightarrow> string option"

section \<open>os.path\<close>

definition all_slashes :: "string \<Rightarrow> bool" where
  "all_slashes p \<longleftrightarrow> list_all (\<lambda>c. c = CHR ''/'') p"

text \<open>\<open>os.path.split\<close>: the text up to the last slash, without trailing slashes, and the rest.\<close>

definition path_tail :: "string \<Rightarrow> string" where
  "path_tail p = rev (takeWhile (\<lambda>c. c \<noteq> CHR ''/'') (rev p))"

definition path_head :: "string \<Rightarrow> string" where
  "path_head p = rev (dropWhile (\<lambda>c. c \<noteq> CHR ''/'') (rev p))"

definition dirname :: "string \<Rightarrow> string" where
  "dirname p = (if all_slashes (path_head p) then path_head p else rstrip_char (CHR ''/'') (path_head p))"

definition path_split :: "string \<Rightarrow> string \<times> string" where
  "path_split p = (dirname p, path_tail p)"

text \<open>\<open>os.path.splitext\<close>: leading dots of the last component do not start an extension.\<close>

definition splitext :: "string \<Rightarrow> string \<times> string" where
  "splitext p =
     (let sep = py_rfind p ''/''; dot = py_rfind p ''.''
      in if sep < dot \<and> list_ex (\<lambda>c. c \<noteq> CHR ''.'') (take (nat (dot - (sep + 1))) (drop (nat (sep + 1)) p))
         then (take (nat dot) p, drop (nat dot) p) else (p, []))"

definition path_join :: "string \<Rightarrow> string \<Rightarrow> string" where
  "path_join a b =
     (if py_startswith b ''/'' then b
      else if a = [] \<or> py_endswith a ''/'' then a @ b else a @ ''/'' @ b)"

text \<open>\<open>os.path.join(*parts)\<close> for one part or more.\<close>

definition path_join_all :: "string list \<Rightarrow> string" where
  "path_join_all ps = foldl path_join (hd ps) (tl ps)"

text \<open>\<open>os.path.normpath\<close>: \<open>acc\<close> holds the components kept so far, the last one first.\<close>

fun norm_comps :: "bool \<Rightarrow> string list \<Rightarrow> string list \<Rightarrow> string list" where
  "norm_comps absolute acc [] = rev acc"
| "norm_comps absolute acc (c # cs) =
     (if c = [] \<or> c = ''.'' then norm_comps absolute acc cs
      else if c \<noteq> ''..'' \<or> (\<not> absolute \<and> acc = []) \<or> (acc \<noteq> [] \<and> hd acc = ''..'')
      then norm_comps absolute (c # acc) cs
      else norm_comps absolute (tl acc) cs)"

definition initial_slashes :: "string \<Rightarrow> string" where
  "initial_slashes p =
     (if py_startswith p ''/'' then
        (if py_startswith p ''//'' \<and> \<not> py_startswith p ''///'' then ''//'' else ''/'')
      else [])"

definition normpath :: "string \<Rightarrow> string" where
  "normpath p =
     (if p = [] then ''.''
      else let r = initial_slashes p @ py_join ''/'' (norm_comps (initial_slashes p \<noteq> []) [] (py_split p ''/''))
           in if r = [] then ''.'' else r)"

definition abspath :: "file_system \<Rightarrow> string \<Rightarrow> string" where
  "abspath fs p = normpath (if py_startswith p ''/'' then p else path_join (fs_cwd fs) p)"

text \<open>\<open>os.path.commonprefix\<close> of two sequences: the longest common prefix, item by item.\<close>

definition commonprefix :: "'a list \<Rightarrow> 'a list \<Rightarrow> 'a list" where
  "commonprefix xs ys = longest_common_prefix xs ys"

section \<open>Walking up\<close>

lemma path_head_tail: "path_head p @ path_tail p = p"
  unfolding path_head_def path_tail_def by (metis rev_append rev_rev_ident takeWhile_dropWhile_id)

lemma dirname_le_head: "length (dirname p) \<le> length (path_head p)"
  by (auto simp: dirname_def rstrip_char_def intro: order_trans [OF length_dropWhile_le])

lemma path_head_le: "length (path_head p) \<le> length p"
  by (metis path_head_tail length_append le_add1)

lemma dirname_shorter: "dirname p \<noteq> p \<Longrightarrow> length (dirname p) < length p"
proof (rule ccontr)
  assume ne: "dirname p \<noteq> p" and nl: "\<not> length (dirname p) < length p"
  then have "length (path_head p) = length p" "length (dirname p) = length (path_head p)"
    using dirname_le_head [of p] path_head_le [of p] by linarith+
  then have h: "path_head p = p" by (metis path_head_tail append_eq_conv_conj take_all nle_le)
  moreover have "rstrip_char (CHR ''/'') p = p" if "length (rstrip_char (CHR ''/'') p) = length p"
    using that unfolding rstrip_char_def
    by (metis dropWhile_eq_self_iff append_Nil length_0_conv length_append length_rev rev_rev_ident
        takeWhile_dropWhile_id add_cancel_left_left)
  ultimately show False
    using ne \<open>length (dirname p) = length (path_head p)\<close> by (auto simp: dirname_def split: if_splits)
qed

section \<open>FileInfo\<close>

definition FullName :: "file_system \<Rightarrow> string \<Rightarrow> string" where
  "FullName fs filename = py_replace (abspath fs filename) [CHR 0x5C] ''/''"

text \<open>
  The climb to the top of a Subversion checkout: from \<open>root_dir\<close>, while the directory above it holds
  \<open>.svn\<close>. At the file system's root the directory above is the root itself, so when it holds
  \<open>.svn\<close> the loop never ends.
\<close>

function svn_root :: "file_system \<Rightarrow> string \<Rightarrow> string \<Rightarrow> string py" where
  "svn_root fs root_dir one_up =
     (if fs_exists fs (path_join one_up ''.svn'')
      then if dirname one_up = one_up then Inl Hang
           else svn_root fs (dirname root_dir) (dirname one_up)
      else Inr root_dir)"
  by pat_completeness auto
termination
  by (relation "measure (\<lambda>(fs, r, u). length u)") (auto intro: dirname_shorter)

declare svn_root.simps [simp del]

definition vcs_dir :: "file_system \<Rightarrow> string \<Rightarrow> bool" where
  "vcs_dir fs d \<longleftrightarrow> fs_exists fs (path_join d ''.git'') \<or> fs_exists fs (path_join d ''.hg'')
     \<or> fs_exists fs (path_join d ''.svn'')"

function vcs_root :: "file_system \<Rightarrow> string \<Rightarrow> string" where
  "vcs_root fs d = (if dirname d \<noteq> d \<and> \<not> vcs_dir fs d then vcs_root fs (dirname d) else d)"
  by pat_completeness auto
termination
  by (relation "measure (\<lambda>(fs, d). length d)") (auto intro: dirname_shorter)

declare vcs_root.simps [simp del]

definition RepositoryName :: "file_system \<Rightarrow> string \<Rightarrow> string py" where
  "RepositoryName fs filename =
     (let fullname = FullName fs filename; project_dir = dirname fullname
      in if fs_exists fs fullname then
           if fs_exists fs (path_join project_dir ''.svn'') then
             py_bind (svn_root fs project_dir (dirname project_dir)) (\<lambda>root_dir.
               Inr (drop (length (commonprefix root_dir project_dir) + 1) fullname))
           else let root_dir = vcs_root fs project_dir
                in if vcs_dir fs root_dir
                   then Inr (drop (length (commonprefix root_dir project_dir) + 1) fullname)
                   else Inr fullname
         else Inr fullname)"

text \<open>
  The walk of \<open>FindBladeRootDir\<close>. It stops at the empty path and at \<open>/\<close>, but not at \<open>//\<close>, which
  is its own parent.
\<close>

function blade_root :: "file_system \<Rightarrow> string \<Rightarrow> string py" where
  "blade_root fs d =
     (if d = [] \<or> d = ''/'' then Inr []
      else if fs_isfile fs (d @ ''/BLADE_ROOT'') then Inr d
      else if dirname d = d then Inl Hang
      else blade_root fs (dirname d))"
  by pat_completeness auto
termination
  by (relation "measure (\<lambda>(fs, d). length d)") (auto intro: dirname_shorter)

declare blade_root.simps [simp del]

definition FindBladeRootDir :: "file_system \<Rightarrow> string \<Rightarrow> string py" where
  "FindBladeRootDir fs filename = blade_root fs (dirname (abspath fs filename))"

definition relpath :: "file_system \<Rightarrow> string \<Rightarrow> string \<Rightarrow> string py" where
  "relpath fs path start =
     (if path = [] then Inl ValueError
      else let start = (if start = [] then fs_cwd fs else start);
               start_list = py_split (abspath fs start) ''/'';
               path_list = py_split (abspath fs path) ''/'';
               i = length (commonprefix start_list path_list);
               rel_list = replicate (length start_list - i) ''..'' @ drop i path_list
           in Inr (if rel_list = [] then [] else path_join_all rel_list))"

definition ProjectScopeName :: "file_system \<Rightarrow> string \<Rightarrow> string py" where
  "ProjectScopeName fs filename =
     py_bind (FindBladeRootDir fs filename) (\<lambda>root. relpath fs filename root)"

definition FileInfo_Split :: "file_system \<Rightarrow> string \<Rightarrow> (string \<times> string \<times> string) py" where
  "FileInfo_Split fs filename =
     py_bind (RepositoryName fs filename) (\<lambda>googlename.
       case path_split googlename of (project, rest) \<Rightarrow> Inr (project, splitext rest))"

definition BaseName :: "file_system \<Rightarrow> string \<Rightarrow> string py" where
  "BaseName fs filename = py_bind (FileInfo_Split fs filename) (\<lambda>(d, b, e). Inr b)"

definition Extension :: "file_system \<Rightarrow> string \<Rightarrow> string py" where
  "Extension fs filename = py_bind (FileInfo_Split fs filename) (\<lambda>(d, b, e). Inr e)"

definition NoExtension :: "file_system \<Rightarrow> string \<Rightarrow> string py" where
  "NoExtension fs filename = py_bind (FileInfo_Split fs filename) (\<lambda>(d, b, e). Inr (py_join ''/'' [d, b]))"

definition IsSource :: "file_system \<Rightarrow> string \<Rightarrow> bool py" where
  "IsSource fs filename =
     py_bind (Extension fs filename) (\<lambda>e. Inr (drop 1 e \<in> set [''c'', ''cc'', ''cpp'', ''cxx'']))"

section \<open>Kinds of files\<close>

definition HEADER_EXTENSIONS :: "string list" where
  "HEADER_EXTENSIONS = [''h'', ''hh'', ''hpp'', ''hxx'']"

definition SOURCE_EXTENSIONS :: "string list" where
  "SOURCE_EXTENSIONS = [''cc'', ''cpp'', ''cxx'', ''inl'']"

definition ALL_EXTENSIONS :: "string list" where
  "ALL_EXTENSIONS = HEADER_EXTENSIONS @ SOURCE_EXTENSIONS"

definition file_extension :: "string \<Rightarrow> string" where
  "file_extension filename = slice_from filename (py_rfind filename ''.'' + 1)"

definition IsHeaderFileExtension :: "string \<Rightarrow> bool" where
  "IsHeaderFileExtension e \<longleftrightarrow> e \<in> set HEADER_EXTENSIONS"

definition IsHeaderFile :: "string \<Rightarrow> bool" where
  "IsHeaderFile filename \<longleftrightarrow> IsHeaderFileExtension (file_extension filename)"

definition IsSourceFile :: "string \<Rightarrow> bool" where
  "IsSourceFile filename \<longleftrightarrow> file_extension filename \<in> set SOURCE_EXTENSIONS"

definition IsTestFilename :: "string \<Rightarrow> bool" where
  "IsTestFilename filename \<longleftrightarrow> py_endswith filename ''_test.cpp'' \<or> py_endswith filename ''_test.cc''
     \<or> py_endswith filename ''_unittest.cc'' \<or> py_endswith filename ''_regtest.cc''"

section \<open>Relating files\<close>

definition common_suffixes :: "string list" where
  "common_suffixes = [''test.cc'', ''test.cpp'', ''regtest.cc'', ''unittest.cc'', ''inl.h'', ''impl.h'', ''internal.h'']"

definition has_common_suffix :: "string \<Rightarrow> string \<Rightarrow> bool" where
  "has_common_suffix filename sfx \<longleftrightarrow> py_endswith filename sfx \<and> length sfx < length filename
     \<and> filename ! (length filename - length sfx - 1) \<in> {CHR ''-'', CHR ''_''}"

definition DropCommonSuffixes :: "string \<Rightarrow> string" where
  "DropCommonSuffixes filename =
     (case find (has_common_suffix filename) common_suffixes of
        Some sfx \<Rightarrow> slice_to filename (- int (length sfx) - 1)
      | None \<Rightarrow> fst (splitext filename))"

datatype header_type = C_SYS_HEADER | CPP_SYS_HEADER | LIKELY_MY_HEADER | POSSIBLE_MY_HEADER | OTHER_HEADER

definition ClassifyInclude :: "file_system \<Rightarrow> string \<Rightarrow> string \<Rightarrow> bool \<Rightarrow> header_type py" where
  "ClassifyInclude fs filename include is_system =
     (let is_cpp_h = include \<in> set STL_HEADERS \<or> include \<in> set CPP_HEADERS \<or> matches RE_CPP_HEADER include
      in if is_system then Inr (if is_cpp_h then CPP_SYS_HEADER else C_SYS_HEADER)
         else py_bind (RepositoryName fs filename) (\<lambda>name.
           let (target_dir, target_base) = path_split (DropCommonSuffixes name);
               (include_dir, include_base) = path_split (DropCommonSuffixes include)
           in if target_base = include_base
                 \<and> (include_dir = target_dir \<or> include_dir = normpath (target_dir @ ''/../public''))
              then Inr LIKELY_MY_HEADER
              else case (Match RE_FIRST_COMPONENT target_base, Match RE_FIRST_COMPONENT include_base) of
                     (Some t, Some i) \<Rightarrow>
                       Inr (if m_group t 0 = m_group i 0 then POSSIBLE_MY_HEADER else OTHER_HEADER)
                   | _ \<Rightarrow> Inr OTHER_HEADER))"

definition drop_dirs :: "string \<Rightarrow> string" where
  "drop_dirs p = py_replace (py_replace p ''/public/'' ''/'') ''/internal/'' ''/''"

definition module_cc :: "string \<Rightarrow> string" where
  "module_cc filename_cc =
     (let f = slice_to filename_cc (-3)
      in drop_dirs (if py_endswith f ''_unittest'' then slice_to f (-9)
                    else if py_endswith f ''_test'' then slice_to f (-5) else f))"

definition module_h :: "string \<Rightarrow> string" where
  "module_h filename_h =
     (let f = slice_to filename_h (-2) in drop_dirs (if py_endswith f ''-inl'' then slice_to f (-4) else f))"

definition FilesBelongToSameModule :: "string \<Rightarrow> string \<Rightarrow> bool \<times> string" where
  "FilesBelongToSameModule filename_cc filename_h =
     (if \<not> py_endswith filename_cc ''.cc'' then (False, [])
      else if \<not> py_endswith filename_h ''.h'' then (False, [])
      else let cc = module_cc filename_cc; h = module_h filename_h
           in if py_endswith cc h then (True, slice_to cc (- int (length h))) else (False, []))"

definition GetHeaderGuardCPPVariable :: "file_system \<Rightarrow> string \<Rightarrow> string py" where
  "GetHeaderGuardCPPVariable fs filename =
     (let f = re_sub RE_FLYMAKE_H (\<lambda>m. ''.h'') filename;
          f = re_sub RE_FLYMAKE_DIR (\<lambda>m. ''/'' @ m_str m 1) f
      in py_bind (ProjectScopeName fs f) (\<lambda>name.
           Inr (map ascii_upper (re_sub RE_GUARD_CHARS (\<lambda>m. ''_'') name))))"

section \<open>What the walks find\<close>

text \<open>The ancestors of a directory, nearest first, are its images under \<open>dirname\<close>.\<close>

lemma rstrip_char_prefix: "prefix (rstrip_char c s) s"
  unfolding rstrip_char_def prefix_def
  by (metis rev_append rev_rev_ident takeWhile_dropWhile_id)

lemma rstrip_char_split: "\<exists>n. s = rstrip_char c s @ replicate n c"
proof (induction s rule: rev_induct)
  case (snoc x s)
  then obtain n where n: "s = rstrip_char c s @ replicate n c" by blast
  show ?case
  proof (cases "x = c")
    case True
    then have "rstrip_char c (s @ [x]) = rstrip_char c s" by (simp add: rstrip_char_def)
    moreover have "s @ [x] = rstrip_char c s @ replicate (Suc n) c"
      using n True by (metis append_assoc replicate_Suc replicate_append_same)
    ultimately show ?thesis by metis
  qed (auto simp: rstrip_char_def intro: exI [of _ 0])
qed (simp add: rstrip_char_def)

lemma path_head_prefix: "prefix (path_head p) p"
  by (metis path_head_tail prefixI)

lemma dirname_prefix: "prefix (dirname p) p"
  unfolding dirname_def
  by (auto intro: path_head_prefix prefix_order.trans [OF rstrip_char_prefix path_head_prefix])

lemma path_head_last: "path_head p \<noteq> [] \<Longrightarrow> last (path_head p) = CHR ''/''"
  unfolding path_head_def using hd_dropWhile [of "\<lambda>c. c \<noteq> CHR ''/''" "rev p"] by (auto simp: last_rev)

text \<open>A proper parent is followed by a slash, unless it is the root or empty.\<close>

lemma dirname_slash:
  assumes "\<not> all_slashes (dirname p)"
  shows "prefix (dirname p @ ''/'') p"
proof -
  let ?h = "path_head p"
  have ns: "\<not> all_slashes ?h" and d: "dirname p = rstrip_char (CHR ''/'') ?h"
    using assms by (auto simp: dirname_def split: if_splits)
  then have ne: "?h \<noteq> []" by (auto simp: all_slashes_def)
  have "prefix (rstrip_char (CHR ''/'') ?h @ ''/'') ?h"
  proof -
    obtain xs where xs: "?h = xs @ ''/''" using path_head_last [OF ne] ne by (metis append_butlast_last_id)
    then have "rstrip_char (CHR ''/'') ?h = rstrip_char (CHR ''/'') xs" by (simp add: rstrip_char_def)
    moreover obtain n where "xs = rstrip_char (CHR ''/'') xs @ replicate n (CHR ''/'')" using rstrip_char_split by blast
    ultimately have "?h = rstrip_char (CHR ''/'') ?h @ replicate n (CHR ''/'') @ ''/''" using xs by simp
    also have "\<dots> = (rstrip_char (CHR ''/'') ?h @ ''/'') @ replicate n (CHR ''/'')"
      by (simp add: replicate_append_same)
    finally show ?thesis by (metis prefixI)
  qed
  with d show ?thesis using path_head_prefix prefix_order.trans by metis
qed

lemma vcs_root_cases:
  "dirname d \<noteq> d \<and> \<not> vcs_dir fs d \<Longrightarrow> vcs_root fs d = vcs_root fs (dirname d)"
  "\<not> (dirname d \<noteq> d \<and> \<not> vcs_dir fs d) \<Longrightarrow> vcs_root fs d = d"
  using vcs_root.simps [of fs d] by argo+

lemma vcs_root_nearest:
  assumes "vcs_dir fs (vcs_root fs d)"
  shows "\<exists>k. vcs_root fs d = (dirname ^^ k) d \<and> (\<forall>j<k. \<not> vcs_dir fs ((dirname ^^ j) d))"
  using assms
proof (induction fs d rule: vcs_root.induct)
  case (1 fs d)
  show ?case
  proof (cases "dirname d \<noteq> d \<and> \<not> vcs_dir fs d")
    case True
    then have r: "vcs_root fs d = vcs_root fs (dirname d)" by (rule vcs_root_cases)
    with 1 True obtain k where "vcs_root fs (dirname d) = (dirname ^^ k) (dirname d)"
      "\<forall>j<k. \<not> vcs_dir fs ((dirname ^^ j) (dirname d))" by auto
    then show ?thesis using True r
      by (intro exI [of _ "Suc k"]) (auto simp: less_Suc_eq_0_disj funpow_Suc_right simp del: funpow.simps)
  next
    case False
    then have "vcs_root fs d = d" by (rule vcs_root_cases)
    then show ?thesis by (intro exI [of _ 0]) simp
  qed
qed

lemma commonprefix_prefix: "prefix xs ys \<Longrightarrow> commonprefix xs ys = xs"
  unfolding commonprefix_def
  by (metis longest_common_prefix_max_prefix longest_common_prefix_prefix1 prefix_order.antisym prefix_order.refl)

text \<open>
  The loop of \<open>FindBladeRootDir\<close> as the source writes it, without a test for its fixed points: where
  it never ends it has no value.
\<close>

partial_function (option) blade_loop :: "file_system \<Rightarrow> string \<Rightarrow> string option" where
  "blade_loop fs d =
     (if d \<noteq> [] \<and> d \<noteq> ''/''
      then if fs_isfile fs (d @ ''/BLADE_ROOT'') then Some d else blade_loop fs (dirname d)
      else Some [])"

lemma blade_loop_fixed:
  assumes "blade_loop fs d = Some r"
  shows "d = [] \<or> d = ''/'' \<or> fs_isfile fs (d @ ''/BLADE_ROOT'') \<or> dirname d \<noteq> d"
proof (rule blade_loop.raw_induct [OF _ assms, where P = "\<lambda>fs d r. d = [] \<or> d = ''/'' \<or> fs_isfile fs (d @ ''/BLADE_ROOT'') \<or> dirname d \<noteq> d"])
  fix loop fs d r
  assume ih: "\<And>fs d r. loop fs d = Some r \<Longrightarrow> d = [] \<or> d = ''/'' \<or> fs_isfile fs (d @ ''/BLADE_ROOT'') \<or> dirname d \<noteq> d"
    and body: "(if d \<noteq> [] \<and> d \<noteq> ''/''
      then if fs_isfile fs (d @ ''/BLADE_ROOT'') then Some d else loop fs (dirname d) else Some []) = Some r"
  show "d = [] \<or> d = ''/'' \<or> fs_isfile fs (d @ ''/BLADE_ROOT'') \<or> dirname d \<noteq> d"
  proof (rule ccontr)
    assume n: "\<not> ?thesis"
    with body have "loop fs d = Some r" by simp
    from ih [OF this] n show False by contradiction
  qed
qed

lemma blade_root_loop: "blade_root fs d = (case blade_loop fs d of None \<Rightarrow> Inl Hang | Some r \<Rightarrow> Inr r)"
proof (induction fs d rule: blade_root.induct)
  case (1 fs d)
  show ?case
  proof (cases "d = [] \<or> d = ''/'' \<or> fs_isfile fs (d @ ''/BLADE_ROOT'')")
    case True
    then have "blade_root fs d = Inr (if d = [] \<or> d = ''/'' then [] else d)"
      "blade_loop fs d = Some (if d = [] \<or> d = ''/'' then [] else d)"
      using blade_root.simps [of fs d] blade_loop.simps [of fs d] by argo+
    then show ?thesis by simp
  next
    case go: False
    show ?thesis
    proof (cases "dirname d = d")
      case True
      then have "blade_loop fs d = None" using blade_loop_fixed [of fs d] go by (metis not_Some_eq)
      with go True show ?thesis by (simp add: blade_root.simps [of fs d])
    next
      case False
      then have "blade_root fs d = blade_root fs (dirname d)" using go by (simp add: blade_root.simps [of fs d])
      moreover have "blade_loop fs d = blade_loop fs (dirname d)" using go by (simp add: blade_loop.simps [of fs d])
      ultimately show ?thesis using 1 go False by simp
    qed
  qed
qed

lemma blade_root_nearest:
  "blade_root fs d = Inr r \<Longrightarrow> r \<noteq> [] \<Longrightarrow> \<exists>k. r = (dirname ^^ k) d \<and> fs_isfile fs (r @ ''/BLADE_ROOT'')
     \<and> (\<forall>j<k. \<not> fs_isfile fs ((dirname ^^ j) d @ ''/BLADE_ROOT''))"
proof (induction fs d rule: blade_root.induct)
  case (1 fs d)
  have ne: "d \<noteq> [] \<and> d \<noteq> ''/''" using 1(2,3) by (auto simp: blade_root.simps [of fs d])
  show ?case
  proof (cases "fs_isfile fs (d @ ''/BLADE_ROOT'')")
    case True
    then show ?thesis using 1(2) ne by (intro exI [of _ 0]) (simp add: blade_root.simps [of fs d])
  next
    case False
    then have "dirname d \<noteq> d" "blade_root fs (dirname d) = Inr r"
      using 1(2) ne by (simp_all add: blade_root.simps [of fs d] split: if_splits)
    with 1 ne False obtain k where k: "r = (dirname ^^ k) (dirname d)" "fs_isfile fs (r @ ''/BLADE_ROOT'')"
      "\<forall>j<k. \<not> fs_isfile fs ((dirname ^^ j) (dirname d) @ ''/BLADE_ROOT'')" by blast
    then have "\<forall>j<Suc k. \<not> fs_isfile fs ((dirname ^^ j) d @ ''/BLADE_ROOT'')"
      using False by (auto simp: less_Suc_eq_0_disj funpow_Suc_right simp del: funpow.simps)
    moreover have "r = (dirname ^^ Suc k) d" using k by (simp add: funpow_Suc_right del: funpow.simps)
    ultimately show ?thesis using k by blast
  qed
qed

section \<open>Repositories\<close>

lemma ancestor_prefix: "prefix ((dirname ^^ k) d) d"
  by (induction k) (auto intro: prefix_order.trans [OF dirname_prefix])

lemma ancestor_slash:
  "(dirname ^^ k) d = d \<or> all_slashes ((dirname ^^ k) d) \<or> prefix ((dirname ^^ k) d @ ''/'') d"
proof (cases k)
  case (Suc j)
  let ?a = "(dirname ^^ j) d"
  have "prefix (dirname ?a @ ''/'') d" if "\<not> all_slashes (dirname ?a)"
    using dirname_slash [OF that] ancestor_prefix [of j d] prefix_order.trans by blast
  then show ?thesis by (auto simp: Suc)
qed simp

text \<open>The part of a file's full name after an ancestor of its directory.\<close>

lemma ancestor_rest:
  assumes "root = (dirname ^^ k) (dirname full)" "\<not> all_slashes root"
  shows "full = root @ ''/'' @ drop (length root + 1) full"
proof -
  have "prefix (root @ ''/'') full"
    using ancestor_slash [of k "dirname full"] assms dirname_slash [of full] dirname_prefix [of full] prefix_order.trans
    by metis
  then obtain z where "full = (root @ ''/'') @ z" by (auto simp: prefix_def)
  then show ?thesis by simp
qed

definition svn_dir :: "file_system \<Rightarrow> string \<Rightarrow> bool" where
  "svn_dir fs d \<longleftrightarrow> fs_exists fs (path_join d ''.svn'')"

lemma svn_root_top:
  "case svn_root fs d (dirname d) of
     Inl e \<Rightarrow> \<forall>j. svn_dir fs ((dirname ^^ Suc j) d)
   | Inr r \<Rightarrow> \<exists>k. r = (dirname ^^ k) d \<and> (\<forall>j<k. svn_dir fs ((dirname ^^ Suc j) d)) \<and> \<not> svn_dir fs ((dirname ^^ Suc k) d)"
proof (induction "length (dirname d)" arbitrary: d rule: less_induct)
  case less
  let ?u = "dirname d"
  show ?case
  proof (cases "svn_dir fs ?u")
    case False
    then have "svn_root fs d ?u = Inr d" by (simp add: svn_root.simps [of fs d] svn_dir_def)
    with False show ?thesis by (auto intro!: exI [of _ 0])
  next
    case True
    show ?thesis
    proof (cases "dirname ?u = ?u")
      case top: True
      then have "svn_root fs d ?u = Inl Hang" using True by (simp add: svn_root.simps [of fs d] svn_dir_def)
      moreover have "(dirname ^^ Suc j) d = ?u" for j using top by (induction j) auto
      ultimately show ?thesis using True by (simp del: funpow.simps)
    next
      case False
      then have s: "svn_root fs d ?u = svn_root fs ?u (dirname ?u)"
        using True by (subst svn_root.simps) (simp add: svn_dir_def)
      have shift: "(dirname ^^ Suc j) d = (dirname ^^ j) ?u" for j by (simp add: funpow_swap1)
      note ih = less [OF dirname_shorter [OF False]]
      show ?thesis
      proof (cases "svn_root fs ?u (dirname ?u)")
        case (Inl e)
        with ih have "svn_dir fs ((dirname ^^ j) ?u)" for j using True by (cases j) auto
        then show ?thesis by (simp only: s Inl sum.case shift) simp
      next
        case (Inr r)
        with ih obtain k where k: "r = (dirname ^^ k) ?u" "\<forall>j<k. svn_dir fs ((dirname ^^ Suc j) ?u)" "\<not> svn_dir fs ((dirname ^^ Suc k) ?u)"
          by auto
        have "\<forall>j<Suc k. svn_dir fs ((dirname ^^ j) ?u)" using k(2) True by (auto simp: less_Suc_eq_0_disj)
        with k show ?thesis unfolding s Inr sum.case shift by (metis shift)
      qed
    qed
  qed
qed

lemma vcs_root_none: "\<not> vcs_dir fs (vcs_root fs d) \<Longrightarrow> \<not> vcs_dir fs ((dirname ^^ k) d)"
proof (induction fs d arbitrary: k rule: vcs_root.induct)
  case (1 fs d)
  show ?case
  proof (cases "dirname d \<noteq> d \<and> \<not> vcs_dir fs d")
    case True
    then have "vcs_root fs d = vcs_root fs (dirname d)" by (rule vcs_root_cases)
    with 1 True show ?thesis by (cases k) (auto simp: funpow_Suc_right simp del: funpow.simps(2))
  next
    case False
    then have "vcs_root fs d = d" by (rule vcs_root_cases)
    with False 1(2) have d: "dirname d = d" by auto
    have "(dirname ^^ k) d = d" using d by (induction k) auto
    with 1(2) \<open>vcs_root fs d = d\<close> show ?thesis by simp
  qed
qed

text \<open>The directory that a repository name is relative to, \<open>k\<close> levels above the file's directory.\<close>

definition is_repository_root :: "file_system \<Rightarrow> string \<Rightarrow> nat \<Rightarrow> bool" where
  "is_repository_root fs dir k \<longleftrightarrow>
     (if svn_dir fs dir then (\<forall>j\<le>k. svn_dir fs ((dirname ^^ j) dir)) \<and> \<not> svn_dir fs ((dirname ^^ Suc k) dir)
      else vcs_dir fs ((dirname ^^ k) dir) \<and> (\<forall>j<k. \<not> vcs_dir fs ((dirname ^^ j) dir)))"

lemma RepositoryName_svn:
  assumes "fs_exists fs (FullName fs f)" "svn_dir fs (dirname (FullName fs f))"
  shows "case RepositoryName fs f of
      Inl e \<Rightarrow> \<forall>j. svn_dir fs ((dirname ^^ j) (dirname (FullName fs f)))
    | Inr name \<Rightarrow> \<exists>k. is_repository_root fs (dirname (FullName fs f)) k
        \<and> name = drop (length ((dirname ^^ k) (dirname (FullName fs f))) + 1) (FullName fs f)"
proof -
  let ?full = "FullName fs f" and ?dir = "dirname (FullName fs f)"
  have r: "RepositoryName fs f = py_bind (svn_root fs ?dir (dirname ?dir)) (\<lambda>root_dir.
      Inr (drop (length (commonprefix root_dir ?dir) + 1) ?full))"
    using assms by (simp add: RepositoryName_def Let_def svn_dir_def)
  show ?thesis
  proof (cases "svn_root fs ?dir (dirname ?dir)")
    case (Inl e)
    with svn_root_top [of fs ?dir] have "svn_dir fs ((dirname ^^ j) ?dir)" for j using assms(2) by (cases j) auto
    then show ?thesis by (simp add: r Inl)
  next
    case (Inr root)
    with svn_root_top [of fs ?dir] obtain k where k: "root = (dirname ^^ k) ?dir"
      "\<forall>j<k. svn_dir fs ((dirname ^^ Suc j) ?dir)" "\<not> svn_dir fs ((dirname ^^ Suc k) ?dir)" by auto
    have "svn_dir fs ((dirname ^^ j) ?dir)" if "j \<le> k" for j using that k(2) assms(2) by (cases j) auto
    then have "is_repository_root fs ?dir k" using k(3) assms(2) by (simp add: is_repository_root_def)
    then show ?thesis using k(1) by (auto simp: r Inr commonprefix_prefix ancestor_prefix)
  qed
qed

lemma RepositoryName_other:
  assumes "fs_exists fs (FullName fs f)" "\<not> svn_dir fs (dirname (FullName fs f))"
  shows "if \<forall>k. \<not> vcs_dir fs ((dirname ^^ k) (dirname (FullName fs f))) then RepositoryName fs f = Inr (FullName fs f)
    else \<exists>k. is_repository_root fs (dirname (FullName fs f)) k
        \<and> RepositoryName fs f = Inr (drop (length ((dirname ^^ k) (dirname (FullName fs f))) + 1) (FullName fs f))"
proof (cases "vcs_dir fs (vcs_root fs (dirname (FullName fs f)))")
  case True
  let ?dir = "dirname (FullName fs f)"
  from vcs_root_nearest [OF True] obtain k where k: "vcs_root fs ?dir = (dirname ^^ k) ?dir"
    "\<forall>j<k. \<not> vcs_dir fs ((dirname ^^ j) ?dir)" by blast
  have "is_repository_root fs ?dir k" using k True assms(2) by (simp add: is_repository_root_def)
  moreover have "RepositoryName fs f = Inr (drop (length ((dirname ^^ k) ?dir) + 1) (FullName fs f))"
    using assms True by (simp add: RepositoryName_def Let_def svn_dir_def k(1) commonprefix_prefix ancestor_prefix)
  moreover have "\<not> (\<forall>k. \<not> vcs_dir fs ((dirname ^^ k) ?dir))" using True k(1) by metis
  ultimately show ?thesis by metis
next
  case False
  then have "RepositoryName fs f = Inr (FullName fs f)"
    using assms by (simp add: RepositoryName_def Let_def svn_dir_def)
  then show ?thesis using vcs_root_none [OF False] by simp
qed

section \<open>Modules\<close>

text \<open>A directory between slashes, and the part of a path before it.\<close>

lemma slashed_in:
  assumes "prefix (CHR ''/'' # w @ ''/'') (d @ CHR ''/'' # y)" "CHR ''/'' \<notin> set w" "d \<noteq> []"
  shows "prefix (CHR ''/'' # w @ ''/'') (d @ ''/'')"
proof (cases "length w + 2 \<le> Suc (length d)")
  case True
  have "prefix (d @ ''/'') (d @ CHR ''/'' # y)" by simp
  with assms(1) show ?thesis by (rule prefix_length_prefix) (use True in simp)
next
  case False
  with assms(3) obtain i where i: "length d = Suc i" "i < length w" by (cases d) auto
  from assms(1) obtain z where "d @ CHR ''/'' # y = CHR ''/'' # w @ ''/'' @ z" by (auto simp: prefix_def)
  then have "(d @ CHR ''/'' # y) ! length d = (CHR ''/'' # w @ ''/'' @ z) ! length d" by simp
  then have "CHR ''/'' = w ! i" using i by (simp add: nth_append)
  then show ?thesis using i(2) assms(2) by (metis nth_mem)
qed

lemma replace_slashed:
  assumes "CHR ''/'' \<notin> set w" "\<not> sublist (CHR ''/'' # w @ ''/'') (d @ ''/'')"
  shows "py_replace (d @ CHR ''/'' # y) (CHR ''/'' # w @ ''/'') v = d @ py_replace (CHR ''/'' # y) (CHR ''/'' # w @ ''/'') v"
  using assms(2)
proof (induction d)
  case (Cons c d)
  have n: "\<not> py_startswith (c # d @ CHR ''/'' # y) (CHR ''/'' # w @ ''/'')"
    using slashed_in [OF _ assms(1), of "c # d" y] Cons.prems unfolding startswith_prefix
    by (auto simp: sublist_Cons_right)
  then show ?case using Cons by (simp add: sublist_Cons_right)
qed simp

lemma replace_slashed_other:
  assumes "CHR ''/'' \<notin> set w" "CHR ''/'' \<notin> set n"
  shows "py_replace (CHR ''/'' # n) (CHR ''/'' # w @ ''/'') v = CHR ''/'' # n"
proof -
  have "\<not> sublist (CHR ''/'' # w @ ''/'') (CHR ''/'' # n)"
  proof
    assume "sublist (CHR ''/'' # w @ ''/'') (CHR ''/'' # n)"
    then obtain x z where "CHR ''/'' # n = x @ (CHR ''/'' # w @ ''/'') @ z" by (auto simp: sublist_def)
    then have "count_list (CHR ''/'' # n) (CHR ''/'') = count_list (x @ (CHR ''/'' # w @ ''/'') @ z) (CHR ''/'')" by simp
    then show False using assms(2) by simp
  qed
  then show ?thesis by (rule py_replace_no_occurrence)
qed

text \<open>A path without a directory \<open>public\<close> or \<open>internal\<close>.\<close>

definition plain_dir :: "string \<Rightarrow> bool" where
  "plain_dir d \<longleftrightarrow> \<not> sublist ''/public/'' (d @ ''/'') \<and> \<not> sublist ''/internal/'' (d @ ''/'')"

lemma drop_dirs_module:
  assumes "plain_dir d" "CHR ''/'' \<notin> set n" "D \<in> {''/'', ''/public/'', ''/internal/''}"
  shows "drop_dirs (d @ D @ n) = d @ ''/'' @ n"
proof -
  have p: "py_replace (d @ CHR ''/'' # y) ''/public/'' v = d @ py_replace (CHR ''/'' # y) ''/public/'' v"
    and i: "py_replace (d @ CHR ''/'' # y) ''/internal/'' v = d @ py_replace (CHR ''/'' # y) ''/internal/'' v" for y v
    using replace_slashed [of "''public''" d y v] replace_slashed [of "''internal''" d y v] assms(1) by (simp_all add: plain_dir_def)
  have n: "py_replace (CHR ''/'' # n) ''/public/'' v = CHR ''/'' # n" "py_replace (CHR ''/'' # n) ''/internal/'' v = CHR ''/'' # n" for v
    using replace_slashed_other [of "''public''" n v] replace_slashed_other [of "''internal''" n v] assms(2) by simp_all
  have "\<not> sublist ''/public/'' n" "\<not> sublist ''/internal/'' n"
    using assms(2) by (auto simp: sublist_def)
  then have nn: "py_replace n ''/public/'' v = n" "py_replace n ''/internal/'' v = n" for v
    by (simp_all add: py_replace_no_occurrence)
  have "py_replace (''/public/'' @ n) ''/public/'' ''/'' = CHR ''/'' # n" "py_replace (''/internal/'' @ n) ''/internal/'' ''/'' = CHR ''/'' # n"
    "py_replace (''/internal/'' @ n) ''/public/'' ''/'' = ''/internal'' @ py_replace (CHR ''/'' # n) ''/public/'' ''/''"
    by (simp_all add: py_startswith_def nn)
  then show ?thesis using assms(3) by (auto simp: drop_dirs_def p i n simp del: py_replace.simps)
qed

lemma slice_to_drop [simp]: "ys \<noteq> [] \<Longrightarrow> slice_to (xs @ ys) (- int (length ys)) = xs"
  by (simp add: slice_to_def slice_bound_def)

lemma suffix_after_slash:
  assumes "suffix w (xs @ CHR ''/'' # n)" "CHR ''/'' \<notin> set w"
  shows "suffix w n"
proof -
  from assms(1) obtain z where "xs @ CHR ''/'' # n = z @ w" by (auto simp: suffix_def)
  with assms(2) show ?thesis by (auto simp: append_eq_append_conv2 Cons_eq_append_conv append_eq_Cons_conv suffix_def)
qed

lemma tails_equal:
  assumes "xs @ CHR ''/'' # n = ys @ CHR ''/'' # m" "CHR ''/'' \<notin> set n" "CHR ''/'' \<notin> set m"
  shows "n = m"
  using assms by (auto simp: append_eq_append_conv2 Cons_eq_append_conv append_eq_Cons_conv)

lemma module_cc_base:
  assumes "plain_dir d" "CHR ''/'' \<notin> set n" "D \<in> {''/'', ''/public/'', ''/internal/''}"
    and "t \<in> {[], ''_test'', ''_unittest''}" "\<not> suffix ''_test'' n" "\<not> suffix ''_unittest'' n"
  shows "module_cc (d @ D @ n @ t @ ''.cc'') = d @ ''/'' @ n"
proof -
  obtain e where D: "D = e @ ''/''" using assms(3) by auto
  have f: "slice_to (d @ D @ n @ t @ ''.cc'') (-3) = d @ D @ n @ t"
    using slice_to_drop [of "''.cc''" "d @ D @ n @ t"] by simp
  define q where "q = d @ D @ n"
  have "\<not> suffix ''_test'' q" "\<not> suffix ''_unittest'' q"
    using suffix_after_slash [of _ "d @ e" n] assms(5,6) unfolding q_def D by auto
  moreover have "slice_to (q @ ''_test'') (-5) = q" "slice_to (q @ ''_unittest'') (-9) = q"
    using slice_to_drop [of "''_test''" q] slice_to_drop [of "''_unittest''" q] by simp_all
  moreover have "\<not> suffix ''_unittest'' (q @ ''_test'')"
    by (auto simp: suffix_def append_eq_append_conv2 Cons_eq_append_conv append_eq_Cons_conv)
  moreover have "suffix x (q @ x)" for x by (simp add: suffix_def)
  ultimately have "(if suffix ''_unittest'' (q @ t) then slice_to (q @ t) (-9)
      else if suffix ''_test'' (q @ t) then slice_to (q @ t) (-5) else q @ t) = q"
    using assms(4) by auto
  then have "module_cc (d @ D @ n @ t @ ''.cc'') = drop_dirs (d @ D @ n)"
    unfolding module_cc_def f Let_def endswith_suffix q_def by (simp only: append_assoc)
  with drop_dirs_module [OF assms(1-3)] show ?thesis by simp
qed

lemma module_h_base:
  assumes "plain_dir d" "CHR ''/'' \<notin> set n" "D \<in> {''/'', ''/public/'', ''/internal/''}"
    and "i \<in> {[], ''-inl''}" "\<not> suffix ''-inl'' n"
  shows "module_h (d @ D @ n @ i @ ''.h'') = d @ ''/'' @ n"
proof -
  obtain e where D: "D = e @ ''/''" using assms(3) by auto
  have f: "slice_to (d @ D @ n @ i @ ''.h'') (-2) = d @ D @ n @ i"
    using slice_to_drop [of "''.h''" "d @ D @ n @ i"] by simp
  have "\<not> suffix ''-inl'' (d @ D @ n)" using suffix_after_slash [of _ "d @ e" n] assms(5) unfolding D by auto
  moreover have "slice_to (d @ D @ n @ ''-inl'') (-4) = d @ D @ n" using slice_to_drop [of "''-inl''" "d @ D @ n"] by simp
  ultimately have "module_h (d @ D @ n @ i @ ''.h'') = drop_dirs (d @ D @ n)"
    using assms(4) unfolding module_h_def f Let_def endswith_suffix by (auto simp: suffix_def)
  with drop_dirs_module [OF assms(1-3)] show ?thesis by simp
qed

section \<open>Properties\<close>

text \<open>
  C20: The walk for \<open>BLADE_ROOT\<close> agrees with the source's loop, non-termination included, and when it
  returns a directory this is the nearest ancestor that holds the file.
\<close>

theorem FindBladeRootDir_correct:
  "FindBladeRootDir fs f =
     (case blade_loop fs (dirname (abspath fs f)) of None \<Rightarrow> Inl Hang | Some r \<Rightarrow> Inr r)
   \<and> (\<forall>r. FindBladeRootDir fs f = Inr r \<longrightarrow> r = [] \<or>
        (\<exists>k. r = (dirname ^^ k) (dirname (abspath fs f)) \<and> fs_isfile fs (r @ ''/BLADE_ROOT'')
           \<and> (\<forall>j<k. \<not> fs_isfile fs ((dirname ^^ j) (dirname (abspath fs f)) @ ''/BLADE_ROOT''))))"
  unfolding FindBladeRootDir_def using blade_root_loop blade_root_nearest by blast

definition sample_fs :: file_system where
  "sample_fs = \<lparr>fs_cwd = ''/w/proj'', fs_exists = (\<lambda>p. p \<in> set [''/w/proj/a/b.cc'', ''/w/proj/.git'']),
     fs_isfile = (\<lambda>p. p = ''/w/proj/BLADE_ROOT''), fs_text = (\<lambda>p. None)\<rparr>"

lemma FindBladeRootDir_correct_witness:
  "FindBladeRootDir sample_fs ''a/b.cc'' = Inr ''/w/proj''
   \<and> (\<exists>k. ''/w/proj'' = (dirname ^^ k) (dirname (abspath sample_fs ''a/b.cc'')))
   \<and> FindBladeRootDir sample_fs ''//x.h'' = Inl Hang"
proof -
  have 1: "FindBladeRootDir sample_fs ''a/b.cc'' = Inr ''/w/proj''" by code_simp
  have "FindBladeRootDir sample_fs ''//x.h'' = Inl Hang" by code_simp
  with 1 show ?thesis using FindBladeRootDir_correct [of sample_fs "''a/b.cc''"] by auto
qed

text \<open>
  C35: The repository name, in all cases. It is the full name when the file does not exist or no
  directory above it is version-controlled. Otherwise it is the full name without a root directory
  and the character after it: beside a \<open>.svn\<close> the topmost directory of the unbroken chain of
  directories that hold one, else the nearest version-controlled directory; unless the root consists
  of slashes, that character is the slash. It fails (by running forever) exactly when the file exists
  and every directory above it holds \<open>.svn\<close>.
\<close>

theorem RepositoryName_relative:
  "((\<exists>e. RepositoryName fs f = Inl e) \<longleftrightarrow>
      fs_exists fs (FullName fs f) \<and> (\<forall>j. svn_dir fs ((dirname ^^ j) (dirname (FullName fs f)))))
   \<and> (\<forall>name. RepositoryName fs f = Inr name \<longrightarrow>
      (if fs_exists fs (FullName fs f) \<and> (\<exists>k. vcs_dir fs ((dirname ^^ k) (dirname (FullName fs f))))
       then \<exists>k root. root = (dirname ^^ k) (dirname (FullName fs f)) \<and> is_repository_root fs (dirname (FullName fs f)) k
         \<and> name = drop (length root + 1) (FullName fs f)
         \<and> (all_slashes root \<or> FullName fs f = root @ ''/'' @ name)
       else name = FullName fs f))"
proof (cases "fs_exists fs (FullName fs f)")
  case False
  then show ?thesis by (simp add: RepositoryName_def)
next
  case exists: True
  let ?full = "FullName fs f" and ?dir = "dirname (FullName fs f)"
  have v: "svn_dir fs d \<Longrightarrow> vcs_dir fs d" for d by (simp add: svn_dir_def vcs_dir_def)
  show ?thesis
  proof (cases "svn_dir fs ?dir")
    case True
    note r = RepositoryName_svn [OF exists True]
    have "\<not> is_repository_root fs ?dir k" if "\<forall>j. svn_dir fs ((dirname ^^ j) ?dir)" for k
      using that True by (simp add: is_repository_root_def del: funpow.simps)
    moreover have "\<exists>k. vcs_dir fs ((dirname ^^ k) ?dir)" using v [OF True] by (intro exI [of _ 0]) simp
    ultimately show ?thesis using exists r ancestor_rest [OF refl, of _ ?full]
      by (cases "RepositoryName fs f") auto
  next
    case False
    note r = RepositoryName_other [OF exists False]
    have "\<not> (\<forall>j. svn_dir fs ((dirname ^^ j) ?dir))" using False by (metis funpow_0)
    moreover have "\<exists>k root. root = (dirname ^^ k) ?dir \<and> is_repository_root fs ?dir k
        \<and> RepositoryName fs f = Inr (drop (length root + 1) ?full)
        \<and> (all_slashes root \<or> ?full = root @ ''/'' @ drop (length root + 1) ?full)"
      if "\<exists>k. vcs_dir fs ((dirname ^^ k) ?dir)"
      using r that ancestor_rest [OF refl, of _ ?full] by metis
    ultimately show ?thesis using exists r by (cases "\<forall>k. \<not> vcs_dir fs ((dirname ^^ k) ?dir)") auto
  qed
qed

lemma RepositoryName_relative_witness:
  "(\<exists>k root. RepositoryName sample_fs ''a/b.cc'' = Inr ''a/b.cc'' \<and> is_repository_root sample_fs ''/w/proj/a'' k
      \<and> (all_slashes root \<or> ''/w/proj/a/b.cc'' = root @ ''/'' @ ''a/b.cc''))"
proof -
  have 0: "FullName sample_fs ''a/b.cc'' = ''/w/proj/a/b.cc''" "dirname ''/w/proj/a/b.cc'' = ''/w/proj/a''" by code_simp+
  have 1: "fs_exists sample_fs ''/w/proj/a/b.cc''" by code_simp
  have 2: "RepositoryName sample_fs ''a/b.cc'' = Inr ''a/b.cc''" by code_simp
  have "vcs_dir sample_fs ((dirname ^^ 1) ''/w/proj/a'')" by code_simp
  then have "\<exists>k. vcs_dir sample_fs ((dirname ^^ k) ''/w/proj/a'')" by blast
  with RepositoryName_relative [of sample_fs "''a/b.cc''"] 1 2 show ?thesis unfolding 0 by auto
qed

text \<open>
  C36: Which names make a module. Let \<open>p\<close>, \<open>d\<close> be paths without a directory \<open>public\<close> or
  \<open>internal\<close>, and \<open>n\<close>, \<open>m\<close> base names without the suffixes that are dropped. A source file \<open>n.cc\<close>,
  \<open>n_test.cc\<close> or \<open>n_unittest.cc\<close> in \<open>pd\<close> and a header \<open>m.h\<close> or \<open>m-inl.h\<close> in \<open>d\<close>, each possibly one
  level below in \<open>public\<close> or \<open>internal\<close>, belong to the same module exactly when \<open>n = m\<close>, and then
  the path to be put before the header's is \<open>p\<close>.
\<close>

theorem same_module_names:
  assumes "plain_dir (p @ d)" "CHR ''/'' \<notin> set n" "CHR ''/'' \<notin> set m"
    and "D \<in> {''/'', ''/public/'', ''/internal/''}" "E \<in> {''/'', ''/public/'', ''/internal/''}"
    and "t \<in> {[], ''_test'', ''_unittest''}" "\<not> suffix ''_test'' n" "\<not> suffix ''_unittest'' n"
    and "i \<in> {[], ''-inl''}" "\<not> suffix ''-inl'' m"
  shows "FilesBelongToSameModule (p @ d @ D @ n @ t @ ''.cc'') (d @ E @ m @ i @ ''.h'') =
    (if n = m then (True, p) else (False, []))"
proof -
  have d: "plain_dir d" using assms(1) unfolding plain_dir_def append_assoc by (meson sublist_append_leftI sublist_order.order_trans)
  have cc: "module_cc (p @ d @ D @ n @ t @ ''.cc'') = (p @ d) @ ''/'' @ n"
    using module_cc_base [OF assms(1,2,4,6-8)] by simp
  note h = module_h_base [OF d assms(3,5,9,10)]
  have "n = m" if "suffix (d @ ''/'' @ m) ((p @ d) @ ''/'' @ n)"
    using that tails_equal [of "p @ d" n _ m] assms(2,3) by (auto simp: suffix_def)
  moreover have "slice_to ((p @ d) @ ''/'' @ n) (- int (length (d @ ''/'' @ n))) = p"
    using slice_to_drop [of "d @ ''/'' @ n" p] by simp
  ultimately show ?thesis unfolding FilesBelongToSameModule_def cc h Let_def endswith_suffix
    by (auto simp: suffix_def)
qed

lemma same_module_names_witness:
  "FilesBelongToSameModule ''/home/me/base/internal/sysinfo_unittest.cc'' ''base/public/sysinfo-inl.h'' = (True, ''/home/me/'')
   \<and> FilesBelongToSameModule ''/home/me/base/sysinfo.cc'' ''base/sys.h'' = (False, [])"
proof -
  have "py_find (''/home/me/base'' @ ''/'') ''/public/'' = -1" "py_find (''/home/me/base'' @ ''/'') ''/internal/'' = -1" by code_simp+
  then have d: "plain_dir (''/home/me/'' @ ''base'')" by (simp add: plain_dir_def py_find_neg_iff)
  have s: "\<not> suffix ''_test'' ''sysinfo''" "\<not> suffix ''_unittest'' ''sysinfo''" "\<not> suffix ''-inl'' ''sysinfo''" "\<not> suffix ''-inl'' ''sys''"
    by (simp_all add: suffix_def append_eq_Cons_conv Cons_eq_append_conv)
  show ?thesis
    using same_module_names [of "''/home/me/''" "''base''" "''sysinfo''" "''sysinfo''" "''/internal/''" "''/public/''" "''_unittest''" "''-inl''"]
      same_module_names [of "''/home/me/''" "''base''" "''sysinfo''" "''sys''" "''/''" "''/''" "[]" "[]"] d s by simp
qed

end
