(* ===== verification/Scanning.thy ===== *)
theory Scanning
  imports Regex
begin

text \<open>
  The patterns with which the linter's parsers walk a line from token to token. A scanning pattern
  \<open>^[^X]*([X])(.*)$\<close> cuts a line at its first character of the class \<open>X\<close>; the pattern
  \<open>^(.*)([X])[^X]*$\<close> cuts it at the last one. The lemmas give both in closed form on lines
  without a newline (every line that reaches a check, since files are split at newlines), and the
  locale \<open>token_scanner\<close> derives what a loop over such a cut may use: it visits the token
  characters of the line in order and it stops.
\<close>

lemma concat_map_concat: "concat (map f (concat xss)) = concat (map (\<lambda>xs. concat (map f xs)) xss)"
  by (induction xss) auto

section \<open>Repeated single characters\<close>

lemma eat_simps [simp, scan_simps]:
  "eat P (b, [], g) = []"
  "eat P (b, x # xs, g) = (if P x then [(x # b, xs, g)] else [])"
  by (simp_all add: eat_def)

lemma iter_eat [scan_simps]:
  "length a \<le> n \<Longrightarrow> iter True (eat P) n (b, a, g) =
     map (\<lambda>k. (rev (take k a) @ b, drop k a, g)) (rev [0..<Suc (length (takeWhile P a))])"
proof (induction a arbitrary: b n)
  case Nil
  then show ?case by (cases n) simp_all
next
  case (Cons x xs)
  then obtain m where m: "n = Suc m" "length xs \<le> m" by (cases n) auto
  show ?case
  proof (cases "P x")
    case True
    have "[0..<Suc (Suc n)] = 0 # map Suc [0..<Suc n]" for n
      by (simp add: map_Suc_upt upt_conv_Cons del: upt_Suc)
    then have "rev [0..<Suc (Suc n)] = map Suc (rev [0..<Suc n]) @ [0]" for n
      by (simp add: rev_map del: upt_Suc)
    with True Cons.IH [OF m(2), of "x # b"] show ?thesis by (simp add: m Let_def comp_def del: upt_Suc)
  qed (simp add: m Let_def)
qed

lemma rm_star_class [scan_simps]:
  "rm r = eat P \<Longrightarrow> rm (RRep True 0 None r) (b, a, g) =
     map (\<lambda>k. (rev (take k a) @ b, drop k a, g)) (rev [0..<Suc (length (takeWhile P a))])"
  by (simp add: iter_eat del: upt_Suc iter.simps)

lemma rm_star_set:
  "rm r = eat P \<Longrightarrow> set (rm (RRep True 0 None r) (b, a, g)) =
     {(rev (take k a) @ b, drop k a, g) | k. k \<le> length (takeWhile P a)}"
  by (auto simp: rm_star_class less_Suc_eq_le simp del: upt_Suc rm.simps)

lemma rm_classes [scan_simps]:
  "rm (RSet neg items) = eat (in_class neg items)"
  "rm RAny = eat (\<lambda>x. x \<noteq> CHR 0x0A)"
  "rm (RLit c) = eat (\<lambda>x. x = c)"
  by (simp_all add: fun_eq_iff)

lemma in_class_neg: "in_class True items c \<longleftrightarrow> \<not> in_class False items c"
  by (simp add: in_class_def)

lemma rm_seqE:
  assumes "st \<in> set (rm (RSeq r1 r2) s)"
  obtains t where "t \<in> set (rm r1 s)" "st \<in> set (rm r2 t)"
  using assms by auto

lemma rm_seqI: "t \<in> set (rm r1 s) \<Longrightarrow> st \<in> set (rm r2 t) \<Longrightarrow> st \<in> set (rm (RSeq r1 r2) s)"
  by auto

lemma rm_seq_split:
  "rm (RSeq A (RSeq B (RSeq C D))) s = concat (map (rm D) (rm (RSeq A (RSeq B C)) s))"
proof -
  have seq: "rm (RSeq x y) = (\<lambda>s. concat (map (rm y) (rm x s)))" for x y
    by (simp add: fun_eq_iff)
  show ?thesis by (simp only: seq concat_map_concat map_map comp_def)
qed

section \<open>Cutting at the first token\<close>

definition scan_rx :: "class_item list \<Rightarrow> regex" where
  "scan_rx X = RSeq RBol (RSeq (RRep True 0 None (RSet True X)) (RSeq (RGroup 1 (RSet False X))
     (RSeq (RGroup 2 (RRep True 0 None RAny)) REol)))"

text \<open>The states after the token class has been read, from the start of a line.\<close>

lemma scan_rx_token:
  "rm (RSeq RBol (RSeq (RRep True 0 None (RSet True X)) (RGroup 1 (RSet False X)))) ([], s, []) =
     (case dropWhile (\<lambda>x. \<not> in_class False X x) s of
        [] \<Rightarrow> []
      | c # t \<Rightarrow> (let p = takeWhile (\<lambda>x. \<not> in_class False X x) s
                 in [(c # rev p, t, [(1, length p, Suc (length p))])]))"
proof -
  let ?P = "in_class False X" and ?n = "length (takeWhile (\<lambda>x. \<not> in_class False X x) s)"
  let ?F = "rm (RGroup 1 (RSet False X))" and ?G = "\<lambda>k. (rev (take k s), drop k s, [])"
  have F: "?F (b, d, []) = (case d of [] \<Rightarrow> [] | c # t \<Rightarrow>
      if ?P c then [(c # b, t, [(1, length b, Suc (length b))])] else [])" for b d
    by (cases d) simp_all
  have neg: "in_class True X = (\<lambda>x. \<not> ?P x)" by (simp add: in_class_neg fun_eq_iff)
  have "rm (RRep True 0 None (RSet True X)) ([], s, []) = map ?G (rev [0..<Suc ?n])"
    using rm_star_class [of "RSet True X" "\<lambda>x. \<not> ?P x" "[]" s "[]"]
    by (simp add: rm_classes neg del: upt_Suc)
  then have "rm (RSeq RBol (RSeq (RRep True 0 None (RSet True X)) (RGroup 1 (RSet False X)))) ([], s, [])
      = concat (map ?F (map ?G (rev [0..<Suc ?n])))"
    by (simp del: upt_Suc rm.simps(7))
  also have "\<dots> = ?F (?G ?n)"
  proof -
    have "?F (?G k) = []" if "k < ?n" for k
    proof -
      from that have k: "k < length s" by (meson length_takeWhile_le less_le_trans)
      have "s ! k = takeWhile (\<lambda>x. \<not> ?P x) s ! k" using that by (simp add: takeWhile_nth)
      with that have "\<not> ?P (s ! k)" by (metis nth_mem set_takeWhileD)
      with k show ?thesis by (simp flip: Cons_nth_drop_Suc)
    qed
    then have "concat (map ?F (map ?G (rev [0..<?n]))) = []" by (auto simp del: rm.simps)
    then show ?thesis by simp
  qed
  also have "?G ?n = (rev (takeWhile (\<lambda>x. \<not> ?P x) s), dropWhile (\<lambda>x. \<not> ?P x) s, [])"
    by (simp add: takeWhile_eq_take [symmetric] dropWhile_eq_drop)
  also have "?F (rev (takeWhile (\<lambda>x. \<not> ?P x) s), dropWhile (\<lambda>x. \<not> ?P x) s, []) =
     (case dropWhile (\<lambda>x. \<not> in_class False X x) s of
        [] \<Rightarrow> []
      | c # t \<Rightarrow> (let p = takeWhile (\<lambda>x. \<not> in_class False X x) s
                 in [(c # rev p, t, [(1, length p, Suc (length p))])]))"
    by (auto simp only: F Let_def length_rev split: list.split if_split dest: dropWhile_Cons_conv)
  finally show ?thesis .
qed

lemma scan_rx_eq:
  "rm (scan_rx X) s = concat (map (rm (RSeq (RGroup 2 (RRep True 0 None RAny)) REol))
     (rm (RSeq RBol (RSeq (RRep True 0 None (RSet True X)) (RGroup 1 (RSet False X)))) s))"
  unfolding scan_rx_def by (rule rm_seq_split)

text \<open>
  On any line: a match cuts off a non-empty prefix that ends with a token, and the second group is a
  part of what follows.
\<close>

lemma scan_rx_states:
  "rm (scan_rx X) ([], s, []) =
     (case dropWhile (\<lambda>x. \<not> in_class False X x) s of
        [] \<Rightarrow> []
      | c # t \<Rightarrow> rm (RSeq (RGroup 2 (RRep True 0 None RAny)) REol)
          (c # rev (takeWhile (\<lambda>x. \<not> in_class False X x) s), t,
            [(1, length (takeWhile (\<lambda>x. \<not> in_class False X x) s),
              Suc (length (takeWhile (\<lambda>x. \<not> in_class False X x) s)))]))"
proof (cases "dropWhile (\<lambda>x. \<not> in_class False X x) s")
  case Nil
  show ?thesis unfolding scan_rx_eq scan_rx_token Let_def Nil
    by (simp only: list.case list.map concat.simps)
next
  case (Cons c t)
  show ?thesis unfolding scan_rx_eq scan_rx_token Let_def Cons
    by (simp only: list.case list.map concat.simps append_Nil2)
qed

lemma cut_groups:
  assumes "s = p @ c # t" and "m = mk_match s 0 (b, a, [(2, Suc (length p), k), (1, length p, Suc (length p))])"
  shows "m_group m 1 = Some [c]" "m_group m 2 = Some (take (k - Suc (length p)) t)"
  using assms by (simp_all add: m_group_def m_span_def mk_match_def)

lemma scan_rx_Some:
  assumes "Match (scan_rx X) s = Some m"
  obtains p c t n where "s = p @ c # t" "in_class False X c" "\<forall>x\<in>set p. \<not> in_class False X x"
    "m_group m 1 = Some [c]" "m_group m 2 = Some (take n t)"
proof -
  define p where "p = takeWhile (\<lambda>x. \<not> in_class False X x) s"
  from assms obtain st ys where st: "rm (scan_rx X) ([], s, []) = st # ys" and m: "m = mk_match s 0 st"
    by (auto simp: Match_def split: list.splits)
  from st obtain c t where d: "dropWhile (\<lambda>x. \<not> in_class False X x) s = c # t"
    unfolding scan_rx_states by (auto split: list.splits simp del: rm.simps)
  then have s: "s = p @ c # t" and c: "in_class False X c"
    using dropWhile_Cons_conv [OF d] by (auto simp: p_def)
  have p: "\<forall>x\<in>set p. \<not> in_class False X x" by (auto simp: p_def dest: set_takeWhileD)
  have "st \<in> set (rm (RSeq (RGroup 2 (RRep True 0 None RAny)) REol) (c # rev p, t, [(1, length p, Suc (length p))]))"
    using st unfolding scan_rx_states d p_def by (simp del: rm.simps)
  then obtain b' a' g' where i: "(b', a', g') \<in> set (rm (RRep True 0 None RAny) (c # rev p, t, [(1, length p, Suc (length p))]))"
    and st': "st = (b', a', (2, Suc (length p), length b') # g')"
    by (auto split: prod.splits if_splits simp del: rm.simps(7))
  from i have "g' = [(1, length p, Suc (length p))]"
    unfolding rm_star_class [OF rm_classes(2)] by auto
  with m st' have "m = mk_match s 0 (b', a', [(2, Suc (length p), length b'), (1, length p, Suc (length p))])"
    by simp
  from cut_groups [OF s this] s c p show thesis by (intro that)
qed

text \<open>On a line without a newline: the cut at the first token, with nothing lost.\<close>

lemma rm_rest_of_line:
  assumes "CHR 0x0A \<notin> set a"
  shows "\<exists>ys. rm (RSeq (RGroup n (RRep True 0 None RAny)) REol) (b, a, g) =
     (rev a @ b, [], (n, length b, length b + length a) # g) # ys"
proof -
  have all: "takeWhile (\<lambda>x. x \<noteq> CHR 0x0A) a = a" using assms by (auto simp: takeWhile_eq_all_conv)
  have "rm (RRep True 0 None RAny) (b, a, g) =
      (rev a @ b, [], g) # map (\<lambda>k. (rev (take k a) @ b, drop k a, g)) (rev [0..<length a])"
    unfolding rm_star_class [OF rm_classes(2)] all by simp
  then show ?thesis by (simp add: add.commute del: rm.simps(7))
qed

lemma scan_rx_cut:
  assumes nl: "CHR 0x0A \<notin> set s"
  shows "Match (scan_rx X) s = None \<longleftrightarrow> (\<forall>x\<in>set s. \<not> in_class False X x)" (is ?none)
    and "Match (scan_rx X) s = Some m \<Longrightarrow>
      \<exists>p c t. s = p @ c # t \<and> in_class False X c \<and> (\<forall>x\<in>set p. \<not> in_class False X x)
        \<and> m_group m 1 = Some [c] \<and> m_group m 2 = Some t" (is "_ \<Longrightarrow> ?some")
proof -
  define p where "p = takeWhile (\<lambda>x. \<not> in_class False X x) s"
  have p: "\<forall>x\<in>set p. \<not> in_class False X x" by (auto simp: p_def dest: set_takeWhileD)
  have "?none \<and> (Match (scan_rx X) s = Some m \<longrightarrow> ?some)"
  proof (cases "\<forall>x\<in>set s. \<not> in_class False X x")
    case True
    then have "rm (scan_rx X) ([], s, []) = []"
      unfolding scan_rx_states by (simp flip: dropWhile_Nil_conv)
    with True show ?thesis by (simp add: Match_def)
  next
    case False
    then obtain c t where d: "dropWhile (\<lambda>x. \<not> in_class False X x) s = c # t"
      by (metis dropWhile_Nil_conv neq_Nil_conv)
    then have s: "s = p @ c # t" and c: "in_class False X c"
      using dropWhile_Cons_conv [OF d] by (auto simp: p_def)
    then have "CHR 0x0A \<notin> set t" using nl by simp
    from rm_rest_of_line [OF this, of 2 "c # rev p" "[(1, length p, Suc (length p))]"]
    have "\<exists>ys. rm (scan_rx X) ([], s, []) = (rev t @ c # rev p, [],
        [(2, Suc (length p), Suc (length p) + length t), (1, length p, Suc (length p))]) # ys"
      unfolding scan_rx_states d by (simp add: p_def del: rm.simps)
    then have eq: "Match (scan_rx X) s = Some (mk_match s 0 (rev t @ c # rev p, [],
        [(2, Suc (length p), Suc (length p) + length t), (1, length p, Suc (length p))]))"
      by (auto simp: Match_def)
    have "m_group m 1 = Some [c] \<and> m_group m 2 = Some t" if "Match (scan_rx X) s = Some m"
    proof -
      from that eq have "m = mk_match s 0 (rev t @ c # rev p, [],
        [(2, Suc (length p), Suc (length p) + length t), (1, length p, Suc (length p))])"
        by (simp only: option.inject)
      from cut_groups [OF s this] show ?thesis by simp
    qed
    then have "Match (scan_rx X) s = Some m \<longrightarrow> ?some" using s c p by metis
    moreover have "Match (scan_rx X) s \<noteq> None" by (simp only: eq) simp
    ultimately show ?thesis using False by blast
  qed
  then show ?none "Match (scan_rx X) s = Some m \<Longrightarrow> ?some" by auto
qed

text \<open>The converse of \<open>Search_leftmost\<close>: the first position that matches is the one found.\<close>

lemma Search_eqI:
  assumes "i \<le> length s" "match_at r s i = st # ys" "\<forall>j<i. match_at r s j = []"
  shows "Search r s = Some (mk_match s i st)"
proof (cases "Search r s")
  case None
  with assms show ?thesis by (simp add: Search_None_iff)
next
  case (Some m)
  then obtain k st' zs where k: "k \<le> length s" "match_at r s k = st' # zs" "m = mk_match s k st'"
    "\<forall>j<k. match_at r s j = []"
    by (rule Search_leftmost)
  then have "k = i" using assms by (metis list.distinct(1) nat_neq_iff)
  with k assms Some show ?thesis by simp
qed

text \<open>A pattern that starts with \<open>^\<close>: searching for it is matching it.\<close>

lemma search_from_bol: "b \<noteq> [] \<Longrightarrow> search_from (RSeq RBol r) b a = None"
  by (induction a arbitrary: b) auto

lemma Search_bol [simp]: "Search (RSeq RBol r) s = Match (RSeq RBol r) s"
  by (cases s) (auto simp: Search_def Match_def search_from_bol split: list.splits)

lemma Search_scan_rx [simp]: "Search (scan_rx X) s = Match (scan_rx X) s"
  by (simp add: scan_rx_def)

section \<open>Texts that a match has to contain\<close>

text \<open>A pattern that begins with a given text, and one every match of which contains it.\<close>

fun starts_text :: "string \<Rightarrow> regex \<Rightarrow> bool" where
  "starts_text [] r = True"
| "starts_text (c # w) (RSeq (RLit d) r) = (c = d \<and> starts_text w r)"
| "starts_text [c] (RLit d) = (c = d)"
| "starts_text w r = False"

fun requires :: "string \<Rightarrow> regex \<Rightarrow> bool" where
  "requires w (RSeq r1 r2) = (starts_text w (RSeq r1 r2) \<or> requires w r1 \<or> requires w r2)"
| "requires w (RAlt r1 r2) = (requires w r1 \<and> requires w r2)"
| "requires w (RGroup n r) = requires w r"
| "requires w (RRep gr mn mx r) = (0 < mn \<and> requires w r)"
| "requires w r = starts_text w r"

lemma starts_text_sound:
  "starts_text w r \<Longrightarrow> (b', a', g') \<in> set (rm r (b, a, g)) \<Longrightarrow> \<exists>u. a = w @ u @ a'"
proof (induction w r arbitrary: b a g rule: starts_text.induct)
  case (1 r)
  then show ?case using rm_extends [OF 1(2)] by (auto simp: extends_def)
next
  case (2 c w d r)
  then obtain x xs where "a = x # xs" "x = d" "(b', a', g') \<in> set (rm r (d # b, xs, g))"
    by (cases a) (auto split: if_splits)
  with 2 show ?case by auto
next
  case (3 c d)
  then show ?case by (cases a) (auto split: if_splits)
qed simp_all

lemma starts_requires:
  assumes "starts_text w r" "(b', a', g') \<in> set (rm r (b, a, g))"
  shows "\<exists>u. a = u @ a' \<and> sublist w u"
proof -
  from starts_text_sound [OF assms] obtain x where "a = (w @ x) @ a'" by auto
  then show ?thesis by (metis sublist_append_rightI)
qed

lemma requires_sound:
  "requires w r \<Longrightarrow> (b', a', g') \<in> set (rm r (b, a, g)) \<Longrightarrow> \<exists>u. a = u @ a' \<and> sublist w u"
proof (induction w r arbitrary: b a g b' a' g' rule: requires.induct)
  case (1 w r1 r2)
  from 1(4) obtain bt t gt where t: "(bt, t, gt) \<in> set (rm r1 (b, a, g))" "(b', a', g') \<in> set (rm r2 (bt, t, gt))"
    by (elim rm_seqE) (metis prod_cases3)
  obtain u v where u: "a = u @ t" "t = v @ a'"
    using rm_extends [OF t(1)] rm_extends [OF t(2)] by (auto simp: extends_def)
  from 1(3) consider "starts_text w (RSeq r1 r2)" | "requires w r1" | "requires w r2" by auto
  then show ?case
  proof cases
    case 1
    from starts_requires [OF this \<open>(b', a', g') \<in> set (rm (RSeq r1 r2) (b, a, g))\<close>] show ?thesis .
  next
    case 2
    from "1.IH"(1) [OF 2 t(1)] obtain x where "a = x @ t" "sublist w x" by blast
    with u show ?thesis by (metis append_assoc sublist_append_rightI sublist_order.order_trans)
  next
    case 3
    from "1.IH"(2) [OF 3 t(2)] obtain x where "t = x @ a'" "sublist w x" by blast
    with u show ?thesis by (metis append_assoc sublist_append_leftI sublist_order.order_trans)
  qed
next
  case (2 w r1 r2)
  then show ?case by auto
next
  case (3 w n r)
  then show ?case by auto
next
  case (4 w gr mn mx r)
  then obtain m where m: "mn = Suc m" "requires w r" by (cases mn) auto
  from 4(3) m(1) obtain s1 s2 n where s: "s1 \<in> set (rm r (b, a, g))" "s2 \<in> set (reps (rm r) m s1)"
    "(b', a', g') \<in> set (iter gr (rm r) n s2)" by auto
  obtain b1 a1 g1 where s1: "s1 = (b1, a1, g1)" by (cases s1)
  have "extends s1 (b', a', g')"
    using re_step.reps_extends [OF s(2)] re_step.iter_extends [OF s(3)] extends_trans by blast
  then obtain v where "a1 = v @ a'" by (auto simp: s1 extends_def)
  moreover from 4(1) [OF m(2) s(1) [unfolded s1]] obtain x where "a = x @ a1" "sublist w x" by blast
  ultimately show ?case by (metis append_assoc sublist_append_rightI sublist_order.order_trans)
qed (simp_all only: requires.simps starts_requires)

lemma requires_Search: "requires w r \<Longrightarrow> \<not> sublist w s \<Longrightarrow> Search r s = None"
proof (rule ccontr)
  assume r: "requires w r" and n: "\<not> sublist w s" and "Search r s \<noteq> None"
  then obtain i b a g where "(b, a, g) \<in> set (match_at r s i)"
    by (metis Search_leftmost list.set_intros(1) not_None_eq prod_cases3)
  from requires_sound [OF r this [unfolded match_at_def]] obtain u where "drop i s = u @ a" "sublist w u" by blast
  then have "sublist w (drop i s)" by (metis sublist_append_rightI sublist_order.order_trans)
  then show False using n sublist_drop sublist_order.order_trans by blast
qed

lemma requires_searches: "requires w r \<Longrightarrow> \<not> sublist w s \<Longrightarrow> \<not> searches r s"
  by (simp add: searches_def requires_Search)

lemma requires_matches: "requires w r \<Longrightarrow> \<not> sublist w s \<Longrightarrow> \<not> matches r s"
  using requires_Search [of w r s] by (simp add: matches_def Match_None_iff Search_None_iff)

lemma requires_sub: "requires w r \<Longrightarrow> \<not> sublist w s \<Longrightarrow> re_sub r f s = s"
  by (simp add: requires_Search re_sub_no_match)

section \<open>Cutting at the last token\<close>

definition scan_back_rx :: "class_item list \<Rightarrow> regex" where
  "scan_back_rx X = RSeq RBol (RSeq (RGroup 1 (RRep True 0 None RAny)) (RSeq (RGroup 2 (RSet False X))
     (RSeq (RRep True 0 None (RSet True X)) REol)))"

lemma Search_scan_back_rx [simp]: "Search (scan_back_rx X) s = Match (scan_back_rx X) s"
  by (simp add: scan_back_rx_def)

lemma rest_without:
  assumes "st \<in> set (rm (RSeq (RRep True 0 None (RSet True X)) REol) (b, a, g))"
  shows "snd (snd st) = g" "CHR 0x0A \<notin> set a \<Longrightarrow> \<forall>x\<in>set a. \<not> in_class False X x"
proof -
  from assms obtain s1 where s1: "s1 \<in> set (rm (RRep True 0 None (RSet True X)) (b, a, g))" "st \<in> set (rm REol s1)"
    by (rule rm_seqE)
  then obtain k where "k \<le> length (takeWhile (in_class True X) a)" "s1 = (rev (take k a) @ b, drop k a, g)"
    using rm_star_set [OF rm_classes(1), of True X b a g] by blast
  with s1(2) have k: "k \<le> length (takeWhile (in_class True X) a)"
    "st = (rev (take k a) @ b, drop k a, g)" "drop k a = [] \<or> drop k a = [CHR 0x0A]"
    by (auto split: if_splits)
  from k show "snd (snd st) = g" by simp
  assume "CHR 0x0A \<notin> set a"
  with k(3) have "drop k a = []" by (metis in_set_dropD list.set_intros(1))
  with k(1) have "length a \<le> length (takeWhile (in_class True X) a)" by simp
  then have "takeWhile (in_class True X) a = a"
    by (metis length_takeWhile_le nle_le takeWhile_eq_take take_all)
  then show "\<forall>x\<in>set a. \<not> in_class False X x"
    by (metis in_class_neg set_takeWhileD)
qed

lemma scan_back_states:
  assumes "st \<in> set (rm (scan_back_rx X) ([], s, []))"
  obtains p c t b a where "s = p @ c # t" "in_class False X c"
    "st = (b, a, [(2, length p, Suc (length p)), (1, 0, length p)])"
    "CHR 0x0A \<notin> set s \<Longrightarrow> \<forall>x\<in>set t. \<not> in_class False X x"
proof -
  let ?R = "RSeq (RGroup 2 (RSet False X)) (RSeq (RRep True 0 None (RSet True X)) REol)"
  have "rm (scan_back_rx X) ([], s, []) = rm (RSeq (RGroup 1 (RRep True 0 None RAny)) ?R) ([], s, [])"
    by (simp add: scan_back_rx_def del: rm.simps(7,8))
  with assms obtain s1 where s1: "s1 \<in> set (rm (RGroup 1 (RRep True 0 None RAny)) ([], s, []))"
    "st \<in> set (rm ?R s1)"
    by (metis rm_seqE)
  then obtain k where "k \<le> length (takeWhile (\<lambda>x. x \<noteq> CHR 0x0A) s)"
    "s1 = (rev (take k s), drop k s, [(1, 0, length (take k s))])"
    using rm_star_set [OF rm_classes(2), of "[]" s "[]"] by (auto simp del: rm.simps(7))
  moreover then have "length (take k s) = k"
    by (metis length_take length_takeWhile_le min.absorb2 order.trans)
  ultimately have k: "st \<in> set (rm ?R (rev (take k s), drop k s, [(1, 0, k)]))"
    using s1(2) by simp
  then obtain c t where ct: "drop k s = c # t" "in_class False X c"
    "st \<in> set (rm (RSeq (RRep True 0 None (RSet True X)) REol)
       (c # rev (take k s), t, [(2, length (take k s), Suc (length (take k s))), (1, 0, k)]))"
    by (cases "drop k s") (auto split: if_splits simp del: rm.simps(7))
  have kl: "length (take k s) = k" using ct(1) by (metis length_take min.absorb2 nle_le drop_all list.distinct(1))
  have s: "s = take k s @ c # t" using ct(1) by (metis append_take_drop_id)
  have nl: "CHR 0x0A \<notin> set s \<Longrightarrow> CHR 0x0A \<notin> set t"
    using ct(1) by (metis in_set_dropD list.set_intros(2))
  from rest_without [OF ct(3)] kl have r:
    "st = (fst st, fst (snd st), [(2, length (take k s), Suc (length (take k s))), (1, 0, length (take k s))])"
    "CHR 0x0A \<notin> set t \<Longrightarrow> \<forall>x\<in>set t. \<not> in_class False X x"
    by (auto simp: prod_eq_iff)
  show thesis by (rule that [OF s ct(2) r(1) r(2) [OF nl]])
qed

lemma scan_back_Some:
  assumes "Match (scan_back_rx X) s = Some m"
  obtains p c t where "s = p @ c # t" "in_class False X c" "m_group m 1 = Some p" "m_group m 2 = Some [c]"
    "CHR 0x0A \<notin> set s \<Longrightarrow> \<forall>x\<in>set t. \<not> in_class False X x"
proof -
  from assms obtain st ys where st: "rm (scan_back_rx X) ([], s, []) = st # ys" and m: "m = mk_match s 0 st"
    by (auto simp: Match_def split: list.splits)
  then have "st \<in> set (rm (scan_back_rx X) ([], s, []))" by simp
  then show thesis
  proof (rule scan_back_states)
    fix p c t b a
    assume a: "s = p @ c # t" "in_class False X c" "st = (b, a, [(2, length p, Suc (length p)), (1, 0, length p)])"
      "CHR 0x0A \<notin> set s \<Longrightarrow> \<forall>x\<in>set t. \<not> in_class False X x"
    then have "m_group m 1 = Some p" "m_group m 2 = Some [c]"
      by (simp_all add: m m_group_def m_span_def mk_match_def)
    with a show thesis using that by blast
  qed
qed

lemma scan_back_None:
  assumes nl: "CHR 0x0A \<notin> set s" and none: "Match (scan_back_rx X) s = None"
  shows "\<forall>x\<in>set s. \<not> in_class False X x"
proof (rule ccontr)
  assume "\<not> ?thesis"
  then obtain p c t where s: "s = p @ c # t" and c: "in_class False X c"
    and t: "\<forall>x\<in>set t. \<not> in_class False X x"
    using split_list_last_prop [of s "in_class False X"] by blast
  have tp: "takeWhile (\<lambda>x. x \<noteq> CHR 0x0A) s = s" using nl by (auto simp: takeWhile_eq_all_conv)
  have tt: "takeWhile (in_class True X) t = t" using t by (auto simp: takeWhile_eq_all_conv in_class_neg)
  let ?g1 = "[(1, 0, length p)]" and ?g2 = "[(2, length p, Suc (length p)), (1, 0, length p)]"
  have "(rev p, c # t, []) \<in> set (rm (RRep True 0 None RAny) ([], s, []))"
    unfolding rm_star_set [OF rm_classes(2)] tp by (auto simp: s intro!: exI [of _ "length p"])
  then have 1: "(rev p, c # t, ?g1) \<in> set (rm (RGroup 1 (RRep True 0 None RAny)) ([], s, []))"
    by (force simp del: rm.simps(7))
  have 2: "(c # rev p, t, ?g2) \<in> set (rm (RGroup 2 (RSet False X)) (rev p, c # t, ?g1))"
    using c by simp
  have "(rev t @ c # rev p, [], ?g2) \<in> set (rm (RRep True 0 None (RSet True X)) (c # rev p, t, ?g2))"
    unfolding rm_star_set [OF rm_classes(1)] tt by (auto intro!: exI [of _ "length t"])
  then have 3: "(rev t @ c # rev p, [], ?g2) \<in> set (rm (RSeq (RRep True 0 None (RSet True X)) REol) (c # rev p, t, ?g2))"
    by (force simp del: rm.simps(7))
  have "(rev t @ c # rev p, [], ?g2) \<in> set (rm (scan_back_rx X) ([], s, []))"
    unfolding scan_back_rx_def by (intro rm_seqI [OF _ rm_seqI [OF 1 rm_seqI [OF 2 3]]]) simp
  with none show False by (auto simp: Match_def split: list.splits)
qed

section \<open>Loops over tokens\<close>

text \<open>
  The contract of a cut at the first token: \<open>scan\<close> finds nothing exactly on text without tokens,
  and otherwise returns the first token and the text after it. \<open>ok\<close> is what the text has to
  satisfy (no newline, for the patterns above).
\<close>

locale token_scanner =
  fixes scan :: "string \<Rightarrow> (char \<times> string) option"
    and tok :: "char \<Rightarrow> bool"
    and ok :: "string \<Rightarrow> bool"
  assumes scan_none: "ok s \<Longrightarrow> scan s = None \<longleftrightarrow> (\<forall>x\<in>set s. \<not> tok x)"
    and scan_some: "ok s \<Longrightarrow> scan s = Some (c, t) \<Longrightarrow>
      \<exists>p. s = p @ c # t \<and> tok c \<and> (\<forall>x\<in>set p. \<not> tok x)"
    and ok_rest: "ok (p @ t) \<Longrightarrow> ok t"
begin

lemma scan_tokens_none: "ok s \<Longrightarrow> scan s = None \<longleftrightarrow> filter tok s = []"
  by (simp add: scan_none filter_empty_conv)

lemma scan_tokens_some:
  assumes "ok s" "scan s = Some (c, t)"
  shows "filter tok s = c # filter tok t" "ok t" "length t < length s"
proof -
  obtain p where p: "s = p @ c # t" "tok c" "\<forall>x\<in>set p. \<not> tok x"
    using scan_some [OF assms] by blast
  then have "filter tok p = []" by (simp add: filter_empty_conv)
  with p show "filter tok s = c # filter tok t" "length t < length s" by simp_all
  show "ok t" using assms(1) p(1) ok_rest [of "p @ [c]" t] by simp
qed

text \<open>
  A loop that takes one token per round and folds it into its state visits exactly the token
  characters, in order. \<open>run\<close> is the loop, \<open>step\<close> its body.
\<close>

lemma loop_is_fold:
  assumes "ok s"
    and none: "\<And>s st. scan s = None \<Longrightarrow> run s st = st"
    and some: "\<And>s c t st. scan s = Some (c, t) \<Longrightarrow> run s st = run t (step c st)"
  shows "run s st = fold step (filter tok s) st"
  using assms(1)
proof (induction "length s" arbitrary: s st rule: less_induct)
  case less
  show ?case
  proof (cases "scan s")
    case None
    with none scan_tokens_none [OF less.prems] show ?thesis by simp
  next
    case (Some ct)
    then obtain c t where "scan s = Some (c, t)" by (cases ct) auto
    with some scan_tokens_some [OF less.prems this] less.hyps show ?thesis by simp
  qed
qed

end

text \<open>A scanning pattern provides the contract.\<close>

definition scan_cut :: "regex \<Rightarrow> string \<Rightarrow> (char \<times> string) option" where
  "scan_cut r s = map_option (\<lambda>m. (hd (m_str m 1), m_str m 2)) (Match r s)"

definition one_line :: "string \<Rightarrow> bool" where
  "one_line s \<longleftrightarrow> CHR 0x0A \<notin> set s"

lemma one_line_append [simp]: "one_line (s @ t) \<longleftrightarrow> one_line s \<and> one_line t"
  by (auto simp: one_line_def)

lemma one_line_Cons [simp]: "one_line (c # s) \<longleftrightarrow> c \<noteq> CHR 0x0A \<and> one_line s"
  by (auto simp: one_line_def)

lemma one_line_Nil [simp]: "one_line []"
  by (simp add: one_line_def)

lemma m_str_Some: "m_group m n = Some t \<Longrightarrow> m_str m n = t"
  by (simp add: m_str_def)

interpretation scan_pattern: token_scanner "scan_cut (scan_rx X)" "in_class False X" one_line for X
proof unfold_locales
  show "one_line s \<Longrightarrow> scan_cut (scan_rx X) s = None \<longleftrightarrow> (\<forall>x\<in>set s. \<not> in_class False X x)" for s
    using scan_rx_cut(1) [of s X] by (simp add: scan_cut_def one_line_def)
next
  fix s c t
  assume "one_line s" and "scan_cut (scan_rx X) s = Some (c, t)"
  then show "\<exists>p. s = p @ c # t \<and> in_class False X c \<and> (\<forall>x\<in>set p. \<not> in_class False X x)"
    using scan_rx_cut(2) [of s X]
    by (auto simp: scan_cut_def one_line_def dest!: m_str_Some)
next
  show "one_line (p @ t) \<Longrightarrow> one_line t" for p t by simp
qed

section \<open>Steps of the matcher\<close>

lemma rm_plus_class:
  assumes "rm r = eat P"
  shows "rm (RRep True 1 None r) (b, [], g) = []"
    "rm (RRep True 1 None r) (b, x # xs, g) = (if P x then rm (RRep True 0 None r) (x # b, xs, g) else [])"
  using assms by (simp_all del: iter.simps)

lemma rm_star_first:
  assumes "rm r = eat P"
  shows "\<exists>ys. rm (RRep True 0 None r) (b, a, g) = (rev (takeWhile P a) @ b, dropWhile P a, g) # ys"
  unfolding rm_star_class [OF assms] by (simp add: takeWhile_eq_take [symmetric] dropWhile_eq_drop)

lemma rm_litE:
  assumes "st \<in> set (rm (RSeq (RLit c) r) (b, a, g))"
  obtains t where "a = c # t" "st \<in> set (rm r (c # b, t, g))"
  using assms by (cases a) (auto split: if_splits)

lemma rm_starE:
  assumes "st \<in> set (rm (RSeq (RRep True 0 None p) r) (b, a, g))" "rm p = eat P"
  obtains u t where "a = u @ t" "\<forall>c\<in>set u. P c" "st \<in> set (rm r (rev u @ b, t, g))"
proof -
  from assms(1) obtain s where s: "s \<in> set (rm (RRep True 0 None p) (b, a, g))" "st \<in> set (rm r s)" by (rule rm_seqE)
  then obtain k where k: "k \<le> length (takeWhile P a)" "s = (rev (take k a) @ b, drop k a, g)"
    using rm_star_set [OF assms(2)] by blast
  have "take k a = take k (takeWhile P a)" using k(1) by (subst takeWhile_eq_take) (simp add: min_def)
  then have "set (take k a) \<subseteq> set (takeWhile P a)" using set_take_subset [of k "takeWhile P a"] by simp
  then have "\<forall>c\<in>set (take k a). P c" by (auto dest: set_takeWhileD)
  with s(2) k(2) show thesis by (intro that [of "take k a" "drop k a"]) auto
qed

lemma rm_plusE:
  assumes "st \<in> set (rm (RSeq (RRep True 1 None p) r) (b, a, g))" "rm p = eat P"
  obtains u t where "a = u @ t" "u \<noteq> []" "\<forall>c\<in>set u. P c" "st \<in> set (rm r (rev u @ b, t, g))"
proof (cases a)
  case Nil
  with assms(1) show thesis using rm_plus_class(1) [OF assms(2)] by (simp del: rm.simps(7))
next
  case (Cons x xs)
  have "P x \<and> st \<in> set (rm (RSeq (RRep True 0 None p) r) (x # b, xs, g))"
    using assms(1) rm_plus_class(2) [OF assms(2), of b x xs g] unfolding Cons by (auto simp del: rm.simps(7) split: if_splits)
  then obtain u t where "xs = u @ t" "P x" "\<forall>c\<in>set u. P c" "st \<in> set (rm r (rev u @ x # b, t, g))"
    using rm_starE [OF _ assms(2)] by metis
  then show thesis by (intro that [of "x # u" t]) (auto simp: Cons)
qed

lemma rm_REmpty [simp]: "rm (RSeq r REmpty) = rm r"
proof -
  have "rm REmpty = (\<lambda>s. [s])" by (simp add: fun_eq_iff)
  then show ?thesis by (intro ext) simp
qed

lemma rm_seq_cong: "rm r = rm r' \<Longrightarrow> rm (RSeq q r) = rm (RSeq q r')"
  by (intro ext) simp

section \<open>Substitution\<close>

text \<open>
  Substitution of a fixed text, for a pattern whose first match at a position depends only on the
  text to come: \<open>after\<close> returns what is left after that match.
\<close>

function sub_with :: "(string \<Rightarrow> string option) \<Rightarrow> string \<Rightarrow> string \<Rightarrow> string" where
  "sub_with after w s =
     (case after s of
        Some t \<Rightarrow> if length t < length s then w @ sub_with after w t else []
      | None \<Rightarrow> (case s of [] \<Rightarrow> [] | c # cs \<Rightarrow> c # sub_with after w cs))"
  by pat_completeness auto
termination
  by (relation "measure (\<lambda>(after, w, s). length s)") auto

declare sub_with.simps [simp del]

lemma splice_keep:
  assumes "list_all (\<lambda>(i, st). length b < i) ms"
  shows "splice (length b) f (map (\<lambda>(i, st). mk_match (rev b @ c # a) i st) ms) (rev b @ c # a) =
    c # splice (Suc (length b)) f (map (\<lambda>(i, st). mk_match (rev b @ c # a) i st) ms) (rev b @ c # a)"
proof (cases ms)
  case (Cons m ms')
  obtain i b' a' g where m: "m = (i, b', a', g)" by (cases m)
  with assms Cons obtain k where "i - length b = Suc k" by (cases "i - length b") auto
  moreover from this have "i - Suc (length b) = k" by simp
  ultimately show ?thesis by (simp add: Cons m m_span_def mk_match_def)
qed simp

lemma scan_all_starts: "list_all (\<lambda>(i, st). length b \<le> i) (scan_all r b a)"
proof (induction "length a" arbitrary: a b rule: less_induct)
  case less
  show ?case
  proof (cases "search_from r b a")
    case None
    then show ?thesis by (simp add: scan_all.simps [of r b a])
  next
    case (Some m)
    obtain i b' a' g where m: "m = (i, b', a', g)" by (cases m)
    note s = search_from_rest [OF Some [unfolded m]] and d = scan_decrease [OF Some [unfolded m]]
    have "list_all (\<lambda>(j, st). length b \<le> j) (scan_all r b' a')" if "i < length b'"
      using less.hyps [OF d(1) [OF that], of b'] s by (auto simp: list_all_iff)
    moreover have "list_all (\<lambda>(j, st). length b \<le> j) (scan_all r (x # b') xs)" if "a' = x # xs" for x xs
      using less.hyps [OF d(2) [OF that], of "x # b'"] s by (auto simp: list_all_iff)
    ultimately show ?thesis using s by (auto simp: scan_all.simps [of r b a] Some m split: list.split)
  qed
qed

lemma scan_all_skip: "rm r (b, c # a, []) = [] \<Longrightarrow> scan_all r b (c # a) = scan_all r (c # b) a"
  by (simp add: scan_all.simps [of r b "c # a"] scan_all.simps [of r "c # b" a])

lemma scan_all_none: "rm r (b, [], []) = [] \<Longrightarrow> scan_all r b [] = []"
  by (simp add: scan_all.simps [of r b "[]"])

lemma scan_all_match:
  assumes "rm r (b, u @ t, []) = (rev u @ b, t, g) # ys" "u \<noteq> []"
  shows "scan_all r b (u @ t) = (length b, rev u @ b, t, g) # scan_all r (rev u @ b) t"
proof -
  obtain c v where u: "u = c # v" using assms(2) by (cases u) auto
  then have "search_from r b (u @ t) = Some (length b, rev u @ b, t, g)" using assms(1) by simp
  then show ?thesis using assms(2) by (simp add: scan_all.simps [of r b "u @ t"])
qed

locale substitution =
  fixes r :: regex and after :: "string \<Rightarrow> string option"
  assumes after_none: "after a = None \<Longrightarrow> rm r (b, a, []) = []"
    and after_some: "after a = Some t \<Longrightarrow> \<exists>u g ys. a = u @ t \<and> u \<noteq> [] \<and> rm r (b, a, []) = (rev u @ b, t, g) # ys"
begin

lemma splice_after:
  "splice (length b) (\<lambda>m. w) (map (\<lambda>(i, st). mk_match (rev b @ a) i st) (scan_all r b a)) (rev b @ a) = sub_with after w a"
proof (induction "length a" arbitrary: a b rule: less_induct)
  case less
  show ?case
  proof (cases "after a")
    case (Some t)
    from after_some [OF Some, of b] obtain u g ys where
      a: "a = u @ t" and u: "u \<noteq> []" and m: "rm r (b, u @ t, []) = (rev u @ b, t, g) # ys" by auto
    have "sub_with after w a = w @ sub_with after w t"
      unfolding sub_with.simps [of after w a] Some using u by (simp add: a)
    with less.hyps [of t "rev u @ b"] u show ?thesis
      by (simp add: a scan_all_match [OF m u] m_span_def mk_match_def)
  next
    case None
    note m = after_none [OF None, of b]
    show ?thesis
    proof (cases a)
      case Nil
      with m None show ?thesis by (simp add: scan_all_none sub_with.simps [of after w "[]"])
    next
      case (Cons c cs)
      have "list_all (\<lambda>(i, st). length b < i) (scan_all r (c # b) cs)"
        using scan_all_starts [of "c # b" r cs] by (simp add: Suc_le_eq)
      from splice_keep [OF this] less.hyps [of cs "c # b"] m None show ?thesis
        by (simp add: Cons scan_all_skip sub_with.simps [of after w "c # cs"])
    qed
  qed
qed

lemma sub_after: "re_sub r (\<lambda>m. w) s = sub_with after w s"
  using splice_after [of "[]" w s] by (simp add: re_sub_def finditer_def)

end

text \<open>Removing matches: \<open>P\<close> is what is known of a match's text.\<close>

inductive removed :: "(string \<Rightarrow> bool) \<Rightarrow> string \<Rightarrow> string \<Rightarrow> bool" for P where
  keep: "removed P s s"
| remove: "P u \<Longrightarrow> removed P t t' \<Longrightarrow> removed P (p @ u @ t) (p @ t')"

lemma splice_removed:
  assumes "\<And>b a b' a' g. (b', a', g) \<in> set (rm r (b, a, [])) \<Longrightarrow> \<exists>u. a = u @ a' \<and> u \<noteq> [] \<and> P u"
  shows "removed P a (splice (length b) (\<lambda>m. []) (map (\<lambda>(i, st). mk_match (rev b @ a) i st) (scan_all r b a)) (rev b @ a))"
proof (induction "length a" arbitrary: a b rule: less_induct)
  case less
  show ?case
  proof (cases "search_from r b a")
    case None
    then show ?thesis by (simp add: scan_all.simps [of r b a] removed.keep)
  next
    case (Some m)
    obtain i b' a' g where m: "m = (i, b', a', g)" by (cases m)
    from search_from_Some [OF Some [unfolded m]] obtain k ys where k: "k \<le> length a" "i = length b + k"
      "rm r (rev (take k a) @ b, drop k a, []) = (b', a', g) # ys" by auto
    then have mem: "(b', a', g) \<in> set (rm r (rev (take k a) @ b, drop k a, []))" by simp
    from assms [OF mem] obtain u where u: "drop k a = u @ a'" "u \<noteq> []" "P u" by blast
    have a: "a = take k a @ u @ a'" using u(1) by (simp flip: u(1))
    have "extends (rev (take k a) @ b, drop k a, []) (b', a', g)" by (rule rm_extends [OF mem])
    then have b': "b' = rev u @ rev (take k a) @ b" using u(1) by (auto simp: extends_def)
    have sub: "rev b @ a = rev b' @ a'" using b' a by simp
    have "i < length b'" using k u(2) b' by simp
    then have sc: "scan_all r b a = (i, b', a', g) # scan_all r b' a'" by (simp add: scan_all.simps [of r b a] Some m)
    have "length a' < length a" using arg_cong [OF u(1), of length] u(2) by (cases u) auto
    from less.hyps [OF this, of b'] have ih: "removed P a' (splice (length b') (\<lambda>m. []) (map (\<lambda>(i, st). mk_match (rev b' @ a') i st) (scan_all r b' a')) (rev b' @ a'))" .
    have "removed P (take k a @ u @ a') (take k a @ splice (length b') (\<lambda>m. []) (map (\<lambda>(i, st). mk_match (rev b' @ a') i st) (scan_all r b' a')) (rev b' @ a'))"
      by (rule removed.remove [OF u(3) ih])
    moreover have "splice (length b) (\<lambda>m. []) (map (\<lambda>(i, st). mk_match (rev b @ a) i st) (scan_all r b a)) (rev b @ a)
        = take k a @ splice (length b') (\<lambda>m. []) (map (\<lambda>(i, st). mk_match (rev b' @ a') i st) (scan_all r b' a')) (rev b' @ a')"
      unfolding sc by (simp add: m_span_def mk_match_def k(2) flip: sub)
    ultimately show ?thesis using a by simp
  qed
qed

lemma re_sub_removed:
  assumes "\<And>b a b' a' g. (b', a', g) \<in> set (rm r (b, a, [])) \<Longrightarrow> \<exists>u. a = u @ a' \<and> u \<noteq> [] \<and> P u"
  shows "removed P s (re_sub r (\<lambda>m. []) s)"
  using splice_removed [where r = r and P = P and a = s and b = "[]", OF assms] by (simp add: re_sub_def finditer_def)

end
