(* ===== verification/Lint_State.thy ===== *)
theory Lint_State
  imports Tables Patterns Scanning
begin

text \<open>
  The module-wide state of the linter and the path of an error report through it: the class
  \<open>_CppLintState\<close>, the suppressions collected from \<open>NOLINT\<close> comments, the filters, and the
  function \<open>Error\<close> that decides whether a report is counted and printed.

  The lemmas state what decides about a report (the last filter that applies to its category, the
  verbosity, the suppressions of its line), that the counters agree with what was printed, that
  \<open>SetFilters\<close> accepts exactly the well-formed filter lists, and which lines a comment
  suppresses. The locale \<open>error_handler\<close> is the contract that the checks rely on when they report.
\<close>

section \<open>State\<close>

record cpplint_state =
  verbose_level :: int
  error_count :: nat
  filters :: "string list"
  counting :: string
  errors_by_category :: "(string \<times> nat) list"
  quiet :: bool
  output_format :: string

definition init_cpplint_state :: cpplint_state where
  "init_cpplint_state = \<lparr>verbose_level = 1, error_count = 0, filters = DEFAULT_FILTERS,
     counting = ''total'', errors_by_category = [], quiet = False, output_format = ''emacs''\<rparr>"

text \<open>\<open>_error_suppressions\<close>: from a category, or \<open>None\<close> for all categories, to line numbers.\<close>

type_synonym suppressions = "string option \<rightharpoonup> int set"

text \<open>
  The globals of the module with what has been written to standard error; \<open>color\<close> is whether
  standard error is a terminal on a POSIX system.
\<close>

record world =
  lint :: cpplint_state
  error_suppressions :: suppressions
  stderr :: "string list"
  color :: bool

text \<open>One call of the error handler: line, category, confidence, message.\<close>

record report =
  r_line :: int
  r_category :: string
  r_confidence :: int
  r_message :: string

definition mk_report :: "int \<Rightarrow> string \<Rightarrow> int \<Rightarrow> string \<Rightarrow> report" where
  "mk_report l c n m = \<lparr>r_line = l, r_category = c, r_confidence = n, r_message = m\<rparr>"

section \<open>Settings\<close>

definition SetOutputFormat :: "string \<Rightarrow> cpplint_state \<Rightarrow> cpplint_state" where
  "SetOutputFormat f st = st\<lparr>output_format := f\<rparr>"

definition SetVerboseLevel :: "int \<Rightarrow> cpplint_state \<Rightarrow> int \<times> cpplint_state" where
  "SetVerboseLevel level st = (verbose_level st, st\<lparr>verbose_level := level\<rparr>)"

definition SetCountingStyle :: "string \<Rightarrow> cpplint_state \<Rightarrow> cpplint_state" where
  "SetCountingStyle s st = st\<lparr>counting := s\<rparr>"

definition SetQuiet :: "bool \<Rightarrow> cpplint_state \<Rightarrow> cpplint_state" where
  "SetQuiet q st = st\<lparr>quiet := q\<rparr>"

definition wf_filter :: "string \<Rightarrow> bool" where
  "wf_filter f \<longleftrightarrow> py_startswith f ''+'' \<or> py_startswith f ''-''"

text \<open>
  On a filter without a sign the source has already replaced the filters when it raises; nothing
  catches the exception, so that the state it leaves is never seen and the model yields none.
\<close>

definition SetFilters :: "string \<Rightarrow> cpplint_state \<Rightarrow> cpplint_state py" where
  "SetFilters s st =
     (let fs = DEFAULT_FILTERS @ filter (\<lambda>f. f \<noteq> []) (map py_strip (py_split s '',''))
      in if list_all wf_filter fs then Inr (st\<lparr>filters := fs\<rparr>) else Inl ValueError)"

definition ResetErrorCounts :: "cpplint_state \<Rightarrow> cpplint_state" where
  "ResetErrorCounts st = st\<lparr>error_count := 0, errors_by_category := []\<rparr>"

fun bump :: "string \<Rightarrow> (string \<times> nat) list \<Rightarrow> (string \<times> nat) list" where
  "bump k [] = [(k, 1)]"
| "bump k ((k', n) # xs) = (if k = k' then (k', Suc n) # xs else (k', n) # bump k xs)"

definition IncrementErrorCount :: "string \<Rightarrow> cpplint_state \<Rightarrow> cpplint_state" where
  "IncrementErrorCount category st =
     (let st1 = st\<lparr>error_count := Suc (error_count st)\<rparr>
      in if counting st = ''toplevel'' \<or> counting st = ''detailed''
         then st1\<lparr>errors_by_category :=
           bump (if counting st \<noteq> ''detailed'' then hd (py_split category ''/'') else category)
             (errors_by_category st)\<rparr>
         else st1)"

definition PrintErrorCounts :: "cpplint_state \<Rightarrow> string list" where
  "PrintErrorCounts st =
     map (\<lambda>(c, n). ''Category '' @ [CHR 0x27] @ c @ [CHR 0x27] @ '' errors found: '' @ show_nat n @ [CHR 0x0A])
       (errors_by_category st)
     @ (if quiet st then [] else [''Total errors found: '' @ show_nat (error_count st) @ [CHR 0x0A]])"

section \<open>Suppressions\<close>

definition ResetNolintSuppressions :: "world \<Rightarrow> world" where
  "ResetNolintSuppressions w = w\<lparr>error_suppressions := Map.empty\<rparr>"

definition suppressed_lines :: "suppressions \<Rightarrow> string option \<Rightarrow> int set" where
  "suppressed_lines m k = (case m k of None \<Rightarrow> {} | Some s \<Rightarrow> s)"

text \<open>\<open>_error_suppressions.setdefault(k, set()).add(n)\<close>.\<close>

definition add_suppression :: "string option \<Rightarrow> int \<Rightarrow> world \<Rightarrow> world" where
  "add_suppression k n w =
     w\<lparr>error_suppressions := (error_suppressions w)(k \<mapsto> insert n (suppressed_lines (error_suppressions w) k))\<rparr>"

definition IsErrorSuppressedByNolint :: "string \<Rightarrow> int \<Rightarrow> world \<Rightarrow> bool" where
  "IsErrorSuppressedByNolint category linenum w \<longleftrightarrow>
     linenum \<in> suppressed_lines (error_suppressions w) (Some category)
     \<or> linenum \<in> suppressed_lines (error_suppressions w) None"

section \<open>Reporting\<close>

text \<open>The loop over the filters in \<open>_ShouldPrintError\<close>; a filter without a sign fails an assertion.\<close>

fun apply_filters :: "string \<Rightarrow> string list \<Rightarrow> bool \<Rightarrow> bool py" where
  "apply_filters category [] is_filtered = Inr is_filtered"
| "apply_filters category (f # fs) is_filtered =
     (if py_startswith f ''-'' then
        apply_filters category fs (if py_startswith category (tl f) then True else is_filtered)
      else if py_startswith f ''+'' then
        apply_filters category fs (if py_startswith category (tl f) then False else is_filtered)
      else Inl AssertionError)"

definition ShouldPrintError :: "string \<Rightarrow> int \<Rightarrow> int \<Rightarrow> world \<Rightarrow> bool py" where
  "ShouldPrintError category confidence linenum w =
     (if IsErrorSuppressedByNolint category linenum w then Inr False
      else if confidence < verbose_level (lint w) then Inr False
      else py_bind (apply_filters category (filters (lint w)) False) (\<lambda>is_filtered. Inr (\<not> is_filtered)))"

definition format_error :: "world \<Rightarrow> string \<Rightarrow> report \<Rightarrow> string" where
  "format_error w filename r =
     (let tail = r_message r @ ''  ['' @ r_category r @ ''] ['' @ show_int (r_confidence r) @ '']'';
          line = show_int (r_line r)
      in if output_format (lint w) = ''vs7'' then
           filename @ ''('' @ line @ ''):  '' @ tail @ [CHR 0x0A]
         else if color w then
           [CHR 0x1B] @ ''[1;31m'' @ filename @ '':'' @ line @ '':  '' @ tail @ [CHR 0x1B] @ ''[m'' @ [CHR 0x0A]
         else filename @ '':'' @ line @ '':  '' @ tail @ [CHR 0x0A])"

definition Error :: "string \<Rightarrow> report \<Rightarrow> world \<Rightarrow> world py" where
  "Error filename r w =
     py_bind (ShouldPrintError (r_category r) (r_confidence r) (r_line r) w)
       (\<lambda>should. Inr (if should
          then w\<lparr>lint := IncrementErrorCount (r_category r) (lint w), stderr := stderr w @ [format_error w filename r]\<rparr>
          else w))"

text \<open>The reports of a check, in the order in which it calls the handler.\<close>

definition emit_all :: "string \<Rightarrow> report list \<Rightarrow> world \<Rightarrow> world py" where
  "emit_all filename = py_fold (Error filename)"

section \<open>Parsing NOLINT comments\<close>

definition ParseNolintSuppressions :: "string \<Rightarrow> string \<Rightarrow> int \<Rightarrow> world \<Rightarrow> world py" where
  "ParseNolintSuppressions filename raw_line linenum w =
     (case Search RE_SUPPRESSION raw_line of
        None \<Rightarrow> Inr w
      | Some matched \<Rightarrow>
          (let linenum = (if py_startswith (py_strip raw_line) ''// NOLINT'' then linenum + 1 else linenum)
           in case m_group matched 1 of
                None \<Rightarrow> Inr (add_suppression None linenum w)
              | Some category \<Rightarrow>
                  if category = ''(*)'' then Inr (add_suppression None linenum w)
                  else if py_startswith category ''('' \<and> py_endswith category '')'' then
                    (let category = slice_to (slice_from category 1) (-1)
                     in if category \<in> set ERROR_CATEGORIES
                        then Inr (add_suppression (Some category) linenum w)
                        else Error filename (mk_report linenum ''readability/nolint'' 5
                               (''Unknown NOLINT error category: '' @ category)) w)
                  else Inr w))"

text \<open>
  \<open>ParseGlobalNolintSuppressions\<close>: the loop over the lines. A comment that asks to suppress
  everything ends it, an unknown category ends it with a report, a known one adds a filter.
\<close>

fun global_nolint_from :: "string \<Rightarrow> int \<Rightarrow> string list \<Rightarrow> world \<Rightarrow> world py" where
  "global_nolint_from filename n [] w = Inr w"
| "global_nolint_from filename n (l # ls) w =
     (if searches RE_GLOBAL_COMMENT l then
        (case Search RE_SUPPRESSION_GLOBAL l of
           None \<Rightarrow> global_nolint_from filename (n + 1) ls w
         | Some m \<Rightarrow>
             (case m_group m 1 of
                None \<Rightarrow> Inr w
              | Some category \<Rightarrow>
                  if category = ''(*)'' then Inr w
                  else if py_startswith category ''('' \<and> py_endswith category '')'' then
                    (let category = slice_to (slice_from category 1) (-1)
                     in if category \<in> set ERROR_CATEGORIES
                        then global_nolint_from filename (n + 1) ls
                               (w\<lparr>lint := (lint w)\<lparr>filters := filters (lint w) @ [''-'' @ category]\<rparr>\<rparr>)
                        else Error filename (mk_report n ''readability/nolint'' 5
                               (''Unknown GLOBAL_NOLINT category/type: '' @ category)) w)
                  else global_nolint_from filename (n + 1) ls w))
      else global_nolint_from filename (n + 1) ls w)"

definition ParseGlobalNolintSuppressions :: "string \<Rightarrow> string list \<Rightarrow> world \<Rightarrow> world py" where
  "ParseGlobalNolintSuppressions filename lines w = global_nolint_from filename 0 lines w"

section \<open>Filters\<close>

text \<open>Whether a filter speaks about a category: the category starts with the filter's text.\<close>

definition applies :: "string \<Rightarrow> string \<Rightarrow> bool" where
  "applies category f \<longleftrightarrow> py_startswith category (tl f)"

definition wf_filters :: "world \<Rightarrow> bool" where
  "wf_filters w \<longleftrightarrow> list_all wf_filter (filters (lint w))"

text \<open>The reference: the last filter that applies decides; without one nothing is filtered out.\<close>

definition passes :: "string list \<Rightarrow> string \<Rightarrow> bool" where
  "passes fs category =
     (let as = filter (applies category) fs in as = [] \<or> hd (last as) = CHR ''+'')"

definition should_print :: "world \<Rightarrow> report \<Rightarrow> bool" where
  "should_print w r \<longleftrightarrow> \<not> IsErrorSuppressedByNolint (r_category r) (r_line r) w
     \<and> verbose_level (lint w) \<le> r_confidence r \<and> passes (filters (lint w)) (r_category r)"

lemma apply_filters_eq:
  "list_all wf_filter fs \<Longrightarrow> apply_filters c fs b =
     Inr (if filter (applies c) fs = [] then b else hd (last (filter (applies c) fs)) = CHR ''-'')"
proof (induction fs arbitrary: b)
  case (Cons f fs)
  then have "f \<noteq> []" "hd f = CHR ''+'' \<or> hd f = CHR ''-''"
    by (auto simp: wf_filter_def startswith_single)
  with Cons show ?case by (auto simp: startswith_single simp flip: applies_def)
qed simp

lemma ShouldPrintError_eq:
  assumes "wf_filters w"
  shows "ShouldPrintError (r_category r) (r_confidence r) (r_line r) w = Inr (should_print w r)"
proof -
  let ?as = "filter (applies (r_category r)) (filters (lint w))"
  have "hd (last ?as) = CHR ''+'' \<longleftrightarrow> hd (last ?as) \<noteq> CHR ''-''" if "?as \<noteq> []"
  proof -
    have "last ?as \<in> set (filters (lint w))" using last_in_set [OF that] by auto
    then have "wf_filter (last ?as)" using assms by (simp add: wf_filters_def list_all_iff)
    then show ?thesis by (auto simp: wf_filter_def startswith_single)
  qed
  with assms show ?thesis
    by (auto simp: ShouldPrintError_def should_print_def passes_def wf_filters_def apply_filters_eq Let_def)
qed

section \<open>Counters and output\<close>

text \<open>The counters per category add up to the total whenever they are kept.\<close>

definition counts_ok :: "cpplint_state \<Rightarrow> bool" where
  "counts_ok st \<longleftrightarrow> (counting st = ''toplevel'' \<or> counting st = ''detailed'' \<longrightarrow>
     sum_list (map snd (errors_by_category st)) = error_count st)
     \<and> distinct (map fst (errors_by_category st))"

lemma bump_sum [simp]: "sum_list (map snd (bump k xs)) = Suc (sum_list (map snd xs))"
  by (induction k xs rule: bump.induct) auto

lemma bump_keys [simp]: "set (map fst (bump k xs)) = insert k (set (map fst xs))"
  by (induction k xs rule: bump.induct) auto

lemma bump_distinct [simp]: "distinct (map fst xs) \<Longrightarrow> distinct (map fst (bump k xs))"
proof (induction k xs rule: bump.induct)
  case (2 k k' n xs)
  then show ?case using bump_keys [of k xs] by auto
qed simp

lemma IncrementErrorCount_ok: "counts_ok st \<Longrightarrow> counts_ok (IncrementErrorCount c st)"
  by (auto simp: counts_ok_def IncrementErrorCount_def Let_def)

lemma IncrementErrorCount_frame [simp]:
  "error_count (IncrementErrorCount c st) = Suc (error_count st)"
  "filters (IncrementErrorCount c st) = filters st"
  "verbose_level (IncrementErrorCount c st) = verbose_level st"
  "output_format (IncrementErrorCount c st) = output_format st"
  "counting (IncrementErrorCount c st) = counting st"
  "quiet (IncrementErrorCount c st) = quiet st"
  by (simp_all add: IncrementErrorCount_def Let_def)

text \<open>What a report may change: the counters and the output, nothing that decides about reports.\<close>

definition same_settings :: "world \<Rightarrow> world \<Rightarrow> bool" where
  "same_settings w w' \<longleftrightarrow> filters (lint w') = filters (lint w)
     \<and> verbose_level (lint w') = verbose_level (lint w)
     \<and> output_format (lint w') = output_format (lint w)
     \<and> counting (lint w') = counting (lint w) \<and> quiet (lint w') = quiet (lint w)
     \<and> error_suppressions w' = error_suppressions w \<and> color w' = color w"

lemma same_settings_refl [simp]: "same_settings w w"
  by (simp add: same_settings_def)

lemma same_settings_trans: "same_settings u v \<Longrightarrow> same_settings v w \<Longrightarrow> same_settings u w"
  by (simp add: same_settings_def)

lemma same_settings_cong:
  assumes "same_settings w w'"
  shows "should_print w' r = should_print w r" "format_error w' fn r = format_error w fn r"
    "wf_filters w' = wf_filters w"
  using assms
  by (simp_all add: same_settings_def should_print_def format_error_def wf_filters_def
      IsErrorSuppressedByNolint_def Let_def)

lemma Error_eq:
  "wf_filters w \<Longrightarrow> Error fn r w = Inr (if should_print w r
     then w\<lparr>lint := IncrementErrorCount (r_category r) (lint w), stderr := stderr w @ [format_error w fn r]\<rparr>
     else w)"
  by (simp add: Error_def ShouldPrintError_eq)

lemma Error_same_settings: "wf_filters w \<Longrightarrow> Error fn r w = Inr w' \<Longrightarrow> same_settings w w'"
  by (auto simp: Error_eq same_settings_def split: if_splits)

text \<open>
  The contract of an error handler, over the state it updates: under its invariant a report never
  raises, keeps the invariant and the counters, and adds at most one to the count.
\<close>

locale error_handler =
  fixes handle :: "'r \<Rightarrow> 's \<Rightarrow> 's py"
    and inv :: "'s \<Rightarrow> bool"
    and count :: "'s \<Rightarrow> nat"
  assumes handle_inv: "inv s \<Longrightarrow> \<exists>s'. handle r s = Inr s' \<and> inv s'"
    and handle_count: "inv s \<Longrightarrow> handle r s = Inr s' \<Longrightarrow> count s \<le> count s' \<and> count s' \<le> Suc (count s)"
begin

lemma all_return: "inv s \<Longrightarrow> \<exists>s'. py_fold handle rs s = Inr s' \<and> inv s'"
  by (rule py_fold_returns) (auto dest: handle_inv)

lemma all_count:
  "inv s \<Longrightarrow> py_fold handle rs s = Inr s' \<Longrightarrow> count s \<le> count s' \<and> count s' \<le> count s + length rs"
proof (induction rs arbitrary: s)
  case (Cons r rs)
  then obtain t where t: "handle r s = Inr t" "py_fold handle rs t = Inr s'"
    by (auto simp: py_bind_eq_Inr)
  from handle_inv [OF Cons.prems(1), of r] t(1) have "inv t" by auto
  from handle_count [OF Cons.prems(1) t(1)] Cons.IH [OF this t(2)] show ?case by simp
qed simp

end

interpretation Error_handler: error_handler "Error fn" "\<lambda>w. wf_filters w \<and> counts_ok (lint w)" "\<lambda>w. error_count (lint w)"
  for fn
proof unfold_locales
  fix w r
  assume w: "wf_filters w \<and> counts_ok (lint w)"
  then obtain w' where w': "Error fn r w = Inr w'" by (simp add: Error_eq)
  with w have "wf_filters w'" using Error_same_settings same_settings_cong(3) by blast
  moreover have "counts_ok (lint w')"
    using w w' by (auto simp: Error_eq IncrementErrorCount_ok split: if_splits)
  ultimately show "\<exists>w'. Error fn r w = Inr w' \<and> wf_filters w' \<and> counts_ok (lint w')"
    using w' by blast
next
  fix w r w'
  assume "wf_filters w \<and> counts_ok (lint w)" "Error fn r w = Inr w'"
  then show "error_count (lint w) \<le> error_count (lint w') \<and> error_count (lint w') \<le> Suc (error_count (lint w))"
    by (auto simp: Error_eq split: if_splits)
qed

lemma emit_all_exact:
  assumes "wf_filters w"
  shows "\<exists>w'. emit_all fn rs w = Inr w' \<and> same_settings w w'
    \<and> stderr w' = stderr w @ map (format_error w fn) (filter (should_print w) rs)
    \<and> error_count (lint w') = error_count (lint w) + length (filter (should_print w) rs)"
  using assms
proof (induction rs arbitrary: w)
  case (Cons r rs)
  obtain v where v: "Error fn r w = Inr v" using Cons.prems by (simp add: Error_eq)
  then have s: "same_settings w v" using Cons.prems Error_same_settings by blast
  with Cons obtain w' where w': "emit_all fn rs v = Inr w'" "same_settings v w'"
    "stderr w' = stderr v @ map (format_error v fn) (filter (should_print v) rs)"
    "error_count (lint w') = error_count (lint v) + length (filter (should_print v) rs)"
    by (metis same_settings_cong(3))
  have e: "format_error v fn = format_error w fn" "should_print v = should_print w"
    using same_settings_cong [OF s] by (simp_all add: fun_eq_iff)
  have "emit_all fn (r # rs) w = Inr w'" using v w' by (simp add: emit_all_def)
  moreover have "stderr v = stderr w @ (if should_print w r then [format_error w fn r] else [])"
    "error_count (lint v) = error_count (lint w) + (if should_print w r then 1 else 0)"
    using v Cons.prems by (auto simp: Error_eq split: if_splits)
  ultimately show ?case using w' s e by (auto intro: same_settings_trans)
qed (simp add: emit_all_def)

section \<open>Suppression comments\<close>

lemma rm_suppression_none: "\<not> py_startswith a ''NOLINT'' \<Longrightarrow> rm RE_SUPPRESSION (b, a, g) = []"
  by (auto simp: RE_SUPPRESSION_tree eat_def py_startswith_def simp del: rm.simps(7,8) split: list.splits)

lemma rm_parenthesised:
  assumes "CHR '')'' \<notin> set cat"
  shows "\<exists>ys. rm (RSeq (RLit CHR ''('') (RSeq (RRep True 0 None (RSet True [CChar CHR '')''])) (RLit CHR '')'')))
    (b, CHR ''('' # cat @ CHR '')'' # post, g) = (CHR '')'' # rev cat @ CHR ''('' # b, post, g) # ys"
proof -
  have "\<forall>x\<in>set cat. in_class True [CChar (CHR '')'')] x" using assms by (auto simp: in_class_def)
  then have tw: "takeWhile (in_class True [CChar (CHR '')'')]) (cat @ CHR '')'' # post) = cat"
    by (simp add: takeWhile_append2 in_class_def)
  have star: "rm (RRep True 0 None (RSet True [CChar CHR '')''])) (CHR ''('' # b, cat @ CHR '')'' # post, g)
      = (rev cat @ CHR ''('' # b, CHR '')'' # post, g) #
        map (\<lambda>k. (rev (take k (cat @ CHR '')'' # post)) @ CHR ''('' # b, drop k (cat @ CHR '')'' # post), g)) (rev [0..<length cat])"
    unfolding rm_star_class [OF rm_classes(1)] tw by simp
  show ?thesis by (simp add: star del: rm.simps(7))
qed

lemma rm_suppression_category:
  assumes "\<not> word_next b" "CHR '')'' \<notin> set cat"
  shows "\<exists>ys. rm RE_SUPPRESSION (b, ''NOLINT('' @ cat @ '')'' @ post, []) =
    (CHR '')'' # rev cat @ rev ''NOLINT('' @ b, post, [(1, length b + 6, length b + 8 + length cat)]) # ys"
proof -
  obtain ys where "rm (RSeq (RLit CHR ''('') (RSeq (RRep True 0 None (RSet True [CChar CHR '')''])) (RLit CHR '')'')))
    (rev ''NOLINT'' @ b, CHR ''('' # cat @ CHR '')'' # post, []) = (CHR '')'' # rev cat @ CHR ''('' # rev ''NOLINT'' @ b, post, []) # ys"
    using rm_parenthesised [OF assms(2)] by blast
  then have "\<exists>ys. rm (RRep True 0 (Some 1) (RGroup 1 (RSeq (RLit CHR ''('') (RSeq (RRep True 0 None (RSet True [CChar CHR '')''])) (RLit CHR '')'')))))
    (rev ''NOLINT'' @ b, CHR ''('' # cat @ CHR '')'' # post, []) =
    (CHR '')'' # rev cat @ CHR ''('' # rev ''NOLINT'' @ b, post, [(1, length b + 6, length b + 8 + length cat)]) # ys"
    by (simp add: Let_def del: rm.simps(5))
  then show ?thesis using assms(1)
    by (simp add: RE_SUPPRESSION_tree word_next_def re_word_def ascii_alpha_def
        ascii_digit_def in_range_def del: rm.simps(7))
qed

lemma Search_suppression_category:
  assumes line: "line = pre @ ''NOLINT('' @ cat @ '')'' @ post"
    and first: "py_find line ''NOLINT'' = int (length pre)"
    and pre: "pre = [] \<or> \<not> re_word (last pre)" and cat: "CHR '')'' \<notin> set cat"
  obtains m where "Search RE_SUPPRESSION line = Some m" "m_group m 1 = Some (''('' @ cat @ '')'')"
proof -
  have b: "\<not> word_next (rev pre)" using pre by (cases pre rule: rev_cases) (auto simp: word_next_def)
  have "\<forall>j<length pre. match_at RE_SUPPRESSION line j = []"
    using py_find_first(3) [OF first] by (simp add: match_at_def rm_suppression_none)
  moreover obtain ys where "match_at RE_SUPPRESSION line (length pre) =
      (CHR '')'' # rev cat @ rev ''NOLINT('' @ rev pre, post, [(1, length (rev pre) + 6, length (rev pre) + 8 + length cat)]) # ys"
    using rm_suppression_category [OF b cat, of post] by (auto simp: match_at_def line)
  ultimately have "Search RE_SUPPRESSION line = Some (mk_match line (length pre)
      (CHR '')'' # rev cat @ rev ''NOLINT('' @ rev pre, post, [(1, length pre + 6, length pre + 8 + length cat)]))"
    by (intro Search_eqI) (auto simp: line)
  then show thesis by (rule that) (simp add: m_group_def m_span_def mk_match_def line)
qed

lemma add_suppression_frame [simp]:
  "lint (add_suppression k n w) = lint w" "stderr (add_suppression k n w) = stderr w"
  by (simp_all add: add_suppression_def)

lemma suppressed_add [simp]:
  "IsErrorSuppressedByNolint c l (add_suppression k n w) \<longleftrightarrow>
     IsErrorSuppressedByNolint c l w \<or> (l = n \<and> (k = None \<or> k = Some c))"
  by (cases k) (auto simp: IsErrorSuppressedByNolint_def add_suppression_def suppressed_lines_def split: option.splits)

section \<open>Properties\<close>

text \<open>
  C1: A report is printed exactly when its line is not suppressed for its category, its confidence
  reaches the verbosity, and the last filter whose text is a prefix of the category is a
  \<open>+\<close> filter or there is no such filter.
\<close>

theorem ShouldPrintError_last_filter:
  assumes "list_all wf_filter (filters (lint w))"
  shows "ShouldPrintError category confidence linenum w =
    Inr (\<not> IsErrorSuppressedByNolint category linenum w \<and> verbose_level (lint w) \<le> confidence
      \<and> (let as = filter (applies category) (filters (lint w)) in as = [] \<or> hd (last as) = CHR ''+''))"
proof -
  have "wf_filters w" using assms by (simp add: wf_filters_def)
  from ShouldPrintError_eq [OF this, of "mk_report linenum category confidence []"] show ?thesis
    by (simp add: should_print_def passes_def mk_report_def)
qed

definition sample_world :: world where
  "sample_world = \<lparr>lint = init_cpplint_state\<lparr>filters := [''-build'', ''+build/include'']\<rparr>,
     error_suppressions = [Some ''build/include'' \<mapsto> {7}], stderr = [], color = False\<rparr>"

lemma ShouldPrintError_last_filter_witness:
  "ShouldPrintError ''build/include_order'' 4 7 sample_world = Inr True
   \<and> ShouldPrintError ''build/class'' 5 7 sample_world = Inr False
   \<and> ShouldPrintError ''build/include'' 5 7 sample_world = Inr False"
proof -
  have wf: "list_all wf_filter (filters (lint sample_world))" by code_simp
  show ?thesis
    unfolding ShouldPrintError_last_filter [OF wf]
    by (simp add: sample_world_def init_cpplint_state_def applies_def py_startswith_def
        IsErrorSuppressedByNolint_def suppressed_lines_def)
qed

text \<open>
  C24: \<open>SetFilters\<close> raises exactly when, at the start of its argument or after a comma, the first
  character that is not white space is neither a sign nor another comma.
\<close>

theorem SetFilters_raises_iff:
  "SetFilters s st = Inl ValueError \<longleftrightarrow>
     (\<exists>pre ws c post. s = pre @ ws @ c # post \<and> (pre = [] \<or> last pre = CHR '','')
        \<and> list_all py_space ws \<and> \<not> py_space c \<and> c \<notin> {CHR '','', CHR ''+'', CHR ''-''})"
proof -
  have d: "list_all wf_filter DEFAULT_FILTERS" by code_simp
  let ?P = "\<lambda>c. c \<notin> {CHR '','', CHR ''+'', CHR ''-''}"
  have comma: "\<not> (\<exists>z. py_strip f = CHR '','' # z)" if "f \<in> set (py_split s '','')" for f
  proof -
    have "CHR '','' \<notin> set f" using that by (rule split_no_sep)
    then show ?thesis unfolding strip_first_iff by auto
  qed
  have "py_strip f \<noteq> [] \<and> \<not> wf_filter (py_strip f) \<longleftrightarrow> (\<exists>c z. py_strip f = c # z \<and> ?P c)" if "f \<in> set (py_split s '','')" for f
    using comma [OF that] by (cases "py_strip f") (auto simp: wf_filter_def)
  moreover have "SetFilters s st = Inl ValueError \<longleftrightarrow> (\<exists>f\<in>set (py_split s '',''). py_strip f \<noteq> [] \<and> \<not> wf_filter (py_strip f))"
    using d by (auto simp: SetFilters_def Let_def list_all_iff)
  ultimately have "SetFilters s st = Inl ValueError \<longleftrightarrow> (\<exists>f\<in>set (py_split s '',''). \<exists>c z. py_strip f = c # z \<and> ?P c)"
    by (simp cong: bex_cong)
  also have "\<dots> \<longleftrightarrow> field_starts ?P s" by (rule field_starts_split [symmetric]) simp
  finally show ?thesis by (simp only: field_starts_def)
qed

text \<open>
  C23: Joining signed filters by commas and passing them to \<open>SetFilters\<close> installs exactly these
  filters after the defaults, and every later report is decided without failing an assertion.
\<close>

theorem SetFilters_roundtrip:
  assumes "fs \<noteq> []" "\<forall>f\<in>set fs. wf_filter f \<and> CHR '','' \<notin> set f \<and> \<not> py_space (last f)"
  shows "\<exists>st'. SetFilters (py_join '','' fs) st = Inr st' \<and> filters st' = DEFAULT_FILTERS @ fs
    \<and> (\<forall>w r. lint w = st' \<longrightarrow> returns (Error fn r w))"
proof -
  have d: "list_all wf_filter DEFAULT_FILTERS" by code_simp
  have wf: "list_all wf_filter fs" using assms by (simp add: list_all_iff)
  have "py_split (py_join '','' fs) '','' = fs" using assms by (intro join_split) auto
  moreover have strip: "py_strip f = f \<and> f \<noteq> []" if "f \<in> set fs" for f
  proof -
    have f: "f \<noteq> []" "hd f = CHR ''+'' \<or> hd f = CHR ''-''" "\<not> py_space (last f)"
      using assms that by (auto simp: wf_filter_def startswith_single)
    then have "\<not> py_space (hd f)" by (auto simp: py_space_def in_range_def)
    with f show ?thesis by (simp add: py_strip_id)
  qed
  moreover have "map py_strip fs = fs" using strip by (simp add: map_idI)
  moreover have "filter (\<lambda>f. f \<noteq> []) fs = fs" using strip by (simp add: filter_id_conv)
  ultimately have eq: "SetFilters (py_join '','' fs) st = Inr (st\<lparr>filters := DEFAULT_FILTERS @ fs\<rparr>)"
    using d wf by (simp add: SetFilters_def)
  have "returns (Error fn r w)" if "lint w = st\<lparr>filters := DEFAULT_FILTERS @ fs\<rparr>" for w r
    using that d wf Error_eq [of w fn r] by (simp add: wf_filters_def)
  with eq show ?thesis by auto
qed

lemma SetFilters_roundtrip_witness:
  "\<exists>st'. SetFilters ''-build,+build/include'' init_cpplint_state = Inr st'
    \<and> filters st' = DEFAULT_FILTERS @ [''-build'', ''+build/include'']
    \<and> (\<forall>w r. lint w = st' \<longrightarrow> returns (Error ''a.cc'' r w))"
proof -
  have 1: "[''-build'', ''+build/include''] \<noteq> []" by simp
  have 2: "\<forall>f\<in>set [''-build'', ''+build/include'']. wf_filter f \<and> CHR '','' \<notin> set f \<and> \<not> py_space (last f)"
    by code_simp
  have "py_join '','' [''-build'', ''+build/include''] = ''-build,+build/include''" by simp
  with SetFilters_roundtrip [OF 1 2, of init_cpplint_state "''a.cc''"] show ?thesis by simp
qed

text \<open>
  C2: The reports of a check are printed and counted exactly as decided in the state before the
  check: the output grows by the formatted reports that should be printed, in order, the count by
  their number, and nothing that decides about reports changes.
\<close>

theorem emit_all_prints_exactly:
  assumes "wf_filters w"
  shows "\<exists>w'. emit_all fn rs w = Inr w' \<and> same_settings w w'
    \<and> stderr w' = stderr w @ map (format_error w fn) (filter (should_print w) rs)
    \<and> error_count (lint w') - error_count (lint w) = length (filter (should_print w) rs)"
  using emit_all_exact [OF assms, of fn rs] by auto

lemma emit_all_prints_exactly_witness:
  "\<exists>w'. emit_all ''a.cc'' [mk_report 7 ''build/include_order'' 4 ''m'', mk_report 7 ''build/include'' 4 ''n''] sample_world = Inr w'
    \<and> length (stderr w') = 1"
proof -
  have "wf_filters sample_world" by code_simp
  from emit_all_prints_exactly [OF this, of "''a.cc''" "[mk_report 7 ''build/include_order'' 4 ''m'', mk_report 7 ''build/include'' 4 ''n'']"]
  show ?thesis
    by (auto simp: sample_world_def init_cpplint_state_def should_print_def mk_report_def passes_def applies_def
        py_startswith_def IsErrorSuppressedByNolint_def suppressed_lines_def)
qed

text \<open>
  C16: Starting from reset counters, after any reports the per-category counters have distinct keys
  and, in the counting styles that keep them, add up to the total.
\<close>

theorem counters_agree:
  assumes "wf_filters w"
  shows "\<exists>w'. emit_all fn rs (w\<lparr>lint := ResetErrorCounts (lint w)\<rparr>) = Inr w'
    \<and> distinct (map fst (errors_by_category (lint w')))
    \<and> (counting (lint w) \<in> {''toplevel'', ''detailed''} \<longrightarrow>
         sum_list (map snd (errors_by_category (lint w'))) = error_count (lint w'))"
proof -
  let ?w = "w\<lparr>lint := ResetErrorCounts (lint w)\<rparr>"
  have wf: "wf_filters ?w \<and> counts_ok (lint ?w)"
    using assms by (simp add: wf_filters_def ResetErrorCounts_def counts_ok_def)
  from Error_handler.all_return [OF wf, of fn rs] obtain w' where
    w': "emit_all fn rs ?w = Inr w'" "counts_ok (lint w')" by (auto simp: emit_all_def)
  moreover have "counting (lint w') = counting (lint w)"
    using emit_all_exact [of ?w fn rs] wf w' by (auto simp: same_settings_def ResetErrorCounts_def)
  ultimately show ?thesis by (auto simp: counts_ok_def)
qed

lemma counters_agree_witness:
  "\<exists>w'. emit_all ''a.cc'' [mk_report 7 ''build/include_order'' 4 ''m'', mk_report 8 ''runtime/int'' 4 ''n'', mk_report 9 ''build/include_alpha'' 4 ''o'']
      (sample_world\<lparr>lint := ResetErrorCounts ((lint sample_world)\<lparr>counting := ''toplevel''\<rparr>)\<rparr>) = Inr w'
    \<and> errors_by_category (lint w') = [(''build'', 2), (''runtime'', 1)]
    \<and> sum_list (map snd (errors_by_category (lint w'))) = error_count (lint w') \<and> error_count (lint w') = 3"
proof -
  let ?w = "sample_world\<lparr>lint := (lint sample_world)\<lparr>counting := ''toplevel''\<rparr>\<rparr>"
  let ?rs = "[mk_report 7 ''build/include_order'' 4 ''m'', mk_report 8 ''runtime/int'' 4 ''n'', mk_report 9 ''build/include_alpha'' 4 ''o'']"
  have "wf_filters ?w" by code_simp
  from counters_agree [OF this, of "''a.cc''" ?rs] obtain w' where
    w': "emit_all ''a.cc'' ?rs (?w\<lparr>lint := ResetErrorCounts (lint ?w)\<rparr>) = Inr w'"
      "sum_list (map snd (errors_by_category (lint w'))) = error_count (lint w')" by auto
  have "case emit_all ''a.cc'' ?rs (?w\<lparr>lint := ResetErrorCounts (lint ?w)\<rparr>) of Inl e \<Rightarrow> False
    | Inr w' \<Rightarrow> errors_by_category (lint w') = [(''build'', 2), (''runtime'', 1)]" by code_simp
  with w' show ?thesis by auto
qed

text \<open>
  C3: A comment \<open>NOLINT(category)\<close> after code suppresses exactly that category on exactly that line,
  and on the next line when it is the first thing on its own line as \<open>// NOLINT\<close>; nothing is reported.
\<close>

theorem Nolint_category_suppresses:
  assumes "line = pre @ ''NOLINT('' @ cat @ '')'' @ post"
    and "py_find line ''NOLINT'' = int (length pre)" "pre = [] \<or> \<not> re_word (last pre)"
    and "cat \<in> set ERROR_CATEGORIES"
  shows "\<exists>w'. ParseNolintSuppressions fn line n w = Inr w' \<and> lint w' = lint w \<and> stderr w' = stderr w
    \<and> (\<forall>c l. IsErrorSuppressedByNolint c l w' \<longleftrightarrow> IsErrorSuppressedByNolint c l w
          \<or> c = cat \<and> l = (if py_startswith (py_strip line) ''// NOLINT'' then n + 1 else n))"
proof -
  have "list_all (\<lambda>c. CHR '')'' \<notin> set c \<and> c \<noteq> ''*'') ERROR_CATEGORIES" by code_simp
  with assms(4) have cat: "CHR '')'' \<notin> set cat" "cat \<noteq> ''*''" by (auto simp: list_all_iff)
  from assms(1-3) cat(1) obtain m where m: "Search RE_SUPPRESSION line = Some m" "m_group m 1 = Some (''('' @ cat @ '')'')"
    by (rule Search_suppression_category)
  have "slice_to (slice_from (''('' @ cat @ '')'') 1) (-1) = cat"
    by (simp add: slice_to_def slice_from_def slice_bound_def)
  moreover have "py_endswith (''('' @ cat @ '')'') '')''" by (simp add: endswith_suffix suffix_def)
  ultimately have "ParseNolintSuppressions fn line n w =
      Inr (add_suppression (Some cat) (if py_startswith (py_strip line) ''// NOLINT'' then n + 1 else n) w)"
    using assms(4) cat(2) by (simp add: ParseNolintSuppressions_def m [simplified] Let_def)
  then show ?thesis by auto
qed

lemma Nolint_category_suppresses_witness:
  "\<exists>w'. ParseNolintSuppressions ''a.cc'' ''f();  // NOLINT(build/class)'' 3 sample_world = Inr w'
    \<and> IsErrorSuppressedByNolint ''build/class'' 3 w' \<and> \<not> IsErrorSuppressedByNolint ''build/class'' 4 w'"
proof -
  have 1: "''f();  // NOLINT(build/class)'' = ''f();  // '' @ ''NOLINT('' @ ''build/class'' @ '')'' @ []" by simp
  have 2: "py_find ''f();  // NOLINT(build/class)'' ''NOLINT'' = int (length ''f();  // '')" by code_simp
  have 3: "''f();  // '' = [] \<or> \<not> re_word (last ''f();  // '')" by code_simp
  have 4: "''build/class'' \<in> set ERROR_CATEGORIES" by code_simp
  have 5: "\<not> py_startswith (py_strip ''f();  // NOLINT(build/class)'') ''// NOLINT''" by code_simp
  have 6: "\<not> IsErrorSuppressedByNolint ''build/class'' 4 sample_world"
    by (simp add: sample_world_def IsErrorSuppressedByNolint_def suppressed_lines_def)
  from Nolint_category_suppresses [OF 1 2 3 4, of "''a.cc''" 3 sample_world] show ?thesis
    by (auto simp: 5 6)
qed

end
