(* ===== verification/Cleansing.thy ===== *)
theory Cleansing
  imports Lint_State
begin

text \<open>
  Preprocessing of the lines of a file: blanking out comments that span lines, removing comments
  within a line, collapsing strings, and the class \<open>CleansedLines\<close> that holds the three copies of
  the lines on which the checks work.

  The lemmas compare the index-based removal of comments with a pass over the list, the
  substitutions with scanners written as recursive functions, and say what the elided lines, on
  which most checks work, can contain.
\<close>

section \<open>Strings and comments\<close>

text \<open>The two-character text of an escaped quote, and a quote between single quotes.\<close>

definition escaped_quote :: string where "escaped_quote = [CHR 0x5C, CHR 0x22]"

definition quoted_quote :: string where "quoted_quote = [CHR 0x27, CHR 0x22, CHR 0x27]"

definition IsCppString :: "string \<Rightarrow> bool" where
  "IsCppString line =
     (let line = py_replace line [CHR 0x5C, CHR 0x5C] ''XX''
      in odd (int (py_count line [CHR 0x22]) - int (py_count line escaped_quote) - int (py_count line quoted_quote)))"

definition opens_multiline :: "string \<Rightarrow> bool" where
  "opens_multiline line \<longleftrightarrow> py_startswith (py_strip line) ''/*'' \<and> py_find_from (py_strip line) ''*/'' 2 < 0"

definition closes_multiline :: "string \<Rightarrow> bool" where
  "closes_multiline line \<longleftrightarrow> py_endswith (py_strip line) ''*/''"

function FindNextMultiLineCommentStart :: "string list \<Rightarrow> nat \<Rightarrow> nat" where
  "FindNextMultiLineCommentStart lines lineix =
     (if lineix < length lines
      then if opens_multiline (lines ! lineix) then lineix
           else FindNextMultiLineCommentStart lines (lineix + 1)
      else length lines)"
  by pat_completeness auto
termination
  by (relation "measure (\<lambda>(lines, i). length lines - i)") auto

function FindNextMultiLineCommentEnd :: "string list \<Rightarrow> nat \<Rightarrow> nat" where
  "FindNextMultiLineCommentEnd lines lineix =
     (if lineix < length lines
      then if closes_multiline (lines ! lineix) then lineix
           else FindNextMultiLineCommentEnd lines (lineix + 1)
      else length lines)"
  by pat_completeness auto
termination
  by (relation "measure (\<lambda>(lines, i). length lines - i)") auto

declare FindNextMultiLineCommentStart.simps [simp del] FindNextMultiLineCommentEnd.simps [simp del]

definition RemoveMultiLineCommentsFromRange :: "string list \<Rightarrow> nat \<Rightarrow> nat \<Rightarrow> string list" where
  "RemoveMultiLineCommentsFromRange lines lo hi =
     fold (\<lambda>i ls. ls[i := ''// dummy'']) [lo..<hi] lines"

lemma length_remove_range [simp]: "length (RemoveMultiLineCommentsFromRange lines b e) = length lines"
proof -
  have "length (fold (\<lambda>i ls. ls[i := ''// dummy'']) is ls) = length ls" for "is" ls
    by (induction "is" arbitrary: ls) auto
  then show ?thesis by (simp add: RemoveMultiLineCommentsFromRange_def)
qed

lemma find_start_ge: "i \<le> length lines \<Longrightarrow> i \<le> FindNextMultiLineCommentStart lines i"
  by (induction lines i rule: FindNextMultiLineCommentStart.induct)
    (subst FindNextMultiLineCommentStart.simps, auto dest: Suc_leD)

lemma find_end_ge: "i \<le> length lines \<Longrightarrow> i \<le> FindNextMultiLineCommentEnd lines i"
  by (induction lines i rule: FindNextMultiLineCommentEnd.induct)
    (subst FindNextMultiLineCommentEnd.simps, auto dest: Suc_leD)

text \<open>The loop of \<open>RemoveMultiLineComments\<close>; it stops with a report at a comment without an end.\<close>

function remove_comments_from :: "nat \<Rightarrow> string list \<Rightarrow> report list \<times> string list" where
  "remove_comments_from lineix lines =
     (if lineix < length lines
      then let lineix_begin = FindNextMultiLineCommentStart lines lineix
           in if length lines \<le> lineix_begin then ([], lines)
              else let lineix_end = FindNextMultiLineCommentEnd lines lineix_begin
                   in if length lines \<le> lineix_end
                      then ([mk_report (int lineix_begin + 1) ''readability/multiline_comment'' 5
                              ''Could not find end of multi-line comment''], lines)
                      else remove_comments_from (lineix_end + 1)
                             (RemoveMultiLineCommentsFromRange lines lineix_begin (lineix_end + 1))
      else ([], lines))"
  by pat_completeness auto
termination
proof (relation "measure (\<lambda>(i, lines). length lines - i)", goal_cases)
  case (2 i lines b e)
  have "i \<le> b" using 2 find_start_ge [of i lines] by simp
  moreover have "b \<le> e" using 2 find_end_ge [of b lines] by simp
  ultimately show ?case using 2 by simp
qed simp

declare remove_comments_from.simps [simp del]

definition RemoveMultiLineComments :: "string list \<Rightarrow> report list \<times> string list" where
  "RemoveMultiLineComments lines = remove_comments_from 0 lines"

definition CleanseComments :: "string \<Rightarrow> string" where
  "CleanseComments line =
     (let commentpos = py_find line ''//'';
          line = (if commentpos \<noteq> -1 \<and> \<not> IsCppString (slice_to line commentpos)
                  then py_rstrip (slice_to line commentpos) else line)
      in re_sub RE_CLEANSE_C_COMMENTS (\<lambda>m. []) line)"

section \<open>CleansedLines\<close>

definition CollapseStrings :: "string \<Rightarrow> string" where
  "CollapseStrings elided =
     (if matches RE_INCLUDE elided then elided
      else re_sub RE_CLEANSE_DOUBLE_QUOTES (\<lambda>m. [CHR 0x22, CHR 0x22])
             (re_sub RE_CLEANSE_SINGLE_QUOTES (\<lambda>m. [CHR 0x27, CHR 0x27])
               (re_sub RE_CLEANSE_ESCAPES (\<lambda>m. []) elided)))"

record clean_lines =
  cl_elided :: "string list"
  cl_lines :: "string list"
  cl_raw :: "string list"

definition CleansedLines :: "string list \<Rightarrow> clean_lines" where
  "CleansedLines lines =
     \<lparr>cl_elided = map (\<lambda>l. CleanseComments (CollapseStrings l)) lines,
      cl_lines = map CleanseComments lines, cl_raw = lines\<rparr>"

definition NumLines :: "clean_lines \<Rightarrow> nat" where
  "NumLines c = length (cl_raw c)"

section \<open>Comments over several lines\<close>

text \<open>
  The reference: one pass over the list. A line that opens a comment is blanked together with the
  lines up to the first that closes one, itself included; without such a line the pass stops.
\<close>

function blank_comments :: "string list \<Rightarrow> bool \<times> string list" where
  "blank_comments [] = (True, [])"
| "blank_comments (l # ls) =
     (if opens_multiline l then
        (case dropWhile (\<lambda>x. \<not> closes_multiline x) (l # ls) of
           [] \<Rightarrow> (False, l # ls)
         | c # rest \<Rightarrow>
             (let (ok, ys) = blank_comments rest
              in (ok, replicate (Suc (length (takeWhile (\<lambda>x. \<not> closes_multiline x) (l # ls)))) ''// dummy'' @ ys)))
      else let (ok, ys) = blank_comments ls in (ok, l # ys))"
  by pat_completeness auto
termination
proof (relation "measure length", goal_cases)
  case (2 l ls c rest)
  have "length (c # rest) \<le> length (l # ls)" using 2 by (metis length_dropWhile_le)
  then show ?case by simp
qed simp_all

declare blank_comments.simps(2) [simp del]

lemma find_start_append:
  "FindNextMultiLineCommentStart (ps @ ls) (length ps) = length ps + length (takeWhile (\<lambda>x. \<not> opens_multiline x) ls)"
proof (induction ls arbitrary: ps)
  case Nil
  then show ?case by (subst FindNextMultiLineCommentStart.simps) simp
next
  case (Cons l ls)
  from Cons [of "ps @ [l]"] show ?case by (subst FindNextMultiLineCommentStart.simps) (simp add: nth_append)
qed

lemma find_end_append:
  "FindNextMultiLineCommentEnd (ps @ ls) (length ps) = length ps + length (takeWhile (\<lambda>x. \<not> closes_multiline x) ls)"
proof (induction ls arbitrary: ps)
  case Nil
  then show ?case by (subst FindNextMultiLineCommentEnd.simps) simp
next
  case (Cons l ls)
  from Cons [of "ps @ [l]"] show ?case by (subst FindNextMultiLineCommentEnd.simps) (simp add: nth_append)
qed

lemma remove_range_append:
  "RemoveMultiLineCommentsFromRange (ps @ xs @ ls) (length ps) (length ps + length xs) =
     ps @ replicate (length xs) ''// dummy'' @ ls"
proof (induction xs arbitrary: ps)
  case (Cons x xs)
  have "[length ps..<length ps + length (x # xs)] = length ps # [length (ps @ [''// dummy''])..<length (ps @ [''// dummy'']) + length xs]"
    by (simp add: upt_rec)
  moreover have "(ps @ (x # xs) @ ls)[length ps := ''// dummy''] = (ps @ [''// dummy'']) @ xs @ ls" by simp
  ultimately show ?case using Cons [of "ps @ [''// dummy'']"]
    by (simp only: RemoveMultiLineCommentsFromRange_def fold_simps) simp
qed (simp add: RemoveMultiLineCommentsFromRange_def)

lemma blank_skip:
  "\<forall>x\<in>set xs. \<not> opens_multiline x \<Longrightarrow> blank_comments (xs @ ls) = (fst (blank_comments ls), xs @ snd (blank_comments ls))"
  by (induction xs) (simp_all add: blank_comments.simps(2) split_beta)

lemma blank_open:
  assumes "opens_multiline l" "l # ls = xs @ c # rest" "\<forall>x\<in>set xs. \<not> closes_multiline x" "closes_multiline c"
  shows "blank_comments (l # ls) = (fst (blank_comments rest), replicate (Suc (length xs)) ''// dummy'' @ snd (blank_comments rest))"
proof -
  have t: "takeWhile (\<lambda>x. \<not> closes_multiline x) (l # ls) = xs"
    and d: "dropWhile (\<lambda>x. \<not> closes_multiline x) (l # ls) = c # rest"
    unfolding assms(2) using assms(3,4) by (simp_all add: takeWhile_append2 dropWhile_append2)
  show ?thesis unfolding blank_comments.simps(2) t d by (simp add: assms(1) split_beta)
qed

lemma blank_unclosed:
  "opens_multiline l \<Longrightarrow> \<forall>x\<in>set (l # ls). \<not> closes_multiline x \<Longrightarrow> blank_comments (l # ls) = (False, l # ls)"
  unfolding blank_comments.simps(2) by (simp flip: dropWhile_Nil_conv)

lemma remove_comments_append:
  "snd (remove_comments_from (length ps) (ps @ ls)) = ps @ snd (blank_comments ls)
   \<and> (fst (remove_comments_from (length ps) (ps @ ls)) = [] \<longleftrightarrow> fst (blank_comments ls))"
proof (induction "length ls" arbitrary: ps ls rule: less_induct)
  case less
  define xs where "xs = takeWhile (\<lambda>x. \<not> opens_multiline x) ls"
  have xs: "\<forall>x\<in>set xs. \<not> opens_multiline x" by (auto simp: xs_def dest: set_takeWhileD)
  have start: "FindNextMultiLineCommentStart (ps @ ls) (length ps) = length ps + length xs"
    by (simp add: find_start_append xs_def)
  show ?case
  proof (cases "dropWhile (\<lambda>x. \<not> opens_multiline x) ls")
    case Nil
    then have "xs = ls" by (simp add: xs_def dropWhile_Nil_conv takeWhile_eq_all_conv)
    with start blank_skip [OF xs, of "[]"] show ?thesis
      by (subst (1 2) remove_comments_from.simps) simp
  next
    case (Cons l ls')
    then have ls: "ls = xs @ l # ls'" and l: "opens_multiline l"
      using dropWhile_Cons_conv [OF Cons] unfolding xs_def by blast+
    define ys where "ys = takeWhile (\<lambda>x. \<not> closes_multiline x) (l # ls')"
    have ys: "\<forall>x\<in>set ys. \<not> closes_multiline x" by (auto simp: ys_def dest: set_takeWhileD split: if_splits)
    have stop: "FindNextMultiLineCommentEnd (ps @ ls) (length ps + length xs) = length ps + length xs + length ys"
      using find_end_append [of "ps @ xs" "l # ls'"] by (simp add: ls ys_def)
    show ?thesis
    proof (cases "dropWhile (\<lambda>x. \<not> closes_multiline x) (l # ls')")
      case Nil
      then have "ys = l # ls'" "\<forall>x\<in>set (l # ls'). \<not> closes_multiline x"
        unfolding ys_def by (simp_all only: dropWhile_Nil_conv takeWhile_eq_all_conv)
      with start stop blank_skip [OF xs] blank_unclosed [OF l] show ?thesis
        by (subst (1 2) remove_comments_from.simps) (simp add: ls)
    next
      case (Cons c rest)
      then have d: "l # ls' = ys @ c # rest" and c: "closes_multiline c"
        using dropWhile_Cons_conv [OF Cons] unfolding ys_def by blast+
      let ?qs = "ps @ xs @ replicate (Suc (length ys)) ''// dummy''"
      have "RemoveMultiLineCommentsFromRange (ps @ ls) (length ps + length xs) (length ps + length xs + length ys + 1) = ?qs @ rest"
        using remove_range_append [of "ps @ xs" "ys @ [c]" rest] by (simp add: ls d)
      moreover have "length (ps @ ls) = length ps + length xs + length ys + Suc (length rest)"
        using ls arg_cong [OF d, of length] by simp
      moreover have "length ps + length xs + length ys + 1 = length ?qs" by simp
      ultimately have "remove_comments_from (length ps) (ps @ ls) = remove_comments_from (length ?qs) (?qs @ rest)"
        using start stop by (subst remove_comments_from.simps) (simp add: Let_def add.assoc)
      moreover have "length rest < length ls" using ls arg_cong [OF d, of length] by simp
      moreover have "blank_comments ls = (fst (blank_comments rest), xs @ replicate (Suc (length ys)) ''// dummy'' @ snd (blank_comments rest))"
        unfolding ls using blank_skip [OF xs, of "l # ls'"] blank_open [OF l d ys c] by simp
      ultimately show ?thesis using less [of rest ?qs] by simp
    qed
  qed
qed

lemma not_opens_dummy: "\<not> opens_multiline ''// dummy''"
  by code_simp

lemma blank_comments_clean:
  "length (snd (blank_comments ls)) = length ls
   \<and> (\<forall>i<length ls. snd (blank_comments ls) ! i = ls ! i \<or> snd (blank_comments ls) ! i = ''// dummy'')
   \<and> (fst (blank_comments ls) \<longrightarrow> (\<forall>l\<in>set (snd (blank_comments ls)). \<not> opens_multiline l))"
proof (induction "length ls" arbitrary: ls rule: less_induct)
  case less
  show ?case
  proof (cases ls)
    case (Cons l ls')
    show ?thesis
    proof (cases "opens_multiline l")
      case False
      with less [of ls'] Cons show ?thesis
        by (auto simp: blank_comments.simps(2) split_beta nth_Cons split: nat.splits)
    next
      case l: True
      show ?thesis
      proof (cases "dropWhile (\<lambda>x. \<not> closes_multiline x) (l # ls')")
        case Nil
        with l show ?thesis unfolding Cons by (simp only: dropWhile_Nil_conv blank_unclosed) simp
      next
        case (Cons c rest)
        define ys where "ys = takeWhile (\<lambda>x. \<not> closes_multiline x) (l # ls')"
        have d: "l # ls' = ys @ c # rest" and c: "closes_multiline c"
          using dropWhile_Cons_conv [OF Cons] unfolding ys_def by blast+
        have ys: "\<forall>x\<in>set ys. \<not> closes_multiline x" by (auto simp: ys_def dest: set_takeWhileD split: if_splits)
        have lr: "length rest < length ls" using \<open>ls = l # ls'\<close> arg_cong [OF d, of length] by simp
        have b: "blank_comments ls = (fst (blank_comments rest), replicate (Suc (length ys)) ''// dummy'' @ snd (blank_comments rest))"
          using blank_open [OF l d ys c] \<open>ls = l # ls'\<close> by simp
        have ls: "ls = (ys @ [c]) @ rest" using d \<open>ls = l # ls'\<close> by simp
        from less [OF lr] show ?thesis unfolding b
          by (auto simp: ls nth_append not_opens_dummy simp del: append_assoc replicate_Suc)
      qed
    qed
  qed simp
qed

section \<open>Comments and strings within a line\<close>


lemma cut_at_first:
  "c \<notin> set p \<Longrightarrow> dropWhile (\<lambda>x. x \<noteq> c) (p @ c # t) = c # t"
  "c \<notin> set p \<Longrightarrow> takeWhile (\<lambda>x. x \<noteq> c) (p @ c # t) = p"
  by (induction p) auto

lemma rm_string:
  assumes "CHR 0x22 \<notin> set q"
  shows "rm RE_CLEANSE_DOUBLE_QUOTES (b, CHR 0x22 # q @ CHR 0x22 # t, g) = [(CHR 0x22 # rev q @ CHR 0x22 # b, t, g)]"
    (is ?string)
    and "rm RE_CLEANSE_DOUBLE_QUOTES (b, CHR 0x22 # q, g) = []" (is ?open)
proof -
  let ?c = "in_class True [CChar (CHR 0x22)]"
  let ?R = "RSeq (RRep True 0 None (RSet True [CChar CHR 0x22])) (RLit CHR 0x22)"
  have all: "\<forall>x\<in>set q. ?c x" using assms by (auto simp: in_class_def)
  then have tw: "takeWhile ?c (q @ CHR 0x22 # t) = q" "takeWhile ?c q = q"
    by (simp_all add: takeWhile_append2 takeWhile_eq_all_conv in_class_def)
  have lit: "rm (RLit CHR 0x22) (rev (take k (q @ r)) @ b', drop k (q @ r), g) = []" if "k < length q" for k b' r
  proof -
    have "drop k q = q ! k # drop (Suc k) q" using that by (simp add: Cons_nth_drop_Suc)
    moreover have "q ! k \<noteq> CHR 0x22" using that assms by (metis nth_mem)
    ultimately show ?thesis using that by simp
  qed
  have "rm ?R (b', q @ CHR 0x22 # t, g) = [(CHR 0x22 # rev q @ b', t, g)]" for b'
  proof -
    have "concat (map (\<lambda>k. rm (RLit CHR 0x22) (rev (take k (q @ CHR 0x22 # t)) @ b', drop k (q @ CHR 0x22 # t), g)) (rev [0..<length q])) = []"
      using lit by (auto simp del: rm.simps take_append drop_append)
    moreover have "rm ?R (b', q @ CHR 0x22 # t, g) =
        rm (RLit CHR 0x22) (rev q @ b', CHR 0x22 # t, g) @
        concat (map (\<lambda>k. rm (RLit CHR 0x22) (rev (take k (q @ CHR 0x22 # t)) @ b', drop k (q @ CHR 0x22 # t), g)) (rev [0..<length q]))"
      unfolding rm.simps(5) rm_star_class [OF rm_classes(1)] tw by (simp add: comp_def del: rm.simps)
    ultimately show ?thesis by simp
  qed
  then show ?string by (simp add: RE_CLEANSE_DOUBLE_QUOTES_tree del: rm.simps(7))
  have "rm ?R (b', q, g) = []" for b'
    using lit [of _ "[]" b'] by (auto simp: rm_star_class [OF rm_classes(1)] tw comp_def simp del: rm.simps(7))
  then show ?open by (simp add: RE_CLEANSE_DOUBLE_QUOTES_tree del: rm.simps(7))
qed

lemma rm_no_string: "x \<noteq> CHR 0x22 \<Longrightarrow> rm RE_CLEANSE_DOUBLE_QUOTES (b, x # a, g) = []" "rm RE_CLEANSE_DOUBLE_QUOTES (b, [], g) = []"
  by (simp_all add: RE_CLEANSE_DOUBLE_QUOTES_tree)

definition hex_digit :: "char \<Rightarrow> bool" where
  "hex_digit c \<longleftrightarrow> in_range (CHR ''0'') (CHR ''9'') c \<or> in_range (CHR ''a'') (CHR ''f'') c \<or> in_range (CHR ''A'') (CHR ''F'') c"

definition escape_letters :: string where
  "escape_letters = ''abfnrtv?'' @ [CHR 0x22, CHR 0x5C, CHR 0x27]"

fun after_escape :: "string \<Rightarrow> string option" where
  "after_escape (b # c # cs) =
     (if b \<noteq> CHR 0x5C then None
      else if c \<in> set escape_letters then Some cs
      else if re_digit c then Some (dropWhile re_digit cs)
      else if c = CHR ''x'' \<and> cs \<noteq> [] \<and> hex_digit (hd cs) then Some (dropWhile hex_digit cs)
      else None)"
| "after_escape s = None"

fun after_char :: "string \<Rightarrow> string option" where
  "after_char (q # c # q' # cs) =
     (if q = CHR 0x27 \<and> c \<noteq> CHR 0x0A \<and> q' = CHR 0x27 then Some cs else None)"
| "after_char s = None"

fun after_string :: "string \<Rightarrow> string option" where
  "after_string [] = None"
| "after_string (q # cs) =
     (if q \<noteq> CHR 0x22 then None
      else case dropWhile (\<lambda>c. c \<noteq> CHR 0x22) cs of [] \<Rightarrow> None | q' # t \<Rightarrow> Some t)"

interpretation escapes: substitution RE_CLEANSE_ESCAPES after_escape
proof
  let ?D = "RSet False [CDigit True]"
  let ?H = "RSet False [CRange CHR ''0'' CHR ''9'', CRange CHR ''a'' CHR ''f'', CRange CHR ''A'' CHR ''F'']"
  have D: "rm ?D = eat re_digit" and H: "rm ?H = eat hex_digit"
    unfolding rm_classes by (rule arg_cong [of _ _ eat], simp add: fun_eq_iff in_class_def hex_digit_def)+
  have letters: "in_class False (map CChar escape_letters) c \<longleftrightarrow> c \<in> set escape_letters" for c
    by (auto simp: in_class_def escape_letters_def)
  have tree: "RE_CLEANSE_ESCAPES = RSeq (RLit CHR 0x5C) (RGroup 1 (RAlt (RSet False (map CChar escape_letters))
      (RAlt (RRep True 1 None ?D) (RSeq (RLit CHR ''x'') (RRep True 1 None ?H)))))"
    by (simp add: RE_CLEANSE_ESCAPES_tree escape_letters_def)
  have not_both: "\<not> re_digit c" "c \<noteq> CHR ''x''" if "c \<in> set escape_letters" for c
    using that by (auto simp: escape_letters_def re_digit_def ascii_digit_def in_range_def)
  have x: "\<not> re_digit (CHR ''x'')" by (simp add: re_digit_def ascii_digit_def in_range_def)
  note simps = tree letters rm_plus_class [OF D, unfolded One_nat_def] rm_plus_class [OF H, unfolded One_nat_def]
  show "rm RE_CLEANSE_ESCAPES (b, a, []) = []" if "after_escape a = None" for a b
  proof (cases a rule: after_escape.cases)
    case (1 d c cs)
    with that show ?thesis by (cases cs) (auto simp: simps simp del: rm.simps(7) split: if_splits)
  qed (auto simp: simps simp del: rm.simps(7))
  show "\<exists>u g ys. a = u @ t \<and> u \<noteq> [] \<and> rm RE_CLEANSE_ESCAPES (b, a, []) = (rev u @ b, t, g) # ys"
    if some: "after_escape a = Some t" for a t b
  proof -
    from some obtain c cs where a: "a = CHR 0x5C # c # cs" by (cases a rule: after_escape.cases) (auto split: if_splits)
    consider "c \<in> set escape_letters" "t = cs" | "c \<notin> set escape_letters" "re_digit c" "t = dropWhile re_digit cs"
      | h hs where "c \<notin> set escape_letters" "c = CHR ''x''" "cs = h # hs" "hex_digit h" "t = dropWhile hex_digit hs"
      using some x by (cases cs) (auto simp: a split: if_splits)
    then show ?thesis
    proof cases
      case 1
      then show ?thesis by (intro exI [of _ "[CHR 0x5C, c]"]) (simp add: simps a not_both del: rm.simps(7))
    next
      case 2
      obtain ys where "rm (RRep True 0 None ?D) (c # CHR 0x5C # b, cs, []) =
          (rev (takeWhile re_digit cs) @ c # CHR 0x5C # b, dropWhile re_digit cs, []) # ys"
        using rm_star_first [OF D] by blast
      with 2 show ?thesis
        by (intro exI [of _ "CHR 0x5C # c # takeWhile re_digit cs"]) (simp add: simps a del: rm.simps(7))
    next
      case 3
      obtain ys where "rm (RRep True 0 None ?H) (h # c # CHR 0x5C # b, hs, []) =
          (rev (takeWhile hex_digit hs) @ h # c # CHR 0x5C # b, dropWhile hex_digit hs, []) # ys"
        using rm_star_first [OF H] by blast
      with 3 x show ?thesis
        by (intro exI [of _ "CHR 0x5C # c # h # takeWhile hex_digit hs"]) (simp add: simps a del: rm.simps(7))
    qed
  qed
qed

interpretation chars: substitution RE_CLEANSE_SINGLE_QUOTES after_char
proof
  show "rm RE_CLEANSE_SINGLE_QUOTES (b, a, []) = []" if "after_char a = None" for a b
    using that by (cases a rule: after_char.cases) (auto simp: RE_CLEANSE_SINGLE_QUOTES_tree split: if_splits)
  show "\<exists>u g ys. a = u @ t \<and> u \<noteq> [] \<and> rm RE_CLEANSE_SINGLE_QUOTES (b, a, []) = (rev u @ b, t, g) # ys"
    if "after_char a = Some t" for a t b
    using that
  proof (cases a rule: after_char.cases)
    case (1 q c q' cs)
    with that show ?thesis
      by (intro exI [of _ "[q, c, q']"]) (auto simp: RE_CLEANSE_SINGLE_QUOTES_tree split: if_splits)
  qed auto
qed

interpretation strings: substitution RE_CLEANSE_DOUBLE_QUOTES after_string
proof
  show "rm RE_CLEANSE_DOUBLE_QUOTES (b, a, []) = []" if "after_string a = None" for a b
  proof (cases a)
    case (Cons q cs)
    show ?thesis
    proof (cases "q = CHR 0x22")
      case True
      with that Cons have "dropWhile (\<lambda>c. c \<noteq> CHR 0x22) cs = []" by (simp split: list.splits)
      then have "CHR 0x22 \<notin> set cs" by (auto simp: dropWhile_Nil_conv)
      then show ?thesis unfolding Cons True by (rule rm_string(2))
    qed (simp add: Cons rm_no_string)
  qed (simp add: rm_no_string)
  show "\<exists>u g ys. a = u @ t \<and> u \<noteq> [] \<and> rm RE_CLEANSE_DOUBLE_QUOTES (b, a, []) = (rev u @ b, t, g) # ys"
    if "after_string a = Some t" for a t b
  proof -
    from that obtain cs q' where a: "a = CHR 0x22 # cs" and d: "dropWhile (\<lambda>c. c \<noteq> CHR 0x22) cs = q' # t"
      by (cases a) (auto split: if_splits list.splits)
    define p where "p = takeWhile (\<lambda>c. c \<noteq> CHR 0x22) cs"
    have cs: "cs = p @ CHR 0x22 # t" using dropWhile_Cons_conv [OF d] unfolding p_def by blast
    have p: "CHR 0x22 \<notin> set p" by (auto simp: p_def dest: set_takeWhileD)
    from rm_string(1) [OF p, of b t "[]"] show ?thesis
      by (intro exI [of _ "CHR 0x22 # p @ [CHR 0x22]"]) (simp add: a cs)
  qed
qed

lemma CollapseStrings_passes:
  "CollapseStrings s = (if matches RE_INCLUDE s then s
     else sub_with after_string [CHR 0x22, CHR 0x22] (sub_with after_char [CHR 0x27, CHR 0x27] (sub_with after_escape [] s)))"
  by (simp add: CollapseStrings_def escapes.sub_after chars.sub_after strings.sub_after)

text \<open>Quotes enclose nothing: the first and the second are neighbours, and so on; a last one may be alone.\<close>

fun quotes_empty :: "string \<Rightarrow> bool" where
  "quotes_empty [] = True"
| "quotes_empty (c # cs) =
     (if c = CHR 0x22
      then CHR 0x22 \<notin> set cs \<or> (case cs of [] \<Rightarrow> True | d # ds \<Rightarrow> d = CHR 0x22 \<and> quotes_empty ds)
      else quotes_empty cs)"

lemma sub_strings_cases:
  "CHR 0x22 \<notin> set s \<Longrightarrow> sub_with after_string w s = s"
  "CHR 0x22 \<notin> set s \<Longrightarrow> sub_with after_string w (CHR 0x22 # s) = CHR 0x22 # s"
  "CHR 0x22 \<notin> set p \<Longrightarrow> sub_with after_string w (CHR 0x22 # p @ CHR 0x22 # t) = w @ sub_with after_string w t"
proof -
  have a: "sub_with after_string w s = s" if "CHR 0x22 \<notin> set s" for s
    using that by (induction s) (auto simp: sub_with.simps [of after_string w "[]"] sub_with.simps [of after_string w "_ # _"])
  then show "CHR 0x22 \<notin> set s \<Longrightarrow> sub_with after_string w s = s" .
  assume "CHR 0x22 \<notin> set s"
  then have "dropWhile (\<lambda>c. c \<noteq> CHR 0x22) s = []" by (auto simp: dropWhile_Nil_conv)
  then have "after_string (CHR 0x22 # s) = None" by (simp only: after_string.simps list.case if_cancel)
  with a [OF \<open>CHR 0x22 \<notin> set s\<close>] show "sub_with after_string w (CHR 0x22 # s) = CHR 0x22 # s"
    by (simp add: sub_with.simps [of after_string w "_ # _"])
next
  assume "CHR 0x22 \<notin> set p"
  then have "after_string (CHR 0x22 # p @ CHR 0x22 # t) = Some t" by (simp add: cut_at_first)
  then show "sub_with after_string w (CHR 0x22 # p @ CHR 0x22 # t) = w @ sub_with after_string w t"
    unfolding sub_with.simps [of after_string w "_ # _"] by simp
qed

lemma collapsed_quotes_empty: "quotes_empty (sub_with after_string [CHR 0x22, CHR 0x22] s)"
proof (induction "length s" arbitrary: s rule: less_induct)
  case less
  show ?case
  proof (cases s)
    case Nil
    then show ?thesis by (simp add: sub_strings_cases)
  next
    case (Cons c cs)
    consider "c \<noteq> CHR 0x22" | "c = CHR 0x22" "CHR 0x22 \<notin> set cs" | "c = CHR 0x22" "CHR 0x22 \<in> set cs" by blast
    then show ?thesis
    proof cases
      case 1
      with less [of cs] show ?thesis by (simp add: Cons sub_with.simps [of after_string _ "_ # _"])
    next
      case 2
      then show ?thesis by (simp add: Cons sub_strings_cases)
    next
      case 3
      then obtain p t where "cs = p @ CHR 0x22 # t" "CHR 0x22 \<notin> set p" by (meson split_list_first)
      with 3 less [of t] show ?thesis by (simp add: Cons sub_strings_cases)
    qed
  qed
qed

section \<open>What a removed comment is\<close>

definition comment_rx :: "regex \<Rightarrow> regex" where
  "comment_rx r = RSeq (RLit (CHR ''/'')) (RSeq (RLit (CHR ''*'')) (RSeq (RRep True 0 None RAny)
     (RSeq (RLit (CHR ''*'')) (RSeq (RLit (CHR ''/'')) r))))"

definition plain_comment_rx :: regex where
  "plain_comment_rx = RSeq (RLit (CHR ''/'')) (RSeq (RLit (CHR ''*'')) (RSeq (RRep True 0 None RAny)
     (RSeq (RLit (CHR ''*'')) (RLit (CHR ''/'')))))"

lemma rm_commentE:
  assumes "st \<in> set (rm (comment_rx r) (b, a, g))"
  obtains u t where "a = ''/*'' @ u @ ''*/'' @ t" "st \<in> set (rm r (rev (''/*'' @ u @ ''*/'') @ b, t, g))"
proof -
  from assms obtain a1 where 1: "a = ''/*'' @ a1"
    "st \<in> set (rm (RSeq (RRep True 0 None RAny) (RSeq (RLit (CHR ''*'')) (RSeq (RLit (CHR ''/'')) r))) (rev ''/*'' @ b, a1, g))"
    unfolding comment_rx_def by (elim rm_litE) (simp del: rm.simps)
  from rm_starE [OF 1(2) rm_classes(2)] obtain u a2 where 2: "a1 = u @ a2"
    "st \<in> set (rm (RSeq (RLit (CHR ''*'')) (RSeq (RLit (CHR ''/'')) r)) (rev u @ rev ''/*'' @ b, a2, g))" by metis
  then obtain t where "a2 = ''*/'' @ t" "st \<in> set (rm r (rev ''*/'' @ rev u @ rev ''/*'' @ b, t, g))"
    by (elim rm_litE) (simp del: rm.simps)
  with 1 2 show thesis by (intro that [of u t]) (simp_all del: rm.simps)
qed

definition space_rx :: regex where
  "space_rx = RSet False [CSpace True]"

lemma rm_space: "rm space_rx = eat re_space"
  unfolding space_rx_def rm_classes by (rule arg_cong [of _ _ eat]) (simp add: fun_eq_iff in_class_def)

lemma C_COMMENTS_shape:
  "RE_CLEANSE_C_COMMENTS = RGroup 1 (RAlt (RSeq (RRep True 0 None space_rx) (comment_rx (RSeq (RRep True 0 None space_rx) REol)))
     (RAlt (comment_rx (RRep True 1 None space_rx))
       (RAlt (RSeq (RRep True 1 None space_rx) (comment_rx (RLook True (RSet False [CWord False]))))
         plain_comment_rx)))"
  by (simp add: RE_CLEANSE_C_COMMENTS_tree comment_rx_def plain_comment_rx_def space_rx_def)

lemma rm_plain_comment: "rm plain_comment_rx = rm (comment_rx REmpty)"
  unfolding plain_comment_rx_def comment_rx_def by (intro rm_seq_cong) (simp only: rm_REmpty)

text \<open>What a removed comment looks like: white space, \<open>/*\<close>, and a text that ends in \<open>/\<close> or white space.\<close>

definition comment_text :: "string \<Rightarrow> bool" where
  "comment_text u \<longleftrightarrow> (\<exists>ws v. u = ws @ ''/*'' @ v \<and> (\<forall>c\<in>set ws. re_space c) \<and> v \<noteq> [] \<and> (last v = CHR ''/'' \<or> re_space (last v)))"

lemma comment_textI:
  "\<forall>c\<in>set ws. re_space c \<Longrightarrow> \<forall>c\<in>set zs. re_space c \<Longrightarrow> comment_text (ws @ ''/*'' @ v @ ''*/'' @ zs)"
  unfolding comment_text_def by (intro exI [of _ ws] exI [of _ "v @ ''*/'' @ zs"]) auto

lemma comment_match:
  assumes "(b', a', g') \<in> set (rm RE_CLEANSE_C_COMMENTS (b, a, g))"
  shows "\<exists>u. a = u @ a' \<and> u \<noteq> [] \<and> comment_text u"
proof -
  have shape: "\<exists>u. a = u @ a' \<and> u \<noteq> [] \<and> comment_text u"
    if "a = ws @ ''/*'' @ v @ ''*/'' @ zs @ a'" "\<forall>c\<in>set ws. re_space c" "\<forall>c\<in>set zs. re_space c" for ws v zs
    using comment_textI [OF that(2,3), of v] that(1) by (intro exI [of _ "ws @ ''/*'' @ v @ ''*/'' @ zs"]) simp
  from assms obtain g0 where "(b', a', g0) \<in> set (rm (RSeq (RRep True 0 None space_rx) (comment_rx (RSeq (RRep True 0 None space_rx) REol))) (b, a, g))
    \<or> (b', a', g0) \<in> set (rm (comment_rx (RRep True 1 None space_rx)) (b, a, g))
    \<or> (b', a', g0) \<in> set (rm (RSeq (RRep True 1 None space_rx) (comment_rx (RLook True (RSet False [CWord False])))) (b, a, g))
    \<or> (b', a', g0) \<in> set (rm (comment_rx REmpty) (b, a, g))"
    unfolding C_COMMENTS_shape rm.simps(6,8) rm_plain_comment by (auto simp del: rm.simps)
  then show ?thesis
  proof (elim disjE)
    assume "(b', a', g0) \<in> set (rm (RSeq (RRep True 0 None space_rx) (comment_rx (RSeq (RRep True 0 None space_rx) REol))) (b, a, g))"
    then obtain ws t0 where ws: "a = ws @ t0" "\<forall>c\<in>set ws. re_space c"
      "(b', a', g0) \<in> set (rm (comment_rx (RSeq (RRep True 0 None space_rx) REol)) (rev ws @ b, t0, g))"
      by (rule rm_starE [OF _ rm_space])
    from ws(3) obtain v t where 1: "t0 = ''/*'' @ v @ ''*/'' @ t"
      "(b', a', g0) \<in> set (rm (RSeq (RRep True 0 None space_rx) REol) (rev (''/*'' @ v @ ''*/'') @ rev ws @ b, t, g))"
      by (rule rm_commentE)
    from 1(2) obtain zs t1 where zs: "t = zs @ t1" "\<forall>c\<in>set zs. re_space c"
      "(b', a', g0) \<in> set (rm REol (rev zs @ rev (''/*'' @ v @ ''*/'') @ rev ws @ b, t1, g))"
      by (rule rm_starE [OF _ rm_space])
    then have "t1 = a'" by (simp split: if_splits)
    with 1 ws zs shape [of ws v zs] show ?thesis by simp
  next
    assume "(b', a', g0) \<in> set (rm (comment_rx (RRep True 1 None space_rx)) (b, a, g))"
    then obtain v t where 1: "a = ''/*'' @ v @ ''*/'' @ t"
      "(b', a', g0) \<in> set (rm (RSeq (RRep True 1 None space_rx) REmpty) (rev (''/*'' @ v @ ''*/'') @ b, t, g))"
      unfolding rm_REmpty by (rule rm_commentE)
    from 1(2) obtain zs t1 where zs: "t = zs @ t1" "\<forall>c\<in>set zs. re_space c"
      "(b', a', g0) \<in> set (rm REmpty (rev zs @ rev (''/*'' @ v @ ''*/'') @ b, t1, g))"
      by (rule rm_plusE [OF _ rm_space])
    then have "t1 = a'" by simp
    with 1 zs shape [of "[]" v zs] show ?thesis by simp
  next
    assume "(b', a', g0) \<in> set (rm (RSeq (RRep True 1 None space_rx) (comment_rx (RLook True (RSet False [CWord False])))) (b, a, g))"
    then obtain ws t0 where ws: "a = ws @ t0" "\<forall>c\<in>set ws. re_space c"
      "(b', a', g0) \<in> set (rm (comment_rx (RLook True (RSet False [CWord False]))) (rev ws @ b, t0, g))"
      by (rule rm_plusE [OF _ rm_space])
    from ws(3) obtain v t where 1: "t0 = ''/*'' @ v @ ''*/'' @ t"
      "(b', a', g0) \<in> set (rm (RLook True (RSet False [CWord False])) (rev (''/*'' @ v @ ''*/'') @ rev ws @ b, t, g))"
      by (rule rm_commentE)
    then have "t = a'" by (auto split: list.splits prod.splits)
    with 1 ws shape [of ws v "[]"] show ?thesis by simp
  next
    assume "(b', a', g0) \<in> set (rm (comment_rx REmpty) (b, a, g))"
    then obtain v where "a = ''/*'' @ v @ ''*/'' @ a'" by (elim rm_commentE) auto
    with shape [of "[]" v "[]"] show ?thesis by simp
  qed
qed

lemma comments_removed: "removed comment_text s (re_sub RE_CLEANSE_C_COMMENTS (\<lambda>m. []) s)"
  by (rule re_sub_removed) (rule comment_match)

section \<open>Elided lines\<close>

lemma quotes_empty_none: "CHR 0x22 \<notin> set s \<Longrightarrow> quotes_empty s"
  by (induction s rule: quotes_empty.induct) auto

lemma quotes_empty_prefix: "quotes_empty (xs @ ys) \<Longrightarrow> quotes_empty xs"
proof (induction xs rule: quotes_empty.induct)
  case (2 x xs)
  then show ?case by (cases xs) (auto split: if_splits)
qed simp

lemma quotes_empty_split:
  "c \<noteq> CHR 0x22 \<Longrightarrow> quotes_empty (xs @ c # ys) \<longleftrightarrow>
     quotes_empty xs \<and> (if even (count_list xs (CHR 0x22)) then quotes_empty ys else CHR 0x22 \<notin> set ys)"
proof (induction xs rule: quotes_empty.induct)
  case (2 x xs)
  show ?case
  proof (cases "x = CHR 0x22")
    case True
    show ?thesis
    proof (cases xs)
      case (Cons d ds)
      with 2 True show ?thesis by (cases "d = CHR 0x22") (auto simp: count_list_0_iff)
    qed (use 2 True in auto)
  qed (use 2 in auto)
qed auto

lemma quotes_empty_append:
  "quotes_empty xs \<Longrightarrow> if even (count_list xs (CHR 0x22)) then quotes_empty ys else CHR 0x22 \<notin> set ys \<Longrightarrow> quotes_empty (xs @ ys)"
proof (induction xs rule: quotes_empty.induct)
  case (2 x xs)
  show ?case
  proof (cases "x = CHR 0x22")
    case True
    show ?thesis
    proof (cases xs)
      case (Cons d ds)
      with 2 True show ?thesis by (cases "d = CHR 0x22") (auto simp: count_list_0_iff split: if_splits)
    qed (use 2 True in auto)
  qed (use 2 in auto)
qed auto

lemma quotes_empty_suffix:
  assumes "quotes_empty (p @ u @ t)" "u \<noteq> []" "last u \<noteq> CHR 0x22"
  shows "quotes_empty t"
proof -
  obtain v where u: "u = v @ [last u]" using assms(2) by (metis append_butlast_last_id)
  have "quotes_empty ((p @ v) @ last u # t)" using assms(1) u by (metis append.assoc append_Cons append_Nil)
  then show ?thesis unfolding quotes_empty_split [OF assms(3)] by (auto split: if_splits intro: quotes_empty_none)
qed

lemma comment_text_ends:
  assumes "comment_text u"
  shows "u \<noteq> []" "hd u \<noteq> CHR 0x22" "last u \<noteq> CHR 0x22"
proof -
  from assms obtain ws v where u: "u = ws @ ''/*'' @ v" "\<forall>c\<in>set ws. re_space c" "v \<noteq> []" "last v = CHR ''/'' \<or> re_space (last v)"
    by (auto simp: comment_text_def)
  have q: "\<not> re_space (CHR 0x22)" by (simp add: re_space_def in_range_def)
  from u(3,4) q show "u \<noteq> []" "last u \<noteq> CHR 0x22" unfolding u(1) by auto
  from u(2) q show "hd u \<noteq> CHR 0x22" unfolding u(1) by (cases ws) auto
qed

lemma removed_subset: "removed P s s' \<Longrightarrow> set s' \<subseteq> set s"
  by (induction rule: removed.induct) auto

lemma removed_quotes_empty: "removed comment_text s s' \<Longrightarrow> quotes_empty s \<Longrightarrow> quotes_empty s'"
proof (induction rule: removed.induct)
  case (remove u t t' p)
  note u = comment_text_ends [OF remove.hyps(1)]
  have ih: "quotes_empty t'" using remove.IH quotes_empty_suffix [OF remove.prems u(1,3)] by blast
  have "u = hd u # tl u" using u(1) by simp
  then have "quotes_empty (p @ hd u # tl u @ t)" using remove.prems by (metis append_Cons)
  then show ?case using ih removed_subset [OF remove.hyps(2)] unfolding quotes_empty_split [OF u(2)]
    by (auto intro!: quotes_empty_append split: if_splits)
qed

text \<open>The first character of a line that is not white space, if there is one, is \<open>#\<close>.\<close>

fun hash_first :: "string \<Rightarrow> bool" where
  "hash_first [] = True"
| "hash_first (c # cs) = (c = CHR ''#'' \<or> re_space c \<and> hash_first cs)"

lemma hash_first_prefix: "hash_first (xs @ ys) \<Longrightarrow> hash_first xs"
  by (induction xs) auto

lemma hash_first_append: "hash_first (p @ s) \<Longrightarrow> hash_first s \<or> hash_first (p @ t)"
  by (induction p) auto

lemma hash_first_spaces: "\<forall>c\<in>set ws. re_space c \<Longrightarrow> hash_first (ws @ s) \<longleftrightarrow> hash_first s"
proof (induction ws)
  case (Cons c ws)
  have "\<not> re_space (CHR ''#'')" by (simp add: re_space_def in_range_def)
  then have "c \<noteq> CHR ''#''" using Cons.prems by force
  with Cons show ?case by simp
qed simp

lemma comment_not_hash: "comment_text u \<Longrightarrow> \<not> hash_first (u @ t)"
proof
  assume "comment_text u" "hash_first (u @ t)"
  then obtain ws v where "\<forall>c\<in>set ws. re_space c" "hash_first (ws @ ''/*'' @ v @ t)" by (auto simp: comment_text_def)
  then show False by (simp only: hash_first_spaces) (simp add: re_space_def in_range_def)
qed

lemma removed_hash_first: "removed comment_text s s' \<Longrightarrow> hash_first s \<Longrightarrow> hash_first s'"
proof (induction rule: removed.induct)
  case (remove u t t' p)
  from hash_first_append [OF remove.prems, of t'] comment_not_hash [OF remove.hyps(1), of t] show ?case by simp
qed

lemma include_hash_first:
  assumes "matches RE_INCLUDE s"
  shows "hash_first s"
proof -
  from assms obtain st where "st \<in> set (rm RE_INCLUDE ([], s, []))"
    by (auto simp: matches_def Match_def split: list.splits)
  moreover have bol: "rm (RSeq RBol r) ([], s, []) = rm r ([], s, [])" for r by simp
  ultimately obtain r where "st \<in> set (rm (RSeq (RRep True 0 None space_rx) (RSeq (RLit CHR ''#'') r)) ([], s, []))"
    unfolding RE_INCLUDE_tree space_rx_def bol by blast
  then obtain ws a where 1: "s = ws @ a" "\<forall>c\<in>set ws. re_space c" "st \<in> set (rm (RSeq (RLit CHR ''#'') r) (rev ws @ [], a, []))"
    by (rule rm_starE [OF _ rm_space])
  from 1(3) obtain t where "a = CHR ''#'' # t" by (rule rm_litE)
  with 1 show ?thesis by (simp add: hash_first_spaces)
qed

lemma CleanseComments_removed: "\<exists>p. prefix p s \<and> removed comment_text p (CleanseComments s)"
proof -
  have "prefix (py_rstrip t) t" for t
    unfolding py_rstrip_def by (metis prefixI rev_append rev_rev_ident takeWhile_dropWhile_id)
  moreover have "prefix (slice_to s i) s" for i by (simp add: slice_to_def take_is_prefix)
  ultimately have "prefix (py_rstrip (slice_to s i)) s" for i using prefix_order.trans by blast
  moreover have "CleanseComments s = re_sub RE_CLEANSE_C_COMMENTS (\<lambda>m. [])
      (if py_find s ''//'' \<noteq> -1 \<and> \<not> IsCppString (slice_to s (py_find s ''//'')) then py_rstrip (slice_to s (py_find s ''//'')) else s)"
    by (simp add: CleanseComments_def Let_def)
  ultimately show ?thesis using comments_removed prefix_order.refl by (cases "py_find s ''//'' \<noteq> -1 \<and> \<not> IsCppString (slice_to s (py_find s ''//''))") force+
qed

lemma elided_shape:
  "quotes_empty (CleanseComments (CollapseStrings l)) \<or> hash_first (CleanseComments (CollapseStrings l))"
proof -
  obtain p t where p: "CollapseStrings l = p @ t" "removed comment_text p (CleanseComments (CollapseStrings l))"
    using CleanseComments_removed [of "CollapseStrings l"] by (auto simp: prefix_def)
  have "hash_first (CollapseStrings l) \<or> quotes_empty (CollapseStrings l)"
    using include_hash_first [of l] by (simp add: CollapseStrings_passes collapsed_quotes_empty)
  with p show ?thesis
    using hash_first_prefix [of p t] quotes_empty_prefix [of p t] removed_hash_first [OF p(2)] removed_quotes_empty [OF p(2)] by auto
qed

section \<open>Properties\<close>

text \<open>
  C6: Removing comments that span lines agrees with the one-pass reference. The number of lines
  does not change, every line is kept or becomes a dummy comment, and unless an unclosed
  comment was reported no remaining line starts a comment that goes beyond it.
\<close>

theorem RemoveMultiLineComments_correct:
  "snd (RemoveMultiLineComments ls) = snd (blank_comments ls)
   \<and> (fst (RemoveMultiLineComments ls) = [] \<longleftrightarrow> fst (blank_comments ls))
   \<and> length (snd (RemoveMultiLineComments ls)) = length ls
   \<and> (\<forall>i<length ls. snd (RemoveMultiLineComments ls) ! i \<in> {ls ! i, ''// dummy''})
   \<and> (fst (RemoveMultiLineComments ls) = [] \<longrightarrow> (\<forall>l\<in>set (snd (RemoveMultiLineComments ls)). \<not> opens_multiline l))"
  using remove_comments_append [of "[]" ls] blank_comments_clean [of ls]
  by (auto simp: RemoveMultiLineComments_def)

lemma RemoveMultiLineComments_correct_witness:
  "snd (RemoveMultiLineComments [''a'', ''/* b'', ''c */'', ''d'']) = [''a'', ''// dummy'', ''// dummy'', ''d'']"
proof -
  have "snd (blank_comments [''a'', ''/* b'', ''c */'', ''d'']) = [''a'', ''// dummy'', ''// dummy'', ''d'']" by code_simp
  with RemoveMultiLineComments_correct [of "[''a'', ''/* b'', ''c */'', ''d'']"] show ?thesis by metis
qed



text \<open>
  C21: Collapsing strings, on every line. An include line stays as it is. On any other line it is
  three scanners in a row: the first drops escape codes (a backslash with one of the letters that may
  follow it, with digits, or with \<open>x\<close> and hexadecimal digits), the second empties character
  constants, the third drops what stands between a double quote and the next one. In the result
  double quotes enclose nothing.
\<close>

theorem CollapseStrings_scanner:
  "CollapseStrings s = (if matches RE_INCLUDE s then s
     else sub_with after_string [CHR 0x22, CHR 0x22] (sub_with after_char [CHR 0x27, CHR 0x27] (sub_with after_escape [] s)))
   \<and> (matches RE_INCLUDE s \<or> quotes_empty (CollapseStrings s))"
  by (simp add: CollapseStrings_passes collapsed_quotes_empty)

lemma CollapseStrings_scanner_witness:
  \<open>CollapseStrings (''f("a'' @ [CHR 0x5C] @ ''" // b", '' @ [CHR 0x27] @ ''c'' @ [CHR 0x27] @ '');'') =
     ''f("", '' @ [CHR 0x27, CHR 0x27] @ '');''\<close>
proof -
  let ?s = \<open>''f("a'' @ [CHR 0x5C] @ ''" // b", '' @ [CHR 0x27] @ ''c'' @ [CHR 0x27] @ '');''\<close>
  have 1: "\<not> matches RE_INCLUDE ?s" by code_simp
  have "sub_with after_string [CHR 0x22, CHR 0x22] (sub_with after_char [CHR 0x27, CHR 0x27] (sub_with after_escape [] ?s))
    = [CHR ''f'', CHR ''('', CHR 0x22, CHR 0x22, CHR '','', CHR '' '', CHR 0x27, CHR 0x27, CHR '')'', CHR '';'']" by code_simp
  then show ?thesis using CollapseStrings_scanner [of ?s] 1 by simp
qed

end
