(* ===== verification/Check_Patterns.thy ===== *)
theory Check_Patterns
  imports Regex_Parser
begin

text \<open>
  The regular expressions of the checks on single lines (spacing, style, constructs that are not
  standard C++), in the same form as in \<open>Patterns\<close>.
\<close>

section \<open>The texts\<close>

definition RE_SIX_SPACES :: regex where
  \<open>RE_SIX_SPACES = rx '' {6}`w''\<close>

definition RE_FN_PARAMS_END :: regex where
  \<open>RE_FN_PARAMS_END = rx '' {4}`w[^`(]*`)`s*(const`s*)?(`{`s*$|:)''\<close>

definition RE_INIT_COLON :: regex where
  \<open>RE_INIT_COLON = rx '' {4}:''\<close>

definition RE_STARTS_CLOSE :: regex where
  \<open>RE_STARTS_CLOSE = rx ''`s*}''\<close>

definition RE_NS_OPEN :: regex where
  \<open>RE_NS_OPEN = rx ''`s*namespace[^{]*{''\<close>

definition RE_STARTS_OPEN :: regex where
  \<open>RE_STARTS_OPEN = rx ''`s*{''\<close>

definition RE_SECTION :: regex where
  \<open>RE_SECTION = rx ''`s*(public|protected|private):''\<close>

definition RE_OPEN_COMMENT :: regex where
  \<open>RE_OPEN_COMMENT = rx ''^`s*{ //''\<close>

definition RE_COMMENT_RULE :: regex where
  \<open>RE_COMMENT_RULE = rx ''[=/-]{4,}`s*$''\<close>

definition RE_DOXY_EMPTY :: regex where
  \<open>RE_DOXY_EMPTY = rx ''^/$''\<close>

definition RE_DOXY_MEMBER :: regex where
  \<open>RE_DOXY_MEMBER = rx ''^/< ''\<close>

definition RE_DOXY_SLASHES :: regex where
  \<open>RE_DOXY_SLASHES = rx ''^/+ ''\<close>

definition RE_DOXY_AT :: regex where
  \<open>RE_DOXY_AT = rx ''^/@''\<close>

definition RE_OPERATOR_METHOD :: regex where
  \<open>RE_OPERATOR_METHOD = rx ''operator(==|!=|<|<<|<=|>=|>>|>)`(''\<close>

definition RE_EQ_RIGHT :: regex where
  \<open>RE_EQ_RIGHT = rx ''`s=[`w.]''\<close>

definition RE_EQ_LEFT :: regex where
  \<open>RE_EQ_LEFT = rx ''[`w.]=`s''\<close>

definition RE_EQ_BOTH :: regex where
  \<open>RE_EQ_BOTH = rx ''[`w.]=[`w.]''\<close>

definition RE_IF_WHILE :: regex where
  \<open>RE_IF_WHILE = rx ''`b(if|while) ''\<close>

definition RE_REL_NONE :: regex where
  \<open>RE_REL_NONE = rx ''[^<>=!`s](==|!=|<=|>=)[^<>=!`s]''\<close>

definition RE_REL_LEFT :: regex where
  \<open>RE_REL_LEFT = rx ''`s(==|!=|<=|>=)[^<>=!`s]''\<close>

definition RE_REL_RIGHT :: regex where
  \<open>RE_REL_RIGHT = rx ''[^<>=!`s](==|!=|<=|>=)`s''\<close>

definition RE_TEMPLATE_SPILL :: regex where
  \<open>RE_TEMPLATE_SPILL = rx ''<[^<]*,`s*$''\<close>

definition RE_LT_NONE :: regex where
  \<open>RE_LT_NONE = rx ''[^<>=!`s](<)[^<>=!`s]([^>]|->)*$''\<close>

definition RE_LT_LEFT :: regex where
  \<open>RE_LT_LEFT = rx ''[^<>=!]`s(<)[^<>=!`s]([^>]|->)*$''\<close>

definition RE_LT_RIGHT :: regex where
  \<open>RE_LT_RIGHT = rx ''[^<>=!`s](<)`s[^<>=!]([^>]|->)*$''\<close>

definition RE_SHL :: regex where
  \<open>RE_SHL = rx ''(`S)(?:L|UL|ULL|l|ul|ull)?<<(`S)''\<close>

definition RE_HASH_INCLUDE :: regex where
  \<open>RE_HASH_INCLUDE = rx ''#.*include''\<close>

definition RE_TIGHT_LT :: regex where
  \<open>RE_TIGHT_LT = rx ''[^`s<]<([^`s=<].*)''\<close>

definition RE_TIGHT_GT :: regex where
  \<open>RE_TIGHT_GT = rx ''^(.*[^`s>])>[^`s=>]''\<close>

definition RE_SHR :: regex where
  \<open>RE_SHR = rx ''>>[a-zA-Z_]''\<close>

definition RE_UNARY_SPACE :: regex where
  \<open>RE_UNARY_SPACE = rx ''(!`s|~`s|[`s]--[`s;]|[`s]`+`+[`s;])''\<close>

definition RE_KEYWORD_PAREN :: regex where
  \<open>RE_KEYWORD_PAREN = rx '' (if`(|for`(|while`(|switch`()''\<close>

definition RE_CONTROL_PARENS :: regex where
  \<open>RE_CONTROL_PARENS = rx ''`b(if|for|while|switch)`s*`(([ ]*)(.).*[^ ]+([ ]*)`)`s*{`s*$''\<close>

definition RE_FOR_SEMI :: regex where
  \<open>RE_FOR_SEMI = rx ''`bfor`s*`(.*; `)''\<close>

definition RE_COMMA :: regex where
  \<open>RE_COMMA = rx '',[^`s]''\<close>

definition RE_SEMICOLON :: regex where
  \<open>RE_SEMICOLON = rx '';[^`s};``)/]''\<close>

definition RE_TIGHT_OPEN :: regex where
  \<open>RE_TIGHT_OPEN = rx ''[^ ({]{''\<close>

definition RE_TIGHT_ELSE :: regex where
  \<open>RE_TIGHT_ELSE = rx ''}else''\<close>

definition RE_SPACE_BRACKET :: regex where
  \<open>RE_SPACE_BRACKET = rx ''`w`s+`[''\<close>

definition RE_DELETE_BRACKET :: regex where
  \<open>RE_DELETE_BRACKET = rx ''delete`s+`[''\<close>

definition RE_COLON_SEMI :: regex where
  \<open>RE_COLON_SEMI = rx '':`s*;`s*$''\<close>

definition RE_ONLY_SEMI :: regex where
  \<open>RE_ONLY_SEMI = rx ''^`s*;`s*$''\<close>

definition RE_SPACE_SEMI :: regex where
  \<open>RE_SPACE_SEMI = rx ''`s+;`s*$''\<close>

definition RE_FOR_WORD :: regex where
  \<open>RE_FOR_WORD = rx ''`bfor`b''\<close>

definition RE_FOR_COLON_RIGHT :: regex where
  \<open>RE_FOR_COLON_RIGHT = rx ''for *`(.*[^:]:[^: ]''\<close>

definition RE_FOR_COLON_LEFT :: regex where
  \<open>RE_FOR_COLON_LEFT = rx ''for *`(.*[^: ]:[^:]''\<close>

definition RE_CALL_IF :: regex where
  \<open>RE_CALL_IF = rx ''`bif`s*`((.*)`)`s*{''\<close>

definition RE_CALL_FOR :: regex where
  \<open>RE_CALL_FOR = rx ''`bfor`s*`((.*)`)`s*{''\<close>

definition RE_CALL_WHILE :: regex where
  \<open>RE_CALL_WHILE = rx ''`bwhile`s*`((.*)`)`s*[{;]''\<close>

definition RE_CALL_SWITCH :: regex where
  \<open>RE_CALL_SWITCH = rx ''`bswitch`s*`((.*)`)`s*{''\<close>

definition RE_CONTROL_WORD :: regex where
  \<open>RE_CONTROL_WORD = rx ''`b(if|for|while|switch|return|new|delete|catch)`b''\<close>

definition RE_FN_POINTER :: regex where
  \<open>RE_FN_POINTER = rx '' `([^)]+`)`([^)]*(`)|,$)''\<close>

definition RE_TEMPLATE_FN_TYPE :: regex where
  \<open>RE_TEMPLATE_FN_TYPE = rx ''<(.+,)?[ `w]+ `([^)]*(`)|,$)(,.+)?>''\<close>

definition RE_ARRAY_POINTER :: regex where
  \<open>RE_ARRAY_POINTER = rx '' `([^)]+`)`[[^`]]+`]''\<close>

definition RE_CALL_SPACE :: regex where
  \<open>RE_CALL_SPACE = rx ''`w`s*`(`s(?!`s*``$)''\<close>

definition RE_PAREN_SPACE :: regex where
  \<open>RE_PAREN_SPACE = rx ''`(`s+(?!(`s*``)|`()''\<close>

definition RE_SPACE_CALL :: regex where
  \<open>RE_SPACE_CALL = rx ''`w`s+`(''\<close>

definition RE_DEFINE_TYPEDEF :: regex where
  \<open>RE_DEFINE_TYPEDEF = rx ''#`s*define|typedef''\<close>

definition RE_MEMBER_POINTER :: regex where
  \<open>RE_MEMBER_POINTER = rx ''`w`s+`((`w+::)?`*`w+`)`(''\<close>

definition RE_SPACE_CLOSE :: regex where
  \<open>RE_SPACE_CLOSE = rx ''[^)]`s+`)`s*[^{`s]''\<close>

definition RE_LEADING_CLOSE :: regex where
  \<open>RE_LEADING_CLOSE = rx ''^`s+`)''\<close>

definition RE_CLASS_WORD :: regex where
  \<open>RE_CLASS_WORD = rx ''`b(class|struct)`b''\<close>

definition RE_CONTINUATION :: regex where
  \<open>RE_CONTINUATION = rx ''``$''\<close>

definition RE_OPEN_END :: regex where
  \<open>RE_OPEN_END = rx ''`{`s*$''\<close>

definition RE_LABEL :: regex where
  \<open>RE_LABEL = rx ''^`s*[`w]+`s*:`s*$''\<close>

definition RE_NOT_LABEL :: regex where
  \<open>RE_NOT_LABEL = rx ''public|private|protected|default`s*:''\<close>

definition RE_URL :: regex where
  \<open>RE_URL = rx ''^`s*//.*(ftp|http(s?)|ms-help)://`S*$''\<close>

definition RE_ID_LINE :: regex where
  \<open>RE_ID_LINE = rx ''^// `$Id:.*#[0-9]+ `$$''\<close>

definition RE_PRINTF_Q :: regex where
  \<open>RE_PRINTF_Q = rx ''printf`s*`(.*".*%[-+ ]?`d*q''\<close>

definition RE_PRINTF_POS :: regex where
  \<open>RE_PRINTF_POS = rx ''printf`s*`(.*".*%`d+`$''\<close>

definition RE_UNDEF_ESCAPE :: regex where
  \<open>RE_UNDEF_ESCAPE = rx ''("|`\').*``(%|`[|`(|{)''\<close>

definition RE_STORAGE_CLASS :: regex where
  \<open>RE_STORAGE_CLASS = rx ''`b(const|volatile|void|char|short|int|long|float|double|signed|unsigned|schar|u?int8|u?int16|u?int32|u?int64)`s+(auto|register|static|extern|typedef)`b''\<close>

definition RE_ENDIF_TEXT :: regex where
  \<open>RE_ENDIF_TEXT = rx ''`s*#`s*endif`s*[^/`s]+''\<close>

definition RE_INNER_FWD :: regex where
  \<open>RE_INNER_FWD = rx ''`s*class`s+(`w+`s*::`s*)+`w+`s*;''\<close>

definition RE_MINMAX :: regex where
  \<open>RE_MINMAX = rx ''(`w+|[+-]?`d+(`.`d*)?)`s*(<|>)`?=?`s*(`w+|[+-]?`d+)(`.`d*)?''\<close>

definition RE_CONST_STRING_REF :: regex where
  \<open>RE_CONST_STRING_REF = rx ''^`s*const`s*string`s*&`s*`w+`s*;''\<close>

section \<open>The trees\<close>

text \<open>
  What the compiler makes of each pattern. As code equations these let an evaluation start from the
  tree instead of the text.
\<close>

lemma RE_SIX_SPACES_tree [code]:
  \<open>RE_SIX_SPACES =
     RSeq (RRep True 6 (Some 6) (RLit CHR 0x20)) (RSet False [CWord True])\<close>
  by code_simp

lemma RE_FN_PARAMS_END_tree [code]:
  \<open>RE_FN_PARAMS_END =
     RSeq (RRep True 4 (Some 4) (RLit CHR 0x20)) (RSeq (RSet False [CWord True]) (RSeq (RRep
     True 0 None (RSet True [CChar CHR ''(''])) (RSeq (RLit CHR '')'') (RSeq (RRep True 0 None
     (RSet False [CSpace True])) (RSeq (RRep True 0 (Some 1) (RGroup 1 (RSeq (RLit CHR ''c'')
     (RSeq (RLit CHR ''o'') (RSeq (RLit CHR ''n'') (RSeq (RLit CHR ''s'') (RSeq (RLit CHR ''t'')
     (RRep True 0 None (RSet False [CSpace True]))))))))) (RGroup 2 (RAlt (RSeq (RLit CHR ''{'')
     (RSeq (RRep True 0 None (RSet False [CSpace True])) REol)) (RLit CHR '':''))))))))\<close>
  by code_simp

lemma RE_INIT_COLON_tree [code]:
  \<open>RE_INIT_COLON =
     RSeq (RRep True 4 (Some 4) (RLit CHR 0x20)) (RLit CHR '':'')\<close>
  by code_simp

lemma RE_STARTS_CLOSE_tree [code]:
  \<open>RE_STARTS_CLOSE =
     RSeq (RRep True 0 None (RSet False [CSpace True])) (RLit CHR ''}'')\<close>
  by code_simp

lemma RE_NS_OPEN_tree [code]:
  \<open>RE_NS_OPEN =
     RSeq (RRep True 0 None (RSet False [CSpace True])) (RSeq (RLit CHR ''n'') (RSeq (RLit CHR
     ''a'') (RSeq (RLit CHR ''m'') (RSeq (RLit CHR ''e'') (RSeq (RLit CHR ''s'') (RSeq (RLit CHR
     ''p'') (RSeq (RLit CHR ''a'') (RSeq (RLit CHR ''c'') (RSeq (RLit CHR ''e'') (RSeq (RRep
     True 0 None (RSet True [CChar CHR ''{''])) (RLit CHR ''{'')))))))))))\<close>
  by code_simp

lemma RE_STARTS_OPEN_tree [code]:
  \<open>RE_STARTS_OPEN =
     RSeq (RRep True 0 None (RSet False [CSpace True])) (RLit CHR ''{'')\<close>
  by code_simp

lemma RE_SECTION_tree [code]:
  \<open>RE_SECTION =
     RSeq (RRep True 0 None (RSet False [CSpace True])) (RSeq (RGroup 1 (RAlt (RSeq (RLit CHR
     ''p'') (RSeq (RLit CHR ''u'') (RSeq (RLit CHR ''b'') (RSeq (RLit CHR ''l'') (RSeq (RLit CHR
     ''i'') (RLit CHR ''c'')))))) (RAlt (RSeq (RLit CHR ''p'') (RSeq (RLit CHR ''r'') (RSeq
     (RLit CHR ''o'') (RSeq (RLit CHR ''t'') (RSeq (RLit CHR ''e'') (RSeq (RLit CHR ''c'') (RSeq
     (RLit CHR ''t'') (RSeq (RLit CHR ''e'') (RLit CHR ''d''))))))))) (RSeq (RLit CHR ''p'')
     (RSeq (RLit CHR ''r'') (RSeq (RLit CHR ''i'') (RSeq (RLit CHR ''v'') (RSeq (RLit CHR ''a'')
     (RSeq (RLit CHR ''t'') (RLit CHR ''e'')))))))))) (RLit CHR '':''))\<close>
  by code_simp

lemma RE_OPEN_COMMENT_tree [code]:
  \<open>RE_OPEN_COMMENT =
     RSeq RBol (RSeq (RRep True 0 None (RSet False [CSpace True])) (RSeq (RLit CHR ''{'') (RSeq
     (RLit CHR 0x20) (RSeq (RLit CHR ''/'') (RLit CHR ''/'')))))\<close>
  by code_simp

lemma RE_COMMENT_RULE_tree [code]:
  \<open>RE_COMMENT_RULE =
     RSeq (RRep True 4 None (RSet False [CChar CHR ''='', CChar CHR ''/'', CChar CHR ''-'']))
     (RSeq (RRep True 0 None (RSet False [CSpace True])) REol)\<close>
  by code_simp

lemma RE_DOXY_EMPTY_tree [code]:
  \<open>RE_DOXY_EMPTY =
     RSeq RBol (RSeq (RLit CHR ''/'') REol)\<close>
  by code_simp

lemma RE_DOXY_MEMBER_tree [code]:
  \<open>RE_DOXY_MEMBER =
     RSeq RBol (RSeq (RLit CHR ''/'') (RSeq (RLit CHR ''<'') (RLit CHR 0x20)))\<close>
  by code_simp

lemma RE_DOXY_SLASHES_tree [code]:
  \<open>RE_DOXY_SLASHES =
     RSeq RBol (RSeq (RRep True 1 None (RLit CHR ''/'')) (RLit CHR 0x20))\<close>
  by code_simp

lemma RE_DOXY_AT_tree [code]:
  \<open>RE_DOXY_AT =
     RSeq RBol (RSeq (RLit CHR ''/'') (RLit CHR ''@''))\<close>
  by code_simp

lemma RE_OPERATOR_METHOD_tree [code]:
  \<open>RE_OPERATOR_METHOD =
     RSeq (RLit CHR ''o'') (RSeq (RLit CHR ''p'') (RSeq (RLit CHR ''e'') (RSeq (RLit CHR ''r'')
     (RSeq (RLit CHR ''a'') (RSeq (RLit CHR ''t'') (RSeq (RLit CHR ''o'') (RSeq (RLit CHR ''r'')
     (RSeq (RGroup 1 (RAlt (RSeq (RLit CHR ''='') (RLit CHR ''='')) (RAlt (RSeq (RLit CHR ''!'')
     (RLit CHR ''='')) (RAlt (RLit CHR ''<'') (RAlt (RSeq (RLit CHR ''<'') (RLit CHR ''<''))
     (RAlt (RSeq (RLit CHR ''<'') (RLit CHR ''='')) (RAlt (RSeq (RLit CHR ''>'') (RLit CHR
     ''='')) (RAlt (RSeq (RLit CHR ''>'') (RLit CHR ''>'')) (RLit CHR ''>''))))))))) (RLit CHR
     ''('')))))))))\<close>
  by code_simp

lemma RE_EQ_RIGHT_tree [code]:
  \<open>RE_EQ_RIGHT =
     RSeq (RSet False [CSpace True]) (RSeq (RLit CHR ''='') (RSet False [CWord True, CChar CHR
     ''.'']))\<close>
  by code_simp

lemma RE_EQ_LEFT_tree [code]:
  \<open>RE_EQ_LEFT =
     RSeq (RSet False [CWord True, CChar CHR ''.'']) (RSeq (RLit CHR ''='') (RSet False [CSpace
     True]))\<close>
  by code_simp

lemma RE_EQ_BOTH_tree [code]:
  \<open>RE_EQ_BOTH =
     RSeq (RSet False [CWord True, CChar CHR ''.'']) (RSeq (RLit CHR ''='') (RSet False [CWord
     True, CChar CHR ''.'']))\<close>
  by code_simp

lemma RE_IF_WHILE_tree [code]:
  \<open>RE_IF_WHILE =
     RSeq RWordB (RSeq (RGroup 1 (RAlt (RSeq (RLit CHR ''i'') (RLit CHR ''f'')) (RSeq (RLit CHR
     ''w'') (RSeq (RLit CHR ''h'') (RSeq (RLit CHR ''i'') (RSeq (RLit CHR ''l'') (RLit CHR
     ''e''))))))) (RLit CHR 0x20))\<close>
  by code_simp

lemma RE_REL_NONE_tree [code]:
  \<open>RE_REL_NONE =
     RSeq (RSet True [CChar CHR ''<'', CChar CHR ''>'', CChar CHR ''='', CChar CHR ''!'', CSpace
     True]) (RSeq (RGroup 1 (RAlt (RSeq (RLit CHR ''='') (RLit CHR ''='')) (RAlt (RSeq (RLit CHR
     ''!'') (RLit CHR ''='')) (RAlt (RSeq (RLit CHR ''<'') (RLit CHR ''='')) (RSeq (RLit CHR
     ''>'') (RLit CHR ''='')))))) (RSet True [CChar CHR ''<'', CChar CHR ''>'', CChar CHR ''='',
     CChar CHR ''!'', CSpace True]))\<close>
  by code_simp

lemma RE_REL_LEFT_tree [code]:
  \<open>RE_REL_LEFT =
     RSeq (RSet False [CSpace True]) (RSeq (RGroup 1 (RAlt (RSeq (RLit CHR ''='') (RLit CHR
     ''='')) (RAlt (RSeq (RLit CHR ''!'') (RLit CHR ''='')) (RAlt (RSeq (RLit CHR ''<'') (RLit
     CHR ''='')) (RSeq (RLit CHR ''>'') (RLit CHR ''='')))))) (RSet True [CChar CHR ''<'', CChar
     CHR ''>'', CChar CHR ''='', CChar CHR ''!'', CSpace True]))\<close>
  by code_simp

lemma RE_REL_RIGHT_tree [code]:
  \<open>RE_REL_RIGHT =
     RSeq (RSet True [CChar CHR ''<'', CChar CHR ''>'', CChar CHR ''='', CChar CHR ''!'', CSpace
     True]) (RSeq (RGroup 1 (RAlt (RSeq (RLit CHR ''='') (RLit CHR ''='')) (RAlt (RSeq (RLit CHR
     ''!'') (RLit CHR ''='')) (RAlt (RSeq (RLit CHR ''<'') (RLit CHR ''='')) (RSeq (RLit CHR
     ''>'') (RLit CHR ''='')))))) (RSet False [CSpace True]))\<close>
  by code_simp

lemma RE_TEMPLATE_SPILL_tree [code]:
  \<open>RE_TEMPLATE_SPILL =
     RSeq (RLit CHR ''<'') (RSeq (RRep True 0 None (RSet True [CChar CHR ''<''])) (RSeq (RLit
     CHR '','') (RSeq (RRep True 0 None (RSet False [CSpace True])) REol)))\<close>
  by code_simp

lemma RE_LT_NONE_tree [code]:
  \<open>RE_LT_NONE =
     RSeq (RSet True [CChar CHR ''<'', CChar CHR ''>'', CChar CHR ''='', CChar CHR ''!'', CSpace
     True]) (RSeq (RGroup 1 (RLit CHR ''<'')) (RSeq (RSet True [CChar CHR ''<'', CChar CHR
     ''>'', CChar CHR ''='', CChar CHR ''!'', CSpace True]) (RSeq (RRep True 0 None (RGroup 2
     (RAlt (RSet True [CChar CHR ''>'']) (RSeq (RLit CHR ''-'') (RLit CHR ''>''))))) REol)))\<close>
  by code_simp

lemma RE_LT_LEFT_tree [code]:
  \<open>RE_LT_LEFT =
     RSeq (RSet True [CChar CHR ''<'', CChar CHR ''>'', CChar CHR ''='', CChar CHR ''!'']) (RSeq
     (RSet False [CSpace True]) (RSeq (RGroup 1 (RLit CHR ''<'')) (RSeq (RSet True [CChar CHR
     ''<'', CChar CHR ''>'', CChar CHR ''='', CChar CHR ''!'', CSpace True]) (RSeq (RRep True 0
     None (RGroup 2 (RAlt (RSet True [CChar CHR ''>'']) (RSeq (RLit CHR ''-'') (RLit CHR
     ''>''))))) REol))))\<close>
  by code_simp

lemma RE_LT_RIGHT_tree [code]:
  \<open>RE_LT_RIGHT =
     RSeq (RSet True [CChar CHR ''<'', CChar CHR ''>'', CChar CHR ''='', CChar CHR ''!'', CSpace
     True]) (RSeq (RGroup 1 (RLit CHR ''<'')) (RSeq (RSet False [CSpace True]) (RSeq (RSet True
     [CChar CHR ''<'', CChar CHR ''>'', CChar CHR ''='', CChar CHR ''!'']) (RSeq (RRep True 0
     None (RGroup 2 (RAlt (RSet True [CChar CHR ''>'']) (RSeq (RLit CHR ''-'') (RLit CHR
     ''>''))))) REol))))\<close>
  by code_simp

lemma RE_SHL_tree [code]:
  \<open>RE_SHL =
     RSeq (RGroup 1 (RSet False [CSpace False])) (RSeq (RRep True 0 (Some 1) (RAlt (RLit CHR
     ''L'') (RAlt (RSeq (RLit CHR ''U'') (RLit CHR ''L'')) (RAlt (RSeq (RLit CHR ''U'') (RSeq
     (RLit CHR ''L'') (RLit CHR ''L''))) (RAlt (RLit CHR ''l'') (RAlt (RSeq (RLit CHR ''u'')
     (RLit CHR ''l'')) (RSeq (RLit CHR ''u'') (RSeq (RLit CHR ''l'') (RLit CHR ''l'')))))))))
     (RSeq (RLit CHR ''<'') (RSeq (RLit CHR ''<'') (RGroup 2 (RSet False [CSpace False])))))\<close>
  by code_simp

lemma RE_HASH_INCLUDE_tree [code]:
  \<open>RE_HASH_INCLUDE =
     RSeq (RLit CHR ''#'') (RSeq (RRep True 0 None RAny) (RSeq (RLit CHR ''i'') (RSeq (RLit CHR
     ''n'') (RSeq (RLit CHR ''c'') (RSeq (RLit CHR ''l'') (RSeq (RLit CHR ''u'') (RSeq (RLit CHR
     ''d'') (RLit CHR ''e''))))))))\<close>
  by code_simp

lemma RE_TIGHT_LT_tree [code]:
  \<open>RE_TIGHT_LT =
     RSeq (RSet True [CSpace True, CChar CHR ''<'']) (RSeq (RLit CHR ''<'') (RGroup 1 (RSeq
     (RSet True [CSpace True, CChar CHR ''='', CChar CHR ''<'']) (RRep True 0 None RAny))))\<close>
  by code_simp

lemma RE_TIGHT_GT_tree [code]:
  \<open>RE_TIGHT_GT =
     RSeq RBol (RSeq (RGroup 1 (RSeq (RRep True 0 None RAny) (RSet True [CSpace True, CChar CHR
     ''>'']))) (RSeq (RLit CHR ''>'') (RSet True [CSpace True, CChar CHR ''='', CChar CHR
     ''>''])))\<close>
  by code_simp

lemma RE_SHR_tree [code]:
  \<open>RE_SHR =
     RSeq (RLit CHR ''>'') (RSeq (RLit CHR ''>'') (RSet False [CRange CHR ''a'' CHR ''z'',
     CRange CHR ''A'' CHR ''Z'', CChar CHR ''_'']))\<close>
  by code_simp

lemma RE_UNARY_SPACE_tree [code]:
  \<open>RE_UNARY_SPACE =
     RGroup 1 (RAlt (RSeq (RLit CHR ''!'') (RSet False [CSpace True])) (RAlt (RSeq (RLit CHR
     ''~'') (RSet False [CSpace True])) (RAlt (RSeq (RSet False [CSpace True]) (RSeq (RLit CHR
     ''-'') (RSeq (RLit CHR ''-'') (RSet False [CSpace True, CChar CHR '';''])))) (RSeq (RSet
     False [CSpace True]) (RSeq (RLit CHR ''+'') (RSeq (RLit CHR ''+'') (RSet False [CSpace
     True, CChar CHR '';''])))))))\<close>
  by code_simp

lemma RE_KEYWORD_PAREN_tree [code]:
  \<open>RE_KEYWORD_PAREN =
     RSeq (RLit CHR 0x20) (RGroup 1 (RAlt (RSeq (RLit CHR ''i'') (RSeq (RLit CHR ''f'') (RLit
     CHR ''(''))) (RAlt (RSeq (RLit CHR ''f'') (RSeq (RLit CHR ''o'') (RSeq (RLit CHR ''r'')
     (RLit CHR ''('')))) (RAlt (RSeq (RLit CHR ''w'') (RSeq (RLit CHR ''h'') (RSeq (RLit CHR
     ''i'') (RSeq (RLit CHR ''l'') (RSeq (RLit CHR ''e'') (RLit CHR ''('')))))) (RSeq (RLit CHR
     ''s'') (RSeq (RLit CHR ''w'') (RSeq (RLit CHR ''i'') (RSeq (RLit CHR ''t'') (RSeq (RLit CHR
     ''c'') (RSeq (RLit CHR ''h'') (RLit CHR ''('')))))))))))\<close>
  by code_simp

lemma RE_CONTROL_PARENS_tree [code]:
  \<open>RE_CONTROL_PARENS =
     RSeq RWordB (RSeq (RGroup 1 (RAlt (RSeq (RLit CHR ''i'') (RLit CHR ''f'')) (RAlt (RSeq
     (RLit CHR ''f'') (RSeq (RLit CHR ''o'') (RLit CHR ''r''))) (RAlt (RSeq (RLit CHR ''w'')
     (RSeq (RLit CHR ''h'') (RSeq (RLit CHR ''i'') (RSeq (RLit CHR ''l'') (RLit CHR ''e'')))))
     (RSeq (RLit CHR ''s'') (RSeq (RLit CHR ''w'') (RSeq (RLit CHR ''i'') (RSeq (RLit CHR ''t'')
     (RSeq (RLit CHR ''c'') (RLit CHR ''h'')))))))))) (RSeq (RRep True 0 None (RSet False
     [CSpace True])) (RSeq (RLit CHR ''('') (RSeq (RGroup 2 (RRep True 0 None (RSet False [CChar
     CHR 0x20]))) (RSeq (RGroup 3 RAny) (RSeq (RRep True 0 None RAny) (RSeq (RRep True 1 None
     (RSet True [CChar CHR 0x20])) (RSeq (RGroup 4 (RRep True 0 None (RSet False [CChar CHR
     0x20]))) (RSeq (RLit CHR '')'') (RSeq (RRep True 0 None (RSet False [CSpace True])) (RSeq
     (RLit CHR ''{'') (RSeq (RRep True 0 None (RSet False [CSpace True])) REol))))))))))))\<close>
  by code_simp

lemma RE_FOR_SEMI_tree [code]:
  \<open>RE_FOR_SEMI =
     RSeq RWordB (RSeq (RLit CHR ''f'') (RSeq (RLit CHR ''o'') (RSeq (RLit CHR ''r'') (RSeq
     (RRep True 0 None (RSet False [CSpace True])) (RSeq (RLit CHR ''('') (RSeq (RRep True 0
     None RAny) (RSeq (RLit CHR '';'') (RSeq (RLit CHR 0x20) (RLit CHR '')'')))))))))\<close>
  by code_simp

lemma RE_COMMA_tree [code]:
  \<open>RE_COMMA =
     RSeq (RLit CHR '','') (RSet True [CSpace True])\<close>
  by code_simp

lemma RE_SEMICOLON_tree [code]:
  \<open>RE_SEMICOLON =
     RSeq (RLit CHR '';'') (RSet True [CSpace True, CChar CHR ''}'', CChar CHR '';'', CChar CHR
     0x5C, CChar CHR '')'', CChar CHR ''/''])\<close>
  by code_simp

lemma RE_TIGHT_OPEN_tree [code]:
  \<open>RE_TIGHT_OPEN =
     RSeq (RSet True [CChar CHR 0x20, CChar CHR ''('', CChar CHR ''{'']) (RLit CHR ''{'')\<close>
  by code_simp

lemma RE_TIGHT_ELSE_tree [code]:
  \<open>RE_TIGHT_ELSE =
     RSeq (RLit CHR ''}'') (RSeq (RLit CHR ''e'') (RSeq (RLit CHR ''l'') (RSeq (RLit CHR ''s'')
     (RLit CHR ''e''))))\<close>
  by code_simp

lemma RE_SPACE_BRACKET_tree [code]:
  \<open>RE_SPACE_BRACKET =
     RSeq (RSet False [CWord True]) (RSeq (RRep True 1 None (RSet False [CSpace True])) (RLit
     CHR ''[''))\<close>
  by code_simp

lemma RE_DELETE_BRACKET_tree [code]:
  \<open>RE_DELETE_BRACKET =
     RSeq (RLit CHR ''d'') (RSeq (RLit CHR ''e'') (RSeq (RLit CHR ''l'') (RSeq (RLit CHR ''e'')
     (RSeq (RLit CHR ''t'') (RSeq (RLit CHR ''e'') (RSeq (RRep True 1 None (RSet False [CSpace
     True])) (RLit CHR ''['')))))))\<close>
  by code_simp

lemma RE_COLON_SEMI_tree [code]:
  \<open>RE_COLON_SEMI =
     RSeq (RLit CHR '':'') (RSeq (RRep True 0 None (RSet False [CSpace True])) (RSeq (RLit CHR
     '';'') (RSeq (RRep True 0 None (RSet False [CSpace True])) REol)))\<close>
  by code_simp

lemma RE_ONLY_SEMI_tree [code]:
  \<open>RE_ONLY_SEMI =
     RSeq RBol (RSeq (RRep True 0 None (RSet False [CSpace True])) (RSeq (RLit CHR '';'') (RSeq
     (RRep True 0 None (RSet False [CSpace True])) REol)))\<close>
  by code_simp

lemma RE_SPACE_SEMI_tree [code]:
  \<open>RE_SPACE_SEMI =
     RSeq (RRep True 1 None (RSet False [CSpace True])) (RSeq (RLit CHR '';'') (RSeq (RRep True
     0 None (RSet False [CSpace True])) REol))\<close>
  by code_simp

lemma RE_FOR_WORD_tree [code]:
  \<open>RE_FOR_WORD =
     RSeq RWordB (RSeq (RLit CHR ''f'') (RSeq (RLit CHR ''o'') (RSeq (RLit CHR ''r'') RWordB)))\<close>
  by code_simp

lemma RE_FOR_COLON_RIGHT_tree [code]:
  \<open>RE_FOR_COLON_RIGHT =
     RSeq (RLit CHR ''f'') (RSeq (RLit CHR ''o'') (RSeq (RLit CHR ''r'') (RSeq (RRep True 0 None
     (RLit CHR 0x20)) (RSeq (RLit CHR ''('') (RSeq (RRep True 0 None RAny) (RSeq (RSet True
     [CChar CHR '':'']) (RSeq (RLit CHR '':'') (RSet True [CChar CHR '':'', CChar CHR
     0x20]))))))))\<close>
  by code_simp

lemma RE_FOR_COLON_LEFT_tree [code]:
  \<open>RE_FOR_COLON_LEFT =
     RSeq (RLit CHR ''f'') (RSeq (RLit CHR ''o'') (RSeq (RLit CHR ''r'') (RSeq (RRep True 0 None
     (RLit CHR 0x20)) (RSeq (RLit CHR ''('') (RSeq (RRep True 0 None RAny) (RSeq (RSet True
     [CChar CHR '':'', CChar CHR 0x20]) (RSeq (RLit CHR '':'') (RSet True [CChar CHR
     '':'']))))))))\<close>
  by code_simp

lemma RE_CALL_IF_tree [code]:
  \<open>RE_CALL_IF =
     RSeq RWordB (RSeq (RLit CHR ''i'') (RSeq (RLit CHR ''f'') (RSeq (RRep True 0 None (RSet
     False [CSpace True])) (RSeq (RLit CHR ''('') (RSeq (RGroup 1 (RRep True 0 None RAny)) (RSeq
     (RLit CHR '')'') (RSeq (RRep True 0 None (RSet False [CSpace True])) (RLit CHR
     ''{''))))))))\<close>
  by code_simp

lemma RE_CALL_FOR_tree [code]:
  \<open>RE_CALL_FOR =
     RSeq RWordB (RSeq (RLit CHR ''f'') (RSeq (RLit CHR ''o'') (RSeq (RLit CHR ''r'') (RSeq
     (RRep True 0 None (RSet False [CSpace True])) (RSeq (RLit CHR ''('') (RSeq (RGroup 1 (RRep
     True 0 None RAny)) (RSeq (RLit CHR '')'') (RSeq (RRep True 0 None (RSet False [CSpace
     True])) (RLit CHR ''{'')))))))))\<close>
  by code_simp

lemma RE_CALL_WHILE_tree [code]:
  \<open>RE_CALL_WHILE =
     RSeq RWordB (RSeq (RLit CHR ''w'') (RSeq (RLit CHR ''h'') (RSeq (RLit CHR ''i'') (RSeq
     (RLit CHR ''l'') (RSeq (RLit CHR ''e'') (RSeq (RRep True 0 None (RSet False [CSpace True]))
     (RSeq (RLit CHR ''('') (RSeq (RGroup 1 (RRep True 0 None RAny)) (RSeq (RLit CHR '')'')
     (RSeq (RRep True 0 None (RSet False [CSpace True])) (RSet False [CChar CHR ''{'', CChar CHR
     '';''])))))))))))\<close>
  by code_simp

lemma RE_CALL_SWITCH_tree [code]:
  \<open>RE_CALL_SWITCH =
     RSeq RWordB (RSeq (RLit CHR ''s'') (RSeq (RLit CHR ''w'') (RSeq (RLit CHR ''i'') (RSeq
     (RLit CHR ''t'') (RSeq (RLit CHR ''c'') (RSeq (RLit CHR ''h'') (RSeq (RRep True 0 None
     (RSet False [CSpace True])) (RSeq (RLit CHR ''('') (RSeq (RGroup 1 (RRep True 0 None RAny))
     (RSeq (RLit CHR '')'') (RSeq (RRep True 0 None (RSet False [CSpace True])) (RLit CHR
     ''{''))))))))))))\<close>
  by code_simp

lemma RE_CONTROL_WORD_tree [code]:
  \<open>RE_CONTROL_WORD =
     RSeq RWordB (RSeq (RGroup 1 (RAlt (RSeq (RLit CHR ''i'') (RLit CHR ''f'')) (RAlt (RSeq
     (RLit CHR ''f'') (RSeq (RLit CHR ''o'') (RLit CHR ''r''))) (RAlt (RSeq (RLit CHR ''w'')
     (RSeq (RLit CHR ''h'') (RSeq (RLit CHR ''i'') (RSeq (RLit CHR ''l'') (RLit CHR ''e'')))))
     (RAlt (RSeq (RLit CHR ''s'') (RSeq (RLit CHR ''w'') (RSeq (RLit CHR ''i'') (RSeq (RLit CHR
     ''t'') (RSeq (RLit CHR ''c'') (RLit CHR ''h'')))))) (RAlt (RSeq (RLit CHR ''r'') (RSeq
     (RLit CHR ''e'') (RSeq (RLit CHR ''t'') (RSeq (RLit CHR ''u'') (RSeq (RLit CHR ''r'') (RLit
     CHR ''n'')))))) (RAlt (RSeq (RLit CHR ''n'') (RSeq (RLit CHR ''e'') (RLit CHR ''w'')))
     (RAlt (RSeq (RLit CHR ''d'') (RSeq (RLit CHR ''e'') (RSeq (RLit CHR ''l'') (RSeq (RLit CHR
     ''e'') (RSeq (RLit CHR ''t'') (RLit CHR ''e'')))))) (RSeq (RLit CHR ''c'') (RSeq (RLit CHR
     ''a'') (RSeq (RLit CHR ''t'') (RSeq (RLit CHR ''c'') (RLit CHR ''h''))))))))))))) RWordB)\<close>
  by code_simp

lemma RE_FN_POINTER_tree [code]:
  \<open>RE_FN_POINTER =
     RSeq (RLit CHR 0x20) (RSeq (RLit CHR ''('') (RSeq (RRep True 1 None (RSet True [CChar CHR
     '')''])) (RSeq (RLit CHR '')'') (RSeq (RLit CHR ''('') (RSeq (RRep True 0 None (RSet True
     [CChar CHR '')''])) (RGroup 1 (RAlt (RLit CHR '')'') (RSeq (RLit CHR '','') REol))))))))\<close>
  by code_simp

lemma RE_TEMPLATE_FN_TYPE_tree [code]:
  \<open>RE_TEMPLATE_FN_TYPE =
     RSeq (RLit CHR ''<'') (RSeq (RRep True 0 (Some 1) (RGroup 1 (RSeq (RRep True 1 None RAny)
     (RLit CHR '','')))) (RSeq (RRep True 1 None (RSet False [CChar CHR 0x20, CWord True]))
     (RSeq (RLit CHR 0x20) (RSeq (RLit CHR ''('') (RSeq (RRep True 0 None (RSet True [CChar CHR
     '')''])) (RSeq (RGroup 2 (RAlt (RLit CHR '')'') (RSeq (RLit CHR '','') REol))) (RSeq (RRep
     True 0 (Some 1) (RGroup 3 (RSeq (RLit CHR '','') (RRep True 1 None RAny)))) (RLit CHR
     ''>''))))))))\<close>
  by code_simp

lemma RE_ARRAY_POINTER_tree [code]:
  \<open>RE_ARRAY_POINTER =
     RSeq (RLit CHR 0x20) (RSeq (RLit CHR ''('') (RSeq (RRep True 1 None (RSet True [CChar CHR
     '')''])) (RSeq (RLit CHR '')'') (RSeq (RLit CHR ''['') (RSeq (RRep True 1 None (RSet True
     [CChar CHR '']''])) (RLit CHR '']''))))))\<close>
  by code_simp

lemma RE_CALL_SPACE_tree [code]:
  \<open>RE_CALL_SPACE =
     RSeq (RSet False [CWord True]) (RSeq (RRep True 0 None (RSet False [CSpace True])) (RSeq
     (RLit CHR ''('') (RSeq (RSet False [CSpace True]) (RLook False (RSeq (RRep True 0 None
     (RSet False [CSpace True])) (RSeq (RLit CHR 0x5C) REol))))))\<close>
  by code_simp

lemma RE_PAREN_SPACE_tree [code]:
  \<open>RE_PAREN_SPACE =
     RSeq (RLit CHR ''('') (RSeq (RRep True 1 None (RSet False [CSpace True])) (RLook False
     (RAlt (RGroup 1 (RSeq (RRep True 0 None (RSet False [CSpace True])) (RLit CHR 0x5C))) (RLit
     CHR ''(''))))\<close>
  by code_simp

lemma RE_SPACE_CALL_tree [code]:
  \<open>RE_SPACE_CALL =
     RSeq (RSet False [CWord True]) (RSeq (RRep True 1 None (RSet False [CSpace True])) (RLit
     CHR ''(''))\<close>
  by code_simp

lemma RE_DEFINE_TYPEDEF_tree [code]:
  \<open>RE_DEFINE_TYPEDEF =
     RAlt (RSeq (RLit CHR ''#'') (RSeq (RRep True 0 None (RSet False [CSpace True])) (RSeq (RLit
     CHR ''d'') (RSeq (RLit CHR ''e'') (RSeq (RLit CHR ''f'') (RSeq (RLit CHR ''i'') (RSeq (RLit
     CHR ''n'') (RLit CHR ''e'')))))))) (RSeq (RLit CHR ''t'') (RSeq (RLit CHR ''y'') (RSeq
     (RLit CHR ''p'') (RSeq (RLit CHR ''e'') (RSeq (RLit CHR ''d'') (RSeq (RLit CHR ''e'') (RLit
     CHR ''f'')))))))\<close>
  by code_simp

lemma RE_MEMBER_POINTER_tree [code]:
  \<open>RE_MEMBER_POINTER =
     RSeq (RSet False [CWord True]) (RSeq (RRep True 1 None (RSet False [CSpace True])) (RSeq
     (RLit CHR ''('') (RSeq (RRep True 0 (Some 1) (RGroup 1 (RSeq (RRep True 1 None (RSet False
     [CWord True])) (RSeq (RLit CHR '':'') (RLit CHR '':''))))) (RSeq (RLit CHR ''*'') (RSeq
     (RRep True 1 None (RSet False [CWord True])) (RSeq (RLit CHR '')'') (RLit CHR ''('')))))))\<close>
  by code_simp

lemma RE_SPACE_CLOSE_tree [code]:
  \<open>RE_SPACE_CLOSE =
     RSeq (RSet True [CChar CHR '')'']) (RSeq (RRep True 1 None (RSet False [CSpace True]))
     (RSeq (RLit CHR '')'') (RSeq (RRep True 0 None (RSet False [CSpace True])) (RSet True
     [CChar CHR ''{'', CSpace True]))))\<close>
  by code_simp

lemma RE_LEADING_CLOSE_tree [code]:
  \<open>RE_LEADING_CLOSE =
     RSeq RBol (RSeq (RRep True 1 None (RSet False [CSpace True])) (RLit CHR '')''))\<close>
  by code_simp

lemma RE_CLASS_WORD_tree [code]:
  \<open>RE_CLASS_WORD =
     RSeq RWordB (RSeq (RGroup 1 (RAlt (RSeq (RLit CHR ''c'') (RSeq (RLit CHR ''l'') (RSeq (RLit
     CHR ''a'') (RSeq (RLit CHR ''s'') (RLit CHR ''s''))))) (RSeq (RLit CHR ''s'') (RSeq (RLit
     CHR ''t'') (RSeq (RLit CHR ''r'') (RSeq (RLit CHR ''u'') (RSeq (RLit CHR ''c'') (RLit CHR
     ''t'')))))))) RWordB)\<close>
  by code_simp

lemma RE_CONTINUATION_tree [code]:
  \<open>RE_CONTINUATION =
     RSeq (RLit CHR 0x5C) REol\<close>
  by code_simp

lemma RE_OPEN_END_tree [code]:
  \<open>RE_OPEN_END =
     RSeq (RLit CHR ''{'') (RSeq (RRep True 0 None (RSet False [CSpace True])) REol)\<close>
  by code_simp

lemma RE_LABEL_tree [code]:
  \<open>RE_LABEL =
     RSeq RBol (RSeq (RRep True 0 None (RSet False [CSpace True])) (RSeq (RRep True 1 None (RSet
     False [CWord True])) (RSeq (RRep True 0 None (RSet False [CSpace True])) (RSeq (RLit CHR
     '':'') (RSeq (RRep True 0 None (RSet False [CSpace True])) REol)))))\<close>
  by code_simp

lemma RE_NOT_LABEL_tree [code]:
  \<open>RE_NOT_LABEL =
     RAlt (RSeq (RLit CHR ''p'') (RSeq (RLit CHR ''u'') (RSeq (RLit CHR ''b'') (RSeq (RLit CHR
     ''l'') (RSeq (RLit CHR ''i'') (RLit CHR ''c'')))))) (RAlt (RSeq (RLit CHR ''p'') (RSeq
     (RLit CHR ''r'') (RSeq (RLit CHR ''i'') (RSeq (RLit CHR ''v'') (RSeq (RLit CHR ''a'') (RSeq
     (RLit CHR ''t'') (RLit CHR ''e''))))))) (RAlt (RSeq (RLit CHR ''p'') (RSeq (RLit CHR ''r'')
     (RSeq (RLit CHR ''o'') (RSeq (RLit CHR ''t'') (RSeq (RLit CHR ''e'') (RSeq (RLit CHR ''c'')
     (RSeq (RLit CHR ''t'') (RSeq (RLit CHR ''e'') (RLit CHR ''d''))))))))) (RSeq (RLit CHR
     ''d'') (RSeq (RLit CHR ''e'') (RSeq (RLit CHR ''f'') (RSeq (RLit CHR ''a'') (RSeq (RLit CHR
     ''u'') (RSeq (RLit CHR ''l'') (RSeq (RLit CHR ''t'') (RSeq (RRep True 0 None (RSet False
     [CSpace True])) (RLit CHR '':'')))))))))))\<close>
  by code_simp

lemma RE_URL_tree [code]:
  \<open>RE_URL =
     RSeq RBol (RSeq (RRep True 0 None (RSet False [CSpace True])) (RSeq (RLit CHR ''/'') (RSeq
     (RLit CHR ''/'') (RSeq (RRep True 0 None RAny) (RSeq (RGroup 1 (RAlt (RSeq (RLit CHR ''f'')
     (RSeq (RLit CHR ''t'') (RLit CHR ''p''))) (RAlt (RSeq (RLit CHR ''h'') (RSeq (RLit CHR
     ''t'') (RSeq (RLit CHR ''t'') (RSeq (RLit CHR ''p'') (RGroup 2 (RRep True 0 (Some 1) (RLit
     CHR ''s''))))))) (RSeq (RLit CHR ''m'') (RSeq (RLit CHR ''s'') (RSeq (RLit CHR ''-'') (RSeq
     (RLit CHR ''h'') (RSeq (RLit CHR ''e'') (RSeq (RLit CHR ''l'') (RLit CHR ''p''))))))))))
     (RSeq (RLit CHR '':'') (RSeq (RLit CHR ''/'') (RSeq (RLit CHR ''/'') (RSeq (RRep True 0
     None (RSet False [CSpace False])) REol)))))))))\<close>
  by code_simp

lemma RE_ID_LINE_tree [code]:
  \<open>RE_ID_LINE =
     RSeq RBol (RSeq (RLit CHR ''/'') (RSeq (RLit CHR ''/'') (RSeq (RLit CHR 0x20) (RSeq (RLit
     CHR ''$'') (RSeq (RLit CHR ''I'') (RSeq (RLit CHR ''d'') (RSeq (RLit CHR '':'') (RSeq (RRep
     True 0 None RAny) (RSeq (RLit CHR ''#'') (RSeq (RRep True 1 None (RSet False [CRange CHR
     ''0'' CHR ''9''])) (RSeq (RLit CHR 0x20) (RSeq (RLit CHR ''$'') REol))))))))))))\<close>
  by code_simp

lemma RE_PRINTF_Q_tree [code]:
  \<open>RE_PRINTF_Q =
     RSeq (RLit CHR ''p'') (RSeq (RLit CHR ''r'') (RSeq (RLit CHR ''i'') (RSeq (RLit CHR ''n'')
     (RSeq (RLit CHR ''t'') (RSeq (RLit CHR ''f'') (RSeq (RRep True 0 None (RSet False [CSpace
     True])) (RSeq (RLit CHR ''('') (RSeq (RRep True 0 None RAny) (RSeq (RLit CHR 0x22) (RSeq
     (RRep True 0 None RAny) (RSeq (RLit CHR ''%'') (RSeq (RRep True 0 (Some 1) (RSet False
     [CChar CHR ''-'', CChar CHR ''+'', CChar CHR 0x20])) (RSeq (RRep True 0 None (RSet False
     [CDigit True])) (RLit CHR ''q''))))))))))))))\<close>
  by code_simp

lemma RE_PRINTF_POS_tree [code]:
  \<open>RE_PRINTF_POS =
     RSeq (RLit CHR ''p'') (RSeq (RLit CHR ''r'') (RSeq (RLit CHR ''i'') (RSeq (RLit CHR ''n'')
     (RSeq (RLit CHR ''t'') (RSeq (RLit CHR ''f'') (RSeq (RRep True 0 None (RSet False [CSpace
     True])) (RSeq (RLit CHR ''('') (RSeq (RRep True 0 None RAny) (RSeq (RLit CHR 0x22) (RSeq
     (RRep True 0 None RAny) (RSeq (RLit CHR ''%'') (RSeq (RRep True 1 None (RSet False [CDigit
     True])) (RLit CHR ''$'')))))))))))))\<close>
  by code_simp

lemma RE_UNDEF_ESCAPE_tree [code]:
  \<open>RE_UNDEF_ESCAPE =
     RSeq (RGroup 1 (RAlt (RLit CHR 0x22) (RLit CHR 0x27))) (RSeq (RRep True 0 None RAny) (RSeq
     (RLit CHR 0x5C) (RGroup 2 (RAlt (RLit CHR ''%'') (RAlt (RLit CHR ''['') (RAlt (RLit CHR
     ''('') (RLit CHR ''{'')))))))\<close>
  by code_simp

lemma RE_STORAGE_CLASS_tree [code]:
  \<open>RE_STORAGE_CLASS =
     RSeq RWordB (RSeq (RGroup 1 (RAlt (RSeq (RLit CHR ''c'') (RSeq (RLit CHR ''o'') (RSeq (RLit
     CHR ''n'') (RSeq (RLit CHR ''s'') (RLit CHR ''t''))))) (RAlt (RSeq (RLit CHR ''v'') (RSeq
     (RLit CHR ''o'') (RSeq (RLit CHR ''l'') (RSeq (RLit CHR ''a'') (RSeq (RLit CHR ''t'') (RSeq
     (RLit CHR ''i'') (RSeq (RLit CHR ''l'') (RLit CHR ''e'')))))))) (RAlt (RSeq (RLit CHR
     ''v'') (RSeq (RLit CHR ''o'') (RSeq (RLit CHR ''i'') (RLit CHR ''d'')))) (RAlt (RSeq (RLit
     CHR ''c'') (RSeq (RLit CHR ''h'') (RSeq (RLit CHR ''a'') (RLit CHR ''r'')))) (RAlt (RSeq
     (RLit CHR ''s'') (RSeq (RLit CHR ''h'') (RSeq (RLit CHR ''o'') (RSeq (RLit CHR ''r'') (RLit
     CHR ''t''))))) (RAlt (RSeq (RLit CHR ''i'') (RSeq (RLit CHR ''n'') (RLit CHR ''t''))) (RAlt
     (RSeq (RLit CHR ''l'') (RSeq (RLit CHR ''o'') (RSeq (RLit CHR ''n'') (RLit CHR ''g''))))
     (RAlt (RSeq (RLit CHR ''f'') (RSeq (RLit CHR ''l'') (RSeq (RLit CHR ''o'') (RSeq (RLit CHR
     ''a'') (RLit CHR ''t''))))) (RAlt (RSeq (RLit CHR ''d'') (RSeq (RLit CHR ''o'') (RSeq (RLit
     CHR ''u'') (RSeq (RLit CHR ''b'') (RSeq (RLit CHR ''l'') (RLit CHR ''e'')))))) (RAlt (RSeq
     (RLit CHR ''s'') (RSeq (RLit CHR ''i'') (RSeq (RLit CHR ''g'') (RSeq (RLit CHR ''n'') (RSeq
     (RLit CHR ''e'') (RLit CHR ''d'')))))) (RAlt (RSeq (RLit CHR ''u'') (RSeq (RLit CHR ''n'')
     (RSeq (RLit CHR ''s'') (RSeq (RLit CHR ''i'') (RSeq (RLit CHR ''g'') (RSeq (RLit CHR ''n'')
     (RSeq (RLit CHR ''e'') (RLit CHR ''d'')))))))) (RAlt (RSeq (RLit CHR ''s'') (RSeq (RLit CHR
     ''c'') (RSeq (RLit CHR ''h'') (RSeq (RLit CHR ''a'') (RLit CHR ''r''))))) (RAlt (RSeq (RRep
     True 0 (Some 1) (RLit CHR ''u'')) (RSeq (RLit CHR ''i'') (RSeq (RLit CHR ''n'') (RSeq (RLit
     CHR ''t'') (RLit CHR ''8''))))) (RAlt (RSeq (RRep True 0 (Some 1) (RLit CHR ''u'')) (RSeq
     (RLit CHR ''i'') (RSeq (RLit CHR ''n'') (RSeq (RLit CHR ''t'') (RSeq (RLit CHR ''1'') (RLit
     CHR ''6'')))))) (RAlt (RSeq (RRep True 0 (Some 1) (RLit CHR ''u'')) (RSeq (RLit CHR ''i'')
     (RSeq (RLit CHR ''n'') (RSeq (RLit CHR ''t'') (RSeq (RLit CHR ''3'') (RLit CHR ''2''))))))
     (RSeq (RRep True 0 (Some 1) (RLit CHR ''u'')) (RSeq (RLit CHR ''i'') (RSeq (RLit CHR ''n'')
     (RSeq (RLit CHR ''t'') (RSeq (RLit CHR ''6'') (RLit CHR ''4'')))))))))))))))))))))) (RSeq
     (RRep True 1 None (RSet False [CSpace True])) (RSeq (RGroup 2 (RAlt (RSeq (RLit CHR ''a'')
     (RSeq (RLit CHR ''u'') (RSeq (RLit CHR ''t'') (RLit CHR ''o'')))) (RAlt (RSeq (RLit CHR
     ''r'') (RSeq (RLit CHR ''e'') (RSeq (RLit CHR ''g'') (RSeq (RLit CHR ''i'') (RSeq (RLit CHR
     ''s'') (RSeq (RLit CHR ''t'') (RSeq (RLit CHR ''e'') (RLit CHR ''r'')))))))) (RAlt (RSeq
     (RLit CHR ''s'') (RSeq (RLit CHR ''t'') (RSeq (RLit CHR ''a'') (RSeq (RLit CHR ''t'') (RSeq
     (RLit CHR ''i'') (RLit CHR ''c'')))))) (RAlt (RSeq (RLit CHR ''e'') (RSeq (RLit CHR ''x'')
     (RSeq (RLit CHR ''t'') (RSeq (RLit CHR ''e'') (RSeq (RLit CHR ''r'') (RLit CHR ''n''))))))
     (RSeq (RLit CHR ''t'') (RSeq (RLit CHR ''y'') (RSeq (RLit CHR ''p'') (RSeq (RLit CHR ''e'')
     (RSeq (RLit CHR ''d'') (RSeq (RLit CHR ''e'') (RLit CHR ''f'')))))))))))) RWordB)))\<close>
  by code_simp

lemma RE_ENDIF_TEXT_tree [code]:
  \<open>RE_ENDIF_TEXT =
     RSeq (RRep True 0 None (RSet False [CSpace True])) (RSeq (RLit CHR ''#'') (RSeq (RRep True
     0 None (RSet False [CSpace True])) (RSeq (RLit CHR ''e'') (RSeq (RLit CHR ''n'') (RSeq
     (RLit CHR ''d'') (RSeq (RLit CHR ''i'') (RSeq (RLit CHR ''f'') (RSeq (RRep True 0 None
     (RSet False [CSpace True])) (RRep True 1 None (RSet True [CChar CHR ''/'', CSpace
     True]))))))))))\<close>
  by code_simp

lemma RE_INNER_FWD_tree [code]:
  \<open>RE_INNER_FWD =
     RSeq (RRep True 0 None (RSet False [CSpace True])) (RSeq (RLit CHR ''c'') (RSeq (RLit CHR
     ''l'') (RSeq (RLit CHR ''a'') (RSeq (RLit CHR ''s'') (RSeq (RLit CHR ''s'') (RSeq (RRep
     True 1 None (RSet False [CSpace True])) (RSeq (RRep True 1 None (RGroup 1 (RSeq (RRep True
     1 None (RSet False [CWord True])) (RSeq (RRep True 0 None (RSet False [CSpace True])) (RSeq
     (RLit CHR '':'') (RSeq (RLit CHR '':'') (RRep True 0 None (RSet False [CSpace True]))))))))
     (RSeq (RRep True 1 None (RSet False [CWord True])) (RSeq (RRep True 0 None (RSet False
     [CSpace True])) (RLit CHR '';''))))))))))\<close>
  by code_simp

lemma RE_MINMAX_tree [code]:
  \<open>RE_MINMAX =
     RSeq (RGroup 1 (RAlt (RRep True 1 None (RSet False [CWord True])) (RSeq (RRep True 0 (Some
     1) (RSet False [CChar CHR ''+'', CChar CHR ''-''])) (RSeq (RRep True 1 None (RSet False
     [CDigit True])) (RRep True 0 (Some 1) (RGroup 2 (RSeq (RLit CHR ''.'') (RRep True 0 None
     (RSet False [CDigit True]))))))))) (RSeq (RRep True 0 None (RSet False [CSpace True]))
     (RSeq (RGroup 3 (RAlt (RLit CHR ''<'') (RLit CHR ''>''))) (RSeq (RLit CHR ''?'') (RSeq
     (RRep True 0 (Some 1) (RLit CHR ''='')) (RSeq (RRep True 0 None (RSet False [CSpace True]))
     (RSeq (RGroup 4 (RAlt (RRep True 1 None (RSet False [CWord True])) (RSeq (RRep True 0 (Some
     1) (RSet False [CChar CHR ''+'', CChar CHR ''-''])) (RRep True 1 None (RSet False [CDigit
     True]))))) (RRep True 0 (Some 1) (RGroup 5 (RSeq (RLit CHR ''.'') (RRep True 0 None (RSet
     False [CDigit True])))))))))))\<close>
  by code_simp

lemma RE_CONST_STRING_REF_tree [code]:
  \<open>RE_CONST_STRING_REF =
     RSeq RBol (RSeq (RRep True 0 None (RSet False [CSpace True])) (RSeq (RLit CHR ''c'') (RSeq
     (RLit CHR ''o'') (RSeq (RLit CHR ''n'') (RSeq (RLit CHR ''s'') (RSeq (RLit CHR ''t'') (RSeq
     (RRep True 0 None (RSet False [CSpace True])) (RSeq (RLit CHR ''s'') (RSeq (RLit CHR ''t'')
     (RSeq (RLit CHR ''r'') (RSeq (RLit CHR ''i'') (RSeq (RLit CHR ''n'') (RSeq (RLit CHR ''g'')
     (RSeq (RRep True 0 None (RSet False [CSpace True])) (RSeq (RLit CHR ''&'') (RSeq (RRep True
     0 None (RSet False [CSpace True])) (RSeq (RRep True 1 None (RSet False [CWord True])) (RSeq
     (RRep True 0 None (RSet False [CSpace True])) (RLit CHR '';'')))))))))))))))))))\<close>
  by code_simp

end
