(* ===== verification/Literal_Patterns.thy ===== *)
theory Literal_Patterns
  imports Scanning Regex_Parser
begin

text \<open>
  Patterns that the linter builds at run time around a piece of text, such as the name of a header
  guard. The lemmas say how such a pattern is compiled when the text has no special character, and
  what it then matches.
\<close>

section \<open>Compiling literal text\<close>

text \<open>The characters that stand for themselves in a pattern, as far as identifiers need them.\<close>

definition lit_char :: "char \<Rightarrow> bool" where
  "lit_char c \<longleftrightarrow> ascii_alpha c \<or> ascii_digit c \<or> c = CHR ''_''"

lemma lit_char_plain:
  assumes "lit_char c"
  shows "c \<notin> {CHR 0x5C, CHR ''['', CHR ''('', CHR '')'', CHR ''|'', CHR ''.'', CHR ''^'', CHR ''$'', CHR ''*'', CHR ''+'', CHR ''?'', CHR ''{''}"
  using assms by (auto simp: lit_char_def ascii_alpha_def ascii_digit_def in_range_def less_eq_char_def)

lemma re_lex_lit:
  "lit_char c \<Longrightarrow> re_lex False (c # cs) = tok_cons (TAtom (RLit c)) (re_lex False cs)"
  by (drule lit_char_plain) (simp add: re_lex.simps(2) quantifier_def)

lemma re_lex_lits:
  "list_all lit_char v \<Longrightarrow>
     re_lex False (v @ cs) = map_option ((@) (map (\<lambda>c. TAtom (RLit c)) v)) (re_lex False cs)"
  by (induction v; cases "re_lex False cs") (simp_all add: re_lex_lit tok_cons_def)

lemma assemble_lits:
  "assemble n fs alts cur (map (\<lambda>c. TAtom (RLit c)) v @ ts) =
     assemble n fs alts (rev (map (\<lambda>c. (True, RLit c)) v) @ cur) ts"
  by (induction v arbitrary: cur) simp_all

section \<open>Matching a sequence\<close>

lemma rm_seq_of_Cons [simp]:
  "set (rm (seq_of (r # rs)) s) = (\<Union>t \<in> set (rm r s). set (rm (seq_of rs) t))"
  by (cases rs) auto

lemma rm_seq_of_append [simp]:
  "set (rm (seq_of (rs @ rs')) s) = (\<Union>t \<in> set (rm (seq_of rs) s). set (rm (seq_of rs') t))"
proof (induction rs arbitrary: s)
  case (Cons r rs)
  show ?case unfolding append_Cons rm_seq_of_Cons Cons by simp
qed simp

lemma seq_ofI:
  "t \<in> set (rm (seq_of rs) s) \<Longrightarrow> u \<in> set (rm (seq_of rs') t) \<Longrightarrow> u \<in> set (rm (seq_of (rs @ rs')) s)"
  by auto

lemma rm_lits: "set (rm (seq_of (map RLit v)) (b, v @ a, g)) = {(rev v @ b, a, g)}"
proof (induction v arbitrary: b)
  case (Cons c v)
  then show ?case unfolding list.map rm_seq_of_Cons by simp
qed simp

lemma rm_plus_mem:
  assumes "rm r = eat P" "xs \<noteq> []" "list_all P xs"
  shows "(rev xs @ b, a, g) \<in> set (rm (RRep True 1 None r) (b, xs @ a, g))"
proof -
  obtain y ys where xs: "xs = y # ys" using assms(2) by (cases xs) auto
  have "(rev ys @ y # b, a, g) \<in> set (iter True (eat P) (Suc (length (ys @ a))) (y # b, ys @ a, g))"
    using assms(3) by (subst iter_eat) (auto simp: xs takeWhile_append list_all_iff image_iff simp del: upt_Suc iter.simps intro!: bexI [of _ "length ys"])
  then show ?thesis using assms(1,3) by (simp add: xs del: iter.simps)
qed

end
