(* ===== verification/File_Checks.thy ===== *)
theory File_Checks
  imports Paths Cleansing Check_Patterns Literal_Patterns
begin

text \<open>
  The checks on a whole file (copyright, header guard, newline at the end) and the checks on one line
  that need no other state: multi-line comments and strings, thread-unsafe functions, increments of
  a pointer, TODO comments.

  A check yields its reports in the order in which the code calls the error handler. The header
  guard check interleaves them with \<open>ParseNolintSuppressions\<close> and is a function on the globals.
\<close>

section \<open>Copyright\<close>

text \<open>The year of today's date is a parameter.\<close>

definition CheckForCopyright :: "nat \<Rightarrow> string list \<Rightarrow> report list" where
  "CheckForCopyright year lines =
     (if list_ex (searches RE_COPYRIGHT) (drop 1 (take 11 lines)) then []
      else [mk_report 1 ''legal/copyright'' 5
        (''No copyright, suggest: '' @ [CHR 0x22] @ ''Copyright (c) '' @ show_nat year
         @ '', Formax Inc. All rights reserved.'' @ [CHR 0x22])])"

section \<open>Header guard\<close>

text \<open>The local variables of the scan for the guard, each unset until its first assignment.\<close>

record guard_scan =
  g_ifndef :: "(string \<times> nat) option"
  g_define :: "string option"
  g_endif :: "(string \<times> nat) option"

definition new_guard_scan :: guard_scan where
  "new_guard_scan = \<lparr>g_ifndef = None, g_define = None, g_endif = None\<rparr>"

definition guard_step :: "nat \<times> string \<Rightarrow> guard_scan \<Rightarrow> guard_scan" where
  "guard_step nl g =
     (let (linenum, line) = nl; linesplit = py_words line;
          g = (if 2 \<le> length linesplit \<and> g_ifndef g = None \<and> linesplit ! 0 = ''#ifndef''
               then g\<lparr>g_ifndef := Some (linesplit ! 1, linenum)\<rparr> else g);
          g = (if 2 \<le> length linesplit \<and> g_define g = None \<and> linesplit ! 0 = ''#define''
               then g\<lparr>g_define := Some (linesplit ! 1)\<rparr> else g)
      in if py_startswith line ''#endif'' then g\<lparr>g_endif := Some (line, linenum)\<rparr> else g)"

definition guard_scan_of :: "string list \<Rightarrow> guard_scan" where
  "guard_scan_of lines = fold guard_step (enumerate 0 lines) new_guard_scan"

definition guard_report :: "int \<Rightarrow> string \<Rightarrow> report" where
  "guard_report linenum message = mk_report linenum ''build/header_guard'' 5 message"

text \<open>The tests after the scan, once both \<open>#ifndef\<close> and \<open>#define\<close> are found.\<close>

definition check_guard_names ::
  "string \<Rightarrow> string list \<Rightarrow> string \<Rightarrow> string \<times> nat \<Rightarrow> string \<Rightarrow> (string \<times> nat) option \<Rightarrow> world \<Rightarrow> world py" where
  "check_guard_names filename lines cppvar ifndef define' endif w =
     py_bind
       (if py_startswith (fst ifndef) cppvar then Inr w
        else py_bind (py_get lines (int (snd ifndef))) (\<lambda>line.
             py_bind (ParseNolintSuppressions filename line (int (snd ifndef)) w)
               (Error filename (guard_report (int (snd ifndef))
                 (''#ifndef header guard has wrong style, suggested is: '' @ cppvar)))))
       (\<lambda>w. case endif of
          None \<Rightarrow> Error filename (guard_report (int (length lines) - 1)
            (''No '' @ [CHR 0x22] @ ''#endif // '' @ cppvar @ [CHR 0x22] @ '' found'')) w
        | Some (endif_line, endif_linenum) \<Rightarrow>
            if define' \<noteq> fst ifndef then
              Error filename (guard_report 0
                (''#ifndef and #define don'' @ [CHR 0x27] @ ''t match, suggested CPP variable is: '' @ cppvar)) w
            else py_bind (re_compile_py (raw_pat ''#endif`s+//`s+'' @ cppvar)) (\<lambda>r.
              if matches r endif_line then Inr w
              else py_bind (py_get lines (int endif_linenum)) (\<lambda>line.
                   py_bind (ParseNolintSuppressions filename line (int endif_linenum) w)
                     (Error filename (guard_report (int endif_linenum)
                       (''#endif line should be '' @ [CHR 0x22] @ ''#endif // '' @ cppvar @ [CHR 0x22]))))))"

definition CheckForHeaderGuard :: "file_system \<Rightarrow> string \<Rightarrow> string list \<Rightarrow> world \<Rightarrow> world py" where
  "CheckForHeaderGuard fs filename lines w =
     py_bind (GetHeaderGuardCPPVariable fs filename) (\<lambda>cppvar.
       let g = guard_scan_of lines
       in case g_ifndef g of
            None \<Rightarrow> Error filename (guard_report 0
              (''No #ifndef header guard found, suggested CPP variable is: '' @ cppvar)) w
          | Some ifndef \<Rightarrow>
              (case g_define g of
                 None \<Rightarrow> Error filename (guard_report 0
                   (''No #define header guard found, suggested CPP variable is: '' @ cppvar)) w
               | Some define' \<Rightarrow> check_guard_names filename lines cppvar ifndef define' (g_endif g) w))"

section \<open>End of file\<close>

definition CheckForNewlineAtEOF :: "string list \<Rightarrow> report list py" where
  "CheckForNewlineAtEOF lines =
     py_bind (if length lines < 3 then Inr True else py_bind (py_get lines (-2)) (\<lambda>l. Inr (l \<noteq> []))) (\<lambda>bad.
       Inr (if bad then [mk_report (int (length lines) - 2) ''whitespace/ending_newline'' 5
              ''Could not find a newline character at the end of the file.''] else []))"

section \<open>Checks on one line\<close>

definition CheckForMultilineCommentsAndStrings :: "clean_lines \<Rightarrow> nat \<Rightarrow> report list py" where
  "CheckForMultilineCommentsAndStrings cl linenum =
     py_bind (py_get (cl_elided cl) (int linenum)) (\<lambda>line.
       let line = py_replace line [CHR 0x5C, CHR 0x5C] []
       in Inr ((if py_count line ''*/'' < py_count line ''/*'' then
                  [mk_report (int linenum) ''readability/multiline_comment'' 5
                    (''Complex multi-line /*...*/-style comment found. Lint may give bogus warnings.  ''
                     @ ''Consider replacing these with //-style comments, with #if 0...#endif, ''
                     @ ''or with more clearly structured multi-line comments.'')] else [])
            @ (if (int (py_count line [CHR 0x22]) - int (py_count line [CHR 0x5C, CHR 0x22])) mod 2 \<noteq> 0 then
                 [mk_report (int linenum) ''readability/multiline_string'' 5
                   (''Multi-line string ('' @ [CHR 0x22] @ ''...'' @ [CHR 0x22] @ '') found.  This lint script doesn''
                    @ [CHR 0x27] @ ''t do well with such strings, and may give bogus warnings.  They'' @ [CHR 0x27]
                    @ ''re ugly and unnecessary, and you should use concatenation instead'' @ [CHR 0x22] @ ''.'')] else [])))"

text \<open>Whether the first occurrence of a function in the line is a call of that function itself.\<close>

definition unsafe_call :: "string \<Rightarrow> string \<Rightarrow> bool py" where
  "unsafe_call line single_thread_function =
     (let ix = py_find line single_thread_function
      in if ix < 0 then Inr False else if ix = 0 then Inr True
         else py_bind (py_get line (ix - 1)) (\<lambda>c.
           Inr (\<not> py_isalnum c \<and> c \<noteq> CHR ''_'' \<and> c \<noteq> CHR ''.'' \<and> c \<noteq> CHR ''>'')))"

fun threading_from :: "(string \<times> string) list \<Rightarrow> string \<Rightarrow> nat \<Rightarrow> report list py" where
  "threading_from [] line linenum = Inr []"
| "threading_from ((single_thread_function, multithread_safe_function) # rest) line linenum =
     py_bind (unsafe_call line single_thread_function) (\<lambda>unsafe.
     py_bind (threading_from rest line linenum) (\<lambda>rs.
       Inr (if unsafe then mk_report (int linenum) ''runtime/threadsafe_fn'' 2
              (''Consider using '' @ multithread_safe_function @ ''...) instead of '' @ single_thread_function
               @ ''...) for improved thread safety.'') # rs
            else rs)))"

definition CheckPosixThreading :: "clean_lines \<Rightarrow> nat \<Rightarrow> report list py" where
  "CheckPosixThreading cl linenum =
     py_bind (py_get (cl_elided cl) (int linenum)) (\<lambda>line. threading_from threading_list line linenum)"

definition CheckInvalidIncrement :: "clean_lines \<Rightarrow> nat \<Rightarrow> report list py" where
  "CheckInvalidIncrement cl linenum =
     py_bind (py_get (cl_elided cl) (int linenum)) (\<lambda>line.
       Inr (if matches RE_INVALID_INCREMENT line then
              [mk_report (int linenum) ''runtime/invalid_increment'' 5
                ''Changing pointer instead of value (or unused value of operator*).''] else []))"

text \<open>
  \<open>CheckComment\<close>. A group that took no part in the match is \<open>None\<close>, which is neither a space nor
  the empty string.
\<close>

definition CheckComment :: "string \<Rightarrow> nat \<Rightarrow> report list" where
  "CheckComment comment linenum =
     (case Match RE_TODO comment of
        None \<Rightarrow> []
      | Some m \<Rightarrow>
          (if 1 < length (m_str m 1) then [mk_report (int linenum) ''whitespace/todo'' 2 ''Too many spaces before TODO''] else [])
        @ (if m_group m 2 = None \<or> m_group m 2 = Some [] then
             [mk_report (int linenum) ''readability/todo'' 2
               (''Missing username in TODO; it should look like '' @ [CHR 0x22] @ ''// TODO(yourname): Stuff.'' @ [CHR 0x22])] else [])
        @ (if m_group m 3 \<noteq> Some '' '' \<and> m_group m 3 \<noteq> Some [] then
             [mk_report (int linenum) ''whitespace/todo'' 2 ''TODO(yourname) should be followed by a space''] else []))"

section \<open>The scan for the header guard\<close>

text \<open>A line that starts with the given directive and has an argument.\<close>

definition directive_line :: "string \<Rightarrow> string \<Rightarrow> bool" where
  "directive_line d line \<longleftrightarrow> 2 \<le> length (py_words line) \<and> py_words line ! 0 = d"

lemma guard_step_fields:
  "g_ifndef (guard_step (n, line) g) = (if g_ifndef g = None \<and> directive_line ''#ifndef'' line then Some (py_words line ! 1, n) else g_ifndef g)"
  "g_define (guard_step (n, line) g) = (if g_define g = None \<and> directive_line ''#define'' line then Some (py_words line ! 1) else g_define g)"
  "g_endif (guard_step (n, line) g) = (if py_startswith line ''#endif'' then Some (line, n) else g_endif g)"
  by (simp_all add: guard_step_def directive_line_def Let_def)

lemma guard_fold_skip:
  "list_all (\<lambda>l. \<not> directive_line ''#ifndef'' l) ls \<Longrightarrow> g_ifndef (fold guard_step (enumerate n ls) g) = g_ifndef g"
  "list_all (\<lambda>l. \<not> directive_line ''#define'' l) ls \<Longrightarrow> g_define (fold guard_step (enumerate n ls) g) = g_define g"
  "list_all (\<lambda>l. \<not> py_startswith l ''#endif'') ls \<Longrightarrow> g_endif (fold guard_step (enumerate n ls) g) = g_endif g"
  by (induction ls arbitrary: n g) (simp_all add: guard_step_fields)

lemma guard_fold_keep:
  "g_ifndef g = Some x \<Longrightarrow> g_ifndef (fold guard_step (enumerate n ls) g) = Some x"
  "g_define g = Some y \<Longrightarrow> g_define (fold guard_step (enumerate n ls) g) = Some y"
  by (induction ls arbitrary: n g) (simp_all add: guard_step_fields)

lemma guard_scan_first_ifndef:
  assumes "lines = pre @ line # post" "list_all (\<lambda>l. \<not> directive_line ''#ifndef'' l) pre" "directive_line ''#ifndef'' line"
  shows "g_ifndef (guard_scan_of lines) = Some (py_words line ! 1, length pre)"
  using assms by (simp add: guard_scan_of_def enumerate_append_eq guard_fold_keep(1) guard_step_fields guard_fold_skip new_guard_scan_def)

lemma guard_scan_first_define:
  assumes "lines = pre @ line # post" "list_all (\<lambda>l. \<not> directive_line ''#define'' l) pre" "directive_line ''#define'' line"
  shows "g_define (guard_scan_of lines) = Some (py_words line ! 1)"
  using assms by (simp add: guard_scan_of_def enumerate_append_eq guard_fold_keep(2) guard_step_fields guard_fold_skip new_guard_scan_def)

lemma guard_scan_last_endif:
  assumes "lines = pre @ line # post" "list_all (\<lambda>l. \<not> py_startswith l ''#endif'') post" "py_startswith line ''#endif''"
  shows "g_endif (guard_scan_of lines) = Some (line, length pre)"
  using assms by (simp add: guard_scan_of_def enumerate_append_eq guard_step_fields guard_fold_skip)

section \<open>The pattern for the end of the guard\<close>

definition space_plus :: regex where
  "space_plus = RRep True 1 None (RSet False [CSpace True])"

definition guard_items :: "regex list" where
  "guard_items = map RLit ''#endif'' @ [space_plus] @ map RLit ''//'' @ [space_plus]"

definition guard_tokens :: "rtoken list" where
  "guard_tokens = map (\<lambda>c. TAtom (RLit c)) ''#endif'' @ [TAtom (RSet False [CSpace True]), TRep True 1 None]
     @ map (\<lambda>c. TAtom (RLit c)) ''//'' @ [TAtom (RSet False [CSpace True]), TRep True 1 None]"

lemma not_digit_s: "\<not> ascii_digit (CHR ''s'')"
  by code_simp

lemma lex_guard_pattern:
  "v = [] \<or> hd v \<noteq> CHR ''?'' \<Longrightarrow>
     re_lex False (raw_pat ''#endif`s+//`s+'' @ v) = map_option ((@) guard_tokens) (re_lex False v)"
  using not_digit_s by (cases "re_lex False v")
    (auto simp: guard_tokens_def raw_pat_def re_lex.simps(2) quantifier_def esc_atom_def tok_cons_def)

lemma compile_guard_pattern:
  assumes "list_all lit_char v"
  shows "re_compile_py (raw_pat ''#endif`s+//`s+'' @ v) = Inr (seq_of (guard_items @ map RLit v))"
proof -
  have v: "v = [] \<or> hd v \<noteq> CHR ''?''" 
    using assms lit_char_plain [of "CHR ''?''"] by (cases v) auto
  have lex: "re_lex False v = Some (map (\<lambda>c. TAtom (RLit c)) v)"
    using re_lex_lits [OF assms, of "[]"] by simp
  have asm: "assemble 1 [] [] [] (guard_tokens @ map (\<lambda>c. TAtom (RLit c)) v) = Some (seq_of (guard_items @ map RLit v))"
    using assemble_lits [of 1 "[]" "[]" _ v "[]"]
    by (simp add: guard_tokens_def guard_items_def space_plus_def branches_def rev_map comp_def del: seq_of.simps)
  have "\<not> list_ex (\<lambda>t. t = TIgnoreCase) (guard_tokens @ map (\<lambda>c. TAtom (RLit c)) v)"
    by (auto simp: guard_tokens_def list_ex_iff)
  with asm show ?thesis by (simp add: re_compile_py_def re_compile_def lex_guard_pattern [OF v] lex)
qed

lemma guard_pattern_matches:
  assumes "list_all lit_char v" "list_all re_space s1" "s1 \<noteq> []" "list_all re_space s2" "s2 \<noteq> []"
  shows "matches (seq_of (guard_items @ map RLit v)) (''#endif'' @ s1 @ ''//'' @ s2 @ v @ rest)"
proof -
  let ?st = "(rev (''#endif'' @ s1 @ ''//'' @ s2 @ v), rest, [])"
  have sp: "(rev xs @ b, a, g) \<in> set (rm space_plus (b, xs @ a, g))" if "list_all re_space xs" "xs \<noteq> []" for xs b a g
    unfolding space_plus_def using that by (intro rm_plus_mem [OF rm_classes(1)]) (auto simp: in_class_def list_all_iff)
  have "?st \<in> set (rm (seq_of (map RLit ''#endif'' @ [space_plus] @ map RLit ''//'' @ [space_plus] @ map RLit v))
      ([], ''#endif'' @ s1 @ ''//'' @ s2 @ v @ rest, []))"
  proof (rule seq_ofI)
    show "(rev ''#endif'', s1 @ ''//'' @ s2 @ v @ rest, []) \<in> set (rm (seq_of (map RLit ''#endif'')) ([], ''#endif'' @ s1 @ ''//'' @ s2 @ v @ rest, []))"
      unfolding rm_lits by simp
    show "?st \<in> set (rm (seq_of ([space_plus] @ map RLit ''//'' @ [space_plus] @ map RLit v)) (rev ''#endif'', s1 @ ''//'' @ s2 @ v @ rest, []))"
    proof (rule seq_ofI)
      show "(rev s1 @ rev ''#endif'', ''//'' @ s2 @ v @ rest, []) \<in> set (rm (seq_of [space_plus]) (rev ''#endif'', s1 @ ''//'' @ s2 @ v @ rest, []))"
        unfolding seq_of.simps by (rule sp [OF assms(2,3)])
      show "?st \<in> set (rm (seq_of (map RLit ''//'' @ [space_plus] @ map RLit v)) (rev s1 @ rev ''#endif'', ''//'' @ s2 @ v @ rest, []))"
      proof (rule seq_ofI)
        show "(rev ''//'' @ rev s1 @ rev ''#endif'', s2 @ v @ rest, []) \<in> set (rm (seq_of (map RLit ''//'')) (rev s1 @ rev ''#endif'', ''//'' @ s2 @ v @ rest, []))"
          unfolding rm_lits by simp
        show "?st \<in> set (rm (seq_of ([space_plus] @ map RLit v)) (rev ''//'' @ rev s1 @ rev ''#endif'', s2 @ v @ rest, []))"
        proof (rule seq_ofI)
          show "(rev s2 @ rev ''//'' @ rev s1 @ rev ''#endif'', v @ rest, []) \<in> set (rm (seq_of [space_plus]) (rev ''//'' @ rev s1 @ rev ''#endif'', s2 @ v @ rest, []))"
            unfolding seq_of.simps by (rule sp [OF assms(4,5)])
        qed (simp add: rm_lits)
      qed
    qed
  qed
  then have "rm (seq_of (guard_items @ map RLit v)) ([], ''#endif'' @ s1 @ ''//'' @ s2 @ v @ rest, []) \<noteq> []"
    unfolding guard_items_def append_assoc by (metis empty_iff list.set(1))
  then show ?thesis by (auto simp: matches_def Match_def split: list.splits)
qed

lemma compile_double_plus:
  assumes "list_all lit_char a"
  shows "re_compile_py (raw_pat ''#endif`s+//`s+'' @ a @ ''++'' @ b) = Inl ReError"
proof -
  have v: "a @ ''++'' @ b = [] \<or> hd (a @ ''++'' @ b) \<noteq> CHR ''?''"
    using assms lit_char_plain [of "CHR ''?''"] by (cases a) auto
  have plus: "re_lex False (''++'' @ b) = None \<or> (\<exists>g ts. re_lex False (''++'' @ b) = Some (TRep True 1 None # TRep g 1 None # ts))"
    by (auto simp: re_lex.simps(2) quantifier_def tok_cons_def)
  have twice: "assemble n [] [] (rev (map (\<lambda>c. (True, RLit c)) a) @ (False, r) # cur) (TRep True 1 None # TRep g 1 None # ts) = None" for n r cur g ts
    by (cases a rule: rev_cases) simp_all
  have asm: "assemble 1 [] [] [] (guard_tokens @ map (\<lambda>c. TAtom (RLit c)) a @ TRep True 1 None # TRep g 1 None # ts) = None" for g ts
    using twice by (simp add: guard_tokens_def assemble_lits del: assemble.simps(3)) (simp add: assemble_lits)
  have lex: "re_lex False (raw_pat ''#endif`s+//`s+'' @ a @ ''++'' @ b) =
      map_option ((@) guard_tokens) (map_option ((@) (map (\<lambda>c. TAtom (RLit c)) a)) (re_lex False (''++'' @ b)))"
    by (simp only: lex_guard_pattern [OF v] re_lex_lits [OF assms])
  from plus show ?thesis
    unfolding re_compile_py_def re_compile_def lex by (elim disjE exE) (simp_all only: option.map option.case asm)
qed

section \<open>Properties\<close>

text \<open>
  C14: A header whose guard names the suggested variable is accepted: when its first \<open>#ifndef\<close> and
  its first \<open>#define\<close> have the same argument, which begins with the suggested variable, and its
  last \<open>#endif\<close> carries the variable in a comment, the check changes nothing and reports nothing.
\<close>

theorem header_guard_accepted:
  assumes "GetHeaderGuardCPPVariable fs filename = Inr v" "list_all lit_char v"
    and "lines = pre @ ifndef_line # mid @ define_line # body @ (''#endif'' @ sp @ ''//'' @ sq @ v @ rest) # post"
    and "py_words ifndef_line = ''#ifndef'' # (v @ x) # xs" "py_words define_line = ''#define'' # (v @ x) # ys"
    and "list_all (\<lambda>l. \<not> directive_line ''#ifndef'' l) pre" "list_all (\<lambda>l. \<not> directive_line ''#define'' l) (pre @ mid)"
    and "list_all (\<lambda>l. \<not> py_startswith l ''#endif'') post"
    and "list_all re_space sp" "sp \<noteq> []" "list_all re_space sq" "sq \<noteq> []"
  shows "CheckForHeaderGuard fs filename lines w = Inr w"
proof -
  let ?endif = "''#endif'' @ sp @ ''//'' @ sq @ v @ rest"
  have 1: "g_ifndef (guard_scan_of lines) = Some (v @ x, length pre)"
    using guard_scan_first_ifndef [OF assms(3,6)] assms(4) by (simp add: directive_line_def)
  have 2: "g_define (guard_scan_of lines) = Some (v @ x)"
    using guard_scan_first_define [of lines "pre @ ifndef_line # mid" define_line] assms(3,4,5,7) by (simp add: directive_line_def)
  have 3: "g_endif (guard_scan_of lines) = Some (?endif, length (pre @ ifndef_line # mid @ define_line # body))"
    by (rule guard_scan_last_endif [where post = post]) (use assms(3,8) in \<open>simp_all add: py_startswith_def\<close>)
  show ?thesis
    unfolding CheckForHeaderGuard_def Let_def assms(1) 1 2 3 check_guard_names_def
    using compile_guard_pattern [OF assms(2)] guard_pattern_matches [OF assms(2,9-12)] by simp
qed

definition no_files :: file_system where
  "no_files = \<lparr>fs_cwd = ''/r'', fs_exists = (\<lambda>_. False), fs_isfile = (\<lambda>_. False), fs_text = (\<lambda>_. None)\<rparr>"

lemma header_guard_accepted_witness:
  "CheckForHeaderGuard no_files ''a/b.h''
     [''// c'', ''#ifndef A_B_H_'', ''#define A_B_H_'', ''int f();'', ''#endif  // A_B_H'', []] sample_world = Inr sample_world"
proof -
  have v: "GetHeaderGuardCPPVariable no_files ''a/b.h'' = Inr ''A_B_H''" by code_simp
  show ?thesis
    by (rule header_guard_accepted [OF v, where pre = "[''// c'']" and mid = "[]" and body = "[''int f();'']"
          and sp = "''  ''" and sq = "'' ''" and rest = "[]" and post = "[[]]" and x = "''_''" and xs = "[]" and ys = "[]"
          and ifndef_line = "''#ifndef A_B_H_''" and define_line = "''#define A_B_H_''"]; code_simp)
qed

text \<open>
  C33: The suggested variable is put into a pattern without being escaped. Where a path holds two plus
  signs in a row, checking a header with an otherwise correct guard ends with \<open>re.error\<close>.
\<close>

theorem header_guard_plus_crash:
  assumes "GetHeaderGuardCPPVariable fs filename = Inr v" "v = a @ ''++'' @ b" "list_all lit_char a"
    and "g_ifndef (guard_scan_of lines) = Some (name, n)" "py_startswith name v"
    and "g_define (guard_scan_of lines) = Some name" "g_endif (guard_scan_of lines) = Some e"
  shows "CheckForHeaderGuard fs filename lines w = Inl ReError"
  unfolding CheckForHeaderGuard_def Let_def assms(1,4,6,7) check_guard_names_def
  using assms(2,5) compile_double_plus [OF assms(3), of b] by (simp add: split_beta)

lemma header_guard_plus_crash_witness:
  "CheckForHeaderGuard no_files ''c++.h'' [''#ifndef C++_H_'', ''#define C++_H_'', ''#endif  // C++_H_''] sample_world = Inl ReError"
proof -
  let ?ls = "[''#ifndef C++_H_'', ''#define C++_H_'', ''#endif  // C++_H_'']"
  have 1: "GetHeaderGuardCPPVariable no_files ''c++.h'' = Inr ''C++_H''" by code_simp
  have 2: "g_ifndef (guard_scan_of ?ls) = Some (''C++_H_'', 0)" by code_simp
  have 3: "g_define (guard_scan_of ?ls) = Some ''C++_H_''" by code_simp
  have 4: "g_endif (guard_scan_of ?ls) = Some (''#endif  // C++_H_'', 2)" by code_simp
  show ?thesis by (rule header_guard_plus_crash [OF 1 _ _ 2 _ 3 4, where a = "''C''" and b = "''_H''"]) code_simp+
qed

lemma last_split: "last (split_from [c] acc s) = [] \<longleftrightarrow> (if s = [] then acc = [] else last s = c)"
  by (induction "[c]" acc s rule: split_from.induct) auto

text \<open>
  C31: The check for the newline at the end of the file, on the lines of a text between the two marker
  lines, reports nothing exactly when the text is empty or ends in a newline.
\<close>

theorem newline_at_end:
  "CheckForNewlineAtEOF (first # py_split content [CHR 0x0A] @ [final]) = Inr [] \<longleftrightarrow> content = [] \<or> last content = CHR 0x0A"
proof -
  obtain l ls where sp: "py_split content [CHR 0x0A] = ls @ [l]"
    by (metis append_butlast_last_id py_split_nonempty)
  then have "l = [] \<longleftrightarrow> content = [] \<or> last content = CHR 0x0A"
    using last_split [of "CHR 0x0A" "[]" content] by (auto simp: py_split_def split: if_splits)
  then show ?thesis by (simp add: CheckForNewlineAtEOF_def sp py_get_def Let_def nth_append)
qed

end
