(* ===== verification/Expressions.thy ===== *)
theory Expressions
  imports Cleansing
begin

text \<open>
  Matching of brackets: the end of a parenthesised expression within and across lines
  (\<open>FindEndOfExpressionInLine\<close>, \<open>CloseExpression\<close>), the text inside a bracket
  (\<open>_GetTextInside\<close>), template brackets (\<open>FindNextMatchingAngleBracket\<close>,
  \<open>FindPreviousMatchingAngleBracket\<close>), and the last line before a position that is not blank.

  The lemmas relate the positions found to the balance of opening and closing characters, the
  extracted text to a grammar of balanced text, and both angle bracket searches to one automaton
  on the sequence of tokens.
\<close>

section \<open>The end of an expression\<close>

fun end_of_expr :: "nat \<Rightarrow> int \<Rightarrow> char \<Rightarrow> char \<Rightarrow> string \<Rightarrow> int" where
  "end_of_expr i depth startchar endchar [] = -1"
| "end_of_expr i depth startchar endchar (c # cs) =
     (if c = startchar then end_of_expr (Suc i) (depth + 1) startchar endchar cs
      else if c = endchar then
        (if depth - 1 = 0 then int i + 1 else end_of_expr (Suc i) (depth - 1) startchar endchar cs)
      else end_of_expr (Suc i) depth startchar endchar cs)"

definition FindEndOfExpressionInLine :: "string \<Rightarrow> nat \<Rightarrow> int \<Rightarrow> char \<Rightarrow> char \<Rightarrow> int" where
  "FindEndOfExpressionInLine line startpos depth startchar endchar =
     end_of_expr startpos depth startchar endchar (drop startpos line)"

definition closing_of :: "char \<Rightarrow> char" where
  "closing_of c = (if c = CHR ''('' then CHR '')'' else if c = CHR ''['' then CHR '']'' else CHR ''}'')"

definition balance :: "char \<Rightarrow> char \<Rightarrow> string \<Rightarrow> int" where
  "balance startchar endchar s = int (count_list s startchar) - int (count_list s endchar)"

text \<open>The loop of \<open>CloseExpression\<close> over the lines after the first.\<close>

function close_from :: "clean_lines \<Rightarrow> nat \<Rightarrow> int \<Rightarrow> char \<Rightarrow> char \<Rightarrow> string \<Rightarrow> (string \<times> nat \<times> int) py" where
  "close_from cl linenum num_open startchar endchar line =
     (if int linenum < int (NumLines cl) - 1 then
        py_bind (py_get (cl_elided cl) (int (Suc linenum))) (\<lambda>line.
          let delta = int (py_count line [startchar]) - int (py_count line [endchar])
          in if num_open + delta \<le> 0
             then Inr (line, Suc linenum, FindEndOfExpressionInLine line 0 num_open startchar endchar)
             else close_from cl (Suc linenum) (num_open + delta) startchar endchar line)
      else Inr (line, NumLines cl, -1))"
  by pat_completeness auto
termination
  by (relation "measure (\<lambda>(cl, n, _). NumLines cl - n)") auto

declare close_from.simps [simp del]

text \<open>
  The search on the first line, from \<open>pos\<close> on. For a negative position, which the callers never
  pass, the loop of the source runs through the negative indices before it starts at 0.
\<close>

definition close_in_line :: "string \<Rightarrow> int \<Rightarrow> char \<Rightarrow> char \<Rightarrow> int" where
  "close_in_line line pos startchar endchar =
     (if pos < 0
      then let k = FindEndOfExpressionInLine (slice_from line pos @ line) 0 0 startchar endchar
           in if k = -1 then -1 else pos + k
      else FindEndOfExpressionInLine line (nat pos) 0 startchar endchar)"

definition CloseExpression :: "clean_lines \<Rightarrow> nat \<Rightarrow> int \<Rightarrow> (string \<times> nat \<times> int) py" where
  "CloseExpression cl linenum pos =
     py_bind (py_get (cl_elided cl) (int linenum)) (\<lambda>line.
     py_bind (py_get line pos) (\<lambda>startchar.
       if startchar \<notin> {CHR ''('', CHR ''{'', CHR ''[''} then Inr (line, NumLines cl, -1)
       else let endchar = closing_of startchar;
                end_pos = close_in_line line pos startchar endchar;
                tail = slice_from line pos
            in if end_pos > -1 then Inr (line, linenum, end_pos)
               else close_from cl linenum (int (py_count tail [startchar]) - int (py_count tail [endchar]))
                      startchar endchar line))"

section \<open>The text inside a bracket\<close>

definition is_opening :: "char \<Rightarrow> bool" where
  "is_opening c \<longleftrightarrow> c \<in> {CHR ''('', CHR ''{'', CHR ''[''}"

definition is_closing :: "char \<Rightarrow> bool" where
  "is_closing c \<longleftrightarrow> c \<in> {CHR '')'', CHR ''}'', CHR '']''}"

text \<open>The loop of \<open>_GetTextInside\<close>: the stack of closing characters and the position.\<close>

fun inside_from :: "string \<Rightarrow> nat \<Rightarrow> string \<Rightarrow> nat option" where
  "inside_from [] position text = Some position"
| "inside_from (p # ps) position [] = None"
| "inside_from (p # ps) position (c # cs) =
     (if c = p then inside_from ps (Suc position) cs
      else if is_closing c then None
      else if is_opening c then inside_from (closing_of c # p # ps) (Suc position) cs
      else inside_from (p # ps) (Suc position) cs)"

text \<open>
  The source searches with \<open>re.M\<close>. On a text without newlines, such as the single line that the
  only caller passes, the flag makes no difference.
\<close>

definition GetTextInside :: "string \<Rightarrow> regex \<Rightarrow> string option py" where
  "GetTextInside text start_pattern =
     (case Search start_pattern text of
        None \<Rightarrow> Inr None
      | Some m \<Rightarrow>
          (let start_position = nat (m_end m 0)
           in if start_position = 0 \<or> \<not> is_opening (text ! (start_position - 1)) then Inl AssertionError
              else Inr (map_option (\<lambda>position. take (position - 1 - start_position) (drop start_position text))
                     (inside_from [closing_of (text ! (start_position - 1))] start_position (drop start_position text)))))"

section \<open>Template brackets\<close>

definition angle_class :: "class_item list" where
  "angle_class = map CChar ''<>(),;[]''"

lemma RE_NEXT_ANGLE_scan: "RE_NEXT_ANGLE = scan_rx angle_class"
  by code_simp

lemma RE_PREV_ANGLE_scan: "RE_PREV_ANGLE = scan_back_rx angle_class"
  by code_simp

lemma next_angle_shorter: "Search RE_NEXT_ANGLE s = Some m \<Longrightarrow> length (m_str m 2) < length s"
  unfolding RE_NEXT_ANGLE_scan Search_scan_rx by (erule scan_rx_Some) (simp add: m_str_def)

lemma prev_angle_shorter: "Search RE_PREV_ANGLE s = Some m \<Longrightarrow> length (m_str m 1) < length s"
  unfolding RE_PREV_ANGLE_scan Search_scan_back_rx by (erule scan_back_Some) (simp add: m_str_def)

text \<open>
  The loop of \<open>FindNextMatchingAngleBracket\<close>: the lines still to come, the rest of the current line,
  and the nesting stack with its top first.
\<close>

function next_angle :: "string list \<Rightarrow> string \<Rightarrow> string \<Rightarrow> bool py" where
  "next_angle rest line nesting_stack =
     (case Search RE_NEXT_ANGLE line of
        Some m \<Rightarrow>
          (let operator = hd (m_str m 1); line = m_str m 2
           in case nesting_stack of
                [] \<Rightarrow> Inl IndexError
              | tp # below \<Rightarrow>
                  if tp = CHR ''<'' then
                    if operator \<in> {CHR ''<'', CHR ''('', CHR ''[''} then next_angle rest line (operator # nesting_stack)
                    else if operator = CHR ''>'' then (if below = [] then Inr True else next_angle rest line below)
                    else if operator = CHR '','' then Inr True
                    else Inr False
                  else if operator \<in> {CHR ''<'', CHR ''('', CHR ''[''} then next_angle rest line (operator # nesting_stack)
                  else if operator \<in> {CHR '')'', CHR '']''} then next_angle rest line below
                  else next_angle rest line nesting_stack)
      | None \<Rightarrow> (case rest of [] \<Rightarrow> Inr True | l # ls \<Rightarrow> next_angle ls l nesting_stack))"
  by pat_completeness auto
termination
  by (relation "measures [\<lambda>(rest, line, st). length rest, \<lambda>(rest, line, st). length line]")
    (auto dest: next_angle_shorter)

function prev_angle :: "string list \<Rightarrow> string \<Rightarrow> string \<Rightarrow> bool py" where
  "prev_angle rest line nesting_stack =
     (case Search RE_PREV_ANGLE line of
        Some m \<Rightarrow>
          (let operator = hd (m_str m 2); line = m_str m 1
           in case nesting_stack of
                [] \<Rightarrow> Inl IndexError
              | tp # below \<Rightarrow>
                  if tp = CHR ''>'' then
                    if operator \<in> {CHR ''>'', CHR '')'', CHR '']''} then prev_angle rest line (operator # nesting_stack)
                    else if operator = CHR ''<'' then (if below = [] then Inr True else prev_angle rest line below)
                    else if operator = CHR '','' then Inr True
                    else Inr False
                  else if operator \<in> {CHR ''>'', CHR '')'', CHR '']''} then prev_angle rest line (operator # nesting_stack)
                  else if operator \<in> {CHR ''('', CHR ''[''} then prev_angle rest line below
                  else prev_angle rest line nesting_stack)
      | None \<Rightarrow> (case rest of [] \<Rightarrow> Inr False | l # ls \<Rightarrow> prev_angle ls l nesting_stack))"
  by pat_completeness auto
termination
  by (relation "measures [\<lambda>(rest, line, st). length rest, \<lambda>(rest, line, st). length line]")
    (auto dest: prev_angle_shorter)

declare next_angle.simps [simp del] prev_angle.simps [simp del]

definition FindNextMatchingAngleBracket :: "clean_lines \<Rightarrow> nat \<Rightarrow> string \<Rightarrow> bool py" where
  "FindNextMatchingAngleBracket cl linenum init_suffix = next_angle (drop (Suc linenum) (cl_elided cl)) init_suffix ''<''"

definition FindPreviousMatchingAngleBracket :: "clean_lines \<Rightarrow> nat \<Rightarrow> string \<Rightarrow> bool py" where
  "FindPreviousMatchingAngleBracket cl linenum init_prefix = prev_angle (rev (take linenum (cl_elided cl))) init_prefix ''>''"

section \<open>Blank lines\<close>

definition IsBlankLine :: "string \<Rightarrow> bool" where
  "IsBlankLine line \<longleftrightarrow> line = [] \<or> py_isspace line"

primrec prev_nonblank :: "string list \<Rightarrow> nat \<Rightarrow> string \<times> int" where
  "prev_nonblank lines 0 = ([], -1)"
| "prev_nonblank lines (Suc n) =
     (if IsBlankLine (lines ! n) then prev_nonblank lines n else (lines ! n, int n))"

definition GetPreviousNonBlankLine :: "clean_lines \<Rightarrow> int \<Rightarrow> string \<times> int" where
  "GetPreviousNonBlankLine cl linenum = prev_nonblank (cl_elided cl) (nat linenum)"

section \<open>Positions and balance\<close>

lemma balance_simps [simp]:
  "balance s e [] = 0"
  "balance s e (c # cs) = (if c = s then 1 else 0) - (if c = e then 1 else 0) + balance s e cs"
  "balance s e (xs @ ys) = balance s e xs + balance s e ys"
  by (auto simp: balance_def)

lemma py_count_balance: "int (py_count l [s]) - int (py_count l [e]) = balance s e l"
  by (simp add: balance_def)

lemma end_of_expr_found:
  assumes "s \<noteq> e" "0 < d" "end_of_expr i d s e xs \<noteq> -1"
  shows "\<exists>k<length xs. end_of_expr i d s e xs = int (i + Suc k) \<and> xs ! k = e
    \<and> d + balance s e (take (Suc k) xs) = 0 \<and> (\<forall>j\<le>k. 0 < d + balance s e (take j xs))"
  using assms(2,3)
proof (induction xs arbitrary: i d)
  case (Cons c cs)
  define d' where "d' = d + (if c = s then 1 else if c = e then -1 else 0)"
  have bal: "d + balance s e (take (Suc k) (c # cs)) = d' + balance s e (take k cs)" for k
    using assms(1) by (simp add: d'_def)
  show ?case
  proof (cases "c = e \<and> d = 1")
    case True
    then show ?thesis using assms(1) by (intro exI [of _ 0]) auto
  next
    case False
    then have e: "end_of_expr i d s e (c # cs) = end_of_expr (Suc i) d' s e cs" and "0 < d'"
      using Cons.prems assms(1) by (auto simp: d'_def)
    with Cons obtain k where k: "k < length cs" "end_of_expr (Suc i) d' s e cs = int (Suc i + Suc k)" "cs ! k = e"
      "d' + balance s e (take (Suc k) cs) = 0" "\<forall>j\<le>k. 0 < d' + balance s e (take j cs)" by metis
    have "0 < d + balance s e (take j (c # cs))" if "j \<le> Suc k" for j
      using that Cons.prems(1) k(5) by (cases j) (simp_all add: bal del: take_Suc_Cons)
    with k e show ?thesis by (intro exI [of _ "Suc k"]) (simp add: bal del: take_Suc_Cons)
  qed
qed simp

lemma end_of_expr_none:
  assumes "s \<noteq> e" "0 < d" "end_of_expr i d s e xs = -1" "k \<le> length xs"
  shows "0 < d + balance s e (take k xs)"
  using assms(2-4)
proof (induction xs arbitrary: i d k)
  case (Cons c cs)
  define d' where "d' = d + (if c = s then 1 else if c = e then -1 else 0)"
  have "0 < d' \<and> end_of_expr (Suc i) d' s e cs = -1"
    using Cons.prems(1,2) by (auto simp: d'_def split: if_splits)
  with Cons.IH [of d' "Suc i" "k - 1"] Cons.prems(1,3) show ?case
    using assms(1) by (cases k) (auto simp: d'_def)
qed simp

lemma end_of_expr_start:
  "xs = s # cs \<Longrightarrow> end_of_expr i 0 s e xs = end_of_expr (Suc i) 1 s e cs"
  by simp

text \<open>The lines that an expression may extend over agree in number with the raw lines.\<close>

definition wf_clean :: "clean_lines \<Rightarrow> bool" where
  "wf_clean cl \<longleftrightarrow> length (cl_elided cl) = NumLines cl \<and> length (cl_lines cl) = NumLines cl"

lemma wf_CleansedLines [simp]: "wf_clean (CleansedLines ls)"
  by (simp add: wf_clean_def CleansedLines_def NumLines_def)

text \<open>The elided lines strictly between two line numbers, as one text.\<close>

definition lines_between :: "clean_lines \<Rightarrow> nat \<Rightarrow> nat \<Rightarrow> string" where
  "lines_between cl m n = concat (map ((!) (cl_elided cl)) [Suc m..<n])"

lemma close_from_balanced:
  assumes "wf_clean cl" "s \<noteq> e" "0 < num_open" "n < NumLines cl"
  shows "\<exists>l n' p. close_from cl n num_open s e line = Inr (l, n', p)
    \<and> (n' = NumLines cl \<and> p = -1 \<or> n < n' \<and> n' < NumLines cl \<and> l = cl_elided cl ! n' \<and> 0 < p \<and> nat p \<le> length l
       \<and> l ! (nat p - 1) = e \<and> num_open + balance s e (lines_between cl n n' @ take (nat p) l) = 0)"
  using assms(3,4)
proof (induction "NumLines cl - n" arbitrary: n num_open line rule: less_induct)
  case less
  show ?case
  proof (cases "int n < int (NumLines cl) - 1")
    case False
    then show ?thesis by (subst close_from.simps) simp
  next
    case True
    define l where "l = cl_elided cl ! Suc n"
    have get: "py_get (cl_elided cl) (int (Suc n)) = Inr l"
      using True assms(1) by (simp only: py_get_nat) (simp add: l_def wf_clean_def)
    show ?thesis
    proof (cases "num_open + balance s e l \<le> 0")
      case close: True
      then have r: "close_from cl n num_open s e line = Inr (l, Suc n, end_of_expr 0 num_open s e l)"
        using True get by (subst close_from.simps) (simp add: py_count_balance FindEndOfExpressionInLine_def Let_def del: py_count_char)
      have "end_of_expr 0 num_open s e l \<noteq> -1"
        using end_of_expr_none [OF assms(2) less.prems(1), of 0 l "length l"] close by auto
      from end_of_expr_found [OF assms(2) less.prems(1) this] obtain k where
        "k < length l" "end_of_expr 0 num_open s e l = int (Suc k)" "l ! k = e" "num_open + balance s e (take (Suc k) l) = 0"
        by auto
      with r True show ?thesis by (auto simp: l_def lines_between_def nat_add_distrib)
    next
      case go: False
      then have r: "close_from cl n num_open s e line = close_from cl (Suc n) (num_open + balance s e l) s e l"
        using True get by (subst close_from.simps) (simp add: py_count_balance Let_def del: py_count_char)
      have "NumLines cl - Suc n < NumLines cl - n" "0 < num_open + balance s e l" "Suc n < NumLines cl"
        using True go by auto
      from less.hyps [OF this] obtain l' n' p where ih: "close_from cl (Suc n) (num_open + balance s e l) s e l = Inr (l', n', p)"
        "n' = NumLines cl \<and> p = -1 \<or> Suc n < n' \<and> n' < NumLines cl \<and> l' = cl_elided cl ! n' \<and> 0 < p \<and> nat p \<le> length l'
         \<and> l' ! (nat p - 1) = e \<and> num_open + balance s e l + balance s e (lines_between cl (Suc n) n' @ take (nat p) l') = 0"
        by blast
      moreover have "lines_between cl n n' = l @ lines_between cl (Suc n) n'" if "Suc n < n'"
        using that by (simp add: lines_between_def l_def upt_conv_Cons)
      ultimately show ?thesis using r by auto
    qed
  qed
qed

lemma close_from_first:
  assumes "wf_clean cl" "s \<noteq> e" "n < NumLines cl" "close_from cl n num_open s e line = Inr (l, n', p)"
  shows "n < n' \<and> (\<forall>m. n < m \<and> m < NumLines cl \<longrightarrow> (n' = m \<longleftrightarrow>
    num_open + balance s e (lines_between cl n (Suc m)) \<le> 0
    \<and> (\<forall>k. n < k \<and> k < m \<longrightarrow> 0 < num_open + balance s e (lines_between cl n (Suc k)))))"
  using assms(3,4)
proof (induction "NumLines cl - n" arbitrary: n num_open line rule: less_induct)
  case less
  show ?case
  proof (cases "int n < int (NumLines cl) - 1")
    case False
    then have "n' = NumLines cl" using less.prems(2) by (subst (asm) close_from.simps) simp
    then show ?thesis using False less.prems(1) by auto
  next
    case True
    define l1 where "l1 = cl_elided cl ! Suc n"
    have get: "py_get (cl_elided cl) (int (Suc n)) = Inr l1"
      using True assms(1) by (simp only: py_get_nat) (simp add: l1_def wf_clean_def)
    have first: "lines_between cl n (Suc (Suc n)) = l1" by (simp add: lines_between_def l1_def)
    have rest: "lines_between cl n (Suc m) = l1 @ lines_between cl (Suc n) (Suc m)" if "Suc n < m" for m
      using that by (simp add: lines_between_def l1_def upt_conv_Cons)
    show ?thesis
    proof (cases "num_open + balance s e l1 \<le> 0")
      case close: True
      then have "n' = Suc n"
        using less.prems(2) True get by (subst (asm) close_from.simps) (simp add: py_count_balance Let_def del: py_count_char)
      then show ?thesis using close first by (auto simp: not_less_eq dest: Suc_lessI)
    next
      case go: False
      then have "close_from cl (Suc n) (num_open + balance s e l1) s e l1 = Inr (l, n', p)"
        using less.prems(2) True get by (subst (asm) close_from.simps) (simp add: py_count_balance Let_def del: py_count_char)
      moreover have "NumLines cl - Suc n < NumLines cl - n" "Suc n < NumLines cl" using True by auto
      ultimately have ih: "Suc n < n'" "\<And>m. Suc n < m \<Longrightarrow> m < NumLines cl \<Longrightarrow> n' = m \<longleftrightarrow>
          num_open + balance s e (lines_between cl n (Suc m)) \<le> 0
          \<and> (\<forall>k. Suc n < k \<and> k < m \<longrightarrow> 0 < num_open + balance s e (lines_between cl n (Suc k)))"
        using less.hyps [of "Suc n" "num_open + balance s e l1" l1] by (simp_all add: rest add.assoc)
      have "n' = m \<longleftrightarrow> num_open + balance s e (lines_between cl n (Suc m)) \<le> 0
          \<and> (\<forall>k. n < k \<and> k < m \<longrightarrow> 0 < num_open + balance s e (lines_between cl n (Suc k)))"
        if m: "n < m" "m < NumLines cl" for m
      proof (cases "m = Suc n")
        case True
        with go first ih(1) show ?thesis by simp
      next
        case False
        with m have "Suc n < m" by simp
        moreover have "(\<forall>k. n < k \<and> k < m \<longrightarrow> 0 < num_open + balance s e (lines_between cl n (Suc k))) \<longleftrightarrow>
            (\<forall>k. Suc n < k \<and> k < m \<longrightarrow> 0 < num_open + balance s e (lines_between cl n (Suc k)))"
          using go first by (metis Suc_lessI Suc_lessD linorder_not_less)
        ultimately show ?thesis using ih(2) m(2) by simp
      qed
      with ih(1) show ?thesis by simp
    qed
  qed
qed

lemma CloseExpression_start:
  assumes "wf_clean cl" "n < NumLines cl" "pos < length (cl_elided cl ! n)" "is_opening (cl_elided cl ! n ! pos)"
    and "line = cl_elided cl ! n" "s = line ! pos" "e = closing_of s"
  shows "s \<noteq> e" "drop pos line = s # drop (Suc pos) line"
    "CloseExpression cl n (int pos) =
      (if end_of_expr (Suc pos) 1 s e (drop (Suc pos) line) > -1
       then Inr (line, n, end_of_expr (Suc pos) 1 s e (drop (Suc pos) line))
       else close_from cl n (balance s e (drop pos line)) s e line)"
proof -
  have se: "s \<in> {CHR ''('', CHR ''{'', CHR ''[''}" using assms(4-6) by (auto simp: is_opening_def)
  then show "s \<noteq> e" by (auto simp: assms(7) closing_of_def)
  show tail: "drop pos line = s # drop (Suc pos) line" using assms by (simp add: Cons_nth_drop_Suc)
  have g: "py_get (cl_elided cl) (int n) = Inr line" "py_get line (int pos) = Inr s" "closing_of s = e"
    using assms by (simp_all add: wf_clean_def)
  have i: "close_in_line line (int pos) s e = end_of_expr (Suc pos) 1 s e (drop (Suc pos) line)"
    using assms(3,5) tail by (simp add: close_in_line_def FindEndOfExpressionInLine_def)
  show "CloseExpression cl n (int pos) =
      (if end_of_expr (Suc pos) 1 s e (drop (Suc pos) line) > -1
       then Inr (line, n, end_of_expr (Suc pos) 1 s e (drop (Suc pos) line))
       else close_from cl n (balance s e (drop pos line)) s e line)"
    unfolding CloseExpression_def g py_bind_simps Let_def i slice_from_nat py_count_balance using se by simp
qed

section \<open>Balanced text\<close>

inductive balanced :: "string \<Rightarrow> bool" where
  empty: "balanced []"
| plain: "\<not> is_opening c \<Longrightarrow> \<not> is_closing c \<Longrightarrow> balanced cs \<Longrightarrow> balanced (c # cs)"
| nest: "is_opening c \<Longrightarrow> balanced xs \<Longrightarrow> balanced ys \<Longrightarrow> balanced (c # xs @ closing_of c # ys)"

lemma brackets_distinct: "is_opening c \<Longrightarrow> is_closing (closing_of c)" "is_opening c \<Longrightarrow> \<not> is_closing c"
  by (auto simp: is_opening_def is_closing_def closing_of_def)

lemma inside_balanced:
  "balanced xs \<Longrightarrow> is_closing p \<Longrightarrow> inside_from (p # ps) n (xs @ rest) = inside_from (p # ps) (n + length xs) rest"
proof (induction xs arbitrary: n p ps rest rule: balanced.induct)
  case (plain c cs)
  then show ?case by auto
next
  case (nest c xs ys)
  have "inside_from (p # ps) n ((c # xs @ closing_of c # ys) @ rest) =
      inside_from (closing_of c # p # ps) (Suc n) (xs @ closing_of c # ys @ rest)"
    using nest.hyps(1) nest.prems brackets_distinct by auto
  also have "\<dots> = inside_from (p # ps) (Suc (Suc n + length xs)) (ys @ rest)"
    using nest.IH(1) brackets_distinct(1) [OF nest.hyps(1)] by simp
  also have "\<dots> = inside_from (p # ps) (Suc (Suc n + length xs) + length ys) rest"
    by (rule nest.IH(2) [OF nest.prems])
  finally show ?case by (simp add: algebra_simps)
qed simp

lemma inside_found:
  "inside_from (p # ps) n str = Some k \<Longrightarrow> is_closing p \<Longrightarrow> list_all is_closing ps \<Longrightarrow>
     \<exists>xs rest. str = xs @ p # rest \<and> balanced xs \<and> inside_from ps (n + length xs + 1) rest = Some k"
proof (induction "length str" arbitrary: p ps n str rule: less_induct)
  case less
  show ?case
  proof (cases str)
    case Nil
    with less.prems show ?thesis by simp
  next
    case (Cons c cs)
    show ?thesis
    proof (cases "c = p")
      case True
      with less.prems Cons show ?thesis
        by (intro exI [of _ "[]"] exI [of _ cs]) (auto intro: balanced.empty)
    next
      case np: False
      show ?thesis
      proof (cases "is_opening c")
        case True
        with less.prems Cons np have i: "inside_from (closing_of c # p # ps) (Suc n) cs = Some k"
          by (auto split: if_splits)
        have lt: "length cs < length str" using Cons by simp
        from less.hyps [OF lt i] brackets_distinct(1) [OF True] less.prems(2,3) obtain xs rest where
          xs: "cs = xs @ closing_of c # rest" "balanced xs" "inside_from (p # ps) (Suc n + length xs + 1) rest = Some k"
          by auto
        have "length rest < length str" using Cons xs(1) by simp
        from less.hyps [OF this xs(3) less.prems(2,3)] obtain ys rest' where
          ys: "rest = ys @ p # rest'" "balanced ys" "inside_from ps (Suc n + length xs + 1 + length ys + 1) rest' = Some k"
          by blast
        have "str = (c # xs @ closing_of c # ys) @ p # rest'" using Cons xs ys by simp
        moreover have "balanced (c # xs @ closing_of c # ys)" by (rule balanced.nest [OF True xs(2) ys(2)])
        moreover have "n + length (c # xs @ closing_of c # ys) + 1 = Suc n + length xs + 1 + length ys + 1" by simp
        ultimately show ?thesis using ys(3) by metis
      next
        case no: False
        with less.prems Cons np have i: "\<not> is_closing c" "inside_from (p # ps) (Suc n) cs = Some k"
          by (auto split: if_splits)
        have lt: "length cs < length str" using Cons by simp
        from less.hyps [OF lt i(2) less.prems(2,3)] obtain xs rest where
          "cs = xs @ p # rest" "balanced xs" "inside_from ps (Suc n + length xs + 1) rest = Some k" by blast
        with Cons no i(1) show ?thesis
          by (intro exI [of _ "c # xs"] exI [of _ rest]) (auto intro: balanced.plain)
      qed
    qed
  qed
qed

section \<open>Tokens of template arguments\<close>

text \<open>
  The decision on a sequence of tokens, for a stack whose bottom is the bracket to be matched:
  \<open>None\<close> when the tokens run out.
\<close>

fun angle_verdict :: "string \<Rightarrow> string \<Rightarrow> bool option" where
  "angle_verdict st [] = None"
| "angle_verdict [] (c # cs) = None"
| "angle_verdict (t # st) (c # cs) =
     (if c \<in> {CHR ''<'', CHR ''('', CHR ''[''} then angle_verdict (c # t # st) cs
      else if t = CHR ''<'' then
        (if c = CHR ''>'' then (if st = [] then Some True else angle_verdict st cs)
         else Some (c = CHR '',''))
      else angle_verdict (if c \<in> {CHR '')'', CHR '']''} then st else t # st) cs)"

definition is_angle_token :: "char \<Rightarrow> bool" where
  "is_angle_token c \<longleftrightarrow> in_class False angle_class c"

definition mirror :: "char \<Rightarrow> char" where
  "mirror c = (if c = CHR ''<'' then CHR ''>'' else if c = CHR ''>'' then CHR ''<''
     else if c = CHR ''('' then CHR '')'' else if c = CHR '')'' then CHR ''(''
     else if c = CHR ''['' then CHR '']'' else if c = CHR '']'' then CHR ''['' else c)"

text \<open>The stacks that occur: the bracket to be matched is at the bottom, so they are never empty.\<close>

definition wf_stack :: "string \<Rightarrow> bool" where
  "wf_stack st \<longleftrightarrow> st \<noteq> [] \<and> last st = CHR ''<'' \<and> list_all (\<lambda>c. c \<in> {CHR ''<'', CHR ''('', CHR ''[''}) st"

lemma wf_stack_push [simp]: "c \<in> {CHR ''<'', CHR ''('', CHR ''[''} \<Longrightarrow> wf_stack st \<Longrightarrow> wf_stack (c # st)"
  by (auto simp: wf_stack_def)

lemma wf_stack_pop: "wf_stack (t # st) \<Longrightarrow> st \<noteq> [] \<or> t \<noteq> CHR ''<'' \<Longrightarrow> wf_stack st"
  by (auto simp: wf_stack_def split: if_splits)

lemma angle_tokens: "is_angle_token c \<longleftrightarrow> c \<in> set ''<>(),;[]''"
  by (simp add: is_angle_token_def angle_class_def in_class_def)

lemma next_cut:
  assumes "one_line line"
  shows "Search RE_NEXT_ANGLE line = None \<Longrightarrow> filter is_angle_token line = []"
    and "Search RE_NEXT_ANGLE line = Some m \<Longrightarrow> filter is_angle_token line = hd (m_str m 1) # filter is_angle_token (m_str m 2)
      \<and> one_line (m_str m 2)"
proof -
  have tok: "is_angle_token = in_class False angle_class" by (simp add: fun_eq_iff is_angle_token_def)
  show "filter is_angle_token line = []" if "Search RE_NEXT_ANGLE line = None"
    using that scan_pattern.scan_tokens_none [OF assms, of angle_class]
    by (simp add: RE_NEXT_ANGLE_scan scan_cut_def tok)
  show "filter is_angle_token line = hd (m_str m 1) # filter is_angle_token (m_str m 2) \<and> one_line (m_str m 2)"
    if "Search RE_NEXT_ANGLE line = Some m"
  proof -
    have "scan_cut (scan_rx angle_class) line = Some (hd (m_str m 1), m_str m 2)"
      using that by (simp add: RE_NEXT_ANGLE_scan scan_cut_def)
    from scan_pattern.scan_tokens_some [OF assms this] show ?thesis by (simp add: tok)
  qed
qed

lemma prev_cut:
  assumes "one_line line"
  shows "Search RE_PREV_ANGLE line = None \<Longrightarrow> filter is_angle_token line = []"
    and "Search RE_PREV_ANGLE line = Some m \<Longrightarrow> filter is_angle_token (rev line) = hd (m_str m 2) # filter is_angle_token (rev (m_str m 1))
      \<and> one_line (m_str m 1)"
proof -
  have nl: "CHR 0x0A \<notin> set line" using assms by (simp add: one_line_def)
  show "filter is_angle_token line = []" if "Search RE_PREV_ANGLE line = None"
    using that scan_back_None [OF nl, of angle_class]
    by (auto simp: RE_PREV_ANGLE_scan is_angle_token_def filter_empty_conv)
  show "filter is_angle_token (rev line) = hd (m_str m 2) # filter is_angle_token (rev (m_str m 1)) \<and> one_line (m_str m 1)"
    if "Search RE_PREV_ANGLE line = Some m"
    using that unfolding RE_PREV_ANGLE_scan Search_scan_back_rx
  proof (rule scan_back_Some)
    fix p c t
    assume d: "line = p @ c # t" "in_class False angle_class c" "m_group m 1 = Some p" "m_group m 2 = Some [c]"
      and t: "CHR 0x0A \<notin> set line \<Longrightarrow> \<forall>x\<in>set t. \<not> in_class False angle_class x"
    have "filter is_angle_token t = []" using t [OF nl] by (simp add: filter_empty_conv is_angle_token_def)
    then have "filter is_angle_token (rev t) = []" by (metis rev_filter rev.simps(1))
    with d assms show ?thesis by (simp add: m_str_def is_angle_token_def)
  qed
qed

text \<open>One round of the automaton, in the shape in which the loops perform it.\<close>

definition verdict_or :: "bool \<Rightarrow> string \<Rightarrow> string \<Rightarrow> bool" where
  "verdict_or b st toks = (case angle_verdict st toks of None \<Rightarrow> b | Some v \<Rightarrow> v)"

lemma next_angle_token:
  assumes "Search RE_NEXT_ANGLE line = Some m" "wf_stack st"
    and ih: "\<And>st'. wf_stack st' \<Longrightarrow> next_angle rest (m_str m 2) st' = Inr (verdict_or True st' toks)"
  shows "next_angle rest line st = Inr (verdict_or True st (hd (m_str m 1) # toks))"
proof -
  obtain t below where st: "st = t # below" using assms(2) by (cases st) (auto simp: wf_stack_def)
  have "wf_stack below" if "below \<noteq> [] \<or> t \<noteq> CHR ''<''" using wf_stack_pop assms(2) that unfolding st by blast
  then show ?thesis using assms(1,2)
    by (subst next_angle.simps) (auto simp: st ih verdict_or_def Let_def)
qed

lemma next_angle_tokens:
  "one_line line \<Longrightarrow> list_all one_line rest \<Longrightarrow> wf_stack st \<Longrightarrow>
     next_angle rest line st = Inr (verdict_or True st (filter is_angle_token (line @ concat rest)))"
proof (induction "length rest" arbitrary: rest line st rule: less_induct)
  case outer: less
  show ?case using outer.prems
  proof (induction "length line" arbitrary: line st rule: less_induct)
    case less
    show ?case
    proof (cases "Search RE_NEXT_ANGLE line")
      case None
      note cut = next_cut(1) [OF less.prems(1) None]
      show ?thesis
      proof (cases rest)
        case Nil
        with None cut show ?thesis by (subst next_angle.simps) (simp add: verdict_or_def)
      next
        case (Cons l ls)
        with None cut outer.hyps [of ls l st] less.prems show ?thesis by (subst next_angle.simps) simp
      qed
    next
      case (Some m)
      note cut = next_cut(2) [OF less.prems(1) Some]
      have "next_angle rest (m_str m 2) st' = Inr (verdict_or True st' (filter is_angle_token (m_str m 2 @ concat rest)))"
        if "wf_stack st'" for st'
        using less.hyps [OF next_angle_shorter [OF Some]] cut less.prems(2) that by simp
      from next_angle_token [OF Some less.prems(3) this] cut show ?thesis by simp
    qed
  qed
qed

text \<open>The backward search is the automaton on the mirrored tokens in reverse.\<close>

lemma mirror_mirror [simp]: "mirror (mirror c) = c"
  by (simp add: mirror_def)

lemma mirror_eq: "mirror c = d \<longleftrightarrow> c = mirror d"
  by auto

lemma mirror_simps [simp]:
  "mirror (CHR ''<'') = CHR ''>''" "mirror (CHR ''>'') = CHR ''<''" "mirror (CHR ''('') = CHR '')''"
  "mirror (CHR '')'') = CHR ''(''" "mirror (CHR ''['') = CHR '']''" "mirror (CHR '']'') = CHR ''[''"
  "mirror (CHR '','') = CHR '',''"
  by (simp_all add: mirror_def)

lemma prev_angle_token:
  assumes "Search RE_PREV_ANGLE line = Some m" "wf_stack (map mirror st)"
    and ih: "\<And>st'. wf_stack (map mirror st') \<Longrightarrow> prev_angle rest (m_str m 1) st' = Inr (verdict_or False (map mirror st') toks)"
  shows "prev_angle rest line st = Inr (verdict_or False (map mirror st) (mirror (hd (m_str m 2)) # toks))"
proof -
  obtain t below where st: "st = t # below" using assms(2) by (cases st) (auto simp: wf_stack_def)
  have "wf_stack (map mirror below)" if "below \<noteq> [] \<or> t \<noteq> CHR ''>''"
    using wf_stack_pop [of "mirror t" "map mirror below"] assms(2) that by (auto simp: st mirror_eq)
  then show ?thesis using assms(1,2)
    by (subst prev_angle.simps) (auto simp: st ih verdict_or_def Let_def mirror_eq simp del: One_nat_def)
qed

lemma prev_angle_tokens:
  "one_line line \<Longrightarrow> list_all one_line rest \<Longrightarrow> wf_stack (map mirror st) \<Longrightarrow>
     prev_angle rest line st =
       Inr (verdict_or False (map mirror st) (map mirror (filter is_angle_token (rev line @ concat (map rev rest)))))"
proof (induction "length rest" arbitrary: rest line st rule: less_induct)
  case outer: less
  show ?case using outer.prems
  proof (induction "length line" arbitrary: line st rule: less_induct)
    case less
    show ?case
    proof (cases "Search RE_PREV_ANGLE line")
      case None
      have cut: "filter is_angle_token (rev line) = []"
        using prev_cut(1) [OF less.prems(1) None] by (metis rev_filter rev.simps(1))
      show ?thesis
      proof (cases rest)
        case Nil
        with None cut show ?thesis by (subst prev_angle.simps) (simp add: verdict_or_def)
      next
        case (Cons l ls)
        with None cut outer.hyps [of ls l st] less.prems show ?thesis by (subst prev_angle.simps) simp
      qed
    next
      case (Some m)
      note cut = prev_cut(2) [OF less.prems(1) Some]
      have "prev_angle rest (m_str m 1) st' =
          Inr (verdict_or False (map mirror st') (map mirror (filter is_angle_token (rev (m_str m 1) @ concat (map rev rest)))))"
        if "wf_stack (map mirror st')" for st'
        using less.hyps [OF prev_angle_shorter [OF Some]] cut less.prems(2) that by simp
      from prev_angle_token [OF Some less.prems(3) this] cut show ?thesis by simp
    qed
  qed
qed

section \<open>Properties\<close>

text \<open>
  C28: The end of an expression on one line is the first position at which the brackets opened since
  the start are all closed: before it the depth stays positive, at it the depth is zero and a
  closing character precedes it; without such a position the result is \<open>-1\<close>.
\<close>

theorem FindEndOfExpression_first:
  assumes "startchar \<noteq> endchar" "0 < depth"
  shows "(FindEndOfExpressionInLine line startpos depth startchar endchar = -1 \<longleftrightarrow>
      (\<forall>k\<le>length (drop startpos line). 0 < depth + balance startchar endchar (take k (drop startpos line))))
    \<and> (FindEndOfExpressionInLine line startpos depth startchar endchar \<noteq> -1 \<longrightarrow>
      (\<exists>k<length (drop startpos line).
         FindEndOfExpressionInLine line startpos depth startchar endchar = int (startpos + Suc k)
         \<and> drop startpos line ! k = endchar
         \<and> depth + balance startchar endchar (take (Suc k) (drop startpos line)) = 0
         \<and> (\<forall>j\<le>k. 0 < depth + balance startchar endchar (take j (drop startpos line)))))"
proof -
  let ?xs = "drop startpos line"
  let ?r = "end_of_expr startpos depth startchar endchar ?xs"
  note found = end_of_expr_found [OF assms, of startpos ?xs]
  have "?r = -1" if pos: "\<forall>k\<le>length ?xs. 0 < depth + balance startchar endchar (take k ?xs)"
  proof (rule ccontr)
    assume "?r \<noteq> -1"
    from found [OF this] obtain k where "k < length ?xs" "depth + balance startchar endchar (take (Suc k) ?xs) = 0" by blast
    with pos show False by (metis Suc_leI less_irrefl)
  qed
  with found end_of_expr_none [OF assms, of startpos ?xs] show ?thesis
    unfolding FindEndOfExpressionInLine_def by blast
qed

lemma FindEndOfExpression_first_witness:
  "FindEndOfExpressionInLine ''f(a(b), c) + d)'' 2 1 (CHR ''('') (CHR '')'') = 10"
proof -
  have r: "FindEndOfExpressionInLine ''f(a(b), c) + d)'' 2 1 (CHR ''('') (CHR '')'') = 10" by code_simp
  have "CHR ''('' \<noteq> CHR '')''" "0 < (1 :: int)" by simp_all
  from FindEndOfExpression_first [OF this, of "''f(a(b), c) + d)''" 2] r show ?thesis by blast
qed

text \<open>
  C9: \<open>CloseExpression\<close> at an opening bracket returns. Either it gives up with the number of
  lines and position \<open>-1\<close>, or it returns a position just after a matching closing character such that
  the text from the bracket to that position has as many opening as closing characters.
\<close>

theorem CloseExpression_balanced:
  assumes "wf_clean cl" "n < NumLines cl" "pos < length (cl_elided cl ! n)" "is_opening (cl_elided cl ! n ! pos)"
  shows "\<exists>l n' p. CloseExpression cl n (int pos) = Inr (l, n', p)
    \<and> (n' = NumLines cl \<and> p = -1 \<or> n \<le> n' \<and> n' < NumLines cl \<and> l = cl_elided cl ! n' \<and> 0 < p \<and> nat p \<le> length l
       \<and> l ! (nat p - 1) = closing_of (cl_elided cl ! n ! pos)
       \<and> balance (cl_elided cl ! n ! pos) (closing_of (cl_elided cl ! n ! pos))
           (if n' = n then drop pos (take (nat p) l)
            else drop pos (cl_elided cl ! n) @ lines_between cl n n' @ take (nat p) l) = 0)"
proof -
  define line s e where "line = cl_elided cl ! n" and "s = line ! pos" and "e = closing_of (line ! pos)"
  have ce: "closing_of s = e" by (simp add: s_def e_def)
  note start = CloseExpression_start [OF assms line_def s_def ce [symmetric]]
  note se = start(1) and tail = start(2) and close = start(3)
  let ?stop = "end_of_expr (Suc pos) 1 s e (drop (Suc pos) line)"
  show ?thesis
  proof (cases "?stop = -1")
    case True
    have "0 < balance s e (drop pos line)"
      using end_of_expr_none [OF se _ True, of "length (drop (Suc pos) line)"] se by (simp add: tail)
    from close_from_balanced [OF assms(1) se this assms(2), of line] obtain l n' p where
      c: "close_from cl n (balance s e (drop pos line)) s e line = Inr (l, n', p)"
      and r: "n' = NumLines cl \<and> p = -1 \<or> n < n' \<and> n' < NumLines cl \<and> l = cl_elided cl ! n' \<and> 0 < p \<and> nat p \<le> length l
       \<and> l ! (nat p - 1) = e \<and> balance s e (drop pos line) + balance s e (lines_between cl n n' @ take (nat p) l) = 0"
      by blast
    have "CloseExpression cl n (int pos) = Inr (l, n', p)" using close True c by simp
    moreover have "n' = NumLines cl \<and> p = -1 \<or> n \<le> n' \<and> n' < NumLines cl \<and> l = cl_elided cl ! n' \<and> 0 < p \<and> nat p \<le> length l
       \<and> l ! (nat p - 1) = e \<and> balance s e (if n' = n then drop pos (take (nat p) l)
          else drop pos line @ lines_between cl n n' @ take (nat p) l) = 0"
      using r by auto
    ultimately show ?thesis unfolding line_def [symmetric] s_def [symmetric] ce by blast
  next
    case False
    from end_of_expr_found [OF se _ False] obtain k where k: "k < length (drop (Suc pos) line)"
      "?stop = int (Suc pos + Suc k)" "drop (Suc pos) line ! k = e" "1 + balance s e (take (Suc k) (drop (Suc pos) line)) = 0"
      by auto
    have "drop pos (take (Suc pos + Suc k) line) = s # take (Suc k) (drop (Suc pos) line)"
      using tail by (simp add: drop_take)
    moreover have ne: "nat ?stop = Suc pos + Suc k" by (simp only: k(2) nat_int)
    ultimately have "balance s e (drop pos (take (nat ?stop) line)) = 0" using k(4) se by (simp only: balance_simps) simp
    moreover have "nat ?stop \<le> length line" "line ! (nat ?stop - 1) = e" unfolding ne using k(1,3) by simp_all
    moreover have "0 < ?stop" "?stop > -1" unfolding k(2) by simp_all
    ultimately show ?thesis using close assms(2)
      unfolding line_def [symmetric] s_def [symmetric] ce by (auto simp: line_def)
  qed
qed

definition sample_lines :: clean_lines where
  "sample_lines = CleansedLines [''if (a && f('', ''        b)) {'', ''  g(c'', '') (d) {'']"

lemma CloseExpression_balanced_witness:
  "CloseExpression sample_lines 0 3 = Inr (''        b)) {'', 1, 11)
   \<and> balance (CHR ''('') (CHR '')'') (drop 3 ''if (a && f('' @ take 11 ''        b)) {'') = 0"
proof -
  have 1: "wf_clean sample_lines" by (simp add: sample_lines_def)
  have 2: "0 < NumLines sample_lines" by code_simp
  have 3: "3 < length (cl_elided sample_lines ! 0)" by code_simp
  have 4: "is_opening (cl_elided sample_lines ! 0 ! 3)" by code_simp
  have r: "CloseExpression sample_lines 0 3 = Inr (''        b)) {'', 1, 11)" by code_simp
  have e: "cl_elided sample_lines ! 0 = ''if (a && f(''" "cl_elided sample_lines ! 1 = ''        b)) {''" by code_simp+
  have l: "lines_between sample_lines 0 1 = []" by (simp add: lines_between_def)
  have c: "closing_of (CHR ''('') = CHR '')''" by code_simp
  from CloseExpression_balanced [OF 1 2 3 4] show ?thesis
    unfolding e by (simp add: r c l [simplified] e [simplified])
qed

text \<open>
  C29: The text inside a bracket is returned exactly when it is balanced: with an opening character
  at the end of the match, the result is \<open>inner\<close> if and only if the text after the match is
  \<open>inner\<close>, balanced, followed by the closing character.
\<close>

theorem GetTextInside_balanced:
  assumes "Search pattern txt = Some m" "m_end m 0 = int k" "0 < k" "is_opening (txt ! (k - 1))"
  shows "GetTextInside txt pattern = Inr (Some inner) \<longleftrightarrow>
    (\<exists>post. drop k txt = inner @ closing_of (txt ! (k - 1)) # post \<and> balanced inner)"
proof -
  let ?p = "closing_of (txt ! (k - 1))"
  have p: "is_closing ?p" using brackets_distinct(1) [OF assms(4)] .
  have g: "GetTextInside txt pattern = Inr (map_option (\<lambda>pos. take (pos - 1 - k) (drop k txt)) (inside_from [?p] k (drop k txt)))"
    using assms by (simp add: GetTextInside_def Let_def)
  show ?thesis
  proof
    assume "GetTextInside txt pattern = Inr (Some inner)"
    with g have "map_option (\<lambda>pos. take (pos - 1 - k) (drop k txt)) (inside_from [?p] k (drop k txt)) = Some inner" by simp
    then obtain pos where pos: "inside_from [?p] k (drop k txt) = Some pos" "inner = take (pos - 1 - k) (drop k txt)"
      by (auto simp: map_option_eq_Some)
    from inside_found [OF pos(1) p] obtain xs rest where "drop k txt = xs @ ?p # rest" "balanced xs" "pos = k + length xs + 1"
      by auto
    with pos(2) show "\<exists>post. drop k txt = inner @ ?p # post \<and> balanced inner"
      by auto
  next
    assume "\<exists>post. drop k txt = inner @ ?p # post \<and> balanced inner"
    then obtain post where d: "drop k txt = inner @ ?p # post" "balanced inner" by blast
    have "inside_from [?p] k (drop k txt) = Some (k + length inner + 1)"
      unfolding d(1) using inside_balanced [OF d(2) p, of "[]" k "?p # post"] by simp
    with g d(1) show "GetTextInside txt pattern = Inr (Some inner)" by simp
  qed
qed

lemma GetTextInside_balanced_witness:
  "GetTextInside ''x = f(a, g[b]); }'' (rx ''f`('') = Inr (Some ''a, g[b]'')"
proof -
  have "map_option (\<lambda>m. m_end m 0) (Search (rx ''f`('') ''x = f(a, g[b]); }'') = Some 6" by code_simp
  then obtain m where m: "Search (rx ''f`('') ''x = f(a, g[b]); }'' = Some m" "m_end m 0 = int 6" by auto
  have "balanced ''b''" "balanced []" by (auto intro!: balanced.intros simp: is_opening_def is_closing_def)
  from balanced.nest [OF _ this, of "CHR ''[''"] have "balanced ''[b]''" by (simp add: is_opening_def closing_of_def)
  then have "balanced ''a, g[b]''" by (auto intro!: balanced.plain simp: is_opening_def is_closing_def)
  moreover have "drop 6 ''x = f(a, g[b]); }'' = ''a, g[b]'' @ closing_of (''x = f(a, g[b]); }'' ! (6 - 1)) # ''; }''" by (simp add: closing_of_def)
  ultimately show ?thesis
    using GetTextInside_balanced [OF m, of "''a, g[b]''"] by (simp add: is_opening_def)
qed

text \<open>
  C19: Both searches for a template bracket always return and are one automaton on the sequence of
  operator characters: forwards on the operators after the bracket, backwards on the mirrored
  operators before it, in reverse; an undecided sequence counts as a match only forwards.
\<close>

theorem angle_brackets_automaton:
  assumes "list_all one_line (cl_elided cl)" "one_line part"
  shows "FindNextMatchingAngleBracket cl n part =
      Inr (verdict_or True ''<'' (filter is_angle_token (part @ concat (drop (Suc n) (cl_elided cl)))))
    \<and> FindPreviousMatchingAngleBracket cl n part =
      Inr (verdict_or False ''<'' (map mirror (filter is_angle_token (rev (concat (take n (cl_elided cl)) @ part)))))"
proof -
  have "list_all one_line (drop (Suc n) (cl_elided cl))" "list_all one_line (rev (take n (cl_elided cl)))"
    using assms(1) by (auto simp: list_all_iff dest: in_set_dropD in_set_takeD)
  moreover have "wf_stack ''<''" "wf_stack (map mirror ''>'')" by (simp_all add: wf_stack_def)
  moreover have "rev part @ concat (map rev (rev (take n (cl_elided cl)))) = rev (concat (take n (cl_elided cl)) @ part)"
    by (simp add: rev_concat rev_map)
  ultimately show ?thesis
    using next_angle_tokens [OF assms(2)] prev_angle_tokens [OF assms(2)]
    by (simp add: FindNextMatchingAngleBracket_def FindPreviousMatchingAngleBracket_def)
qed

lemma angle_brackets_automaton_witness:
  "FindNextMatchingAngleBracket sample_lines 0 ''int; x'' = Inr False
   \<and> FindPreviousMatchingAngleBracket sample_lines 0 ''map<int, int'' = Inr True"
proof -
  have 1: "list_all one_line (cl_elided sample_lines)" by code_simp
  have 2: "one_line ''int; x''" "one_line ''map<int, int''" by code_simp+
  have "verdict_or True ''<'' (filter is_angle_token (''int; x'' @ concat (drop (Suc 0) (cl_elided sample_lines)))) = False" by code_simp
  moreover have "verdict_or False ''<'' (map mirror (filter is_angle_token (rev (concat (take 0 (cl_elided sample_lines)) @ ''map<int, int'')))) = True" by code_simp
  ultimately show ?thesis
    using angle_brackets_automaton [OF 1 2(1), of 0] angle_brackets_automaton [OF 1 2(2), of 0] by simp
qed

text \<open>
  C39: On which line \<open>CloseExpression\<close> stops. It is the line of the bracket exactly when the brackets
  opened since are all closed somewhere on it. A later line is it exactly when at its end no
  bracket is open and at the end of each line before it one is: a line that closes the
  bracket and opens as many again is passed over.
\<close>

theorem CloseExpression_first_line:
  assumes "wf_clean cl" "n < NumLines cl" "pos < length (cl_elided cl ! n)" "is_opening (cl_elided cl ! n ! pos)"
    and "s = cl_elided cl ! n ! pos" "first = drop pos (cl_elided cl ! n)"
  shows "\<exists>l n' p. CloseExpression cl n (int pos) = Inr (l, n', p)
    \<and> (n' = n \<longleftrightarrow> (\<exists>k. 0 < k \<and> k \<le> length first \<and> balance s (closing_of s) (take k first) = 0))
    \<and> (n' \<noteq> n \<longrightarrow> (\<forall>m. n < m \<and> m < NumLines cl \<longrightarrow> (n' = m \<longleftrightarrow>
        balance s (closing_of s) (first @ lines_between cl n (Suc m)) \<le> 0
        \<and> (\<forall>k. n < k \<and> k < m \<longrightarrow> 0 < balance s (closing_of s) (first @ lines_between cl n (Suc k))))))"
proof -
  define line e where "line = cl_elided cl ! n" and "e = closing_of s"
  note start = CloseExpression_start [OF assms(1-4), of line s e]
  have se: "s \<noteq> e" and tail: "first = s # drop (Suc pos) line" using start assms(5,6) by (simp_all add: line_def e_def)
  let ?stop = "end_of_expr (Suc pos) 1 s e (drop (Suc pos) line)"
  have bal: "balance s e (take (Suc k) first) = 1 + balance s e (take k (drop (Suc pos) line))" for k
    using se by (simp add: tail)
  show ?thesis
  proof (cases "?stop = -1")
    case True
    then have c: "CloseExpression cl n (int pos) = close_from cl n (balance s e first) s e line"
      using start(3) assms(5,6) by (simp add: line_def e_def)
    have pos: "0 < balance s e (take k first)" if "0 < k" "k \<le> length first" for k
      using that end_of_expr_none [OF se _ True, of "k - 1"] bal [of "k - 1"] by (simp add: tail)
    have open1: "0 < balance s e first" using pos [of "length first"] by (simp add: tail)
    from close_from_balanced [OF assms(1) se open1 assms(2), of line] obtain l n' p where
      r: "close_from cl n (balance s e first) s e line = Inr (l, n', p)" by blast
    note f = close_from_first [OF assms(1) se assms(2) r]
    have none: "\<not> (\<exists>k. 0 < k \<and> k \<le> length first \<and> balance s e (take k first) = 0)" using pos by (metis less_irrefl)
    have "n' \<noteq> n" using f by simp
    then show ?thesis using f r none c unfolding balance_simps(3) e_def [symmetric]
      by (intro exI [of _ l] exI [of _ n'] exI [of _ p]) simp
  next
    case False
    from end_of_expr_found [OF se _ False] obtain k where k: "k < length (drop (Suc pos) line)"
      "?stop = int (Suc pos + Suc k)" "1 + balance s e (take (Suc k) (drop (Suc pos) line)) = 0" by auto
    then have "CloseExpression cl n (int pos) = Inr (line, n, ?stop)"
      using start(3) assms(5,6) by (simp add: line_def e_def)
    moreover have "balance s e (take (Suc (Suc k)) first) = 0" unfolding bal using k(3) by simp
    moreover have "Suc (Suc k) \<le> length first" using k(1) by (simp add: tail)
    ultimately show ?thesis unfolding e_def by blast
  qed
qed

lemma CloseExpression_first_line_witness:
  "\<exists>l p. CloseExpression (CleansedLines [''f(a'', '') (b'', ''c)'']) 0 1 = Inr (l, 2, p)
   \<and> balance (CHR ''('') (CHR '')'') (''(a'' @ take 1 '') (b'') = 0"
proof -
  let ?cl = "CleansedLines [''f(a'', '') (b'', ''c)'']"
  have c: "cl_elided ?cl = [''f(a'', '') (b'', ''c)'']" by code_simp
  have n: "NumLines ?cl = 3" by code_simp
  have o: "is_opening (cl_elided ?cl ! 0 ! 1)" by code_simp
  have e: "closing_of (CHR ''('') = CHR '')''" by code_simp
  have l: "lines_between ?cl 0 (Suc 1) = '') (b''" "lines_between ?cl 0 (Suc 2) = '') (bc)''"
    by (simp_all add: lines_between_def c upt_rec)
  have 1: "0 < NumLines ?cl" by (simp add: n)
  have 2: "1 < length (cl_elided ?cl ! 0)" by (simp add: c)
  have 3: "CHR ''('' = cl_elided ?cl ! 0 ! 1" "''(a'' = drop 1 (cl_elided ?cl ! 0)" by (simp_all add: c)
  have k: "\<not> (\<exists>k. 0 < k \<and> k \<le> length ''(a'' \<and> balance (CHR ''('') (CHR '')'') (take k ''(a'') = 0)"
    by (auto simp: take_Cons' split: if_splits)
  from CloseExpression_first_line [OF wf_CleansedLines 1 2 o 3] obtain l n' p where
    r: "CloseExpression ?cl 0 (int 1) = Inr (l, n', p)"
    and first: "n' = 0 \<longleftrightarrow> (\<exists>k. 0 < k \<and> k \<le> length ''(a'' \<and> balance (CHR ''('') (CHR '')'') (take k ''(a'') = 0)"
    and later: "n' \<noteq> 0 \<longrightarrow> (\<forall>m. 0 < m \<and> m < 3 \<longrightarrow> (n' = m \<longleftrightarrow> balance (CHR ''('') (CHR '')'') (''(a'' @ lines_between ?cl 0 (Suc m)) \<le> 0
      \<and> (\<forall>k. 0 < k \<and> k < m \<longrightarrow> 0 < balance (CHR ''('') (CHR '')'') (''(a'' @ lines_between ?cl 0 (Suc k)))))"
    unfolding e n by blast
  have "n' \<noteq> 0" using first k by (simp only: not_False_eq_True)
  moreover have "0 < (2 :: nat) \<and> 2 < (3 :: nat)" by simp
  ultimately have "n' = 2 \<longleftrightarrow> balance (CHR ''('') (CHR '')'') (''(a'' @ lines_between ?cl 0 (Suc 2)) \<le> 0
      \<and> (\<forall>k. 0 < k \<and> k < 2 \<longrightarrow> 0 < balance (CHR ''('') (CHR '')'') (''(a'' @ lines_between ?cl 0 (Suc k)))" using later by blast
  moreover have "balance (CHR ''('') (CHR '')'') (''(a'' @ lines_between ?cl 0 (Suc 2)) \<le> 0" unfolding l by simp
  moreover have "0 < balance (CHR ''('') (CHR '')'') (''(a'' @ lines_between ?cl 0 (Suc k))" if "0 < k \<and> k < 2" for k
  proof -
    from that have k: "k = 1" by simp
    show ?thesis unfolding k l by simp
  qed
  ultimately have "n' = 2" by blast
  with r show ?thesis by simp
qed

text \<open>
  The previous non-blank line is the nearest line above that is not blank, with its number, and
  \<open>-1\<close> with the empty text exactly when all lines above are blank.
\<close>

lemma GetPreviousNonBlankLine_nearest:
  "case GetPreviousNonBlankLine cl (int n) of (l, k) \<Rightarrow>
     (if k = -1 then l = [] \<and> (\<forall>i<n. IsBlankLine (cl_elided cl ! i))
      else 0 \<le> k \<and> nat k < n \<and> l = cl_elided cl ! nat k \<and> \<not> IsBlankLine l
        \<and> (\<forall>i. nat k < i \<and> i < n \<longrightarrow> IsBlankLine (cl_elided cl ! i)))"
proof (induction n)
  case (Suc n)
  show ?case
  proof (cases "IsBlankLine (cl_elided cl ! n)")
    case True
    then have "GetPreviousNonBlankLine cl (int (Suc n)) = GetPreviousNonBlankLine cl (int n)"
      by (simp add: GetPreviousNonBlankLine_def nat_add_distrib)
    with Suc True show ?thesis by (auto simp: less_Suc_eq split: if_splits prod.splits)
  next
    case False
    then have "GetPreviousNonBlankLine cl (int (Suc n)) = (cl_elided cl ! n, int n)"
      by (simp add: GetPreviousNonBlankLine_def nat_add_distrib)
    with False show ?thesis by auto
  qed
qed (simp add: GetPreviousNonBlankLine_def)

end
