(* ===== verification/Include_State.thy ===== *)
theory Include_State
  imports Lint_State Paths "HOL-Library.List_Lexorder"
begin

text \<open>
  Tracking of \<open>#include\<close> lines: the classes \<open>_ScopedIncludeState\<close> and \<open>_IncludeState\<close> and the
  function \<open>CheckIncludeLine\<close>. A scope is opened by each branch of a preprocessor conditional. The
  list of all scopes and the stack of open ones share their objects, so the model keeps the objects
  in a store and the stack as addresses into it.

  The lemmas characterise which headers are reported as out of order in terms of the headers seen
  before in the scope, that sections only move forward, that the stack and the store stay
  consistent, and when a directive fails.
\<close>

section \<open>One scope\<close>

datatype include_section = INITIAL_SECTION | MY_H_SECTION | C_SECTION | CPP_SECTION | OTHER_H_SECTION

fun section_number :: "include_section \<Rightarrow> nat" where
  "section_number INITIAL_SECTION = 0"
| "section_number MY_H_SECTION = 1"
| "section_number C_SECTION = 2"
| "section_number CPP_SECTION = 3"
| "section_number OTHER_H_SECTION = 4"

instantiation include_section :: linorder
begin

definition less_eq_include_section :: "include_section \<Rightarrow> include_section \<Rightarrow> bool" where
  "less_eq_include_section a b \<longleftrightarrow> section_number a \<le> section_number b"

definition less_include_section :: "include_section \<Rightarrow> include_section \<Rightarrow> bool" where
  "less_include_section a b \<longleftrightarrow> section_number a < section_number b"

instance
proof
  fix a b :: include_section
  show "a \<le> b \<Longrightarrow> b \<le> a \<Longrightarrow> a = b"
    by (cases a; cases b) (simp_all add: less_eq_include_section_def)
qed (auto simp: less_eq_include_section_def less_include_section_def)

end

lemmas section_ord = less_eq_include_section_def less_include_section_def

text \<open>\<open>inc_lines\<close> is the dictionary itself: the line on which a header was included.\<close>

record scoped_include_state =
  inc_lines :: "string \<rightharpoonup> int"
  inc_section :: include_section
  last_header :: string
  last_line :: int

definition new_scope :: scoped_include_state where
  "new_scope = \<lparr>inc_lines = Map.empty, inc_section = INITIAL_SECTION, last_header = [], last_line = 0\<rparr>"

fun TYPE_NAMES :: "header_type \<Rightarrow> string" where
  "TYPE_NAMES C_SYS_HEADER = ''C system header''"
| "TYPE_NAMES CPP_SYS_HEADER = ''C++ system header''"
| "TYPE_NAMES LIKELY_MY_HEADER = ''header this file implements''"
| "TYPE_NAMES POSSIBLE_MY_HEADER = ''header this file may implement''"
| "TYPE_NAMES OTHER_HEADER = ''other header''"

fun SECTION_NAMES :: "include_section \<Rightarrow> string" where
  "SECTION_NAMES INITIAL_SECTION = ''... nothing. (This can'' @ [CHR 0x27] @ ''t be an error.)''"
| "SECTION_NAMES MY_H_SECTION = ''a header this file implements''"
| "SECTION_NAMES C_SECTION = ''C system header''"
| "SECTION_NAMES CPP_SECTION = ''C++ system header''"
| "SECTION_NAMES OTHER_H_SECTION = ''other header''"

definition CanonicalizeAlphabeticalOrder :: "string \<Rightarrow> string" where
  "CanonicalizeAlphabeticalOrder header_path =
     py_lower (py_replace (py_replace header_path ''-inl.h'' ''.h'') ''-'' ''_'')"

text \<open>The error is a category with a message.\<close>

definition CheckIncludeAlphabeticalOrder ::
  "string \<Rightarrow> int \<Rightarrow> scoped_include_state \<Rightarrow> (string \<times> string) option \<times> scoped_include_state" where
  "CheckIncludeAlphabeticalOrder header_path linenum st =
     (let canonical_header = CanonicalizeAlphabeticalOrder header_path;
          quoted = [CHR 0x22] @ header_path @ [CHR 0x22];
          has_dir = py_in ''/'' header_path;
          prev_has_dir = py_in ''/'' (last_header st);
          error_info =
            (if linenum = last_line st + 1 then
               if has_dir = prev_has_dir then
                 if canonical_header < last_header st
                 then Some (''build/include_alpha'', ''Include '' @ quoted @ '' not in alphabetical order'')
                 else None
               else if prev_has_dir
               then Some (''build/include_order'', ''Include '' @ quoted @
                      '' not in correct order (paths without dir should be put before any others)'')
               else None
             else None)
      in (error_info, st\<lparr>last_header := canonical_header, last_line := linenum\<rparr>))"

text \<open>The section after a header that is in order, and whether it is.\<close>

definition CheckNextIncludeOrder :: "header_type \<Rightarrow> scoped_include_state \<Rightarrow> string \<times> scoped_include_state" where
  "CheckNextIncludeOrder t st =
     (let error_message = ''Found '' @ TYPE_NAMES t @ '' after '' @ SECTION_NAMES (inc_section st);
          move = (\<lambda>sec. ([], st\<lparr>inc_section := sec,
            last_header := (if inc_section st \<noteq> sec then [] else last_header st)\<rparr>));
          failed = (error_message, st\<lparr>last_header := []\<rparr>)
      in case t of
           C_SYS_HEADER \<Rightarrow> if inc_section st \<le> C_SECTION then move C_SECTION else failed
         | CPP_SYS_HEADER \<Rightarrow> if inc_section st \<le> CPP_SECTION then move CPP_SECTION else failed
         | LIKELY_MY_HEADER \<Rightarrow> if inc_section st \<le> MY_H_SECTION then move MY_H_SECTION else move OTHER_H_SECTION
         | POSSIBLE_MY_HEADER \<Rightarrow> if inc_section st \<le> MY_H_SECTION then move MY_H_SECTION else move OTHER_H_SECTION
         | OTHER_HEADER \<Rightarrow> move OTHER_H_SECTION)"

section \<open>The stack of scopes\<close>

text \<open>\<open>inc_all\<close> is \<open>all_scoped_include_state\<close>, the store; \<open>inc_stack\<close> the list itself, its top last.\<close>

record include_state =
  inc_stack :: "nat list"
  inc_all :: "scoped_include_state list"

definition new_include_state :: include_state where
  "new_include_state = \<lparr>inc_stack = [], inc_all = []\<rparr>"

definition inc_push :: "scoped_include_state \<Rightarrow> include_state \<Rightarrow> include_state" where
  "inc_push sc st = st\<lparr>inc_stack := inc_stack st @ [length (inc_all st)], inc_all := inc_all st @ [sc]\<rparr>"

definition inc_pop :: "include_state \<Rightarrow> include_state py" where
  "inc_pop st = (if inc_stack st = [] then Inl IndexError else Inr (st\<lparr>inc_stack := butlast (inc_stack st)\<rparr>))"

text \<open>\<open>top()\<close>: the address of the innermost open scope.\<close>

definition inc_top :: "include_state \<Rightarrow> nat py" where
  "inc_top st = py_get (inc_stack st) (int (length (inc_stack st)) - 1)"

definition get_all :: "include_state \<Rightarrow> string \<rightharpoonup> int" where
  "get_all st = fold (\<lambda>sc m. m ++ inc_lines sc) (inc_all st) Map.empty"

section \<open>CheckIncludeLine\<close>

definition include_path_reports :: "int \<Rightarrow> string \<Rightarrow> report list" where
  "include_path_reports linenum include =
     (let quoted = ''include '' @ [CHR 0x22] @ include @ [CHR 0x22] in
      (if py_startswith include ''/''
       then [mk_report linenum ''build/include'' 4 (quoted @ '' is a absolute path'')] else [])
      @ (if py_in [CHR 0x5C] include
         then [mk_report linenum ''build/include'' 4
           (quoted @ '' contains '' @ [CHR 0x22, CHR 0x5C, CHR 0x22] @ '', should be '' @ [CHR 0x22] @ ''/'' @ [CHR 0x22])] else [])
      @ (if py_in ''..'' include
         then [mk_report linenum ''build/include'' 4
           (quoted @ '' contains '' @ [CHR 0x22] @ ''..'' @ [CHR 0x22] @ '', do not using relative path'')] else [])
      @ (if py_startswith include ''./''
         then [mk_report linenum ''build/include'' 4 (quoted @ '' should start from the root of source code tree.'')] else []))"

text \<open>The first include of a header in its scope is recorded and its position checked.\<close>

definition record_include ::
  "file_system \<Rightarrow> string \<Rightarrow> int \<Rightarrow> string \<Rightarrow> bool \<Rightarrow> scoped_include_state \<Rightarrow> (report list \<times> scoped_include_state) py" where
  "record_include fs filename linenum include is_system sc =
     (case inc_lines sc include of
        Some n \<Rightarrow> Inr ([mk_report linenum ''build/include'' 4
          ([CHR 0x22] @ include @ [CHR 0x22] @ '' already included at '' @ filename @ '':'' @ show_int n)], sc)
      | None \<Rightarrow>
          (let sc = sc\<lparr>inc_lines := (inc_lines sc)(include \<mapsto> linenum)\<rparr>
           in py_bind (ClassifyInclude fs filename include is_system) (\<lambda>t.
              let (error_message, sc) = CheckNextIncludeOrder t sc
              in py_bind (if error_message = [] then Inr []
                   else py_bind (BaseName fs filename) (\<lambda>base.
                     Inr [mk_report linenum ''build/include_order'' 4
                       (error_message @ ''. Should be: '' @ base @ ''.h, c system, c++ system, other.'')])) (\<lambda>rs.
              let (error_info, sc) = CheckIncludeAlphabeticalOrder include linenum sc
              in Inr (rs @ (case error_info of None \<Rightarrow> [] | Some (c, m) \<Rightarrow> [mk_report linenum c 4 m]), sc)))))"

definition stream_reports :: "string \<Rightarrow> int \<Rightarrow> string \<Rightarrow> report list" where
  "stream_reports filename linenum line =
     (case Match RE_INCLUDE line of
        None \<Rightarrow> []
      | Some m \<Rightarrow>
          if matches RE_STREAM_HEADER (m_str m 2) \<and> \<not> IsTestFilename filename
          then [mk_report linenum ''readability/streams'' 3 ''Streams are highly discouraged.''] else [])"

definition include_line ::
  "file_system \<Rightarrow> string \<Rightarrow> int \<Rightarrow> string \<Rightarrow> include_state \<Rightarrow> (report list \<times> include_state) py" where
  "include_line fs filename linenum line st =
     (let st = (if inc_stack st = [] then inc_push new_scope st else st)
      in py_bind (inc_top st) (\<lambda>a.
         let new_style = (if searches RE_INCLUDE_NEW_STYLE line
               then [mk_report linenum ''build/include'' 4 ''Include the directory when naming .h files''] else [])
         in py_bind (case Search RE_INCLUDE line of
              None \<Rightarrow> Inr ([], inc_all st ! a)
            | Some m \<Rightarrow>
                py_bind (record_include fs filename linenum (m_str m 2) (m_group m 1 = Some ''<'') (inc_all st ! a)) (\<lambda>(rs, sc).
                  Inr (include_path_reports linenum (m_str m 2) @ rs, sc)))
            (\<lambda>(rs, sc). Inr (new_style @ rs @ stream_reports filename linenum line,
               st\<lparr>inc_all := (inc_all st)[a := sc]\<rparr>))))"

definition CheckIncludeLine ::
  "file_system \<Rightarrow> string \<Rightarrow> int \<Rightarrow> string \<Rightarrow> include_state \<Rightarrow> (report list \<times> include_state) py" where
  "CheckIncludeLine fs filename linenum line st =
     (if searches RE_CONDITION_DIRECTIVE line then
        if searches RE_ENDIF_DIRECTIVE line then py_bind (inc_pop st) (\<lambda>st. Inr ([], st))
        else if searches RE_ELIF_OR_ELSE_DIRECTIVE line then
          py_bind (inc_pop st) (\<lambda>st. Inr ([], inc_push new_scope st))
        else Inr ([], inc_push new_scope st)
      else include_line fs filename linenum line st)"

section \<open>The order of headers\<close>

definition check_order :: "header_type list \<Rightarrow> scoped_include_state \<Rightarrow> scoped_include_state" where
  "check_order ts st = fold (\<lambda>t st. snd (CheckNextIncludeOrder t st)) ts st"

text \<open>A header of the file itself that comes after another kind of header.\<close>

definition late_mine :: "header_type list \<Rightarrow> bool" where
  "late_mine ts \<longleftrightarrow> (\<exists>xs y zs. ts = xs @ y # zs \<and> y \<in> {LIKELY_MY_HEADER, POSSIBLE_MY_HEADER}
     \<and> (\<exists>x\<in>set xs. x \<in> {C_SYS_HEADER, CPP_SYS_HEADER, OTHER_HEADER}))"

lemma late_mine_snoc:
  "late_mine (ts @ [t]) \<longleftrightarrow> late_mine ts \<or> t \<in> {LIKELY_MY_HEADER, POSSIBLE_MY_HEADER}
     \<and> (\<exists>x\<in>set ts. x \<in> {C_SYS_HEADER, CPP_SYS_HEADER, OTHER_HEADER})"
  (is "?l \<longleftrightarrow> ?r")
proof
  assume ?l
  then obtain xs y zs where d: "ts @ [t] = xs @ y # zs" "y \<in> {LIKELY_MY_HEADER, POSSIBLE_MY_HEADER}"
    "\<exists>x\<in>set xs. x \<in> {C_SYS_HEADER, CPP_SYS_HEADER, OTHER_HEADER}" unfolding late_mine_def by blast
  show ?r
  proof (cases zs rule: rev_cases)
    case Nil
    with d show ?thesis by auto
  next
    case (snoc zs' z)
    with d(1) have "ts = xs @ y # zs'" by simp
    with d show ?thesis unfolding late_mine_def by blast
  qed
next
  assume ?r
  then show ?l unfolding late_mine_def by (metis append.assoc append_Cons)
qed

lemma late_mine_Nil [simp]: "\<not> late_mine []"
  by (simp add: late_mine_def)

lemma CheckNextIncludeOrder_section:
  "inc_section (snd (CheckNextIncludeOrder t st)) =
     (case t of
        C_SYS_HEADER \<Rightarrow> max (inc_section st) C_SECTION
      | CPP_SYS_HEADER \<Rightarrow> max (inc_section st) CPP_SECTION
      | OTHER_HEADER \<Rightarrow> OTHER_H_SECTION
      | _ \<Rightarrow> if inc_section st \<le> MY_H_SECTION then MY_H_SECTION else OTHER_H_SECTION)"
  by (cases t; cases "inc_section st") (simp_all add: CheckNextIncludeOrder_def Let_def section_ord max_def)

lemma CheckNextIncludeOrder_error:
  "fst (CheckNextIncludeOrder t st) \<noteq> [] \<longleftrightarrow>
     t = C_SYS_HEADER \<and> C_SECTION < inc_section st \<or> t = CPP_SYS_HEADER \<and> CPP_SECTION < inc_section st"
  by (cases t; cases "inc_section st") (simp_all add: CheckNextIncludeOrder_def Let_def section_ord)

lemma other_ex: "(\<exists>x\<in>set ts. x \<in> {C_SYS_HEADER, CPP_SYS_HEADER, OTHER_HEADER}) \<longleftrightarrow>
    C_SYS_HEADER \<in> set ts \<or> CPP_SYS_HEADER \<in> set ts \<or> OTHER_HEADER \<in> set ts"
  by auto

text \<open>The section of a scope in terms of the headers it has seen.\<close>

definition section_of :: "header_type list \<Rightarrow> include_section" where
  "section_of ts =
     (if OTHER_HEADER \<in> set ts \<or> late_mine ts then OTHER_H_SECTION
      else if CPP_SYS_HEADER \<in> set ts then CPP_SECTION
      else if C_SYS_HEADER \<in> set ts then C_SECTION
      else if ts \<noteq> [] then MY_H_SECTION else INITIAL_SECTION)"

lemma check_order_section: "inc_section (check_order ts new_scope) = section_of ts"
proof (induction ts rule: rev_induct)
  case Nil
  then show ?case by (simp add: check_order_def new_scope_def section_of_def)
next
  case (snoc t ts)
  have "inc_section (check_order (ts @ [t]) new_scope) =
      inc_section (snd (CheckNextIncludeOrder t (check_order ts new_scope)))"
    by (simp add: check_order_def)
  also have "\<dots> = section_of (ts @ [t])"
    unfolding CheckNextIncludeOrder_section snoc.IH section_of_def late_mine_snoc other_ex
    by (cases t) (auto simp: section_ord max_def)
  finally show ?case .
qed

section \<open>Scopes and directives\<close>

text \<open>What a preprocessor conditional does to a stack of scopes.\<close>

datatype directive = Opens | Continues | Closes

fun depth_after :: "directive list \<Rightarrow> nat \<Rightarrow> nat option" where
  "depth_after [] d = Some d"
| "depth_after (Opens # ds) d = depth_after ds (Suc d)"
| "depth_after (Continues # ds) d = (if d = 0 then None else depth_after ds d)"
| "depth_after (Closes # ds) d = (if d = 0 then None else depth_after ds (d - 1))"

locale scope_stack =
  fixes push :: "'s \<Rightarrow> 's" and pop :: "'s \<Rightarrow> 's py" and depth :: "'s \<Rightarrow> nat"
  assumes depth_push: "depth (push s) = Suc (depth s)"
    and pop_empty: "depth s = 0 \<Longrightarrow> pop s = Inl IndexError"
    and pop_depth: "depth s \<noteq> 0 \<Longrightarrow> \<exists>s'. pop s = Inr s' \<and> depth s' = depth s - 1"
begin

fun step :: "directive \<Rightarrow> 's \<Rightarrow> 's py" where
  "step Opens s = Inr (push s)"
| "step Continues s = py_bind (pop s) (\<lambda>s. Inr (push s))"
| "step Closes s = pop s"

lemma run_depth:
  "case depth_after ds (depth s) of
     None \<Rightarrow> py_fold step ds s = Inl IndexError
   | Some d \<Rightarrow> (\<exists>s'. py_fold step ds s = Inr s' \<and> depth s' = d)"
proof (induction ds "depth s" arbitrary: s rule: depth_after.induct)
  case (2 ds)
  from 2 [of "push s"] show ?case by (simp add: depth_push split: option.splits)
next
  case (3 ds)
  show ?case
  proof (cases "depth s = 0")
    case False
    then obtain s' where s': "pop s = Inr s'" "depth s' = depth s - 1" using pop_depth by blast
    then have "depth s = depth (push s')" using False by (simp add: depth_push)
    from 3 [OF False this] s' False show ?thesis by (simp add: depth_push split: option.splits)
  qed (simp add: pop_empty)
next
  case (4 ds)
  show ?case
  proof (cases "depth s = 0")
    case False
    then obtain s' where s': "pop s = Inr s'" "depth s - 1 = depth s'" using pop_depth by metis
    from 4 [OF False s'(2)] s' False show ?thesis by (simp split: option.splits)
  qed (simp add: pop_empty)
qed simp

end

interpretation inc_scopes: scope_stack "inc_push new_scope" inc_pop "\<lambda>st. length (inc_stack st)"
  by unfold_locales (auto simp: inc_push_def inc_pop_def)

definition directive_of :: "string \<Rightarrow> directive" where
  "directive_of line = (if searches RE_ENDIF_DIRECTIVE line then Closes
     else if searches RE_ELIF_OR_ELSE_DIRECTIVE line then Continues else Opens)"

lemma CheckIncludeLine_directive:
  "searches RE_CONDITION_DIRECTIVE line \<Longrightarrow>
     CheckIncludeLine fs fn n line st = py_bind (inc_scopes.step (directive_of line) st) (\<lambda>st. Inr ([], st))"
  by (simp add: CheckIncludeLine_def directive_of_def py_bind_assoc)

section \<open>The store\<close>

definition wf_include :: "include_state \<Rightarrow> bool" where
  "wf_include st \<longleftrightarrow> distinct (inc_stack st) \<and> (\<forall>a\<in>set (inc_stack st). a < length (inc_all st))"

lemma wf_push: "wf_include st \<Longrightarrow> wf_include (inc_push sc st)"
  by (auto simp: wf_include_def inc_push_def)

lemma wf_pop: "wf_include st \<Longrightarrow> inc_pop st = Inr st' \<Longrightarrow> wf_include st'"
  using in_set_butlastD [of _ "inc_stack st"]
  by (auto simp: wf_include_def inc_pop_def distinct_butlast split: if_splits)

lemma inc_top_in: "wf_include st \<Longrightarrow> inc_top st = Inr a \<Longrightarrow> a < length (inc_all st)"
proof -
  assume wf: "wf_include st" and a: "inc_top st = Inr a"
  then have "inc_stack st \<noteq> []" by (auto simp: inc_top_def py_get_def Let_def split: if_splits)
  then have "a = last (inc_stack st)"
    using a py_get_pred [of "length (inc_stack st)" "inc_stack st"] by (simp add: inc_top_def last_conv_nth)
  with wf \<open>inc_stack st \<noteq> []\<close> show "a < length (inc_all st)" by (simp add: wf_include_def)
qed

lemma dom_fold_add: "dom (fold (\<lambda>sc m. m ++ inc_lines sc) scs m) = dom m \<union> (\<Union>sc\<in>set scs. dom (inc_lines sc))"
  by (induction scs arbitrary: m) auto

lemma dom_get_all: "dom (get_all st) = (\<Union>sc\<in>set (inc_all st). dom (inc_lines sc))"
  by (simp add: get_all_def dom_fold_add)

lemma CheckNextIncludeOrder_lines [simp]: "inc_lines (snd (CheckNextIncludeOrder t st)) = inc_lines st"
  by (cases t) (simp_all add: CheckNextIncludeOrder_def Let_def)

lemma CheckIncludeAlphabeticalOrder_lines [simp]:
  "inc_lines (snd (CheckIncludeAlphabeticalOrder h n st)) = inc_lines st"
  by (simp add: CheckIncludeAlphabeticalOrder_def Let_def)

lemma record_include_lines:
  assumes "record_include fs fn n include sys sc = Inr (rs, sc')"
  shows "inc_lines sc' = (if inc_lines sc include = None then (inc_lines sc)(include \<mapsto> n) else inc_lines sc)"
proof (cases "inc_lines sc include")
  case None
  let ?sc = "sc\<lparr>inc_lines := (inc_lines sc)(include \<mapsto> n)\<rparr>"
  from assms None obtain t where
    "sc' = snd (CheckIncludeAlphabeticalOrder include n (snd (CheckNextIncludeOrder t ?sc)))"
    by (auto simp: record_include_def Let_def py_bind_eq_Inr split_beta)
  with None show ?thesis by simp
qed (use assms in \<open>simp add: record_include_def\<close>)

lemma include_line_step:
  assumes "wf_include st" "include_line fs fn n line st = Inr (rs, st')"
  obtains st0 a sc where "st0 = (if inc_stack st = [] then inc_push new_scope st else st)"
    "a < length (inc_all st0)" "st' = st0\<lparr>inc_all := (inc_all st0)[a := sc]\<rparr>"
    "dom (inc_lines (inc_all st0 ! a)) \<subseteq> dom (inc_lines sc)"
    "\<And>m. Search RE_INCLUDE line = Some m \<Longrightarrow> m_str m 2 \<in> dom (inc_lines sc)"
proof -
  define st0 where "st0 = (if inc_stack st = [] then inc_push new_scope st else st)"
  have wf0: "wf_include st0" using assms(1) by (simp add: st0_def wf_push)
  from assms(2) obtain a rs' sc where a: "inc_top st0 = Inr a" and st': "st' = st0\<lparr>inc_all := (inc_all st0)[a := sc]\<rparr>"
    and sc: "(case Search RE_INCLUDE line of None \<Rightarrow> Inr ([], inc_all st0 ! a)
      | Some m \<Rightarrow> py_bind (record_include fs fn n (m_str m 2) (m_group m 1 = Some ''<'') (inc_all st0 ! a))
          (\<lambda>(rs, sc). Inr (include_path_reports n (m_str m 2) @ rs, sc))) = Inr (rs', sc)"
    unfolding include_line_def Let_def st0_def [symmetric] py_bind_eq_Inr by (auto simp: split_beta)
  have sub: "dom (inc_lines (inc_all st0 ! a)) \<subseteq> dom (inc_lines sc)
      \<and> (\<forall>m. Search RE_INCLUDE line = Some m \<longrightarrow> m_str m 2 \<in> dom (inc_lines sc))"
  proof (cases "Search RE_INCLUDE line")
    case None
    with sc show ?thesis by simp
  next
    case (Some m)
    with sc obtain rs'' where "record_include fs fn n (m_str m 2) (m_group m 1 = Some ''<'') (inc_all st0 ! a) = Inr (rs'', sc)"
      by (auto simp: py_bind_eq_Inr)
    from record_include_lines [OF this] Some show ?thesis by (auto split: if_splits)
  qed
  show thesis by (rule that [OF st0_def inc_top_in [OF wf0 a] st']) (use sub in auto)
qed

lemma dom_get_all_update:
  assumes "a < length (inc_all st)" "dom (inc_lines (inc_all st ! a)) \<subseteq> dom (inc_lines sc)"
  shows "dom (get_all st) \<subseteq> dom (get_all (st\<lparr>inc_all := (inc_all st)[a := sc]\<rparr>))"
    "dom (inc_lines sc) \<subseteq> dom (get_all (st\<lparr>inc_all := (inc_all st)[a := sc]\<rparr>))"
proof -
  have in_new: "sc \<in> set ((inc_all st)[a := sc])" using assms(1) by (simp add: set_update_memI)
  then show "dom (inc_lines sc) \<subseteq> dom (get_all (st\<lparr>inc_all := (inc_all st)[a := sc]\<rparr>))"
    by (auto simp: dom_get_all)
  show "dom (get_all st) \<subseteq> dom (get_all (st\<lparr>inc_all := (inc_all st)[a := sc]\<rparr>))"
  proof
    fix h assume "h \<in> dom (get_all st)"
    then obtain i where i: "i < length (inc_all st)" "h \<in> dom (inc_lines (inc_all st ! i))"
      unfolding dom_get_all by (metis UN_E in_set_conv_nth)
    show "h \<in> dom (get_all (st\<lparr>inc_all := (inc_all st)[a := sc]\<rparr>))"
    proof (cases "i = a")
      case True
      with i assms(2) in_new show ?thesis by (auto simp: dom_get_all)
    next
      case False
      with i have "(inc_all st)[a := sc] ! i = inc_all st ! i" "i < length ((inc_all st)[a := sc])" by simp_all
      then have "inc_all st ! i \<in> set ((inc_all st)[a := sc])" by (metis nth_mem)
      with i show ?thesis by (auto simp: dom_get_all)
    qed
  qed
qed

lemma dom_get_all_push [simp]: "dom (get_all (inc_push new_scope st)) = dom (get_all st)"
  by (auto simp: dom_get_all inc_push_def new_scope_def)

lemma dom_get_all_pop: "inc_pop st = Inr st' \<Longrightarrow> dom (get_all st') = dom (get_all st)"
  by (auto simp: dom_get_all inc_pop_def split: if_splits)

section \<open>Properties\<close>

text \<open>
  C13: A header is reported as out of order exactly when it is a C system header after a C++ system
  header, or a system header of either language after a header of another kind: one classified
  as other, or one of the file itself that did not come first.
\<close>

theorem include_order_reported:
  "fst (CheckNextIncludeOrder t (check_order ts new_scope)) \<noteq> [] \<longleftrightarrow>
     (t = C_SYS_HEADER \<and> CPP_SYS_HEADER \<in> set ts)
     \<or> (t \<in> {C_SYS_HEADER, CPP_SYS_HEADER} \<and> (OTHER_HEADER \<in> set ts \<or> late_mine ts))"
  unfolding CheckNextIncludeOrder_error check_order_section section_of_def
  by (cases t) (auto simp: section_ord)

text \<open>
  C27: Sections only move forward: whatever header comes, the section afterwards is not smaller, and a
  header that is reported leaves it unchanged.
\<close>

theorem include_sections_monotone:
  "inc_section st \<le> inc_section (snd (CheckNextIncludeOrder t st))
   \<and> (fst (CheckNextIncludeOrder t st) \<noteq> [] \<longrightarrow> inc_section (snd (CheckNextIncludeOrder t st)) = inc_section st)"
  unfolding CheckNextIncludeOrder_section CheckNextIncludeOrder_error
  by (cases t; cases "inc_section st") (simp_all add: section_ord max_def)

lemma include_sections_monotone_witness:
  "inc_section (snd (CheckNextIncludeOrder C_SYS_HEADER (new_scope\<lparr>inc_section := CPP_SECTION\<rparr>))) = CPP_SECTION"
proof -
  have "fst (CheckNextIncludeOrder C_SYS_HEADER (new_scope\<lparr>inc_section := CPP_SECTION\<rparr>)) \<noteq> []" by code_simp
  with include_sections_monotone [of "new_scope\<lparr>inc_section := CPP_SECTION\<rparr>" C_SYS_HEADER] show ?thesis by simp
qed

text \<open>
  The canonical form under which header names are compared contains neither hyphens nor upper
  case ASCII letters, and canonicalising twice changes nothing.
\<close>

lemma Canonicalize_canonical:
  "CHR ''-'' \<notin> set (CanonicalizeAlphabeticalOrder h)
   \<and> (\<forall>c\<in>set (CanonicalizeAlphabeticalOrder h). \<not> in_range (CHR ''A'') (CHR ''Z'') c)
   \<and> CanonicalizeAlphabeticalOrder (CanonicalizeAlphabeticalOrder h) = CanonicalizeAlphabeticalOrder h"
proof -
  let ?c = "CanonicalizeAlphabeticalOrder h"
  define g where "g = py_replace (py_replace h ''-inl.h'' ''.h'') ''-'' ''_''"
  have c: "?c = map lower_char g" by (simp add: CanonicalizeAlphabeticalOrder_def py_lower_def g_def)
  have "CHR ''-'' \<notin> set g" by (auto simp: g_def py_replace_char)
  then have 1: "CHR ''-'' \<notin> set ?c" using lower_char_facts(3) by (auto simp: c dest!: lower_char_facts(3) [OF sym])
  then have "\<not> sublist ''-inl.h'' ?c" by (auto simp: sublist_def)
  then have "py_replace ?c ''-inl.h'' ''.h'' = ?c" by (rule py_replace_no_occurrence)
  moreover have "py_replace ?c ''-'' ''_'' = ?c" using 1 by (simp add: py_replace_no_occurrence sublist_single)
  moreover have "py_lower ?c = ?c" by (simp add: c py_lower_def lower_char_facts)
  ultimately have "CanonicalizeAlphabeticalOrder ?c = ?c" by (simp only: CanonicalizeAlphabeticalOrder_def [of ?c])
  moreover have "\<forall>x\<in>set ?c. \<not> in_range (CHR ''A'') (CHR ''Z'') x" using lower_char_facts by (auto simp: c)
  ultimately show ?thesis using 1 by blast
qed

text \<open>
  C26: Running a sequence of conditional directives from a fresh state fails with an \<open>IndexError\<close>
  exactly when some \<open>#else\<close>, \<open>#elif\<close> or \<open>#endif\<close> has no open scope, and otherwise ends with as many
  open scopes as directives left open, without any report.
\<close>

theorem directives_depth:
  assumes "\<forall>l\<in>set lines. searches RE_CONDITION_DIRECTIVE l"
  shows "case depth_after (map directive_of lines) 0 of
     None \<Rightarrow> py_fold (\<lambda>l st. py_bind (CheckIncludeLine fs fn n l st) (\<lambda>(rs, st). Inr st)) lines new_include_state = Inl IndexError
   | Some d \<Rightarrow> (\<exists>st. py_fold (\<lambda>l st. py_bind (CheckIncludeLine fs fn n l st) (\<lambda>(rs, st). Inr st)) lines new_include_state = Inr st
       \<and> length (inc_stack st) = d)"
proof -
  have "py_fold (\<lambda>l st. py_bind (CheckIncludeLine fs fn n l st) (\<lambda>(rs, st). Inr st)) lines st =
      py_fold inc_scopes.step (map directive_of lines) st" for st
    using assms
  proof (induction lines arbitrary: st)
    case (Cons l ls)
    then have "searches RE_CONDITION_DIRECTIVE l" by simp
    with Cons show ?case
      by (cases "inc_scopes.step (directive_of l) st") (simp_all add: CheckIncludeLine_directive)
  qed simp
  moreover have "length (inc_stack new_include_state) = 0" by (simp add: new_include_state_def)
  ultimately show ?thesis using inc_scopes.run_depth [of "map directive_of lines" new_include_state]
    by (simp split: option.splits)
qed

lemma directives_depth_witness:
  "py_fold (\<lambda>l st. py_bind (CheckIncludeLine sample_fs ''a.cc'' 0 l st) (\<lambda>(rs, st). Inr st))
     [''#ifdef A'', ''#else'', ''#endif'', ''#endif''] new_include_state = Inl IndexError"
proof -
  have 1: "\<forall>l\<in>set [''#ifdef A'', ''#else'', ''#endif'', ''#endif'']. searches RE_CONDITION_DIRECTIVE l" by code_simp
  have 2: "depth_after (map directive_of [''#ifdef A'', ''#else'', ''#endif'', ''#endif'']) 0 = None" by code_simp
  from directives_depth [OF 1, of sample_fs "''a.cc''" 0] show ?thesis unfolding 2 by simp
qed

lemma CheckIncludeLine_step:
  assumes "wf_include st" "CheckIncludeLine fs fn n line st = Inr (rs, st')"
  shows "wf_include st' \<and> dom (get_all st) \<subseteq> dom (get_all st')
    \<and> (\<forall>m. \<not> searches RE_CONDITION_DIRECTIVE line \<longrightarrow> Search RE_INCLUDE line = Some m \<longrightarrow>
          m_str m 2 \<in> dom (get_all st'))"
proof (cases "searches RE_CONDITION_DIRECTIVE line")
  case True
  with assms(2) have "st' = inc_push new_scope st \<or> (\<exists>x. inc_pop st = Inr x \<and> (st' = x \<or> st' = inc_push new_scope x))"
    by (auto simp: CheckIncludeLine_def py_bind_eq_Inr split: if_splits)
  then have "wf_include st' \<and> dom (get_all st') = dom (get_all st)"
    by (elim disjE exE conjE) (use assms(1) wf_push wf_pop dom_get_all_pop dom_get_all_push in metis)+
  with True show ?thesis by simp
next
  case False
  with assms(2) have "include_line fs fn n line st = Inr (rs, st')" by (simp add: CheckIncludeLine_def)
  with assms(1) show ?thesis
  proof (rule include_line_step)
    fix st0 a sc
    assume st0: "st0 = (if inc_stack st = [] then inc_push new_scope st else st)"
      and a: "a < length (inc_all st0)" "st' = st0\<lparr>inc_all := (inc_all st0)[a := sc]\<rparr>"
      and sub: "dom (inc_lines (inc_all st0 ! a)) \<subseteq> dom (inc_lines sc)"
      and inc: "\<And>m. Search RE_INCLUDE line = Some m \<Longrightarrow> m_str m 2 \<in> dom (inc_lines sc)"
    have "wf_include st0" using assms(1) st0 by (simp add: wf_push)
    with a have "wf_include st'" by (simp add: wf_include_def)
    moreover have "dom (get_all st) = dom (get_all st0)" by (simp add: st0)
    ultimately show ?thesis using dom_get_all_update [OF a(1) sub] inc a(2) by blast
  qed
qed

text \<open>
  C12: Checking an include line keeps the stack and the store consistent, and no header that was
  recorded is ever lost; the header that the line includes is recorded afterwards.
\<close>

theorem CheckIncludeLine_records:
  assumes "wf_include st" "CheckIncludeLine fs fn n line st = Inr (rs, st')"
  shows "wf_include st' \<and> dom (get_all st) \<subseteq> dom (get_all st')
    \<and> (\<forall>m. \<not> searches RE_CONDITION_DIRECTIVE line \<longrightarrow> Search RE_INCLUDE line = Some m \<longrightarrow>
          m_str m 2 \<in> dom (get_all st'))"
  using CheckIncludeLine_step [OF assms] .

lemma CheckIncludeLine_records_witness:
  "\<exists>rs st'. CheckIncludeLine sample_fs ''a/b.cc'' 3 ''#include <vector>'' new_include_state = Inr (rs, st')
    \<and> wf_include st' \<and> ''vector'' \<in> dom (get_all st')"
proof -
  have "returns (CheckIncludeLine sample_fs ''a/b.cc'' 3 ''#include <vector>'' new_include_state)" by code_simp
  then obtain rs st' where r: "CheckIncludeLine sample_fs ''a/b.cc'' 3 ''#include <vector>'' new_include_state = Inr (rs, st')"
    by (auto simp: returns_def)
  have wf: "wf_include new_include_state" by (simp add: wf_include_def new_include_state_def)
  have 1: "\<not> searches RE_CONDITION_DIRECTIVE ''#include <vector>''" by code_simp
  have 2: "map_option (\<lambda>m. m_str m 2) (Search RE_INCLUDE ''#include <vector>'') = Some ''vector''" by code_simp
  then obtain m where m: "Search RE_INCLUDE ''#include <vector>'' = Some m" "m_str m 2 = ''vector''" by auto
  from CheckIncludeLine_records [OF wf r] 1 m r show ?thesis by metis
qed

end
