(* ===== verification/Nesting.thy ===== *)
theory Nesting
  imports Include_State Cleansing
begin

text \<open>
  The parser of nested blocks: the classes \<open>_BlockInfo\<close>, \<open>_ClassInfo\<close>, \<open>_NamespaceInfo\<close>,
  \<open>_PreprocessorInfo\<close> and \<open>_NestingState\<close>. The stack of open blocks is a list with the innermost
  block first; the copies that the preprocessor entries keep are values, as the deep copies of the
  source are.

  The lemmas state that conditional compilation restores the stack it saved, that every loop of
  \<open>Update\<close> ends, and that on code without declarations the parser refines a counter of open braces.
\<close>

section \<open>Blocks\<close>

datatype asm_state = NO_ASM | INSIDE_ASM | END_ASM | BLOCK_ASM

record class_info =
  class_name :: string
  class_start :: nat
  is_derived :: bool
  class_access :: string
  class_last_line :: nat

text \<open>The class of a block object, with the fields that only this class has.\<close>

datatype block_kind = PlainBlock | ClassBlock class_info | NamespaceBlock string nat

record block_info =
  seen_open_brace :: bool
  open_parentheses :: int
  inline_asm :: asm_state
  block_kind :: block_kind

definition new_block :: "bool \<Rightarrow> block_kind \<Rightarrow> block_info" where
  "new_block seen k = \<lparr>seen_open_brace = seen, open_parentheses = 0, inline_asm = NO_ASM, block_kind = k\<rparr>"

text \<open>The search for the last line of a class: the first line at which the braces are balanced.\<close>

fun class_end :: "string list \<Rightarrow> nat \<Rightarrow> int \<Rightarrow> nat" where
  "class_end [] i depth = 0"
| "class_end (line # lines) i depth =
     (let depth = depth + (int (py_count line ''{'') - int (py_count line ''}''))
      in if depth = 0 then i else class_end lines (Suc i) depth)"

definition ClassInfo :: "string \<Rightarrow> string \<Rightarrow> clean_lines \<Rightarrow> nat \<Rightarrow> block_info" where
  "ClassInfo name class_or_struct cl linenum =
     new_block False (ClassBlock \<lparr>class_name = name, class_start = linenum, is_derived = False,
       class_access = (if class_or_struct = ''struct'' then ''public'' else ''private''),
       class_last_line = class_end (drop linenum (take (NumLines cl) (cl_elided cl))) linenum 0\<rparr>)"

definition NamespaceInfo :: "string option \<Rightarrow> nat \<Rightarrow> block_info" where
  "NamespaceInfo name linenum = new_block False (NamespaceBlock (case name of None \<Rightarrow> [] | Some n \<Rightarrow> n) linenum)"

definition CheckBegin :: "string \<Rightarrow> block_info \<Rightarrow> block_info" where
  "CheckBegin elided_line b =
     (case block_kind b of
        ClassBlock c \<Rightarrow> if searches RE_BARE_COLON elided_line then b\<lparr>block_kind := ClassBlock (c\<lparr>is_derived := True\<rparr>)\<rparr> else b
      | _ \<Rightarrow> b)"

definition namespace_end_pattern :: "string \<Rightarrow> string" where
  "namespace_end_pattern name =
     raw_pat ''};*`s*(//|/`*).*`bnamespace`s+'' @ re_escape name @ raw_pat ''[`*/`.```s]*$''"

definition CheckEnd :: "string \<Rightarrow> nat \<Rightarrow> block_info \<Rightarrow> report list py" where
  "CheckEnd raw_line linenum b =
     (case block_kind b of
        NamespaceBlock name start \<Rightarrow>
          if linenum - start < 10 \<and> \<not> matches RE_NS_END_SHORT raw_line then Inr []
          else if name \<noteq> [] then
            py_bind (re_compile_py (namespace_end_pattern name)) (\<lambda>r.
              Inr (if matches r raw_line then []
                   else [mk_report (int linenum) ''readability/namespace'' 5
                     (''Namespace should be terminated with '' @ [CHR 0x22] @ ''// namespace '' @ name @ [CHR 0x22])]))
          else Inr (if matches RE_NS_END_ANON raw_line then []
                    else [mk_report (int linenum) ''readability/namespace'' 5
                      (''Namespace should be terminated with '' @ [CHR 0x22] @ ''// namespace'' @ [CHR 0x22])])
      | _ \<Rightarrow> Inr [])"

section \<open>The state\<close>

record pp_info =
  stack_before_if :: "block_info list"
  stack_before_else :: "block_info list"
  seen_else :: bool

record nesting_state =
  nest_stack :: "block_info list"
  pp_stack :: "pp_info list"

definition new_nesting_state :: nesting_state where
  "new_nesting_state = \<lparr>nest_stack = [], pp_stack = []\<rparr>"

definition SeenOpenBrace :: "block_info list \<Rightarrow> bool" where
  "SeenOpenBrace stack \<longleftrightarrow> stack = [] \<or> seen_open_brace (hd stack)"

definition is_namespace :: "block_info \<Rightarrow> bool" where
  "is_namespace b = (case block_kind b of NamespaceBlock _ _ \<Rightarrow> True | _ \<Rightarrow> False)"

definition class_of :: "block_info \<Rightarrow> class_info option" where
  "class_of b = (case block_kind b of ClassBlock c \<Rightarrow> Some c | _ \<Rightarrow> None)"

definition InNamespaceBody :: "nesting_state \<Rightarrow> bool" where
  "InNamespaceBody st \<longleftrightarrow> nest_stack st \<noteq> [] \<and> is_namespace (hd (nest_stack st))"

fun InnermostClass_in :: "block_info list \<Rightarrow> (block_info \<times> class_info) option" where
  "InnermostClass_in [] = None"
| "InnermostClass_in (b # bs) = (case class_of b of Some c \<Rightarrow> Some (b, c) | None \<Rightarrow> InnermostClass_in bs)"

definition InnermostClass :: "nesting_state \<Rightarrow> (block_info \<times> class_info) option" where
  "InnermostClass st = InnermostClass_in (nest_stack st)"

definition CheckClassFinished :: "nesting_state \<Rightarrow> report list" where
  "CheckClassFinished st =
     concat (map (\<lambda>b. case class_of b of
         None \<Rightarrow> []
       | Some c \<Rightarrow> [mk_report (int (class_start c)) ''build/class'' 5
           (''Failed to find complete declaration of class '' @ class_name c)]) (rev (nest_stack st)))"

section \<open>UpdatePreprocessor\<close>

definition UpdatePreprocessor :: "string \<Rightarrow> nesting_state \<Rightarrow> nesting_state" where
  "UpdatePreprocessor line st =
     (if matches RE_PP_IF line then
        st\<lparr>pp_stack := \<lparr>stack_before_if = nest_stack st, stack_before_else = [], seen_else = False\<rparr> # pp_stack st\<rparr>
      else if matches RE_PP_ELSE line then
        (case pp_stack st of
           [] \<Rightarrow> st
         | p # ps \<Rightarrow>
             (let p = (if seen_else p then p else p\<lparr>seen_else := True, stack_before_else := nest_stack st\<rparr>)
              in st\<lparr>pp_stack := p # ps, nest_stack := stack_before_if p\<rparr>))
      else if matches RE_PP_ENDIF line then
        (case pp_stack st of
           [] \<Rightarrow> st
         | p # ps \<Rightarrow> st\<lparr>nest_stack := (if seen_else p then stack_before_else p else nest_stack st), pp_stack := ps\<rparr>)
      else st)"

section \<open>Update\<close>

definition update_inner :: "string \<Rightarrow> block_info \<Rightarrow> block_info" where
  "update_inner line b =
     (let depth_change = int (py_count line ''('') - int (py_count line '')'');
          b = b\<lparr>open_parentheses := open_parentheses b + depth_change\<rparr>
      in if inline_asm b = NO_ASM \<or> inline_asm b = END_ASM then
           (if depth_change \<noteq> 0 \<and> open_parentheses b = 1 \<and> matches RE_MATCH_ASM line
            then b\<lparr>inline_asm := INSIDE_ASM\<rparr> else b\<lparr>inline_asm := NO_ASM\<rparr>)
         else if inline_asm b = INSIDE_ASM \<and> open_parentheses b = 0 then b\<lparr>inline_asm := END_ASM\<rparr>
         else b)"

text \<open>The prefix of the pattern for a namespace declaration, up to its last group.\<close>

definition namespace_head :: regex where
  "namespace_head = rx ''^`s*namespace`b`s*([:`w]+)?''"

lemma group_at_end_shorter:
  assumes "st \<in> set (rm (RSeq P (RSeq (RGroup n Q) REol)) ([], s, []))" "requires [c] P" "0 < n"
  shows "length (m_str (mk_match s 0 st) n) < length s"
proof -
  obtain b a g where t: "(b, a, g) \<in> set (rm P ([], s, []))" "st \<in> set (rm (RSeq (RGroup n Q) REol) (b, a, g))"
    using assms(1) by (metis prod_cases3 rm_seqE)
  from requires_sound [OF assms(2) t(1)] obtain u where u: "s = u @ a" "sublist [c] u" by blast
  have e: "extends ([], s, []) (b, a, g)" by (rule rm_extends [OF t(1)])
  then have "length b = length u" using extends_pos [OF e] u(1) by simp
  moreover have "0 < length u" using u(2) by (auto simp: sublist_single)
  ultimately have lb: "0 < length b" "length b \<le> length s" using u(1) by simp_all
  from t(2) obtain b' a' g' where "st = (b', a', (n, length b, length b') # g')"
    by (auto split: if_splits prod.splits)
  then have "length (m_str (mk_match s 0 st) n) \<le> length s - length b"
    using assms(3) by (simp add: m_str_def m_group_def m_span_def mk_match_def)
  with lb show ?thesis by linarith
qed

lemma RE_NAMESPACE_split:
  "rm RE_NAMESPACE s = rm (RSeq namespace_head (RSeq (RGroup 2 (RRep True 0 None RAny)) REol)) s"
proof -
  have head: "namespace_head = RSeq RBol (RSeq (RRep True 0 None (RSet False [CSpace True])) (RSeq (RLit CHR ''n'') (RSeq
     (RLit CHR ''a'') (RSeq (RLit CHR ''m'') (RSeq (RLit CHR ''e'') (RSeq (RLit CHR ''s'') (RSeq
     (RLit CHR ''p'') (RSeq (RLit CHR ''a'') (RSeq (RLit CHR ''c'') (RSeq (RLit CHR ''e'') (RSeq
     RWordB (RSeq (RRep True 0 None (RSet False [CSpace True])) (RRep True 0 (Some 1)
     (RGroup 1 (RRep True 1 None (RSet False [CChar CHR '':'', CWord True]))))))))))))))))"
    by code_simp
  have seq: "rm (RSeq a b) = (\<lambda>s. concat (map (rm b) (rm a s)))" for a b by (simp add: fun_eq_iff)
  show ?thesis
    unfolding RE_NAMESPACE_tree head by (simp only: seq concat_map_concat map_map comp_def)
qed

lemma namespace_shorter: "Match RE_NAMESPACE s = Some m \<Longrightarrow> length (m_str m 2) < length s"
proof -
  assume "Match RE_NAMESPACE s = Some m"
  then obtain st ys where st: "rm RE_NAMESPACE ([], s, []) = st # ys" "m = mk_match s 0 st"
    by (auto simp: Match_def split: list.splits)
  then have "st \<in> set (rm (RSeq namespace_head (RSeq (RGroup 2 (RRep True 0 None RAny)) REol)) ([], s, []))"
    by (simp only: RE_NAMESPACE_split [symmetric]) simp
  moreover have "requires ''n'' namespace_head" by code_simp
  ultimately show ?thesis unfolding st(2) by (rule group_at_end_shorter) simp
qed

lemma length_slice_from: "length (slice_from xs i) \<le> length xs"
  by (simp add: slice_from_def)

text \<open>The loop over the namespace declarations at the start of the line.\<close>

function consume_namespaces :: "nat \<Rightarrow> string \<Rightarrow> block_info list \<Rightarrow> string \<times> block_info list" where
  "consume_namespaces linenum line stack =
     (case Match RE_NAMESPACE line of
        None \<Rightarrow> (line, stack)
      | Some m \<Rightarrow>
          (let ns = NamespaceInfo (m_group m 1) linenum; line = m_str m 2
           in if py_find line ''{'' \<noteq> -1
              then consume_namespaces linenum (slice_from line (py_find line ''{'' + 1)) (ns\<lparr>seen_open_brace := True\<rparr> # stack)
              else consume_namespaces linenum line (ns # stack)))"
  by pat_completeness auto
termination
  by (relation "measure (\<lambda>(n, line, st). length line)")
    (auto dest!: namespace_shorter intro: le_less_trans [OF length_slice_from])

declare consume_namespaces.simps [simp del]

definition brace_class :: "class_item list" where
  "brace_class = map CChar ''{;)}''"

lemma RE_BRACE_TOKEN_scan: "RE_BRACE_TOKEN = scan_rx brace_class"
  by code_simp

lemma brace_token_shorter: "Match RE_BRACE_TOKEN s = Some m \<Longrightarrow> length (m_str m 2) < length s"
  unfolding RE_BRACE_TOKEN_scan by (erule scan_rx_Some) (simp add: m_str_def)

definition open_brace :: "string \<Rightarrow> block_info list \<Rightarrow> block_info list" where
  "open_brace line stack =
     (if \<not> SeenOpenBrace stack then (hd stack)\<lparr>seen_open_brace := True\<rparr> # tl stack
      else (new_block True PlainBlock)\<lparr>inline_asm := (if matches RE_MATCH_ASM line then BLOCK_ASM else NO_ASM)\<rparr> # stack)"

text \<open>The loop over the braces, semicolons and closing parentheses in the rest of the line.\<close>

function consume_braces :: "string \<Rightarrow> nat \<Rightarrow> string \<Rightarrow> block_info list \<Rightarrow> (report list \<times> block_info list) py" where
  "consume_braces raw_line linenum line stack =
     (case Match RE_BRACE_TOKEN line of
        None \<Rightarrow> Inr ([], stack)
      | Some m \<Rightarrow>
          (let token = hd (m_str m 1)
           in if token = CHR ''{'' then consume_braces raw_line linenum (m_str m 2) (open_brace line stack)
              else if token = CHR '';'' \<or> token = CHR '')'' then
                consume_braces raw_line linenum (m_str m 2) (if SeenOpenBrace stack then stack else tl stack)
              else
                (case stack of
                   [] \<Rightarrow> consume_braces raw_line linenum (m_str m 2) []
                 | b # bs \<Rightarrow>
                     py_bind (CheckEnd raw_line linenum b) (\<lambda>rs.
                     py_bind (consume_braces raw_line linenum (m_str m 2) bs) (\<lambda>(rs', stack'). Inr (rs @ rs', stack'))))))"
  by pat_completeness auto
termination
  by (relation "measure (\<lambda>(r, n, line, st). length line)") (auto dest: brace_token_shorter)

declare consume_braces.simps [simp del]

definition update_access :: "string \<Rightarrow> block_info list \<Rightarrow> block_info list" where
  "update_access line stack =
     (case stack of
        [] \<Rightarrow> []
      | b # bs \<Rightarrow>
          (case (class_of b, Match RE_ACCESS line) of
             (Some c, Some m) \<Rightarrow> b\<lparr>block_kind := ClassBlock (c\<lparr>class_access := m_str m 1\<rparr>)\<rparr> # bs
           | _ \<Rightarrow> stack))"

definition declare_class :: "clean_lines \<Rightarrow> nat \<Rightarrow> string \<Rightarrow> block_info list \<Rightarrow> string \<times> block_info list" where
  "declare_class cl linenum line stack =
     (case Match RE_CLASS_DECL line of
        Some m \<Rightarrow>
          if stack = [] \<or> open_parentheses (hd stack) = 0
          then (m_str m 5, ClassInfo (m_str m 4) (m_str m 2) cl linenum # stack) else (line, stack)
      | None \<Rightarrow> (line, stack))"

definition Update :: "clean_lines \<Rightarrow> nat \<Rightarrow> nesting_state \<Rightarrow> (report list \<times> nesting_state) py" where
  "Update cl linenum st =
     py_bind (py_get (cl_elided cl) (int linenum)) (\<lambda>elided_line.
     py_bind (py_get (cl_raw cl) (int linenum)) (\<lambda>raw_line.
       let st = UpdatePreprocessor elided_line st;
           stack = (case nest_stack st of [] \<Rightarrow> [] | b # bs \<Rightarrow> update_inner elided_line b # bs);
           (line, stack) = consume_namespaces linenum elided_line stack;
           (line, stack) = declare_class cl linenum line stack;
           stack = (if SeenOpenBrace stack then stack else CheckBegin elided_line (hd stack) # tl stack);
           stack = update_access line stack
       in py_bind (consume_braces raw_line linenum line stack) (\<lambda>(rs, stack).
            Inr (rs, st\<lparr>nest_stack := stack\<rparr>))))"

section \<open>Conditional compilation\<close>

text \<open>How a line acts on the stack of conditionals, with the directives of the include checker.\<close>

definition pp_kind :: "string \<Rightarrow> directive option" where
  "pp_kind line = (if matches RE_PP_IF line then Some Opens else if matches RE_PP_ELSE line then Some Continues
     else if matches RE_PP_ENDIF line then Some Closes else None)"

lemma UpdatePreprocessor_kind:
  "UpdatePreprocessor line st = (case (pp_kind line, pp_stack st) of
     (Some Opens, ps) \<Rightarrow> st\<lparr>pp_stack := \<lparr>stack_before_if = nest_stack st, stack_before_else = [], seen_else = False\<rparr> # ps\<rparr>
   | (Some Continues, p # ps) \<Rightarrow>
       (let p = (if seen_else p then p else p\<lparr>seen_else := True, stack_before_else := nest_stack st\<rparr>)
        in st\<lparr>pp_stack := p # ps, nest_stack := stack_before_if p\<rparr>)
   | (Some Closes, p # ps) \<Rightarrow> st\<lparr>nest_stack := (if seen_else p then stack_before_else p else nest_stack st), pp_stack := ps\<rparr>
   | _ \<Rightarrow> st)"
  by (simp add: UpdatePreprocessor_def pp_kind_def split: list.splits)

text \<open>A branch of a conditional: the line that opens it and the stack that its code leaves.\<close>

definition run_branch :: "string \<times> block_info list \<Rightarrow> nesting_state \<Rightarrow> nesting_state" where
  "run_branch br st = (UpdatePreprocessor (fst br) st)\<lparr>nest_stack := snd br\<rparr>"

definition in_conditional :: "nesting_state \<Rightarrow> block_info list \<Rightarrow> nesting_state \<Rightarrow> bool" where
  "in_conditional st0 first st \<longleftrightarrow>
     (case pp_stack st of
        [] \<Rightarrow> False
      | p # ps \<Rightarrow> ps = pp_stack st0 \<and> stack_before_if p = nest_stack st0
          \<and> (if seen_else p then stack_before_else p = first else nest_stack st = first))"

lemma branch_in_conditional:
  assumes "in_conditional st0 first st" "pp_kind line = Some Continues"
  shows "nest_stack (UpdatePreprocessor line st) = nest_stack st0"
    and "in_conditional st0 first (run_branch (line, b) st)"
  using assms by (auto simp: in_conditional_def run_branch_def UpdatePreprocessor_kind Let_def split: list.splits if_splits)

lemma branches_in_conditional:
  "in_conditional st0 first st \<Longrightarrow> \<forall>br\<in>set brs. pp_kind (fst br) = Some Continues \<Longrightarrow>
     in_conditional st0 first (fold run_branch brs st)"
proof (induction brs arbitrary: st)
  case (Cons br brs)
  have "in_conditional st0 first (run_branch (fst br, snd br) st)"
    by (rule branch_in_conditional(2)) (use Cons.prems in auto)
  with Cons show ?case by simp
qed simp

section \<open>Counting braces\<close>

definition plain_block :: "block_info \<Rightarrow> bool" where
  "plain_block b \<longleftrightarrow> block_kind b = PlainBlock \<and> seen_open_brace b"

definition is_brace_token :: "char \<Rightarrow> bool" where
  "is_brace_token c \<longleftrightarrow> in_class False brace_class c"

text \<open>The reference: a counter of open braces, which a closing brace at zero leaves alone.\<close>

definition depth_step :: "char \<Rightarrow> nat \<Rightarrow> nat" where
  "depth_step c d = (if c = CHR ''{'' then Suc d else if c = CHR ''}'' then d - 1 else d)"

lemma plain_facts [simp]:
  "plain_block b \<Longrightarrow> CheckEnd raw n b = Inr []" "plain_block b \<Longrightarrow> class_of b = None"
  "plain_block b \<Longrightarrow> plain_block (update_inner line b)"
  by (auto simp: plain_block_def CheckEnd_def class_of_def update_inner_def Let_def)

lemma plain_seen: "list_all plain_block stack \<Longrightarrow> SeenOpenBrace stack"
  by (cases stack) (auto simp: SeenOpenBrace_def plain_block_def)

lemma plain_open: "list_all plain_block stack \<Longrightarrow> list_all plain_block (open_brace line stack) \<and> length (open_brace line stack) = Suc (length stack)"
  by (simp add: open_brace_def plain_seen) (simp add: plain_block_def new_block_def)

lemma brace_cut:
  assumes "one_line line"
  shows "Match RE_BRACE_TOKEN line = None \<Longrightarrow> filter is_brace_token line = []"
    and "Match RE_BRACE_TOKEN line = Some m \<Longrightarrow> filter is_brace_token line = hd (m_str m 1) # filter is_brace_token (m_str m 2)
      \<and> one_line (m_str m 2)"
proof -
  have tok: "is_brace_token = in_class False brace_class" by (simp add: fun_eq_iff is_brace_token_def)
  show "filter is_brace_token line = []" if "Match RE_BRACE_TOKEN line = None"
    using that scan_pattern.scan_tokens_none [OF assms, of brace_class]
    by (simp add: RE_BRACE_TOKEN_scan scan_cut_def tok)
  show "filter is_brace_token line = hd (m_str m 1) # filter is_brace_token (m_str m 2) \<and> one_line (m_str m 2)"
    if "Match RE_BRACE_TOKEN line = Some m"
  proof -
    have "scan_cut (scan_rx brace_class) line = Some (hd (m_str m 1), m_str m 2)"
      using that by (simp add: RE_BRACE_TOKEN_scan scan_cut_def)
    from scan_pattern.scan_tokens_some [OF assms this] show ?thesis by (simp add: tok)
  qed
qed

lemma consume_braces_depth:
  "one_line line \<Longrightarrow> list_all plain_block stack \<Longrightarrow>
     \<exists>stack'. consume_braces raw n line stack = Inr ([], stack') \<and> list_all plain_block stack'
       \<and> length stack' = fold depth_step (filter is_brace_token line) (length stack)"
proof (induction "length line" arbitrary: line stack rule: less_induct)
  case less
  show ?case
  proof (cases "Match RE_BRACE_TOKEN line")
    case None
    with less.prems brace_cut(1) show ?thesis by (subst consume_braces.simps) simp
  next
    case (Some m)
    note cut = brace_cut(2) [OF less.prems(1) Some]
    have ih: "\<exists>stack'. consume_braces raw n (m_str m 2) st = Inr ([], stack') \<and> list_all plain_block stack'
       \<and> length stack' = fold depth_step (filter is_brace_token (m_str m 2)) (length st)" if "list_all plain_block st" for st
      using less.hyps [OF brace_token_shorter [OF Some]] cut that by blast
    consider "hd (m_str m 1) = CHR ''{''" | "hd (m_str m 1) \<noteq> CHR ''{''" "hd (m_str m 1) = CHR ''}''"
      | "hd (m_str m 1) \<noteq> CHR ''{''" "hd (m_str m 1) \<noteq> CHR ''}''" by blast
    then show ?thesis
    proof cases
      case 1
      with Some ih [of "open_brace line stack"] plain_open [OF less.prems(2), of line] cut show ?thesis
        by (subst consume_braces.simps) (simp add: depth_step_def)
    next
      case 2
      with Some ih [of "tl stack"] less.prems(2) cut show ?thesis
        by (subst consume_braces.simps) (cases stack; auto simp: depth_step_def)
    next
      case 3
      have "hd (m_str m 1) \<in> set (filter is_brace_token line)" using cut by (metis list.set_intros(1))
      then have "is_brace_token (hd (m_str m 1))" by simp
      then have "hd (m_str m 1) \<in> set ''{;)}''" by (auto simp: is_brace_token_def brace_class_def in_class_def)
      with 3 Some ih [OF less.prems(2)] plain_seen [OF less.prems(2)] cut show ?thesis
        by (subst consume_braces.simps) (auto simp: depth_step_def)
    qed
  qed
qed

lemma consume_namespaces_pushes:
  "\<exists>bs. snd (consume_namespaces n line stack) = bs @ stack \<and> list_all is_namespace bs
     \<and> \<not> matches RE_NAMESPACE (fst (consume_namespaces n line stack))"
proof (induction n line stack rule: consume_namespaces.induct)
  case (1 n line stack)
  show ?case
  proof (cases "Match RE_NAMESPACE line")
    case None
    then show ?thesis by (subst (1 2) consume_namespaces.simps) (simp add: matches_def)
  next
    case (Some m)
    define l ns where "l = m_str m 2" and "ns = NamespaceInfo (m_group m 1) n"
    have ns: "is_namespace ns" "is_namespace (ns\<lparr>seen_open_brace := True\<rparr>)"
      by (simp_all add: ns_def is_namespace_def NamespaceInfo_def new_block_def)
    have "consume_namespaces n line stack =
        (if py_find l ''{'' \<noteq> -1 then consume_namespaces n (slice_from l (py_find l ''{'' + 1)) (ns\<lparr>seen_open_brace := True\<rparr> # stack)
         else consume_namespaces n l (ns # stack))"
      using Some by (subst consume_namespaces.simps) (simp add: l_def ns_def Let_def)
    moreover note 1 [OF Some, of ns l]
    ultimately show ?thesis using ns by (auto simp: l_def ns_def)
  qed
qed

section \<open>Properties\<close>

text \<open>
  C8: Conditional compilation restores the nesting stack. Whatever the code of the branches does to
  the stack, every \<open>#else\<close> and \<open>#elif\<close> starts from the stack before the \<open>#if\<close>, and after the
  \<open>#endif\<close> the stack is the one that the first branch left; the outer conditionals are untouched.
\<close>

theorem conditional_restores_stack:
  assumes "pp_kind if_line = Some Opens" "\<forall>br\<in>set brs. pp_kind (fst br) = Some Continues"
    and "pp_kind else_line = Some Continues" "pp_kind endif_line = Some Closes"
  shows "let st1 = fold run_branch brs ((UpdatePreprocessor if_line st)\<lparr>nest_stack := first\<rparr>)
    in nest_stack (UpdatePreprocessor else_line st1) = nest_stack st
       \<and> nest_stack (UpdatePreprocessor endif_line st1) = first
       \<and> pp_stack (UpdatePreprocessor endif_line st1) = pp_stack st"
proof -
  have "in_conditional st first ((UpdatePreprocessor if_line st)\<lparr>nest_stack := first\<rparr>)"
    using assms(1) by (simp add: in_conditional_def UpdatePreprocessor_kind)
  from branches_in_conditional [OF this assms(2)]
  have c: "in_conditional st first (fold run_branch brs ((UpdatePreprocessor if_line st)\<lparr>nest_stack := first\<rparr>))" .
  from branch_in_conditional(1) [OF c assms(3)] c assms(4) show ?thesis
    by (auto simp: Let_def in_conditional_def UpdatePreprocessor_kind split: list.splits if_splits)
qed

lemma conditional_restores_stack_witness:
  "let st1 = fold run_branch [(''#elif B'', []), (''# else'', [new_block True PlainBlock])]
      ((UpdatePreprocessor ''#ifdef A'' new_nesting_state)\<lparr>nest_stack := [new_block False PlainBlock]\<rparr>)
   in nest_stack (UpdatePreprocessor ''#endif'' st1) = [new_block False PlainBlock]"
proof -
  have 1: "pp_kind ''#ifdef A'' = Some Opens" by code_simp
  have 2: "\<forall>br\<in>set [(''#elif B'', []), (''# else'', [new_block True PlainBlock])]. pp_kind (fst br) = Some Continues"
    by code_simp
  have 3: "pp_kind ''#else'' = Some Continues" by code_simp
  have 4: "pp_kind ''#endif'' = Some Closes" by code_simp
  from conditional_restores_stack [OF 1 2 3 4, where st = new_nesting_state and first = "[new_block False PlainBlock]"] show ?thesis
    unfolding Let_def by blast
qed

text \<open>
  C7: On a line without a directive, a namespace or a class declaration, inside plain blocks, \<open>Update\<close>
  refines a counter of open braces: it returns without a report, all blocks stay plain, and the
  depth of the stack follows the braces of the line, never dropping below zero.
\<close>

theorem Update_refines_brace_counter:
  assumes "line = cl_elided cl ! n" "n < length (cl_elided cl)" "n < length (cl_raw cl)" "one_line line"
    and "pp_kind line = None" "\<not> matches RE_NAMESPACE line" "\<not> matches RE_CLASS_DECL line"
    and "list_all plain_block (nest_stack st)"
  shows "\<exists>st'. Update cl n st = Inr ([], st') \<and> pp_stack st' = pp_stack st \<and> list_all plain_block (nest_stack st')
    \<and> length (nest_stack st') = fold depth_step (filter is_brace_token line) (length (nest_stack st))"
proof -
  define stack where "stack = (case nest_stack st of [] \<Rightarrow> [] | b # bs \<Rightarrow> update_inner line b # bs)"
  have plain: "list_all plain_block stack" and len: "length stack = length (nest_stack st)"
    using assms(8) by (auto simp: stack_def split: list.splits)
  have get: "py_get (cl_elided cl) (int n) = Inr line" "py_get (cl_raw cl) (int n) = Inr (cl_raw cl ! n)"
    using assms(1-3) by simp_all
  have "UpdatePreprocessor line st = st" using assms(5) by (simp add: UpdatePreprocessor_kind)
  moreover have "consume_namespaces n line stack = (line, stack)"
    using assms(6) by (subst consume_namespaces.simps) (simp add: matches_def split: option.splits)
  moreover have "declare_class cl n line stack = (line, stack)"
    using assms(7) by (simp add: declare_class_def matches_def split: option.splits)
  moreover have "update_access line stack = stack"
    using plain by (cases stack) (simp_all add: update_access_def)
  ultimately have "Update cl n st = py_bind (consume_braces (cl_raw cl ! n) n line stack) (\<lambda>(rs, stack). Inr (rs, st\<lparr>nest_stack := stack\<rparr>))"
    unfolding Update_def get py_bind_simps Let_def using plain_seen [OF plain] by (simp add: stack_def [symmetric])
  with consume_braces_depth [OF assms(4) plain, of "cl_raw cl ! n" n] len show ?thesis by auto
qed

lemma Update_refines_brace_counter_witness:
  "\<exists>st'. Update (CleansedLines [''if (x) { f(); } }'']) 0 (new_nesting_state\<lparr>nest_stack := [new_block True PlainBlock]\<rparr>) = Inr ([], st')
     \<and> nest_stack st' = []"
proof -
  let ?cl = "CleansedLines [''if (x) { f(); } }'']" and ?l = "''if (x) { f(); } }''"
  let ?st = "new_nesting_state\<lparr>nest_stack := [new_block True PlainBlock]\<rparr>"
  have 1: "?l = cl_elided ?cl ! 0" by code_simp
  have 2: "0 < length (cl_elided ?cl)" by (simp add: CleansedLines_def)
  have 3: "0 < length (cl_raw ?cl)" by (simp add: CleansedLines_def)
  have 4: "one_line ?l" by code_simp
  have 5: "pp_kind ?l = None" by code_simp
  have 6: "\<not> matches RE_NAMESPACE ?l" by code_simp
  have 7: "\<not> matches RE_CLASS_DECL ?l" by code_simp
  have 8: "list_all plain_block (nest_stack ?st)" by (simp add: plain_block_def new_block_def)
  have "fold depth_step (filter is_brace_token ?l) (length (nest_stack ?st)) = 0" by code_simp
  with Update_refines_brace_counter [OF 1 2 3 4 5 6 7 8] show ?thesis by auto
qed

text \<open>
  The loop over namespace declarations ends with a rest of the line that declares no namespace,
  and pushes only namespace blocks, on top of the stack it found.
\<close>

lemma consume_namespaces_only_pushes:
  "case consume_namespaces n line stack of (rest, stack') \<Rightarrow>
     \<not> matches RE_NAMESPACE rest \<and> (\<exists>bs. stack' = bs @ stack \<and> list_all is_namespace bs)"
  using consume_namespaces_pushes [of n line stack] by (auto simp: split_beta)

text \<open>
  The last line recorded for a class is the first line from its declaration on at which as many
  braces are closed as opened, and zero when there is none.
\<close>

lemma class_end_balanced:
  "class_end lines i 0 = (case find (\<lambda>k. py_count (concat (take (Suc k) lines)) ''{'' = py_count (concat (take (Suc k) lines)) ''}'')
      [0..<length lines] of None \<Rightarrow> 0 | Some k \<Rightarrow> i + k)"
proof -
  have "class_end lines i d = (case find (\<lambda>k. d + int (py_count (concat (take (Suc k) lines)) ''{'') - int (py_count (concat (take (Suc k) lines)) ''}'') = 0)
      [0..<length lines] of None \<Rightarrow> 0 | Some k \<Rightarrow> i + k)" for d
  proof (induction lines arbitrary: i d)
    case (Cons l lines)
    have up: "[0..<length (l # lines)] = 0 # map Suc [0..<length lines]"
      by (simp add: map_Suc_upt upt_conv_Cons del: upt_Suc)
    have fm: "find P (map Suc xs) = map_option Suc (find (\<lambda>k. P (Suc k)) xs)" for P and xs :: "nat list"
      by (induction xs) auto
    show ?case unfolding up using Cons [of "Suc i" "d + (int (py_count l ''{'') - int (py_count l ''}''))"]
      by (simp add: fm Let_def algebra_simps split: option.splits)
  qed simp
  from this [of 0] show ?thesis by (simp only: add_0 right_minus_eq of_nat_eq_iff)
qed

end
