(* ===== verification/Brace_Checks.thy ===== *)
theory Brace_Checks
  imports Expressions Nesting Check_Patterns Tables
begin

text \<open>
  The checks on braces, access sections, empty loop bodies, comparison macros and alternative
  operator names: \<open>CheckAccess\<close>, \<open>CheckSectionSpacing\<close>, \<open>CheckBraces\<close>, \<open>CheckEmptyLoopBody\<close>,
  \<open>ReplaceableCheck\<close>, \<open>CheckCheck\<close> and \<open>CheckAltTokens\<close>.

  \<open>CheckBraces\<close> has a loop that may run forever. It is a total function here whose result is
  \<open>Hang\<close> in that case, and it is proved to agree with the loop of the source, written as a partial
  function.
\<close>

section \<open>Class sections\<close>

definition CheckAccess :: "clean_lines \<Rightarrow> nat \<Rightarrow> nesting_state \<Rightarrow> report list py" where
  "CheckAccess cl linenum st =
     py_bind (py_get (cl_elided cl) (int linenum)) (\<lambda>line.
       Inr (case Match RE_DISALLOW line of
              None \<Rightarrow> []
            | Some matched \<Rightarrow>
                (case nest_stack st of
                   [] \<Rightarrow> []
                 | b # _ \<Rightarrow>
                     (case class_of b of
                        None \<Rightarrow> []
                      | Some c \<Rightarrow>
                          if class_access c \<noteq> ''private'' then
                            [mk_report (int linenum) ''readability/constructors'' 3
                              (m_str matched 1 @ '' must be in the private: section'')] else []))))"

text \<open>The search for the line that ends the head of the class, from its first line to the current one.\<close>

fun end_class_head :: "string list \<Rightarrow> nat \<Rightarrow> nat \<Rightarrow> nat" where
  "end_class_head [] i start = start"
| "end_class_head (line # lines) i start =
     (if searches RE_OPEN_END line then i else end_class_head lines (Suc i) start)"

definition CheckSectionSpacing :: "clean_lines \<Rightarrow> class_info \<Rightarrow> nat \<Rightarrow> report list py" where
  "CheckSectionSpacing cl c linenum =
     (if int (class_last_line c) - int (class_start c) \<le> 24 \<or> linenum \<le> class_start c then Inr []
      else py_bind (py_get (cl_lines cl) (int linenum)) (\<lambda>line.
        case Match RE_SECTION line of
          None \<Rightarrow> Inr []
        | Some matched \<Rightarrow>
            py_bind (py_get (cl_lines cl) (int linenum - 1)) (\<lambda>prev_line.
              Inr (if \<not> IsBlankLine prev_line \<and> \<not> searches RE_CLASS_WORD prev_line \<and> \<not> searches RE_CONTINUATION prev_line
                      \<and> int (end_class_head (drop (class_start c) (take linenum (cl_lines cl))) (class_start c) (class_start c)) < int linenum - 1
                   then [mk_report (int linenum) ''whitespace/blank_line'' 3
                     ([CHR 0x22] @ m_str matched 1 @ '':'' @ [CHR 0x22] @ '' should be preceded by a blank line'')]
                   else []))))"

section \<open>Braces\<close>

text \<open>The test on an \<open>else\<close> with a brace on one side only; \<open>pos\<close> may be \<open>-1\<close>, as in the source.\<close>

definition one_sided_else :: "clean_lines \<Rightarrow> nat \<Rightarrow> string \<Rightarrow> bool py" where
  "one_sided_else cl linenum line =
     (if searches RE_CLOSE_ELSE line \<or> matches RE_ELSE_OPEN line then
        if searches RE_CLOSE_ELSE_IF line then
          (let pos = py_find line ''else if''; pos = py_find_from line ''('' pos
           in if 0 < pos then
                py_bind (CloseExpression cl linenum pos) (\<lambda>(endline, _, endpos).
                  Inr (py_find (slice_from endline endpos) ''{'' = -1))
              else Inr False)
        else Inr True
      else Inr False)"

lemma previous_smaller:
  assumes "0 \<le> snd (GetPreviousNonBlankLine cl n)"
  shows "snd (GetPreviousNonBlankLine cl n) < n \<and> 0 < n"
proof -
  have "snd (prev_nonblank ls k) < int k" for ls k by (induction k) simp_all
  from this [of "cl_elided cl" "nat n"] assms show ?thesis
    by (auto simp: GetPreviousNonBlankLine_def split: if_splits)
qed

text \<open>
  The loop that joins the lines before a closing brace with a semicolon. When there is no line
  before the current one, nothing changes any more and the loop of the source never ends.
\<close>

definition joins :: "string \<Rightarrow> string \<Rightarrow> bool" where
  "joins line prevline \<longleftrightarrow> matches RE_INDENTED_BRACES_SEMI line \<and> py_count prevline '';'' = 0"

function join_braces :: "clean_lines \<Rightarrow> string \<Rightarrow> int \<Rightarrow> string py" where
  "join_braces cl line n =
     (let prevline = fst (GetPreviousNonBlankLine cl n); prev = snd (GetPreviousNonBlankLine cl n)
      in if joins line prevline then
           if prev < 0 then Inl Hang else join_braces cl (prevline @ line) prev
         else Inr line)"
  by pat_completeness auto
termination
  by (relation "measure (\<lambda>(cl, line, n). nat n)") (auto dest!: previous_smaller simp: not_less)

declare join_braces.simps [simp del]

partial_function (option) braces_loop :: "clean_lines \<Rightarrow> string \<Rightarrow> int \<Rightarrow> string option" where
  "braces_loop cl line n =
     (let prevline = fst (GetPreviousNonBlankLine cl n); prev = snd (GetPreviousNonBlankLine cl n)
      in if joins line prevline then braces_loop cl (prevline @ line) prev else Some line)"

definition CheckBraces :: "clean_lines \<Rightarrow> nat \<Rightarrow> report list py" where
  "CheckBraces cl linenum =
     py_bind (py_get (cl_elided cl) (int linenum)) (\<lambda>line.
     let prevline = fst (GetPreviousNonBlankLine cl (int linenum)); rep = (\<lambda>c n m. mk_report (int linenum) c n m)
     in py_bind (one_sided_else cl linenum line) (\<lambda>one_sided.
        py_bind (join_braces cl line (int linenum)) (\<lambda>joined.
          Inr ((if matches RE_LONE_OPEN line \<and> \<not> searches RE_ENDS_STMT prevline then
                  [rep ''whitespace/braces_pos'' 4 ''{ should almost always be at the end of the previous line''] else [])
             @ (if matches RE_ELSE_LINE line \<and> matches RE_LONE_CLOSE prevline then
                  [rep ''whitespace/braces_pos'' 4 ''An else should appear on the same line as the preceding }''] else [])
             @ (if one_sided then
                  [rep ''readability/braces'' 5 ''If an else has a brace on one side, it should have it on both''] else [])
             @ (if searches RE_ELSE_CODE line \<and> \<not> searches RE_ELSE_IF line then
                  [rep ''whitespace/newline'' 4 ''Else clause should never be on same line as else (use 2 lines)''] else [])
             @ (if matches RE_DO_CODE line then
                  [rep ''whitespace/newline'' 4 ''do/while clauses should not be on a single line''] else [])
             @ (if searches RE_BRACES_SEMI joined \<and> py_count joined ''{'' = py_count joined ''}'' \<and> \<not> searches RE_STRUCT_INIT joined then
                  [rep ''readability/braces'' 4 (''You don'' @ [CHR 0x27] @ ''t need a ; after a }'')] else [])))))"

section \<open>Loops, comparison macros, alternative tokens\<close>

definition CheckEmptyLoopBody :: "clean_lines \<Rightarrow> nat \<Rightarrow> report list py" where
  "CheckEmptyLoopBody cl linenum =
     py_bind (py_get (cl_elided cl) (int linenum)) (\<lambda>line.
       if matches RE_LOOP_HEAD line then
         py_bind (CloseExpression cl linenum (py_find line ''('')) (\<lambda>(end_line, end_linenum, end_pos).
           Inr (if 0 \<le> end_pos \<and> matches RE_SEMI (slice_from end_line end_pos) then
                  [mk_report (int end_linenum) ''whitespace/empty_loop_body'' 5
                    ''Empty loop bodies should use {} or continue''] else []))
       else Inr [])"

definition match_constant :: string where
  \<open>match_constant = raw_pat ''([-+]?(`d+|0[xX][0-9a-fA-F]+)[lLuU]{0,3}|".*"|`\'.*`\')''\<close>

definition match_this :: "string \<Rightarrow> string \<Rightarrow> string" where
  "match_this operator macro =
     raw_pat ''`s*'' @ macro @ raw_pat ''`((`s*'' @ match_constant @ raw_pat ''`s*'' @ operator @ ''[^<>].*|''
     @ ''.*[^<>]'' @ operator @ raw_pat ''`s*'' @ match_constant @ raw_pat ''`s*`))''"

definition ReplaceableCheck :: "string \<Rightarrow> string \<Rightarrow> string \<Rightarrow> bool py" where
  "ReplaceableCheck operator macro line =
     py_bind (re_compile_py (match_this operator macro)) (\<lambda>r.
       Inr (matches r line \<and> \<not> searches RE_NULL_OR_BOOL line))"

definition check_operators :: "string list" where
  "check_operators = [''=='', ''!='', ''>='', ''>'', ''<='', ''<'']"

text \<open>The loop over the operators; a missing table entry would be a \<open>KeyError\<close>.\<close>

fun first_replaceable :: "string list \<Rightarrow> string \<Rightarrow> string \<Rightarrow> nat \<Rightarrow> report list py" where
  "first_replaceable [] macro line linenum = Inr []"
| "first_replaceable (operator # ops) macro line linenum =
     py_bind (ReplaceableCheck operator macro line) (\<lambda>yes.
       if yes then
         (case CHECK_REPLACEMENT macro operator of
            None \<Rightarrow> Inl KeyError
          | Some r \<Rightarrow> Inr [mk_report (int linenum) ''readability/check'' 2
              (''Consider using '' @ r @ '' instead of '' @ macro @ ''(a '' @ operator @ '' b)'')])
       else first_replaceable ops macro line linenum)"

definition CheckCheck :: "clean_lines \<Rightarrow> nat \<Rightarrow> report list py" where
  "CheckCheck cl linenum =
     py_bind (py_get (cl_raw cl) (int linenum)) (\<lambda>raw_line.
       case find (\<lambda>macro. 0 \<le> py_find raw_line macro) CHECK_MACROS of
         None \<Rightarrow> Inr []
       | Some current_macro \<Rightarrow>
           py_bind (py_get (cl_elided cl) (int linenum)) (\<lambda>line.
             first_replaceable check_operators current_macro line linenum))"

definition alt_token_report :: "nat \<Rightarrow> match_obj \<Rightarrow> report py" where
  "alt_token_report linenum m =
     (case map_of ALT_TOKEN_REPLACEMENT (m_str m 1) of
        None \<Rightarrow> Inl KeyError
      | Some r \<Rightarrow> Inr (mk_report (int linenum) ''readability/alt_tokens'' 2
          (''Use operator '' @ r @ '' instead of '' @ m_str m 1)))"

fun py_map :: "('a \<Rightarrow> 'b py) \<Rightarrow> 'a list \<Rightarrow> 'b list py" where
  "py_map f [] = Inr []"
| "py_map f (x # xs) = py_bind (f x) (\<lambda>y. py_bind (py_map f xs) (\<lambda>ys. Inr (y # ys)))"

definition CheckAltTokens :: "clean_lines \<Rightarrow> nat \<Rightarrow> report list py" where
  "CheckAltTokens cl linenum =
     py_bind (py_get (cl_elided cl) (int linenum)) (\<lambda>line.
       if matches RE_HASH_LINE line \<or> 0 \<le> py_find line ''/*'' \<or> 0 \<le> py_find line ''*/'' then Inr []
       else py_map (alt_token_report linenum) (finditer RE_ALT_TOKEN line))"

section \<open>The loop over the previous lines\<close>

lemma previous_none: "snd (GetPreviousNonBlankLine cl n) < 0 \<Longrightarrow> GetPreviousNonBlankLine cl n = ([], -1)"
proof -
  have "snd (prev_nonblank ls k) < 0 \<Longrightarrow> prev_nonblank ls k = ([], -1)" for ls k by (induction k) (simp_all split: if_splits)
  then show "snd (GetPreviousNonBlankLine cl n) < 0 \<Longrightarrow> GetPreviousNonBlankLine cl n = ([], -1)"
    by (simp add: GetPreviousNonBlankLine_def)
qed

lemma previous_stuck [simp]: "GetPreviousNonBlankLine cl (-1) = ([], -1)"
  by (simp add: GetPreviousNonBlankLine_def)

text \<open>From the state without a previous line the loop comes back to the same state.\<close>

lemma braces_loop_stuck:
  assumes "braces_loop cl line (-1) = Some r"
  shows "\<not> joins line []"
proof -
  have "n = -1 \<longrightarrow> \<not> joins line []" if "braces_loop cl line n = Some r" for cl line n r
  proof (rule braces_loop.raw_induct [OF _ that, where P = "\<lambda>cl line n r. n = -1 \<longrightarrow> \<not> joins line []"])
    fix loop and cl :: clean_lines and line n r
    assume ih: "\<And>cl line n r. loop cl line n = Some r \<Longrightarrow> n = -1 \<longrightarrow> \<not> joins line []"
      and body: "(let prevline = fst (GetPreviousNonBlankLine cl n); prev = snd (GetPreviousNonBlankLine cl n)
        in if joins line prevline then loop cl (prevline @ line) prev else Some line) = Some r"
    then show "n = -1 \<longrightarrow> \<not> joins line []" using ih [of cl line "-1" r] by (auto split: if_splits)
  qed
  from this [OF assms] show ?thesis by simp
qed

lemma join_braces_loop:
  "join_braces cl line n = (case braces_loop cl line n of None \<Rightarrow> Inl Hang | Some r \<Rightarrow> Inr r)"
proof (induction cl line n rule: join_braces.induct)
  case (1 cl line n)
  let ?prev = "GetPreviousNonBlankLine cl n"
  consider "\<not> joins line (fst ?prev)" | "joins line (fst ?prev)" "snd ?prev < 0" | "joins line (fst ?prev)" "\<not> snd ?prev < 0"
    by blast
  then show ?case
  proof cases
    case 1
    then show ?thesis by (subst join_braces.simps, subst braces_loop.simps) simp
  next
    case 2
    then have p: "?prev = ([], -1)" by (rule_tac previous_none)
    then have "braces_loop cl line n = braces_loop cl line (-1)" using 2 by (subst braces_loop.simps) simp
    moreover have "braces_loop cl line (-1) = None" using braces_loop_stuck [of cl line] 2(1) p by (metis fst_conv not_Some_eq)
    ultimately show ?thesis using 2 by (subst join_braces.simps) simp
  next
    case 3
    then show ?thesis using 1 by (subst join_braces.simps, subst braces_loop.simps) simp
  qed
qed

text \<open>The non-blank lines above a line, nearest first.\<close>

definition nonblank_above :: "clean_lines \<Rightarrow> nat \<Rightarrow> string list" where
  "nonblank_above cl n = rev (filter (\<lambda>l. \<not> IsBlankLine l) (take n (cl_elided cl)))"

lemma previous_cases:
  assumes "n \<le> length (cl_elided cl)"
  shows "GetPreviousNonBlankLine cl (int n) = ([], -1) \<and> nonblank_above cl n = []
    \<or> (\<exists>l k. GetPreviousNonBlankLine cl (int n) = (l, int k) \<and> k < n \<and> nonblank_above cl n = l # nonblank_above cl k)"
  using assms
proof (induction n)
  case (Suc n)
  then have split: "take (Suc n) (cl_elided cl) = take n (cl_elided cl) @ [cl_elided cl ! n]" by (simp add: take_Suc_conv_app_nth)
  have prev: "GetPreviousNonBlankLine cl (int (Suc n)) =
      (if IsBlankLine (cl_elided cl ! n) then GetPreviousNonBlankLine cl (int n) else (cl_elided cl ! n, int n))"
    by (simp add: GetPreviousNonBlankLine_def nat_add_distrib)
  show ?case
  proof (cases "IsBlankLine (cl_elided cl ! n)")
    case True
    then have "nonblank_above cl (Suc n) = nonblank_above cl n" by (simp add: nonblank_above_def split)
    with Suc True prev show ?thesis using less_Suc_eq by auto
  next
    case False
    then have "nonblank_above cl (Suc n) = cl_elided cl ! n # nonblank_above cl n" by (simp add: nonblank_above_def split)
    with False prev show ?thesis by auto
  qed
qed (simp add: GetPreviousNonBlankLine_def nonblank_above_def)

text \<open>Joining the lines above one after the other, as long as the test of the loop holds.\<close>

fun join_all :: "string list \<Rightarrow> string \<Rightarrow> string py" where
  "join_all [] line = (if joins line [] then Inl Hang else Inr line)"
| "join_all (l # ls) line = (if joins line l then join_all ls (l @ line) else Inr line)"

lemma join_braces_all: "n \<le> length (cl_elided cl) \<Longrightarrow> join_braces cl line (int n) = join_all (nonblank_above cl n) line"
proof (induction n arbitrary: line rule: less_induct)
  case (less n)
  from previous_cases [OF less.prems] show ?case
  proof
    assume "GetPreviousNonBlankLine cl (int n) = ([], -1) \<and> nonblank_above cl n = []"
    then show ?thesis by (subst join_braces.simps) simp
  next
    assume "\<exists>l k. GetPreviousNonBlankLine cl (int n) = (l, int k) \<and> k < n \<and> nonblank_above cl n = l # nonblank_above cl k"
    then obtain l k where lk: "GetPreviousNonBlankLine cl (int n) = (l, int k)" "k < n" "nonblank_above cl n = l # nonblank_above cl k"
      by blast
    with less.IH [OF lk(2)] less.prems show ?thesis by (subst join_braces.simps) simp
  qed
qed

lemma join_all_Hang:
  "join_all ls line = Inl Hang \<longleftrightarrow>
     (\<forall>k\<le>length ls. matches RE_INDENTED_BRACES_SEMI (concat (rev (take k ls)) @ line)) \<and> (\<forall>l\<in>set ls. CHR '';'' \<notin> set l)"
proof (induction ls arbitrary: line)
  case (Cons l ls)
  show ?case by (auto simp: Cons joins_def count_list_0_iff all_nat_split_Suc)
qed (simp add: joins_def)

lemma join_all_result: "join_all ls line = Inl e \<Longrightarrow> e = Hang"
  by (induction ls arbitrary: line) (auto split: if_splits)

section \<open>Comparison macros\<close>

text \<open>The comparison that an operator or the name of a macro stands for, and whether a macro asserts falsehood.\<close>

definition comparison :: "string \<Rightarrow> int \<Rightarrow> int \<Rightarrow> bool" where
  "comparison op x y = (if op \<in> {''=='', ''EQ''} then x = y else if op \<in> {''!='', ''NE''} then x \<noteq> y
     else if op \<in> {''>='', ''GE''} then x \<ge> y else if op \<in> {''>'', ''GT''} then x > y
     else if op \<in> {''<='', ''LE''} then x \<le> y else x < y)"

definition asserts_false :: "string \<Rightarrow> bool" where
  "asserts_false macro \<longleftrightarrow> py_in ''FALSE'' macro"

lemma op_names:
  "op_name op = Some r \<Longrightarrow> comparison r x y \<longleftrightarrow> comparison op x y"
  "inv_op_name op = Some r \<Longrightarrow> comparison r x y \<longleftrightarrow> \<not> comparison op x y"
  unfolding op_name_def inv_op_name_def by (drule_tac [!] map_of_SomeD) (simp_all, (elim disjE conjE; simp add: comparison_def not_le not_less)+)

lemma two_letters: "op_name op = Some r \<Longrightarrow> length r = 2" "inv_op_name op = Some r \<Longrightarrow> length r = 2"
  unfolding op_name_def inv_op_name_def by (drule_tac [!] map_of_SomeD) auto

lemma wrapped_name:
  "map_option (\<lambda>r. pre @ r) x = Some r \<Longrightarrow> \<exists>n q. x = Some n \<and> r = pre @ n @ q"
  "map_option (\<lambda>r. pre @ r @ ''_M'') x = Some r \<Longrightarrow> \<exists>n q. x = Some n \<and> r = pre @ n @ q"
  by auto

definition macro_prefix :: "string \<Rightarrow> string" where
  "macro_prefix macro = takeWhile (\<lambda>c. c \<noteq> CHR ''_'') macro @ ''_''"

lemma replacement_shape:
  assumes "CHECK_REPLACEMENT macro op = Some r"
  shows "\<exists>n q. (if asserts_false macro then inv_op_name op else op_name op) = Some n \<and> r = macro_prefix macro @ n @ q"
proof -
  have macros: "\<not> asserts_false ''DCHECK'' \<and> \<not> asserts_false ''CHECK'' \<and> \<not> asserts_false ''EXPECT_TRUE'' \<and> \<not> asserts_false ''ASSERT_TRUE''
      \<and> \<not> asserts_false ''EXPECT_TRUE_M'' \<and> \<not> asserts_false ''ASSERT_TRUE_M'' \<and> asserts_false ''EXPECT_FALSE'' \<and> asserts_false ''ASSERT_FALSE''
      \<and> asserts_false ''EXPECT_FALSE_M'' \<and> asserts_false ''ASSERT_FALSE_M''"
    by code_simp
  note w = wrapped_name(1) [of "macro_prefix macro" "op_name op" r] wrapped_name(2) [of "macro_prefix macro" "op_name op" r]
    wrapped_name(1) [of "macro_prefix macro" "inv_op_name op" r] wrapped_name(2) [of "macro_prefix macro" "inv_op_name op" r]
  show ?thesis using assms macros w
    by (simp add: CHECK_REPLACEMENT_def macro_prefix_def split: if_split_asm)
qed

section \<open>Properties\<close>

text \<open>
  C15: The loop of \<open>CheckBraces\<close> over the previous lines runs forever exactly when no non-blank line
  above has a semicolon and each join of the nearest of them with the current line still looks like
  indented braces with a semicolon. In every other case it ends with the line that the model computes.
\<close>

theorem CheckBraces_loop_hangs:
  assumes "n \<le> length (cl_elided cl)"
  shows "(braces_loop cl line (int n) = None \<longleftrightarrow>
      (\<forall>k\<le>length (nonblank_above cl n). matches RE_INDENTED_BRACES_SEMI (concat (rev (take k (nonblank_above cl n))) @ line))
      \<and> (\<forall>l\<in>set (nonblank_above cl n). CHR '';'' \<notin> set l))
    \<and> join_braces cl line (int n) = (case braces_loop cl line (int n) of None \<Rightarrow> Inl Hang | Some r \<Rightarrow> Inr r)"
proof -
  have "braces_loop cl line (int n) = None \<longleftrightarrow> join_all (nonblank_above cl n) line = Inl Hang"
    using join_braces_loop [of cl line "int n"] join_braces_all [OF assms, of line] by (auto split: option.splits)
  then show ?thesis using join_all_Hang join_braces_loop by simp
qed

lemma CheckBraces_loop_hangs_witness:
  "CheckBraces (CleansedLines [''// only comments above'', ''  {};'']) 1 = Inl Hang"
proof -
  let ?cl = "CleansedLines [''// only comments above'', ''  {};'']"
  have el: "cl_elided ?cl = [[], ''  {};'']" by code_simp
  have 1: "nonblank_above ?cl 1 = []" by (simp add: nonblank_above_def el IsBlankLine_def)
  have 2: "matches RE_INDENTED_BRACES_SEMI ''  {};''" by code_simp
  have 3: "one_sided_else ?cl 1 ''  {};'' = Inr False" by code_simp
  have "join_braces ?cl ''  {};'' (int 1) = Inl Hang"
    using CheckBraces_loop_hangs [where n = 1 and cl = ?cl and line = "''  {};''", unfolded 1 el] 2 by (auto split: option.splits)
  then show ?thesis using 3 by (simp add: CheckBraces_def el py_get_def)
qed

text \<open>
  C25: The macro suggested in place of a comparison macro asserts the same: its two-letter name stands
  for the operator of the source line, negated when the macro asserts falsehood.
\<close>

theorem check_replacement_equivalent:
  assumes "CHECK_REPLACEMENT macro op = Some r"
  shows "\<exists>name post. r = macro_prefix macro @ name @ post \<and> length name = 2
    \<and> (\<forall>x y. comparison name x y \<longleftrightarrow> (if asserts_false macro then \<not> comparison op x y else comparison op x y))"
proof -
  from replacement_shape [OF assms] obtain n q
    where n: "(if asserts_false macro then inv_op_name op else op_name op) = Some n" "r = macro_prefix macro @ n @ q" by blast
  then have "length n = 2" "comparison n x y \<longleftrightarrow> (if asserts_false macro then \<not> comparison op x y else comparison op x y)" for x y
    using two_letters op_names by (simp_all split: if_splits)
  with n show ?thesis by blast
qed

lemma check_replacement_equivalent_witness:
  "\<exists>name post. ''EXPECT_LT'' = ''EXPECT_'' @ name @ post \<and> length name = 2
    \<and> (\<forall>x y. comparison name x y \<longleftrightarrow> \<not> comparison ''>='' x y)"
proof -
  have 1: "CHECK_REPLACEMENT ''EXPECT_FALSE'' ''>='' = Some ''EXPECT_LT''" by code_simp
  have 2: "asserts_false ''EXPECT_FALSE''" "macro_prefix ''EXPECT_FALSE'' = ''EXPECT_''" by code_simp+
  from check_replacement_equivalent [OF 1] 2 show ?thesis by auto
qed

end
