(* ===== verification/Spacing_Checks.thy ===== *)
theory Spacing_Checks
  imports File_Checks Brace_Checks
begin

text \<open>
  The spacing checks: \<open>CheckSpacing\<close>, \<open>CheckSpacingForFunctionCall\<close> and the constructs of
  \<open>CheckForNonStandardConstructs\<close>. \<open>CheckSpacing\<close> is cut into its parts, in the order of the source.
\<close>

definition report_if :: "bool \<Rightarrow> nat \<Rightarrow> string \<Rightarrow> int \<Rightarrow> string \<Rightarrow> report list" where
  "report_if b linenum category confidence message = (if b then [mk_report (int linenum) category confidence message] else [])"

text \<open>Python's \<open>a or b\<close> on the results of searches: the first match.\<close>

definition or_else :: "'a option \<Rightarrow> 'a option \<Rightarrow> 'a option" where
  "or_else x y = (case x of None \<Rightarrow> y | Some v \<Rightarrow> Some v)"

section \<open>Blank lines\<close>

text \<open>The position of the line above an initializer list: the nearest not indented by six spaces.\<close>

primrec above_initializers :: "string list \<Rightarrow> nat \<Rightarrow> int" where
  "above_initializers elided 0 = -1"
| "above_initializers elided (Suc n) =
     (if matches RE_SIX_SPACES (elided ! n) then above_initializers elided n else int n)"

text \<open>The walk upwards over blank lines in search of a namespace.\<close>

primrec namespace_above :: "string list \<Rightarrow> nat \<Rightarrow> string \<Rightarrow> bool" where
  "namespace_above elided 0 prev_prev_line = False"
| "namespace_above elided (Suc m) prev_prev_line =
     (if prev_prev_line = [] \<or> py_isspace prev_prev_line
      then py_in ''namespace'' (elided ! m) \<or> namespace_above elided m (elided ! m)
      else False)"

definition extern_c :: string where
  "extern_c = ''extern '' @ [CHR 0x22] @ ''C'' @ [CHR 0x22]"

text \<open>
  Whether a blank line after an opening brace is excused. The source tests the result of
  \<open>find\<close> for the text \<open>extern "C"\<close> as a truth value, which is false only at position 0.
\<close>

definition block_start_exception :: "clean_lines \<Rightarrow> nat \<Rightarrow> string \<Rightarrow> bool py" where
  "block_start_exception cl linenum prev_line =
     py_bind (if 2 < linenum then py_get (cl_elided cl) (int linenum - 2) else Inr []) (\<lambda>prev_prev_line.
       let m_num = (if 2 < linenum then linenum - 2 else 1);
           exception =
             (if matches RE_SIX_SPACES prev_line then
                (let search_position = above_initializers (cl_elided cl) (linenum - 1)
                 in 0 \<le> search_position \<and> take 5 (cl_elided cl ! nat search_position) = ''    :'')
              else matches RE_FN_PARAMS_END prev_line \<or> matches RE_INIT_COLON prev_line)
       in Inr (if py_in ''namespace'' prev_prev_line \<or> py_find prev_prev_line extern_c \<noteq> 0 then True
               else exception \<or> namespace_above (cl_elided cl) m_num prev_prev_line))"

definition block_start_reports :: "clean_lines \<Rightarrow> nat \<Rightarrow> string \<Rightarrow> report list py" where
  "block_start_reports cl linenum prev_line =
     (let prevbrace = py_rfind prev_line ''{''
      in if prevbrace \<noteq> -1 \<and> py_find (slice_from prev_line prevbrace) ''}'' = -1
            \<and> py_find (slice_to prev_line prevbrace) ''namespace'' = -1
         then py_bind (block_start_exception cl linenum prev_line) (\<lambda>exception.
           Inr (report_if (\<not> exception) linenum ''whitespace/blank_line'' 2
             ''Blank line at the start of a code block.  Is this needed?''))
         else Inr [])"

text \<open>
  The walk upwards from the blank line to the brace that opens the block: whether it belongs to a
  namespace. Line \<open>n\<close> is read with \<open>n\<close> lines above it; \<open>raw[-1]\<close> is the last line, as in Python.
\<close>

primrec closes_namespace :: "string list \<Rightarrow> nat \<Rightarrow> int \<Rightarrow> bool py" where
  "closes_namespace raw 0 m_kh = Inr False"
| "closes_namespace raw (Suc n) m_kh =
     (let flag_context = raw ! n;
          m_kh = m_kh + int (py_count flag_context ''}'') - int (py_count flag_context ''{'')
      in if m_kh = 0 \<and> matches RE_NS_OPEN flag_context then Inr True
         else if m_kh = 0 \<and> matches RE_STARTS_OPEN flag_context then
           py_bind (py_get raw (int n - 1)) (\<lambda>prev_flag_context. Inr (py_in ''namespace'' prev_flag_context))
         else closes_namespace raw n m_kh)"

definition block_end_reports :: "clean_lines \<Rightarrow> nat \<Rightarrow> report list py" where
  "block_end_reports cl linenum =
     (if linenum + 1 < NumLines cl then
        py_bind (py_get (cl_raw cl) (int linenum + 1)) (\<lambda>next_line.
          if next_line \<noteq> [] \<and> matches RE_STARTS_CLOSE next_line \<and> \<not> py_in ''namespace'' next_line \<and> \<not> py_in ''} else '' next_line
          then py_bind (closes_namespace (cl_raw cl) (Suc linenum) 1) (\<lambda>table.
            Inr (report_if (\<not> table) linenum ''whitespace/blank_line'' 3
              ''Blank line at the end of a code block.  Is this needed?''))
          else Inr [])
      else Inr [])"

definition blank_line_reports :: "clean_lines \<Rightarrow> nat \<Rightarrow> nesting_state \<Rightarrow> string \<Rightarrow> report list py" where
  "blank_line_reports cl linenum st line =
     (if IsBlankLine line \<and> \<not> InNamespaceBody st then
        py_bind (py_get (cl_elided cl) (int linenum - 1)) (\<lambda>prev_line.
        py_bind (block_start_reports cl linenum prev_line) (\<lambda>rs1.
        py_bind (block_end_reports cl linenum) (\<lambda>rs2.
          Inr (rs1 @ rs2 @
            (case Match RE_SECTION prev_line of
               None \<Rightarrow> []
             | Some matched \<Rightarrow> [mk_report (int linenum) ''whitespace/blank_line'' 3
                 (''Do not leave a blank line after '' @ [CHR 0x22] @ m_str matched 1 @ '':'' @ [CHR 0x22])])))))
      else Inr [])"

section \<open>Comments\<close>

text \<open>\<open>string.whitespace\<close>.\<close>

definition string_whitespace :: "char \<Rightarrow> bool" where
  "string_whitespace c \<longleftrightarrow> c = CHR '' '' \<or> in_range (CHR 0x09) (CHR 0x0D) c"

definition comment_reports :: "string \<Rightarrow> nat \<Rightarrow> report list" where
  "comment_reports line linenum =
     (let commentpos = py_find line ''//''; before = take (nat commentpos) line;
          comment = drop (nat commentpos + 2) line
      in if commentpos \<noteq> -1 \<and> (int (py_count before [CHR 0x22]) - int (py_count before escaped_quote)) mod 2 = 0 then
           report_if (\<not> matches RE_OPEN_COMMENT line \<and> 1 \<le> commentpos \<and> \<not> string_whitespace (last before)) linenum
             ''whitespace/comments'' 2 ''At least one space is best between code and comments''
           @ report_if (comment \<noteq> [] \<and> hd comment \<noteq> CHR '' '' \<and> \<not> searches RE_COMMENT_RULE comment
               \<and> \<not> searches RE_DOXY_EMPTY comment \<and> \<not> searches RE_DOXY_MEMBER comment
               \<and> \<not> searches RE_DOXY_SLASHES comment \<and> \<not> searches RE_DOXY_AT comment) linenum
             ''whitespace/comments'' 4 ''Should have a space between // and comment''
           @ CheckComment (drop (nat commentpos) line) linenum
         else [])"

section \<open>Operators\<close>

text \<open>The replacement text of the substitution is \<open>operator\(\<close>: an unknown escape keeps its backslash.\<close>

definition drop_operator_methods :: "string \<Rightarrow> string" where
  "drop_operator_methods line = re_sub RE_OPERATOR_METHOD (\<lambda>m. ''operator'' @ [CHR 0x5C] @ ''('') line"

definition relation_match :: "string \<Rightarrow> match_obj option" where
  "relation_match line =
     or_else (or_else (Search RE_REL_NONE line) (or_else (Search RE_REL_LEFT line) (Search RE_REL_RIGHT line)))
       (if searches RE_TEMPLATE_SPILL line then None
        else or_else (Search RE_LT_NONE line) (or_else (Search RE_LT_LEFT line) (Search RE_LT_RIGHT line)))"

text \<open>The tests on shifts and, where there is no bad shift, on single angle brackets.\<close>

definition angle_reports :: "clean_lines \<Rightarrow> nat \<Rightarrow> string \<Rightarrow> report list py" where
  "angle_reports cl linenum line =
     (let bad_shift = (case Search RE_SHL line of
            None \<Rightarrow> False
          | Some m \<Rightarrow> \<not> (list_all py_isdigit (m_str m 1) \<and> list_all py_isdigit (m_str m 2)))
      in if bad_shift then Inr (report_if True linenum ''whitespace/operators'' 3 ''Missing spaces around <<'')
         else if matches RE_HASH_INCLUDE line then Inr []
         else
           (let reduced_line = py_replace line ''->'' []
            in py_bind (case Search RE_TIGHT_LT reduced_line of
                          None \<Rightarrow> Inr True
                        | Some m \<Rightarrow> FindNextMatchingAngleBracket cl linenum (m_str m 1)) (\<lambda>closed.
               py_bind (case Search RE_TIGHT_GT reduced_line of
                          None \<Rightarrow> Inr True
                        | Some m \<Rightarrow> FindPreviousMatchingAngleBracket cl linenum (m_str m 1)) (\<lambda>opened.
                 Inr (report_if (\<not> closed) linenum ''whitespace/operators'' 3 ''Missing spaces around <''
                    @ report_if (\<not> opened) linenum ''whitespace/operators'' 3 ''Missing spaces around >'')))))"

definition operator_reports :: "clean_lines \<Rightarrow> nat \<Rightarrow> string \<Rightarrow> report list py" where
  "operator_reports cl linenum line =
     py_bind (angle_reports cl linenum line) (\<lambda>angles.
       Inr (report_if (searches RE_EQ_RIGHT line \<or> searches RE_EQ_LEFT line) linenum ''whitespace/operators'' 4 ''Missing spaces around =''
          @ report_if (searches RE_EQ_BOTH line \<and> \<not> searches RE_IF_WHILE line) linenum ''whitespace/operators'' 4 ''Missing spaces around =''
          @ (case relation_match line of
               None \<Rightarrow> []
             | Some m \<Rightarrow> report_if True linenum ''whitespace/operators'' 3 (''Missing spaces around '' @ m_str m 1))
          @ angles
          @ report_if (searches RE_SHR line) linenum ''whitespace/operators'' 3 ''Missing spaces around >>''
          @ (case Search RE_UNARY_SPACE line of
               None \<Rightarrow> []
             | Some m \<Rightarrow> report_if True linenum ''whitespace/operators'' 4 (''Extra space for operator '' @ m_str m 1))))"

section \<open>Parentheses and function calls\<close>

definition paren_reports :: "nat \<Rightarrow> string \<Rightarrow> report list" where
  "paren_reports linenum line =
     (case Search RE_KEYWORD_PAREN line of
        None \<Rightarrow> []
      | Some m \<Rightarrow> report_if True linenum ''whitespace/parens'' 5 (''Missing space before ( in '' @ m_str m 1))
     @ (case Search RE_CONTROL_PARENS line of
          None \<Rightarrow> []
        | Some m \<Rightarrow>
            report_if (length (m_str m 2) \<noteq> length (m_str m 4)
                \<and> \<not> (m_str m 3 = '';'' \<and> length (m_str m 2) = 1 + length (m_str m 4)
                     \<or> m_str m 2 = [] \<and> searches RE_FOR_SEMI line)) linenum
              ''whitespace/parens'' 5 (''Mismatching spaces inside () in '' @ m_str m 1)
          @ report_if (1 < length (m_str m 2)) linenum
              ''whitespace/parens'' 5 (''Should have zero or one spaces inside ( and ) in '' @ m_str m 1))"

text \<open>The text in which function calls are looked for: inside a control expression, or the whole line.\<close>

definition function_call_text :: "string \<Rightarrow> string" where
  "function_call_text line =
     (case or_else (Search RE_CALL_IF line) (or_else (Search RE_CALL_FOR line)
             (or_else (Search RE_CALL_WHILE line) (Search RE_CALL_SWITCH line))) of
        None \<Rightarrow> line
      | Some m \<Rightarrow> m_str m 1)"

definition CheckSpacingForFunctionCall :: "string \<Rightarrow> nat \<Rightarrow> report list" where
  "CheckSpacingForFunctionCall line linenum =
     (let fncall = function_call_text line
      in if \<not> searches RE_CONTROL_WORD fncall \<and> \<not> searches RE_FN_POINTER fncall
            \<and> \<not> searches RE_TEMPLATE_FN_TYPE fncall \<and> \<not> searches RE_ARRAY_POINTER fncall then
           (if searches RE_CALL_SPACE fncall
            then report_if True linenum ''whitespace/parens'' 4 ''Extra space after ( in function call''
            else report_if (searches RE_PAREN_SPACE fncall) linenum ''whitespace/parens'' 2 ''Extra space after ('')
           @ report_if (searches RE_SPACE_CALL fncall \<and> \<not> searches RE_DEFINE_TYPEDEF fncall \<and> \<not> searches RE_MEMBER_POINTER fncall)
               linenum ''whitespace/parens'' 4 ''Extra space before ( in function call''
           @ report_if (searches RE_SPACE_CLOSE fncall \<and> \<not> searches RE_LEADING_CLOSE fncall)
               linenum ''whitespace/parens'' 2 ''Extra space before )''
         else [])"

section \<open>CheckSpacing\<close>

definition semicolon_reports :: "nat \<Rightarrow> string \<Rightarrow> report list" where
  "semicolon_reports linenum line =
     (if searches RE_COLON_SEMI line then
        report_if True linenum ''whitespace/semicolon'' 5 ''Semicolon defining empty statement. Use {} instead.''
      else if searches RE_ONLY_SEMI line then
        report_if True linenum ''whitespace/semicolon'' 5
          ''Line contains only semicolon. If this should be an empty statement, use {} instead.''
      else report_if (searches RE_SPACE_SEMI line \<and> \<not> searches RE_FOR_WORD line) linenum ''whitespace/semicolon'' 5
          ''Extra space before last semicolon. If this should be an empty statement, use {} instead.'')"

definition CheckSpacing :: "clean_lines \<Rightarrow> nat \<Rightarrow> nesting_state \<Rightarrow> report list py" where
  "CheckSpacing cl linenum st =
     py_bind (py_get (cl_raw cl) (int linenum)) (\<lambda>raw_line.
     py_bind (blank_line_reports cl linenum st raw_line) (\<lambda>blanks.
     py_bind (py_get (cl_elided cl) (int linenum)) (\<lambda>elided_line.
       let line = drop_operator_methods elided_line
       in py_bind (operator_reports cl linenum line) (\<lambda>operators.
         Inr (blanks @ comment_reports raw_line linenum @ operators @ paren_reports linenum line
            @ report_if (searches RE_COMMA line) linenum ''whitespace/comma'' 3 ''Missing space after ,''
            @ report_if (searches RE_SEMICOLON line) linenum ''whitespace/semicolon'' 3 ''Missing space after ;''
            @ CheckSpacingForFunctionCall line linenum
            @ report_if (searches RE_TIGHT_OPEN line) linenum ''whitespace/braces'' 5 ''Missing space before {''
            @ report_if (searches RE_TIGHT_ELSE line) linenum ''whitespace/braces'' 5 ''Missing space before else''
            @ report_if (searches RE_SPACE_BRACKET line \<and> \<not> searches RE_DELETE_BRACKET line) linenum
                ''whitespace/braces'' 5 ''Extra space before [''
            @ semicolon_reports linenum line
            @ report_if (searches RE_FOR_COLON_RIGHT line \<or> searches RE_FOR_COLON_LEFT line) linenum
                ''whitespace/forcolon'' 2 ''Missing space around colon in range-based for loop'')))))"

section \<open>CheckForNonStandardConstructs\<close>

text \<open>The test for a constructor with one argument, in a class whose head is complete.\<close>

definition explicit_reports :: "nesting_state \<Rightarrow> nat \<Rightarrow> string \<Rightarrow> report list py" where
  "explicit_reports st linenum line =
     (case InnermostClass st of
        None \<Rightarrow> Inr []
      | Some (b, c) \<Rightarrow>
          if \<not> seen_open_brace b then Inr []
          else let name = re_escape (last (py_split (class_name c) ''::''))
               in py_bind (re_compile_py (raw_pat ''`s+(?:inline`s+)?'' @ name @ raw_pat ''`s*`(([^,()]+)`)'')) (\<lambda>ctor.
                  case Match ctor line of
                    None \<Rightarrow> Inr []
                  | Some args \<Rightarrow>
                      if m_str args 1 = ''void'' then Inr []
                      else py_bind (re_compile_py (raw_pat ''(const`s+)?'' @ name @ raw_pat ''`s*(?:<`w+>`s*)?&'')) (\<lambda>copy.
                        Inr (report_if (\<not> matches copy (py_strip (m_str args 1))) linenum ''runtime/explicit'' 5
                          ''Single-argument constructors should be marked explicit.''))))"

definition CheckForNonStandardConstructs :: "clean_lines \<Rightarrow> nat \<Rightarrow> nesting_state \<Rightarrow> report list py" where
  "CheckForNonStandardConstructs cl linenum st =
     py_bind (py_get (cl_lines cl) (int linenum)) (\<lambda>line1.
     py_bind (py_get (cl_elided cl) (int linenum)) (\<lambda>line.
     py_bind (explicit_reports st linenum line) (\<lambda>explicits.
       let line2 = py_replace line1 [CHR 0x5C, CHR 0x5C] []
       in Inr (report_if (searches RE_PRINTF_Q line1) linenum ''runtime/printf_format'' 3
                 ''%q in format strings is deprecated.  Use %ll instead.''
             @ report_if (searches RE_PRINTF_POS line1) linenum ''runtime/printf_format'' 2
                 ''%N$ formats are unconventional.  Try rewriting to avoid them.''
             @ report_if (searches RE_UNDEF_ESCAPE line2) linenum ''build/printf_format'' 3
                 ''%, [, (, and { are undefined character escapes.  Unescape them.''
             @ report_if (searches RE_STORAGE_CLASS line) linenum ''build/storage_class'' 5
                 ''Storage class (static, extern, typedef, etc) should be first.''
             @ report_if (matches RE_ENDIF_TEXT line) linenum ''build/endif_comment'' 5
                 ''Uncommented text after #endif is non-standard.  Use a comment.''
             @ report_if (matches RE_INNER_FWD line) linenum ''build/forward_decl'' 5
                 ''Inner-style forward declarations are invalid.  Remove this line.''
             @ report_if (searches RE_MINMAX line) linenum ''build/deprecated'' 3
                 ''>? and <? (max and min) operators are non-standard and deprecated.''
             @ report_if (searches RE_CONST_STRING_REF line) linenum ''runtime/member_string_references'' 2
                 (''const string& members are dangerous. It is much better to use ''
                  @ ''alternatives, such as pointers or simple constants.'')
             @ explicits))))"

section \<open>Blank lines at the start of a block\<close>

lemma py_find_0: "py_find s sub = 0 \<Longrightarrow> prefix sub s"
proof -
  have ge: "find_at i sub s = -1 \<or> int i \<le> find_at i sub s" for i and s :: string
    by (induction i sub s rule: find_at.induct) auto
  assume "py_find s sub = 0"
  then show ?thesis using ge [of "Suc 0" "tl s"]
    by (cases s) (auto simp: py_find_def startswith_prefix [symmetric] py_startswith_def split: if_splits)
qed

text \<open>
  The elided lines never begin with the text \<open>extern "C"\<close>: outside include lines double quotes
  enclose nothing in them.
\<close>

lemma elided_no_extern: "\<not> prefix extern_c (CleanseComments (CollapseStrings l))"
proof
  assume "prefix extern_c (CleanseComments (CollapseStrings l))"
  then obtain t where t: "CleanseComments (CollapseStrings l) = extern_c @ t" by (auto simp: prefix_def)
  have "\<not> quotes_empty (extern_c @ t)" "\<not> hash_first (extern_c @ t)"
    by (simp_all add: extern_c_def re_space_def in_range_def)
  with elided_shape [of l] show False unfolding t by blast
qed

lemma block_start_excused:
  assumes "n \<le> length lines"
  shows "block_start_exception (CleansedLines lines) n prev_line = Inr True"
proof -
  have "\<exists>l. (if 2 < n then py_get (cl_elided (CleansedLines lines)) (int n - 2) else Inr []) = Inr l \<and> \<not> prefix extern_c l"
  proof (cases "2 < n")
    case True
    then have "int n - 2 = int (n - 2)" by simp
    then have "py_get (cl_elided (CleansedLines lines)) (int n - 2) = Inr (CleanseComments (CollapseStrings (lines ! (n - 2))))"
      using True assms by (simp only: py_get_nat) (simp add: CleansedLines_def)
    with True elided_no_extern show ?thesis by simp
  qed (simp add: extern_c_def)
  then obtain l where l: "(if 2 < n then py_get (cl_elided (CleansedLines lines)) (int n - 2) else Inr []) = Inr l" "py_find l extern_c \<noteq> 0"
    using py_find_0 by blast
  then show ?thesis unfolding block_start_exception_def by (simp add: Let_def)
qed

text \<open>The parts of \<open>CheckSpacing\<close> that do not speak of blank lines.\<close>

definition not_blank :: "report \<Rightarrow> bool" where
  "not_blank r \<longleftrightarrow> r_category r \<noteq> ''whitespace/blank_line''"

lemma not_blank_simps [simp]:
  "not_blank (mk_report l c k m) \<longleftrightarrow> c \<noteq> ''whitespace/blank_line''"
  "list_all not_blank (report_if b n c k m) \<longleftrightarrow> (b \<longrightarrow> c \<noteq> ''whitespace/blank_line'')"
  by (simp_all add: not_blank_def mk_report_def report_if_def)

lemma other_reports_not_blank:
  "list_all not_blank (comment_reports s n)" "list_all not_blank (paren_reports n s)"
  "list_all not_blank (CheckSpacingForFunctionCall s n)" "list_all not_blank (semicolon_reports n s)"
  "operator_reports cl n s = Inr rs \<Longrightarrow> list_all not_blank rs"
proof -
  have "list_all not_blank (CheckComment c n)" for c by (simp add: CheckComment_def split: option.split)
  then show "list_all not_blank (comment_reports s n)" by (simp add: comment_reports_def Let_def)
  show "list_all not_blank (paren_reports n s)" by (simp add: paren_reports_def split: option.split)
  show "list_all not_blank (CheckSpacingForFunctionCall s n)" by (simp add: CheckSpacingForFunctionCall_def Let_def)
  show "list_all not_blank (semicolon_reports n s)" by (simp add: semicolon_reports_def)
  have a: "angle_reports cl n s = Inr as \<Longrightarrow> list_all not_blank as" for as
    unfolding angle_reports_def Let_def by (auto simp: py_bind_eq_Inr split: if_split_asm)
  show "operator_reports cl n s = Inr rs \<Longrightarrow> list_all not_blank rs"
    unfolding operator_reports_def by (auto simp: py_bind_eq_Inr dest!: a split: option.split)
qed

text \<open>The reports of \<open>CheckSpacing\<close> after those on blank lines.\<close>

definition others :: "nat \<Rightarrow> string \<Rightarrow> string \<Rightarrow> report list \<Rightarrow> report list" where
  "others n raw line operators =
     comment_reports raw n @ operators @ paren_reports n line
     @ report_if (searches RE_COMMA line) n ''whitespace/comma'' 3 ''Missing space after ,''
     @ report_if (searches RE_SEMICOLON line) n ''whitespace/semicolon'' 3 ''Missing space after ;''
     @ CheckSpacingForFunctionCall line n
     @ report_if (searches RE_TIGHT_OPEN line) n ''whitespace/braces'' 5 ''Missing space before {''
     @ report_if (searches RE_TIGHT_ELSE line) n ''whitespace/braces'' 5 ''Missing space before else''
     @ report_if (searches RE_SPACE_BRACKET line \<and> \<not> searches RE_DELETE_BRACKET line) n
         ''whitespace/braces'' 5 ''Extra space before [''
     @ semicolon_reports n line
     @ report_if (searches RE_FOR_COLON_RIGHT line \<or> searches RE_FOR_COLON_LEFT line) n
         ''whitespace/forcolon'' 2 ''Missing space around colon in range-based for loop''"

lemma CheckSpacing_split:
  "CheckSpacing cl n st =
     py_bind (py_get (cl_raw cl) (int n)) (\<lambda>raw.
     py_bind (blank_line_reports cl n st raw) (\<lambda>blanks.
     py_bind (py_get (cl_elided cl) (int n)) (\<lambda>elided.
     py_bind (operator_reports cl n (drop_operator_methods elided)) (\<lambda>operators.
       Inr (blanks @ others n raw (drop_operator_methods elided) operators)))))"
  unfolding CheckSpacing_def others_def Let_def ..

lemma others_not_blank:
  "operator_reports cl n line = Inr operators \<Longrightarrow> list_all not_blank (others n raw line operators)"
  unfolding others_def using other_reports_not_blank by simp

lemma blank_line_reports_confidence:
  assumes "blank_line_reports (CleansedLines lines) n st line = Inr rs" "n \<le> length lines"
  shows "list_all (\<lambda>r. r_confidence r = 3) rs"
proof (cases "IsBlankLine line \<and> \<not> InNamespaceBody st")
  case True
  let ?cl = "CleansedLines lines"
  from assms(1) True obtain p rs1 rs2 where r: "block_start_reports ?cl n p = Inr rs1" "block_end_reports ?cl n = Inr rs2"
    "rs = rs1 @ rs2 @ (case Match RE_SECTION p of None \<Rightarrow> [] | Some matched \<Rightarrow> [mk_report (int n) ''whitespace/blank_line'' 3
       (''Do not leave a blank line after '' @ [CHR 0x22] @ m_str matched 1 @ '':'' @ [CHR 0x22])])"
    unfolding blank_line_reports_def by (auto simp: py_bind_eq_Inr)
  have "rs1 = []" using r(1) block_start_excused [OF assms(2), of p]
    by (auto simp: block_start_reports_def Let_def report_if_def split: if_split_asm)
  moreover have "list_all (\<lambda>r. r_confidence r = 3) rs2"
    using r(2) by (auto simp: block_end_reports_def py_bind_eq_Inr report_if_def mk_report_def split: if_split_asm)
  ultimately show ?thesis using r(3) by (simp add: mk_report_def split: option.split)
qed (use assms(1) in \<open>auto simp: blank_line_reports_def\<close>)

section \<open>Properties\<close>

text \<open>
  C32: The warning about a blank line at the start of a code block (the only one on blank lines with
  confidence 2) is never given, whatever the file: the result of \<open>find\<close> for \<open>extern "C"\<close> is used as
  a truth value, which is false only at position 0, and the text is looked for in lines whose
  strings have been collapsed.
\<close>

theorem blank_line_start_never_reported:
  assumes "CheckSpacing (CleansedLines lines) n st = Inr rs" "r \<in> set rs" "r_category r = ''whitespace/blank_line''"
  shows "r_confidence r = 3"
proof -
  let ?cl = "CleansedLines lines"
  from assms(1) obtain raw blanks elided ops where raw: "py_get (cl_raw ?cl) (int n) = Inr raw"
    and b: "blank_line_reports ?cl n st raw = Inr blanks"
    and o: "operator_reports ?cl n (drop_operator_methods elided) = Inr ops"
    and rs: "set rs \<subseteq> set blanks \<union> set (others n raw (drop_operator_methods elided) ops)"
    by (auto simp: py_bind_eq_Inr CheckSpacing_split)
  have "n \<le> length lines" using raw by (auto simp: py_get_def CleansedLines_def split: if_split_asm)
  then have "\<forall>r \<in> set blanks. r_confidence r = 3" using blank_line_reports_confidence [OF b] by (simp add: list_all_iff)
  moreover have "not_blank q" if "q \<in> set (others n raw (drop_operator_methods elided) ops)" for q
    using others_not_blank [OF o] that by (simp add: list_all_iff)
  ultimately show ?thesis using rs assms(2, 3) by (auto simp: not_blank_def)
qed

theorem blank_line_start_never_reported_witness:
  "\<exists>rs r. CheckSpacing (CleansedLines [''f() {'', [], ''}'']) 1 new_nesting_state = Inr rs \<and> r \<in> set rs
     \<and> r_category r = ''whitespace/blank_line'' \<and> r_confidence r = 3"
proof -
  let ?rs = "[mk_report 1 ''whitespace/blank_line'' 3 ''Blank line at the end of a code block.  Is this needed?'']"
  have "CheckSpacing (CleansedLines [''f() {'', [], ''}'']) 1 new_nesting_state = Inr ?rs" by code_simp
  with blank_line_start_never_reported [OF this, of "hd ?rs"] show ?thesis by (auto simp: mk_report_def)
qed

end
