(* ===== verification/Style_Checks.thy ===== *)
theory Style_Checks
  imports Spacing_Checks
begin

text \<open>
  \<open>CheckStyle\<close> with its helpers \<open>GetLineWidth\<close>, \<open>IndentLength\<close> and \<open>IsBadIndent\<close>. It checks tabs,
  indentation, labels and line lengths itself and then calls the checks on braces and spacing.
\<close>

section \<open>Widths and indentation\<close>

text \<open>
  The properties of characters that \<open>unicodedata\<close> gives for the Latin-1 range: none is wide or full
  width, none is a combining character, and none is changed by the normal form C.
\<close>

definition wide_char :: "char \<Rightarrow> bool" where
  "wide_char c = False"

definition combining_char :: "char \<Rightarrow> bool" where
  "combining_char c = False"

fun GetLineWidth :: "string \<Rightarrow> nat" where
  "GetLineWidth [] = 0"
| "GetLineWidth (uc # line) =
     (if wide_char uc then 2 else if \<not> combining_char uc then 1 else 0) + GetLineWidth line"

fun IndentLength :: "string \<Rightarrow> nat" where
  "IndentLength [] = 0"
| "IndentLength (c # line) = (if c = CHR '' '' then Suc (IndentLength line) else 0)"

definition IsBadIndent :: "nat \<Rightarrow> string \<Rightarrow> nat \<Rightarrow> string list \<Rightarrow> bool py" where
  "IsBadIndent initial_spaces line linenum raw_lines =
     (if initial_spaces mod 2 = 0 then Inr False
      else if linenum = 0 then Inr True
      else if line = [CHR '' '', CHR 0x5C] then Inr False
      else if py_find line ''public:'' \<noteq> -1 \<or> py_find line ''protected:'' \<noteq> -1 \<or> py_find line ''private:'' \<noteq> -1 then Inr False
      else py_bind (py_get raw_lines (int linenum - 1)) (\<lambda>prev_line.
        Inr (if length prev_line < initial_spaces then True
             else if prev_line ! (initial_spaces - 1) \<in> set ''(<['' then False
             else let prev_indent = IndentLength prev_line
                  in if prev_indent = initial_spaces then False
                     else if initial_spaces + 2 < length prev_line \<and> prev_indent + 2 = initial_spaces
                          \<and> take 2 (drop prev_indent prev_line) = '': '' \<and> prev_line ! initial_spaces \<noteq> CHR '' '' then False
                     else if initial_spaces < length prev_line \<and> \<not> py_space (prev_line ! initial_spaces)
                          \<and> py_space (prev_line ! (initial_spaces - 1)) then False
                     else True)))"

section \<open>CheckStyle\<close>

definition is_header_guard :: "file_system \<Rightarrow> string \<Rightarrow> string \<Rightarrow> string \<Rightarrow> bool py" where
  "is_header_guard fs filename ext line =
     (if IsHeaderFileExtension ext then
        py_bind (GetHeaderGuardCPPVariable fs filename) (\<lambda>cppvar.
          Inr (py_startswith line (''#ifndef '' @ cppvar) \<or> py_startswith line (''#define '' @ cppvar)
             \<or> py_startswith line (''#endif // '' @ cppvar)))
      else Inr False)"

definition line_length_reports :: "nat \<Rightarrow> string \<Rightarrow> bool \<Rightarrow> report list" where
  "line_length_reports linenum line header_guard =
     (if \<not> py_startswith line ''#include'' \<and> \<not> header_guard \<and> \<not> matches RE_URL line \<and> \<not> matches RE_ID_LINE line
         \<and> \<not> py_startswith line ''#if'' \<and> \<not> py_startswith line ''#elif'' then
        (let line_width = GetLineWidth line
         in if 80 < line_width then
              report_if True linenum ''whitespace/line_length'' 4 ''Lines should very rarely be longer than 80 characters''
            else report_if (100 < line_width) linenum ''whitespace/line_length'' 2 ''Lines should be <= 100 characters long'')
      else [])"

definition several_commands :: "clean_lines \<Rightarrow> nat \<Rightarrow> string \<Rightarrow> bool" where
  "several_commands cl linenum cleansed_line \<longleftrightarrow>
     (let prevline = fst (GetPreviousNonBlankLine cl (int linenum))
      in 1 < py_count cleansed_line '';'' \<and> py_find cleansed_line ''for'' = -1
         \<and> (py_find prevline ''for'' = -1 \<or> py_find prevline '';'' \<noteq> -1)
         \<and> \<not> ((py_find cleansed_line ''case '' \<noteq> -1 \<or> py_find cleansed_line ''default:'' \<noteq> -1)
              \<and> py_find cleansed_line ''break;'' \<noteq> -1))"

text \<open>The tests that \<open>CheckStyle\<close> makes before it calls the other checks.\<close>

definition style_reports :: "file_system \<Rightarrow> string \<Rightarrow> string \<Rightarrow> clean_lines \<Rightarrow> nat \<Rightarrow> report list py" where
  "style_reports fs filename ext cl linenum =
     py_bind (py_get (cl_raw cl) (int linenum)) (\<lambda>line.
     py_bind (py_get (cl_elided cl) (int linenum)) (\<lambda>cleansed_line.
     let initial_spaces = IndentLength line
     in py_bind (IsBadIndent initial_spaces line linenum (cl_raw cl)) (\<lambda>bad_indent.
        py_bind (is_header_guard fs filename ext line) (\<lambda>header_guard.
          Inr (report_if (py_find line [CHR 0x09] \<noteq> -1) linenum ''whitespace/tab'' 1 ''Tab found; better to use spaces''
             @ report_if (line \<noteq> [] \<and> py_space (last line)) linenum ''whitespace/end_of_line'' 4
                 ''Line ends in whitespace.  Consider deleting these extra spaces.''
             @ report_if bad_indent linenum ''whitespace/indent'' 3
                 ''Weird number of spaces at line-start. Are you using a 4-space indent?''
             @ report_if (initial_spaces \<noteq> 0 \<and> take 2 line \<noteq> ''//'' \<and> searches RE_LABEL line \<and> \<not> searches RE_NOT_LABEL line)
                 linenum ''whitespace/labels'' 4 ''Labels should always be not indented.''
             @ line_length_reports linenum line header_guard
             @ report_if (several_commands cl linenum cleansed_line) linenum ''whitespace/newline'' 4
                 ''More than one command on the same line'')))))"

definition CheckStyle ::
  "file_system \<Rightarrow> string \<Rightarrow> string \<Rightarrow> clean_lines \<Rightarrow> nat \<Rightarrow> nesting_state \<Rightarrow> report list py" where
  "CheckStyle fs filename ext cl linenum st =
     py_bind (style_reports fs filename ext cl linenum) (\<lambda>rs1.
     py_bind (CheckBraces cl linenum) (\<lambda>rs2.
     py_bind (CheckEmptyLoopBody cl linenum) (\<lambda>rs3.
     py_bind (CheckAccess cl linenum st) (\<lambda>rs4.
     py_bind (CheckSpacing cl linenum st) (\<lambda>rs5.
     py_bind (CheckCheck cl linenum) (\<lambda>rs6.
     py_bind (CheckAltTokens cl linenum) (\<lambda>rs7.
     py_bind (case InnermostClass st of None \<Rightarrow> Inr [] | Some (b, c) \<Rightarrow> CheckSectionSpacing cl c linenum) (\<lambda>rs8.
       Inr (rs1 @ rs2 @ rs3 @ rs4 @ rs5 @ rs6 @ rs7 @ rs8)))))))))"

section \<open>The length of a line\<close>

lemma GetLineWidth_length: "GetLineWidth line = length line"
  by (induction line) (simp_all add: wide_char_def combining_char_def)

lemma IndentLength_takeWhile: "IndentLength line = length (takeWhile (\<lambda>c. c = CHR '' '') line)"
  by (induction line) simp_all

section \<open>Properties\<close>

text \<open>
  C38: A continuation line is well indented when it is aligned with the text after the last bracket
  that opens the line above: with an odd or even number of spaces, a line that starts in the column
  after a bracket is never called badly indented.
\<close>

theorem aligned_after_bracket:
  assumes "raw ! n = p @ [b] @ t" "b \<in> set ''(<[''" "raw ! Suc n = replicate (Suc (length p)) (CHR '' '') @ c # u" "c \<noteq> CHR '' ''"
    and "Suc n < length raw"
  shows "IsBadIndent (IndentLength (raw ! Suc n)) (raw ! Suc n) (Suc n) raw = Inr False"
proof -
  have i: "IndentLength (raw ! Suc n) = Suc (length p)"
    using assms(4) by (simp add: assms(3) IndentLength_takeWhile takeWhile_append)
  have "py_get raw (int (Suc n) - 1) = Inr (raw ! n)" using assms(5) by (simp add: py_get_def Let_def)
  then show ?thesis unfolding i using assms(1,2) by (auto simp: IsBadIndent_def nth_append)
qed

lemma aligned_after_bracket_witness: "IsBadIndent 5 ''     b);'' 1 [''foo((a,'', ''     b);''] = Inr False"
proof -
  have i: "IndentLength ''     b);'' = 5" by code_simp
  have 1: "[''foo((a,'', ''     b);''] ! 0 = ''foo('' @ ''('' @ ''a,''" by simp
  have 2: "[''foo((a,'', ''     b);''] ! Suc 0 = replicate (Suc (length ''foo('')) (CHR '' '') @ CHR ''b'' # '');''" by simp
  show ?thesis using aligned_after_bracket [OF 1 _ 2] i by (simp add: eval_nat_numeral)
qed

end
