(* ===== verification/Language_Patterns.thy ===== *)
theory Language_Patterns
  imports Regex_Parser
begin

text \<open>
  The regular expressions of the checks of the language rules (references, casts, C types, printf,
  memset, arrays), in the same form as in \<open>Patterns\<close>.
\<close>

section \<open>The texts\<close>

definition RE_REF_ANY :: regex where
  \<open>RE_REF_ANY = rx ''`([^()]*`b(?:[`w:]|<[^()]*>)+(`s?&|&`s?)`w+''\<close>

definition RE_REF_CONST_BEFORE :: regex where
  \<open>RE_REF_CONST_BEFORE = rx ''`([^()]*`bconst`s+(?:typename`s+)?(?:struct`s+)?(?:[`w:]|<[^()]*>)+(`s?&|&`s?)`w+''\<close>

definition RE_REF_CONST_AFTER :: regex where
  \<open>RE_REF_CONST_AFTER = rx ''`([^()]*`b(?:[`w:]|<[^()]*>)+`s+const(`s?&|&`s?)[`w]+''\<close>

definition RE_REF_ALLOWED :: regex where
  \<open>RE_REF_ALLOWED = rx ''(for|swap|Swap|operator[<>][<>])`s*`(`s*(?:(?:typename`s*)?[`w:]|<.*>)+`s*&''\<close>

definition RE_FUNCTION_CAST :: regex where
  \<open>RE_FUNCTION_CAST = rx ''(`bnew`s+)?`b(int|float|double|bool|char|int32|uint32|int64|uint64)`([^)]''\<close>

definition RE_MOCK_METHOD :: regex where
  \<open>RE_MOCK_METHOD = rx ''^`s*MOCK_(CONST_)?METHOD`d+(_T)?`(''\<close>

definition RE_MOCK_CALLBACK :: regex where
  \<open>RE_MOCK_CALLBACK = rx ''^`s*MockCallback<.*>''\<close>

definition RE_MOCK_SPLIT :: regex where
  \<open>RE_MOCK_SPLIT = rx ''^`s*MOCK_(CONST_)?METHOD`d+(_T)?`(`S+,`s*$''\<close>

definition RE_STATIC_CAST :: regex where
  \<open>RE_STATIC_CAST = rx ''`((int|float|double|bool|char|u?int(16|32|64)_t)`)''\<close>

definition RE_CONST_CAST :: regex where
  \<open>RE_CONST_CAST = rx ''`((char`s?`*+`s?)`)`s*"''\<close>

definition RE_REINTERPRET_CAST :: regex where
  \<open>RE_REINTERPRET_CAST = rx ''`((`w+`s?`*+`s?)`)''\<close>

definition RE_SIZEOF_TYPE :: regex where
  \<open>RE_SIZEOF_TYPE = rx ''sizeof`s*(int|float|double|bool|char|u?int(16|32|64)_t)''\<close>

definition RE_ADDRESS_OF_CAST :: regex where
  \<open>RE_ADDRESS_OF_CAST = rx ''(&`([^)]+`)[`w(])|(&(static|dynamic|reinterpret)_cast`b)''\<close>

definition RE_GLOBAL_STRING :: regex where
  \<open>RE_GLOBAL_STRING = rx ''((?:|static +)(?:|const +))string +([a-zA-Z0-9_:]+)`b(.*)''\<close>

definition RE_STRING_FUNCTION :: regex where
  \<open>RE_STRING_FUNCTION = rx ''`s*(<.*>)?(::[a-zA-Z0-9_]+)?`s*`(([^"]|$)''\<close>

definition RE_DYNAMIC_CAST :: regex where
  \<open>RE_DYNAMIC_CAST = rx ''`bdynamic_cast<''\<close>

definition RE_SELF_INIT :: regex where
  \<open>RE_SELF_INIT = rx ''`b([A-Za-z0-9_]*_)`(`1`)''\<close>

definition RE_SHORT_PORT :: regex where
  \<open>RE_SHORT_PORT = rx ''`bshort port`b''\<close>

definition RE_UNSIGNED_SHORT_PORT :: regex where
  \<open>RE_UNSIGNED_SHORT_PORT = rx ''`bunsigned short port`b''\<close>

definition RE_C_INT :: regex where
  \<open>RE_C_INT = rx ''`b(short|long(?! +double)|long long)`b''\<close>

definition RE_SNPRINTF :: regex where
  \<open>RE_SNPRINTF = rx ''snprintf`s*`(([^,]*),`s*([0-9]*)`s*,''\<close>

definition RE_SPRINTF :: regex where
  \<open>RE_SPRINTF = rx ''`bsprintf`b''\<close>

definition RE_STRCPY :: regex where
  \<open>RE_STRCPY = rx ''`b(strcpy|strcat)`b''\<close>

definition RE_SSCANF :: regex where
  \<open>RE_SSCANF = rx ''`bsscanf`b''\<close>

definition RE_UNARY_AMP :: regex where
  \<open>RE_UNARY_AMP = rx ''`boperator`s*&`s*`(`s*`)''\<close>

definition RE_CLOSE_IF :: regex where
  \<open>RE_CLOSE_IF = rx ''`}`s*if`s*`(''\<close>

definition RE_PRINTF_OPEN :: regex where
  \<open>RE_PRINTF_OPEN = rx ''(?i)`b(string)?printf`s*`(''\<close>

definition RE_PRINTF_ARG :: regex where
  \<open>RE_PRINTF_ARG = rx ''([`w.`->()]+)$''\<close>

definition RE_PRINTF_NAME :: regex where
  \<open>RE_PRINTF_NAME = rx_i ''`b((?:string)?printf)`s*`(''\<close>

definition RE_MEMSET :: regex where
  \<open>RE_MEMSET = rx ''memset`s*`(([^,]*),`s*([^,]*),`s*0`s*`)''\<close>

definition RE_MEMSET_VALUE :: regex where
  \<open>RE_MEMSET_VALUE = rx (''^'' @ [CHR 0x27, CHR 0x27] @ ''|-?[0-9]+|0x[0-9A-Fa-f]$'')\<close>

definition RE_USING_NAMESPACE :: regex where
  \<open>RE_USING_NAMESPACE = rx ''^`s*using namespace`b''\<close>

definition RE_ARRAY_DECL :: regex where
  \<open>RE_ARRAY_DECL = rx ''`s*(.+::)?(`w+) [a-z]`w*`[(.+)];''\<close>

definition RE_SIZE_DELIMITER :: regex where
  \<open>RE_SIZE_DELIMITER = rx ''`s|`+|`-|`*|`/|<<|>>]''\<close>

definition RE_SIZEOF_CALL :: regex where
  \<open>RE_SIZEOF_CALL = rx ''sizeof`(.+`)''\<close>

definition RE_ARRAYSIZE_CALL :: regex where
  \<open>RE_ARRAYSIZE_CALL = rx ''arraysize`(`w+`)''\<close>

definition RE_DIGITS :: regex where
  \<open>RE_DIGITS = rx ''`d+''\<close>

definition RE_HEX :: regex where
  \<open>RE_HEX = rx ''0[xX][0-9a-fA-F]+''\<close>

definition RE_K_CONSTANT :: regex where
  \<open>RE_K_CONSTANT = rx ''k[A-Z0-9]`w*''\<close>

definition RE_SCOPED_K_CONSTANT :: regex where
  \<open>RE_SCOPED_K_CONSTANT = rx ''(.+::)?k[A-Z0-9]`w*''\<close>

definition RE_CAPS_CONSTANT :: regex where
  \<open>RE_CAPS_CONSTANT = rx ''(.+::)?[A-Z][A-Z0-9_]*''\<close>

definition RE_DISALLOW_LAST :: regex where
  \<open>RE_DISALLOW_LAST = rx ''`s*(DISALLOW_(EVIL_CONSTRUCTORS|COPY_AND_ASSIGN|IMPLICIT_CONSTRUCTORS))`(.*`);$''\<close>

definition RE_CLASS_CLOSE :: regex where
  \<open>RE_CLASS_CLOSE = rx ''^`s*}[`w`*,`s]*;''\<close>

definition RE_UNNAMED_NAMESPACE :: regex where
  \<open>RE_UNNAMED_NAMESPACE = rx ''`bnamespace`s*{''\<close>

definition RE_SIZEOF_HERE :: regex where
  \<open>RE_SIZEOF_HERE = rx ''sizeof`s*''\<close>

definition RE_SIZEOF_BEFORE :: regex where
  \<open>RE_SIZEOF_BEFORE = rx ''.*sizeof`s*$''\<close>

definition RE_FUNCTION_AFTER :: regex where
  \<open>RE_FUNCTION_AFTER = rx ''`s*(`)|=|(const)?`s*(;|`{|throw`(`)|>))''\<close>

definition RE_NAMED_PARAM_END :: regex where
  \<open>RE_NAMED_PARAM_END = rx ''`(`w+`)`s*({|$)''\<close>

definition RE_STRING_WORD :: regex where
  \<open>RE_STRING_WORD = rx ''`bstring`b''\<close>

section \<open>The trees\<close>

text \<open>
  What the compiler makes of each pattern. As code equations these let an evaluation start from the
  tree instead of the text.
\<close>

lemma RE_REF_ANY_tree [code]:
  \<open>RE_REF_ANY =
     RSeq (RLit CHR ''('') (RSeq (RRep True 0 None (RSet True [CChar CHR ''('', CChar CHR
     '')''])) (RSeq RWordB (RSeq (RRep True 1 None (RAlt (RSet False [CWord True, CChar CHR
     '':'']) (RSeq (RLit CHR ''<'') (RSeq (RRep True 0 None (RSet True [CChar CHR ''('', CChar
     CHR '')''])) (RLit CHR ''>''))))) (RSeq (RGroup 1 (RAlt (RSeq (RRep True 0 (Some 1) (RSet
     False [CSpace True])) (RLit CHR ''&'')) (RSeq (RLit CHR ''&'') (RRep True 0 (Some 1) (RSet
     False [CSpace True]))))) (RRep True 1 None (RSet False [CWord True]))))))\<close>
  by code_simp

lemma RE_REF_CONST_BEFORE_tree [code]:
  \<open>RE_REF_CONST_BEFORE =
     RSeq (RLit CHR ''('') (RSeq (RRep True 0 None (RSet True [CChar CHR ''('', CChar CHR
     '')''])) (RSeq RWordB (RSeq (RLit CHR ''c'') (RSeq (RLit CHR ''o'') (RSeq (RLit CHR ''n'')
     (RSeq (RLit CHR ''s'') (RSeq (RLit CHR ''t'') (RSeq (RRep True 1 None (RSet False [CSpace
     True])) (RSeq (RRep True 0 (Some 1) (RSeq (RLit CHR ''t'') (RSeq (RLit CHR ''y'') (RSeq
     (RLit CHR ''p'') (RSeq (RLit CHR ''e'') (RSeq (RLit CHR ''n'') (RSeq (RLit CHR ''a'') (RSeq
     (RLit CHR ''m'') (RSeq (RLit CHR ''e'') (RRep True 1 None (RSet False [CSpace
     True]))))))))))) (RSeq (RRep True 0 (Some 1) (RSeq (RLit CHR ''s'') (RSeq (RLit CHR ''t'')
     (RSeq (RLit CHR ''r'') (RSeq (RLit CHR ''u'') (RSeq (RLit CHR ''c'') (RSeq (RLit CHR ''t'')
     (RRep True 1 None (RSet False [CSpace True]))))))))) (RSeq (RRep True 1 None (RAlt (RSet
     False [CWord True, CChar CHR '':'']) (RSeq (RLit CHR ''<'') (RSeq (RRep True 0 None (RSet
     True [CChar CHR ''('', CChar CHR '')''])) (RLit CHR ''>''))))) (RSeq (RGroup 1 (RAlt (RSeq
     (RRep True 0 (Some 1) (RSet False [CSpace True])) (RLit CHR ''&'')) (RSeq (RLit CHR ''&'')
     (RRep True 0 (Some 1) (RSet False [CSpace True]))))) (RRep True 1 None (RSet False [CWord
     True]))))))))))))))\<close>
  by code_simp

lemma RE_REF_CONST_AFTER_tree [code]:
  \<open>RE_REF_CONST_AFTER =
     RSeq (RLit CHR ''('') (RSeq (RRep True 0 None (RSet True [CChar CHR ''('', CChar CHR
     '')''])) (RSeq RWordB (RSeq (RRep True 1 None (RAlt (RSet False [CWord True, CChar CHR
     '':'']) (RSeq (RLit CHR ''<'') (RSeq (RRep True 0 None (RSet True [CChar CHR ''('', CChar
     CHR '')''])) (RLit CHR ''>''))))) (RSeq (RRep True 1 None (RSet False [CSpace True])) (RSeq
     (RLit CHR ''c'') (RSeq (RLit CHR ''o'') (RSeq (RLit CHR ''n'') (RSeq (RLit CHR ''s'') (RSeq
     (RLit CHR ''t'') (RSeq (RGroup 1 (RAlt (RSeq (RRep True 0 (Some 1) (RSet False [CSpace
     True])) (RLit CHR ''&'')) (RSeq (RLit CHR ''&'') (RRep True 0 (Some 1) (RSet False [CSpace
     True]))))) (RRep True 1 None (RSet False [CWord True]))))))))))))\<close>
  by code_simp

lemma RE_REF_ALLOWED_tree [code]:
  \<open>RE_REF_ALLOWED =
     RSeq (RGroup 1 (RAlt (RSeq (RLit CHR ''f'') (RSeq (RLit CHR ''o'') (RLit CHR ''r''))) (RAlt
     (RSeq (RLit CHR ''s'') (RSeq (RLit CHR ''w'') (RSeq (RLit CHR ''a'') (RLit CHR ''p''))))
     (RAlt (RSeq (RLit CHR ''S'') (RSeq (RLit CHR ''w'') (RSeq (RLit CHR ''a'') (RLit CHR
     ''p'')))) (RSeq (RLit CHR ''o'') (RSeq (RLit CHR ''p'') (RSeq (RLit CHR ''e'') (RSeq (RLit
     CHR ''r'') (RSeq (RLit CHR ''a'') (RSeq (RLit CHR ''t'') (RSeq (RLit CHR ''o'') (RSeq (RLit
     CHR ''r'') (RSeq (RSet False [CChar CHR ''<'', CChar CHR ''>'']) (RSet False [CChar CHR
     ''<'', CChar CHR ''>''])))))))))))))) (RSeq (RRep True 0 None (RSet False [CSpace True]))
     (RSeq (RLit CHR ''('') (RSeq (RRep True 0 None (RSet False [CSpace True])) (RSeq (RRep True
     1 None (RAlt (RSeq (RRep True 0 (Some 1) (RSeq (RLit CHR ''t'') (RSeq (RLit CHR ''y'')
     (RSeq (RLit CHR ''p'') (RSeq (RLit CHR ''e'') (RSeq (RLit CHR ''n'') (RSeq (RLit CHR ''a'')
     (RSeq (RLit CHR ''m'') (RSeq (RLit CHR ''e'') (RRep True 0 None (RSet False [CSpace
     True]))))))))))) (RSet False [CWord True, CChar CHR '':''])) (RSeq (RLit CHR ''<'') (RSeq
     (RRep True 0 None RAny) (RLit CHR ''>''))))) (RSeq (RRep True 0 None (RSet False [CSpace
     True])) (RLit CHR ''&''))))))\<close>
  by code_simp

lemma RE_FUNCTION_CAST_tree [code]:
  \<open>RE_FUNCTION_CAST =
     RSeq (RRep True 0 (Some 1) (RGroup 1 (RSeq RWordB (RSeq (RLit CHR ''n'') (RSeq (RLit CHR
     ''e'') (RSeq (RLit CHR ''w'') (RRep True 1 None (RSet False [CSpace True])))))))) (RSeq
     RWordB (RSeq (RGroup 2 (RAlt (RSeq (RLit CHR ''i'') (RSeq (RLit CHR ''n'') (RLit CHR
     ''t''))) (RAlt (RSeq (RLit CHR ''f'') (RSeq (RLit CHR ''l'') (RSeq (RLit CHR ''o'') (RSeq
     (RLit CHR ''a'') (RLit CHR ''t''))))) (RAlt (RSeq (RLit CHR ''d'') (RSeq (RLit CHR ''o'')
     (RSeq (RLit CHR ''u'') (RSeq (RLit CHR ''b'') (RSeq (RLit CHR ''l'') (RLit CHR ''e''))))))
     (RAlt (RSeq (RLit CHR ''b'') (RSeq (RLit CHR ''o'') (RSeq (RLit CHR ''o'') (RLit CHR
     ''l'')))) (RAlt (RSeq (RLit CHR ''c'') (RSeq (RLit CHR ''h'') (RSeq (RLit CHR ''a'') (RLit
     CHR ''r'')))) (RAlt (RSeq (RLit CHR ''i'') (RSeq (RLit CHR ''n'') (RSeq (RLit CHR ''t'')
     (RSeq (RLit CHR ''3'') (RLit CHR ''2''))))) (RAlt (RSeq (RLit CHR ''u'') (RSeq (RLit CHR
     ''i'') (RSeq (RLit CHR ''n'') (RSeq (RLit CHR ''t'') (RSeq (RLit CHR ''3'') (RLit CHR
     ''2'')))))) (RAlt (RSeq (RLit CHR ''i'') (RSeq (RLit CHR ''n'') (RSeq (RLit CHR ''t'')
     (RSeq (RLit CHR ''6'') (RLit CHR ''4''))))) (RSeq (RLit CHR ''u'') (RSeq (RLit CHR ''i'')
     (RSeq (RLit CHR ''n'') (RSeq (RLit CHR ''t'') (RSeq (RLit CHR ''6'') (RLit CHR
     ''4''))))))))))))))) (RSeq (RLit CHR ''('') (RSet True [CChar CHR '')'']))))\<close>
  by code_simp

lemma RE_MOCK_METHOD_tree [code]:
  \<open>RE_MOCK_METHOD =
     RSeq RBol (RSeq (RRep True 0 None (RSet False [CSpace True])) (RSeq (RLit CHR ''M'') (RSeq
     (RLit CHR ''O'') (RSeq (RLit CHR ''C'') (RSeq (RLit CHR ''K'') (RSeq (RLit CHR ''_'') (RSeq
     (RRep True 0 (Some 1) (RGroup 1 (RSeq (RLit CHR ''C'') (RSeq (RLit CHR ''O'') (RSeq (RLit
     CHR ''N'') (RSeq (RLit CHR ''S'') (RSeq (RLit CHR ''T'') (RLit CHR ''_'')))))))) (RSeq
     (RLit CHR ''M'') (RSeq (RLit CHR ''E'') (RSeq (RLit CHR ''T'') (RSeq (RLit CHR ''H'') (RSeq
     (RLit CHR ''O'') (RSeq (RLit CHR ''D'') (RSeq (RRep True 1 None (RSet False [CDigit True]))
     (RSeq (RRep True 0 (Some 1) (RGroup 2 (RSeq (RLit CHR ''_'') (RLit CHR ''T'')))) (RLit CHR
     ''(''))))))))))))))))\<close>
  by code_simp

lemma RE_MOCK_CALLBACK_tree [code]:
  \<open>RE_MOCK_CALLBACK =
     RSeq RBol (RSeq (RRep True 0 None (RSet False [CSpace True])) (RSeq (RLit CHR ''M'') (RSeq
     (RLit CHR ''o'') (RSeq (RLit CHR ''c'') (RSeq (RLit CHR ''k'') (RSeq (RLit CHR ''C'') (RSeq
     (RLit CHR ''a'') (RSeq (RLit CHR ''l'') (RSeq (RLit CHR ''l'') (RSeq (RLit CHR ''b'') (RSeq
     (RLit CHR ''a'') (RSeq (RLit CHR ''c'') (RSeq (RLit CHR ''k'') (RSeq (RLit CHR ''<'') (RSeq
     (RRep True 0 None RAny) (RLit CHR ''>''))))))))))))))))\<close>
  by code_simp

lemma RE_MOCK_SPLIT_tree [code]:
  \<open>RE_MOCK_SPLIT =
     RSeq RBol (RSeq (RRep True 0 None (RSet False [CSpace True])) (RSeq (RLit CHR ''M'') (RSeq
     (RLit CHR ''O'') (RSeq (RLit CHR ''C'') (RSeq (RLit CHR ''K'') (RSeq (RLit CHR ''_'') (RSeq
     (RRep True 0 (Some 1) (RGroup 1 (RSeq (RLit CHR ''C'') (RSeq (RLit CHR ''O'') (RSeq (RLit
     CHR ''N'') (RSeq (RLit CHR ''S'') (RSeq (RLit CHR ''T'') (RLit CHR ''_'')))))))) (RSeq
     (RLit CHR ''M'') (RSeq (RLit CHR ''E'') (RSeq (RLit CHR ''T'') (RSeq (RLit CHR ''H'') (RSeq
     (RLit CHR ''O'') (RSeq (RLit CHR ''D'') (RSeq (RRep True 1 None (RSet False [CDigit True]))
     (RSeq (RRep True 0 (Some 1) (RGroup 2 (RSeq (RLit CHR ''_'') (RLit CHR ''T'')))) (RSeq
     (RLit CHR ''('') (RSeq (RRep True 1 None (RSet False [CSpace False])) (RSeq (RLit CHR
     '','') (RSeq (RRep True 0 None (RSet False [CSpace True])) REol)))))))))))))))))))\<close>
  by code_simp

lemma RE_STATIC_CAST_tree [code]:
  \<open>RE_STATIC_CAST =
     RSeq (RLit CHR ''('') (RSeq (RGroup 1 (RAlt (RSeq (RLit CHR ''i'') (RSeq (RLit CHR ''n'')
     (RLit CHR ''t''))) (RAlt (RSeq (RLit CHR ''f'') (RSeq (RLit CHR ''l'') (RSeq (RLit CHR
     ''o'') (RSeq (RLit CHR ''a'') (RLit CHR ''t''))))) (RAlt (RSeq (RLit CHR ''d'') (RSeq (RLit
     CHR ''o'') (RSeq (RLit CHR ''u'') (RSeq (RLit CHR ''b'') (RSeq (RLit CHR ''l'') (RLit CHR
     ''e'')))))) (RAlt (RSeq (RLit CHR ''b'') (RSeq (RLit CHR ''o'') (RSeq (RLit CHR ''o'')
     (RLit CHR ''l'')))) (RAlt (RSeq (RLit CHR ''c'') (RSeq (RLit CHR ''h'') (RSeq (RLit CHR
     ''a'') (RLit CHR ''r'')))) (RSeq (RRep True 0 (Some 1) (RLit CHR ''u'')) (RSeq (RLit CHR
     ''i'') (RSeq (RLit CHR ''n'') (RSeq (RLit CHR ''t'') (RSeq (RGroup 2 (RAlt (RSeq (RLit CHR
     ''1'') (RLit CHR ''6'')) (RAlt (RSeq (RLit CHR ''3'') (RLit CHR ''2'')) (RSeq (RLit CHR
     ''6'') (RLit CHR ''4''))))) (RSeq (RLit CHR ''_'') (RLit CHR ''t''))))))))))))) (RLit CHR
     '')''))\<close>
  by code_simp

lemma RE_CONST_CAST_tree [code]:
  \<open>RE_CONST_CAST =
     RSeq (RLit CHR ''('') (RSeq (RGroup 1 (RSeq (RLit CHR ''c'') (RSeq (RLit CHR ''h'') (RSeq
     (RLit CHR ''a'') (RSeq (RLit CHR ''r'') (RSeq (RRep True 0 (Some 1) (RSet False [CSpace
     True])) (RSeq (RRep True 1 None (RLit CHR ''*'')) (RRep True 0 (Some 1) (RSet False [CSpace
     True]))))))))) (RSeq (RLit CHR '')'') (RSeq (RRep True 0 None (RSet False [CSpace True]))
     (RLit CHR 0x22))))\<close>
  by code_simp

lemma RE_REINTERPRET_CAST_tree [code]:
  \<open>RE_REINTERPRET_CAST =
     RSeq (RLit CHR ''('') (RSeq (RGroup 1 (RSeq (RRep True 1 None (RSet False [CWord True]))
     (RSeq (RRep True 0 (Some 1) (RSet False [CSpace True])) (RSeq (RRep True 1 None (RLit CHR
     ''*'')) (RRep True 0 (Some 1) (RSet False [CSpace True])))))) (RLit CHR '')''))\<close>
  by code_simp

lemma RE_SIZEOF_TYPE_tree [code]:
  \<open>RE_SIZEOF_TYPE =
     RSeq (RLit CHR ''s'') (RSeq (RLit CHR ''i'') (RSeq (RLit CHR ''z'') (RSeq (RLit CHR ''e'')
     (RSeq (RLit CHR ''o'') (RSeq (RLit CHR ''f'') (RSeq (RRep True 0 None (RSet False [CSpace
     True])) (RGroup 1 (RAlt (RSeq (RLit CHR ''i'') (RSeq (RLit CHR ''n'') (RLit CHR ''t'')))
     (RAlt (RSeq (RLit CHR ''f'') (RSeq (RLit CHR ''l'') (RSeq (RLit CHR ''o'') (RSeq (RLit CHR
     ''a'') (RLit CHR ''t''))))) (RAlt (RSeq (RLit CHR ''d'') (RSeq (RLit CHR ''o'') (RSeq (RLit
     CHR ''u'') (RSeq (RLit CHR ''b'') (RSeq (RLit CHR ''l'') (RLit CHR ''e'')))))) (RAlt (RSeq
     (RLit CHR ''b'') (RSeq (RLit CHR ''o'') (RSeq (RLit CHR ''o'') (RLit CHR ''l'')))) (RAlt
     (RSeq (RLit CHR ''c'') (RSeq (RLit CHR ''h'') (RSeq (RLit CHR ''a'') (RLit CHR ''r''))))
     (RSeq (RRep True 0 (Some 1) (RLit CHR ''u'')) (RSeq (RLit CHR ''i'') (RSeq (RLit CHR ''n'')
     (RSeq (RLit CHR ''t'') (RSeq (RGroup 2 (RAlt (RSeq (RLit CHR ''1'') (RLit CHR ''6'')) (RAlt
     (RSeq (RLit CHR ''3'') (RLit CHR ''2'')) (RSeq (RLit CHR ''6'') (RLit CHR ''4''))))) (RSeq
     (RLit CHR ''_'') (RLit CHR ''t'')))))))))))))))))))\<close>
  by code_simp

lemma RE_ADDRESS_OF_CAST_tree [code]:
  \<open>RE_ADDRESS_OF_CAST =
     RAlt (RGroup 1 (RSeq (RLit CHR ''&'') (RSeq (RLit CHR ''('') (RSeq (RRep True 1 None (RSet
     True [CChar CHR '')''])) (RSeq (RLit CHR '')'') (RSet False [CWord True, CChar CHR
     ''(''])))))) (RGroup 2 (RSeq (RLit CHR ''&'') (RSeq (RGroup 3 (RAlt (RSeq (RLit CHR ''s'')
     (RSeq (RLit CHR ''t'') (RSeq (RLit CHR ''a'') (RSeq (RLit CHR ''t'') (RSeq (RLit CHR ''i'')
     (RLit CHR ''c'')))))) (RAlt (RSeq (RLit CHR ''d'') (RSeq (RLit CHR ''y'') (RSeq (RLit CHR
     ''n'') (RSeq (RLit CHR ''a'') (RSeq (RLit CHR ''m'') (RSeq (RLit CHR ''i'') (RLit CHR
     ''c''))))))) (RSeq (RLit CHR ''r'') (RSeq (RLit CHR ''e'') (RSeq (RLit CHR ''i'') (RSeq
     (RLit CHR ''n'') (RSeq (RLit CHR ''t'') (RSeq (RLit CHR ''e'') (RSeq (RLit CHR ''r'') (RSeq
     (RLit CHR ''p'') (RSeq (RLit CHR ''r'') (RSeq (RLit CHR ''e'') (RLit CHR
     ''t'')))))))))))))) (RSeq (RLit CHR ''_'') (RSeq (RLit CHR ''c'') (RSeq (RLit CHR ''a'')
     (RSeq (RLit CHR ''s'') (RSeq (RLit CHR ''t'') RWordB))))))))\<close>
  by code_simp

lemma RE_GLOBAL_STRING_tree [code]:
  \<open>RE_GLOBAL_STRING =
     RSeq (RGroup 1 (RSeq (RAlt REmpty (RSeq (RLit CHR ''s'') (RSeq (RLit CHR ''t'') (RSeq (RLit
     CHR ''a'') (RSeq (RLit CHR ''t'') (RSeq (RLit CHR ''i'') (RSeq (RLit CHR ''c'') (RRep True
     1 None (RLit CHR 0x20))))))))) (RAlt REmpty (RSeq (RLit CHR ''c'') (RSeq (RLit CHR ''o'')
     (RSeq (RLit CHR ''n'') (RSeq (RLit CHR ''s'') (RSeq (RLit CHR ''t'') (RRep True 1 None
     (RLit CHR 0x20)))))))))) (RSeq (RLit CHR ''s'') (RSeq (RLit CHR ''t'') (RSeq (RLit CHR
     ''r'') (RSeq (RLit CHR ''i'') (RSeq (RLit CHR ''n'') (RSeq (RLit CHR ''g'') (RSeq (RRep
     True 1 None (RLit CHR 0x20)) (RSeq (RGroup 2 (RRep True 1 None (RSet False [CRange CHR
     ''a'' CHR ''z'', CRange CHR ''A'' CHR ''Z'', CRange CHR ''0'' CHR ''9'', CChar CHR ''_'',
     CChar CHR '':'']))) (RSeq RWordB (RGroup 3 (RRep True 0 None RAny)))))))))))\<close>
  by code_simp

lemma RE_STRING_FUNCTION_tree [code]:
  \<open>RE_STRING_FUNCTION =
     RSeq (RRep True 0 None (RSet False [CSpace True])) (RSeq (RRep True 0 (Some 1) (RGroup 1
     (RSeq (RLit CHR ''<'') (RSeq (RRep True 0 None RAny) (RLit CHR ''>''))))) (RSeq (RRep True
     0 (Some 1) (RGroup 2 (RSeq (RLit CHR '':'') (RSeq (RLit CHR '':'') (RRep True 1 None (RSet
     False [CRange CHR ''a'' CHR ''z'', CRange CHR ''A'' CHR ''Z'', CRange CHR ''0'' CHR ''9'',
     CChar CHR ''_''])))))) (RSeq (RRep True 0 None (RSet False [CSpace True])) (RSeq (RLit CHR
     ''('') (RGroup 3 (RAlt (RSet True [CChar CHR 0x22]) REol))))))\<close>
  by code_simp

lemma RE_DYNAMIC_CAST_tree [code]:
  \<open>RE_DYNAMIC_CAST =
     RSeq RWordB (RSeq (RLit CHR ''d'') (RSeq (RLit CHR ''y'') (RSeq (RLit CHR ''n'') (RSeq
     (RLit CHR ''a'') (RSeq (RLit CHR ''m'') (RSeq (RLit CHR ''i'') (RSeq (RLit CHR ''c'') (RSeq
     (RLit CHR ''_'') (RSeq (RLit CHR ''c'') (RSeq (RLit CHR ''a'') (RSeq (RLit CHR ''s'') (RSeq
     (RLit CHR ''t'') (RLit CHR ''<'')))))))))))))\<close>
  by code_simp

lemma RE_SELF_INIT_tree [code]:
  \<open>RE_SELF_INIT =
     RSeq RWordB (RSeq (RGroup 1 (RSeq (RRep True 0 None (RSet False [CRange CHR ''A'' CHR
     ''Z'', CRange CHR ''a'' CHR ''z'', CRange CHR ''0'' CHR ''9'', CChar CHR ''_''])) (RLit CHR
     ''_''))) (RSeq (RLit CHR ''('') (RSeq (RRef 1) (RLit CHR '')''))))\<close>
  by code_simp

lemma RE_SHORT_PORT_tree [code]:
  \<open>RE_SHORT_PORT =
     RSeq RWordB (RSeq (RLit CHR ''s'') (RSeq (RLit CHR ''h'') (RSeq (RLit CHR ''o'') (RSeq
     (RLit CHR ''r'') (RSeq (RLit CHR ''t'') (RSeq (RLit CHR 0x20) (RSeq (RLit CHR ''p'') (RSeq
     (RLit CHR ''o'') (RSeq (RLit CHR ''r'') (RSeq (RLit CHR ''t'') RWordB))))))))))\<close>
  by code_simp

lemma RE_UNSIGNED_SHORT_PORT_tree [code]:
  \<open>RE_UNSIGNED_SHORT_PORT =
     RSeq RWordB (RSeq (RLit CHR ''u'') (RSeq (RLit CHR ''n'') (RSeq (RLit CHR ''s'') (RSeq
     (RLit CHR ''i'') (RSeq (RLit CHR ''g'') (RSeq (RLit CHR ''n'') (RSeq (RLit CHR ''e'') (RSeq
     (RLit CHR ''d'') (RSeq (RLit CHR 0x20) (RSeq (RLit CHR ''s'') (RSeq (RLit CHR ''h'') (RSeq
     (RLit CHR ''o'') (RSeq (RLit CHR ''r'') (RSeq (RLit CHR ''t'') (RSeq (RLit CHR 0x20) (RSeq
     (RLit CHR ''p'') (RSeq (RLit CHR ''o'') (RSeq (RLit CHR ''r'') (RSeq (RLit CHR ''t'')
     RWordB)))))))))))))))))))\<close>
  by code_simp

lemma RE_C_INT_tree [code]:
  \<open>RE_C_INT =
     RSeq RWordB (RSeq (RGroup 1 (RAlt (RSeq (RLit CHR ''s'') (RSeq (RLit CHR ''h'') (RSeq (RLit
     CHR ''o'') (RSeq (RLit CHR ''r'') (RLit CHR ''t''))))) (RAlt (RSeq (RLit CHR ''l'') (RSeq
     (RLit CHR ''o'') (RSeq (RLit CHR ''n'') (RSeq (RLit CHR ''g'') (RLook False (RSeq (RRep
     True 1 None (RLit CHR 0x20)) (RSeq (RLit CHR ''d'') (RSeq (RLit CHR ''o'') (RSeq (RLit CHR
     ''u'') (RSeq (RLit CHR ''b'') (RSeq (RLit CHR ''l'') (RLit CHR ''e'')))))))))))) (RSeq
     (RLit CHR ''l'') (RSeq (RLit CHR ''o'') (RSeq (RLit CHR ''n'') (RSeq (RLit CHR ''g'') (RSeq
     (RLit CHR 0x20) (RSeq (RLit CHR ''l'') (RSeq (RLit CHR ''o'') (RSeq (RLit CHR ''n'') (RLit
     CHR ''g'')))))))))))) RWordB)\<close>
  by code_simp

lemma RE_SNPRINTF_tree [code]:
  \<open>RE_SNPRINTF =
     RSeq (RLit CHR ''s'') (RSeq (RLit CHR ''n'') (RSeq (RLit CHR ''p'') (RSeq (RLit CHR ''r'')
     (RSeq (RLit CHR ''i'') (RSeq (RLit CHR ''n'') (RSeq (RLit CHR ''t'') (RSeq (RLit CHR ''f'')
     (RSeq (RRep True 0 None (RSet False [CSpace True])) (RSeq (RLit CHR ''('') (RSeq (RGroup 1
     (RRep True 0 None (RSet True [CChar CHR '','']))) (RSeq (RLit CHR '','') (RSeq (RRep True 0
     None (RSet False [CSpace True])) (RSeq (RGroup 2 (RRep True 0 None (RSet False [CRange CHR
     ''0'' CHR ''9'']))) (RSeq (RRep True 0 None (RSet False [CSpace True])) (RLit CHR
     '','')))))))))))))))\<close>
  by code_simp

lemma RE_SPRINTF_tree [code]:
  \<open>RE_SPRINTF =
     RSeq RWordB (RSeq (RLit CHR ''s'') (RSeq (RLit CHR ''p'') (RSeq (RLit CHR ''r'') (RSeq
     (RLit CHR ''i'') (RSeq (RLit CHR ''n'') (RSeq (RLit CHR ''t'') (RSeq (RLit CHR ''f'')
     RWordB)))))))\<close>
  by code_simp

lemma RE_STRCPY_tree [code]:
  \<open>RE_STRCPY =
     RSeq RWordB (RSeq (RGroup 1 (RAlt (RSeq (RLit CHR ''s'') (RSeq (RLit CHR ''t'') (RSeq (RLit
     CHR ''r'') (RSeq (RLit CHR ''c'') (RSeq (RLit CHR ''p'') (RLit CHR ''y'')))))) (RSeq (RLit
     CHR ''s'') (RSeq (RLit CHR ''t'') (RSeq (RLit CHR ''r'') (RSeq (RLit CHR ''c'') (RSeq (RLit
     CHR ''a'') (RLit CHR ''t'')))))))) RWordB)\<close>
  by code_simp

lemma RE_SSCANF_tree [code]:
  \<open>RE_SSCANF =
     RSeq RWordB (RSeq (RLit CHR ''s'') (RSeq (RLit CHR ''s'') (RSeq (RLit CHR ''c'') (RSeq
     (RLit CHR ''a'') (RSeq (RLit CHR ''n'') (RSeq (RLit CHR ''f'') RWordB))))))\<close>
  by code_simp

lemma RE_UNARY_AMP_tree [code]:
  \<open>RE_UNARY_AMP =
     RSeq RWordB (RSeq (RLit CHR ''o'') (RSeq (RLit CHR ''p'') (RSeq (RLit CHR ''e'') (RSeq
     (RLit CHR ''r'') (RSeq (RLit CHR ''a'') (RSeq (RLit CHR ''t'') (RSeq (RLit CHR ''o'') (RSeq
     (RLit CHR ''r'') (RSeq (RRep True 0 None (RSet False [CSpace True])) (RSeq (RLit CHR ''&'')
     (RSeq (RRep True 0 None (RSet False [CSpace True])) (RSeq (RLit CHR ''('') (RSeq (RRep True
     0 None (RSet False [CSpace True])) (RLit CHR '')''))))))))))))))\<close>
  by code_simp

lemma RE_CLOSE_IF_tree [code]:
  \<open>RE_CLOSE_IF =
     RSeq (RLit CHR ''}'') (RSeq (RRep True 0 None (RSet False [CSpace True])) (RSeq (RLit CHR
     ''i'') (RSeq (RLit CHR ''f'') (RSeq (RRep True 0 None (RSet False [CSpace True])) (RLit CHR
     ''('')))))\<close>
  by code_simp

lemma RE_PRINTF_OPEN_tree [code]:
  \<open>RE_PRINTF_OPEN =
     RSeq RWordB (RSeq (RRep True 0 (Some 1) (RGroup 1 (RSeq (RSet False [CChar CHR ''s'', CChar
     CHR ''S'']) (RSeq (RSet False [CChar CHR ''t'', CChar CHR ''T'']) (RSeq (RSet False [CChar
     CHR ''r'', CChar CHR ''R'']) (RSeq (RSet False [CChar CHR ''i'', CChar CHR ''I'']) (RSeq
     (RSet False [CChar CHR ''n'', CChar CHR ''N'']) (RSet False [CChar CHR ''g'', CChar CHR
     ''G''])))))))) (RSeq (RSet False [CChar CHR ''p'', CChar CHR ''P'']) (RSeq (RSet False
     [CChar CHR ''r'', CChar CHR ''R'']) (RSeq (RSet False [CChar CHR ''i'', CChar CHR ''I''])
     (RSeq (RSet False [CChar CHR ''n'', CChar CHR ''N'']) (RSeq (RSet False [CChar CHR ''t'',
     CChar CHR ''T'']) (RSeq (RSet False [CChar CHR ''f'', CChar CHR ''F'']) (RSeq (RRep True 0
     None (RSet False [CSpace True])) (RLit CHR ''('')))))))))\<close>
  by code_simp

lemma RE_PRINTF_ARG_tree [code]:
  \<open>RE_PRINTF_ARG =
     RSeq (RGroup 1 (RRep True 1 None (RSet False [CWord True, CChar CHR ''.'', CChar CHR ''-'',
     CChar CHR ''>'', CChar CHR ''('', CChar CHR '')'']))) REol\<close>
  by code_simp

lemma RE_PRINTF_NAME_tree [code]:
  \<open>RE_PRINTF_NAME =
     RSeq RWordB (RSeq (RGroup 1 (RSeq (RRep True 0 (Some 1) (RSeq (RSet False [CChar CHR ''s'',
     CChar CHR ''S'']) (RSeq (RSet False [CChar CHR ''t'', CChar CHR ''T'']) (RSeq (RSet False
     [CChar CHR ''r'', CChar CHR ''R'']) (RSeq (RSet False [CChar CHR ''i'', CChar CHR ''I''])
     (RSeq (RSet False [CChar CHR ''n'', CChar CHR ''N'']) (RSet False [CChar CHR ''g'', CChar
     CHR ''G'']))))))) (RSeq (RSet False [CChar CHR ''p'', CChar CHR ''P'']) (RSeq (RSet False
     [CChar CHR ''r'', CChar CHR ''R'']) (RSeq (RSet False [CChar CHR ''i'', CChar CHR ''I''])
     (RSeq (RSet False [CChar CHR ''n'', CChar CHR ''N'']) (RSeq (RSet False [CChar CHR ''t'',
     CChar CHR ''T'']) (RSet False [CChar CHR ''f'', CChar CHR ''F''])))))))) (RSeq (RRep True 0
     None (RSet False [CSpace True])) (RLit CHR ''('')))\<close>
  by code_simp

lemma RE_MEMSET_tree [code]:
  \<open>RE_MEMSET =
     RSeq (RLit CHR ''m'') (RSeq (RLit CHR ''e'') (RSeq (RLit CHR ''m'') (RSeq (RLit CHR ''s'')
     (RSeq (RLit CHR ''e'') (RSeq (RLit CHR ''t'') (RSeq (RRep True 0 None (RSet False [CSpace
     True])) (RSeq (RLit CHR ''('') (RSeq (RGroup 1 (RRep True 0 None (RSet True [CChar CHR
     '','']))) (RSeq (RLit CHR '','') (RSeq (RRep True 0 None (RSet False [CSpace True])) (RSeq
     (RGroup 2 (RRep True 0 None (RSet True [CChar CHR '','']))) (RSeq (RLit CHR '','') (RSeq
     (RRep True 0 None (RSet False [CSpace True])) (RSeq (RLit CHR ''0'') (RSeq (RRep True 0
     None (RSet False [CSpace True])) (RLit CHR '')''))))))))))))))))\<close>
  by code_simp

lemma RE_MEMSET_VALUE_tree [code]:
  \<open>RE_MEMSET_VALUE =
     RAlt (RSeq RBol (RSeq (RLit CHR 0x27) (RLit CHR 0x27))) (RAlt (RSeq (RRep True 0 (Some 1)
     (RLit CHR ''-'')) (RRep True 1 None (RSet False [CRange CHR ''0'' CHR ''9'']))) (RSeq (RLit
     CHR ''0'') (RSeq (RLit CHR ''x'') (RSeq (RSet False [CRange CHR ''0'' CHR ''9'', CRange CHR
     ''A'' CHR ''F'', CRange CHR ''a'' CHR ''f'']) REol))))\<close>
  by code_simp

lemma RE_USING_NAMESPACE_tree [code]:
  \<open>RE_USING_NAMESPACE =
     RSeq RBol (RSeq (RRep True 0 None (RSet False [CSpace True])) (RSeq (RLit CHR ''u'') (RSeq
     (RLit CHR ''s'') (RSeq (RLit CHR ''i'') (RSeq (RLit CHR ''n'') (RSeq (RLit CHR ''g'') (RSeq
     (RLit CHR 0x20) (RSeq (RLit CHR ''n'') (RSeq (RLit CHR ''a'') (RSeq (RLit CHR ''m'') (RSeq
     (RLit CHR ''e'') (RSeq (RLit CHR ''s'') (RSeq (RLit CHR ''p'') (RSeq (RLit CHR ''a'') (RSeq
     (RLit CHR ''c'') (RSeq (RLit CHR ''e'') RWordB))))))))))))))))\<close>
  by code_simp

lemma RE_ARRAY_DECL_tree [code]:
  \<open>RE_ARRAY_DECL =
     RSeq (RRep True 0 None (RSet False [CSpace True])) (RSeq (RRep True 0 (Some 1) (RGroup 1
     (RSeq (RRep True 1 None RAny) (RSeq (RLit CHR '':'') (RLit CHR '':''))))) (RSeq (RGroup 2
     (RRep True 1 None (RSet False [CWord True]))) (RSeq (RLit CHR 0x20) (RSeq (RSet False
     [CRange CHR ''a'' CHR ''z'']) (RSeq (RRep True 0 None (RSet False [CWord True])) (RSeq
     (RLit CHR ''['') (RSeq (RGroup 3 (RRep True 1 None RAny)) (RSeq (RLit CHR '']'') (RLit CHR
     '';'')))))))))\<close>
  by code_simp

lemma RE_SIZE_DELIMITER_tree [code]:
  \<open>RE_SIZE_DELIMITER =
     RAlt (RSet False [CSpace True]) (RAlt (RLit CHR ''+'') (RAlt (RLit CHR ''-'') (RAlt (RLit
     CHR ''*'') (RAlt (RLit CHR ''/'') (RAlt (RSeq (RLit CHR ''<'') (RLit CHR ''<'')) (RSeq
     (RLit CHR ''>'') (RSeq (RLit CHR ''>'') (RLit CHR '']''))))))))\<close>
  by code_simp

lemma RE_SIZEOF_CALL_tree [code]:
  \<open>RE_SIZEOF_CALL =
     RSeq (RLit CHR ''s'') (RSeq (RLit CHR ''i'') (RSeq (RLit CHR ''z'') (RSeq (RLit CHR ''e'')
     (RSeq (RLit CHR ''o'') (RSeq (RLit CHR ''f'') (RSeq (RLit CHR ''('') (RSeq (RRep True 1
     None RAny) (RLit CHR '')''))))))))\<close>
  by code_simp

lemma RE_ARRAYSIZE_CALL_tree [code]:
  \<open>RE_ARRAYSIZE_CALL =
     RSeq (RLit CHR ''a'') (RSeq (RLit CHR ''r'') (RSeq (RLit CHR ''r'') (RSeq (RLit CHR ''a'')
     (RSeq (RLit CHR ''y'') (RSeq (RLit CHR ''s'') (RSeq (RLit CHR ''i'') (RSeq (RLit CHR ''z'')
     (RSeq (RLit CHR ''e'') (RSeq (RLit CHR ''('') (RSeq (RRep True 1 None (RSet False [CWord
     True])) (RLit CHR '')'')))))))))))\<close>
  by code_simp

lemma RE_DIGITS_tree [code]:
  \<open>RE_DIGITS =
     RRep True 1 None (RSet False [CDigit True])\<close>
  by code_simp

lemma RE_HEX_tree [code]:
  \<open>RE_HEX =
     RSeq (RLit CHR ''0'') (RSeq (RSet False [CChar CHR ''x'', CChar CHR ''X'']) (RRep True 1
     None (RSet False [CRange CHR ''0'' CHR ''9'', CRange CHR ''a'' CHR ''f'', CRange CHR ''A''
     CHR ''F''])))\<close>
  by code_simp

lemma RE_K_CONSTANT_tree [code]:
  \<open>RE_K_CONSTANT =
     RSeq (RLit CHR ''k'') (RSeq (RSet False [CRange CHR ''A'' CHR ''Z'', CRange CHR ''0'' CHR
     ''9'']) (RRep True 0 None (RSet False [CWord True])))\<close>
  by code_simp

lemma RE_SCOPED_K_CONSTANT_tree [code]:
  \<open>RE_SCOPED_K_CONSTANT =
     RSeq (RRep True 0 (Some 1) (RGroup 1 (RSeq (RRep True 1 None RAny) (RSeq (RLit CHR '':'')
     (RLit CHR '':''))))) (RSeq (RLit CHR ''k'') (RSeq (RSet False [CRange CHR ''A'' CHR ''Z'',
     CRange CHR ''0'' CHR ''9'']) (RRep True 0 None (RSet False [CWord True]))))\<close>
  by code_simp

lemma RE_CAPS_CONSTANT_tree [code]:
  \<open>RE_CAPS_CONSTANT =
     RSeq (RRep True 0 (Some 1) (RGroup 1 (RSeq (RRep True 1 None RAny) (RSeq (RLit CHR '':'')
     (RLit CHR '':''))))) (RSeq (RSet False [CRange CHR ''A'' CHR ''Z'']) (RRep True 0 None
     (RSet False [CRange CHR ''A'' CHR ''Z'', CRange CHR ''0'' CHR ''9'', CChar CHR ''_''])))\<close>
  by code_simp

lemma RE_DISALLOW_LAST_tree [code]:
  \<open>RE_DISALLOW_LAST =
     RSeq (RRep True 0 None (RSet False [CSpace True])) (RSeq (RGroup 1 (RSeq (RLit CHR ''D'')
     (RSeq (RLit CHR ''I'') (RSeq (RLit CHR ''S'') (RSeq (RLit CHR ''A'') (RSeq (RLit CHR ''L'')
     (RSeq (RLit CHR ''L'') (RSeq (RLit CHR ''O'') (RSeq (RLit CHR ''W'') (RSeq (RLit CHR ''_'')
     (RGroup 2 (RAlt (RSeq (RLit CHR ''E'') (RSeq (RLit CHR ''V'') (RSeq (RLit CHR ''I'') (RSeq
     (RLit CHR ''L'') (RSeq (RLit CHR ''_'') (RSeq (RLit CHR ''C'') (RSeq (RLit CHR ''O'') (RSeq
     (RLit CHR ''N'') (RSeq (RLit CHR ''S'') (RSeq (RLit CHR ''T'') (RSeq (RLit CHR ''R'') (RSeq
     (RLit CHR ''U'') (RSeq (RLit CHR ''C'') (RSeq (RLit CHR ''T'') (RSeq (RLit CHR ''O'') (RSeq
     (RLit CHR ''R'') (RLit CHR ''S''))))))))))))))))) (RAlt (RSeq (RLit CHR ''C'') (RSeq (RLit
     CHR ''O'') (RSeq (RLit CHR ''P'') (RSeq (RLit CHR ''Y'') (RSeq (RLit CHR ''_'') (RSeq (RLit
     CHR ''A'') (RSeq (RLit CHR ''N'') (RSeq (RLit CHR ''D'') (RSeq (RLit CHR ''_'') (RSeq (RLit
     CHR ''A'') (RSeq (RLit CHR ''S'') (RSeq (RLit CHR ''S'') (RSeq (RLit CHR ''I'') (RSeq (RLit
     CHR ''G'') (RLit CHR ''N''))))))))))))))) (RSeq (RLit CHR ''I'') (RSeq (RLit CHR ''M'')
     (RSeq (RLit CHR ''P'') (RSeq (RLit CHR ''L'') (RSeq (RLit CHR ''I'') (RSeq (RLit CHR ''C'')
     (RSeq (RLit CHR ''I'') (RSeq (RLit CHR ''T'') (RSeq (RLit CHR ''_'') (RSeq (RLit CHR ''C'')
     (RSeq (RLit CHR ''O'') (RSeq (RLit CHR ''N'') (RSeq (RLit CHR ''S'') (RSeq (RLit CHR ''T'')
     (RSeq (RLit CHR ''R'') (RSeq (RLit CHR ''U'') (RSeq (RLit CHR ''C'') (RSeq (RLit CHR ''T'')
     (RSeq (RLit CHR ''O'') (RSeq (RLit CHR ''R'') (RLit CHR
     ''S'')))))))))))))))))))))))))))))))))) (RSeq (RLit CHR ''('') (RSeq (RRep True 0 None
     RAny) (RSeq (RLit CHR '')'') (RSeq (RLit CHR '';'') REol)))))\<close>
  by code_simp

lemma RE_CLASS_CLOSE_tree [code]:
  \<open>RE_CLASS_CLOSE =
     RSeq RBol (RSeq (RRep True 0 None (RSet False [CSpace True])) (RSeq (RLit CHR ''}'') (RSeq
     (RRep True 0 None (RSet False [CWord True, CChar CHR ''*'', CChar CHR '','', CSpace True]))
     (RLit CHR '';''))))\<close>
  by code_simp

lemma RE_UNNAMED_NAMESPACE_tree [code]:
  \<open>RE_UNNAMED_NAMESPACE =
     RSeq RWordB (RSeq (RLit CHR ''n'') (RSeq (RLit CHR ''a'') (RSeq (RLit CHR ''m'') (RSeq
     (RLit CHR ''e'') (RSeq (RLit CHR ''s'') (RSeq (RLit CHR ''p'') (RSeq (RLit CHR ''a'') (RSeq
     (RLit CHR ''c'') (RSeq (RLit CHR ''e'') (RSeq (RRep True 0 None (RSet False [CSpace True]))
     (RLit CHR ''{'')))))))))))\<close>
  by code_simp

lemma RE_SIZEOF_HERE_tree [code]:
  \<open>RE_SIZEOF_HERE =
     RSeq (RLit CHR ''s'') (RSeq (RLit CHR ''i'') (RSeq (RLit CHR ''z'') (RSeq (RLit CHR ''e'')
     (RSeq (RLit CHR ''o'') (RSeq (RLit CHR ''f'') (RRep True 0 None (RSet False [CSpace
     True])))))))\<close>
  by code_simp

lemma RE_SIZEOF_BEFORE_tree [code]:
  \<open>RE_SIZEOF_BEFORE =
     RSeq (RRep True 0 None RAny) (RSeq (RLit CHR ''s'') (RSeq (RLit CHR ''i'') (RSeq (RLit CHR
     ''z'') (RSeq (RLit CHR ''e'') (RSeq (RLit CHR ''o'') (RSeq (RLit CHR ''f'') (RSeq (RRep
     True 0 None (RSet False [CSpace True])) REol)))))))\<close>
  by code_simp

lemma RE_FUNCTION_AFTER_tree [code]:
  \<open>RE_FUNCTION_AFTER =
     RSeq (RRep True 0 None (RSet False [CSpace True])) (RGroup 1 (RAlt (RLit CHR '')'') (RAlt
     (RLit CHR ''='') (RSeq (RRep True 0 (Some 1) (RGroup 2 (RSeq (RLit CHR ''c'') (RSeq (RLit
     CHR ''o'') (RSeq (RLit CHR ''n'') (RSeq (RLit CHR ''s'') (RLit CHR ''t''))))))) (RSeq (RRep
     True 0 None (RSet False [CSpace True])) (RGroup 3 (RAlt (RLit CHR '';'') (RAlt (RLit CHR
     ''{'') (RAlt (RSeq (RLit CHR ''t'') (RSeq (RLit CHR ''h'') (RSeq (RLit CHR ''r'') (RSeq
     (RLit CHR ''o'') (RSeq (RLit CHR ''w'') (RSeq (RLit CHR ''('') (RLit CHR '')''))))))) (RLit
     CHR ''>''))))))))))\<close>
  by code_simp

lemma RE_NAMED_PARAM_END_tree [code]:
  \<open>RE_NAMED_PARAM_END =
     RSeq (RLit CHR ''('') (RSeq (RRep True 1 None (RSet False [CWord True])) (RSeq (RLit CHR
     '')'') (RSeq (RRep True 0 None (RSet False [CSpace True])) (RGroup 1 (RAlt (RLit CHR ''{'')
     REol)))))\<close>
  by code_simp

lemma RE_STRING_WORD_tree [code]:
  \<open>RE_STRING_WORD =
     RSeq RWordB (RSeq (RLit CHR ''s'') (RSeq (RLit CHR ''t'') (RSeq (RLit CHR ''r'') (RSeq
     (RLit CHR ''i'') (RSeq (RLit CHR ''n'') (RSeq (RLit CHR ''g'') RWordB))))))\<close>
  by code_simp

end
