(* ===== verification/Language_Checks.thy ===== *)
theory Language_Checks
  imports Spacing_Checks Include_State Language_Patterns
begin

text \<open>
  The checks of the language rules: \<open>CheckLanguage\<close> with \<open>CheckSizeOf\<close> and \<open>CheckCStyleCast\<close>, and
  \<open>CheckMakePairUsesDeduction\<close>. \<open>CheckLanguage\<close> is cut into its parts, in the order of the source;
  include lines and conditional directives go to \<open>CheckIncludeLine\<close>.
\<close>

section \<open>Casts and sizeof\<close>

definition CheckSizeOf :: "nat \<Rightarrow> string \<Rightarrow> regex \<Rightarrow> report list" where
  "CheckSizeOf linenum line pattern =
     (case Search pattern line of
        None \<Rightarrow> []
      | Some m \<Rightarrow> report_if (matches RE_SIZEOF_HERE (slice_from line (m_start m 0))) linenum ''runtime/sizeof'' 1
          ''Using sizeof type.  Use sizeof(varname) instead if possible'')"

text \<open>
  \<open>CheckCStyleCast\<close>: the reports and whether the result is true. The source returns \<open>None\<close>, which
  counts as false, for function types in templates.
\<close>

definition CheckCStyleCast :: "nat \<Rightarrow> string \<Rightarrow> string \<Rightarrow> string \<Rightarrow> regex \<Rightarrow> report list \<times> bool" where
  "CheckCStyleCast linenum line raw_line cast_type pattern =
     (case Search pattern line of
        None \<Rightarrow> ([], False)
      | Some m \<Rightarrow>
          (let before = slice_to line (m_start m 1 - 1); remainder = slice_from line (m_end m 0)
           in if matches RE_SIZEOF_BEFORE before then
                (report_if True linenum ''runtime/sizeof'' 1 ''Using sizeof(type).  Use sizeof(varname) instead if possible'', True)
              else if py_endswith before '' operator++'' \<or> py_endswith before '' operator--'' then ([], False)
              else case Match RE_FUNCTION_AFTER remainder of
                Some f \<Rightarrow>
                  (report_if (m_group f 3 = None \<or> m_group f 3 = Some [] \<or> m_group f 3 = Some '';''
                       \<or> (\<not> py_in ''MockCallback<'' raw_line \<and> \<not> py_in ''typeid('' raw_line \<and> \<not> py_in ''/*'' raw_line))
                     linenum ''readability/function'' 3 ''All parameters should be named in a function'', True)
              | None \<Rightarrow>
                  if searches RE_TEMPLATE_FN_TYPE line \<or> searches RE_NAMED_PARAM_END line then ([], False)
                  else (report_if True linenum ''readability/casting'' 4
                          (''Using C-style cast.  Use '' @ cast_type @ ''<'' @ m_str m 1 @ ''>(...) instead''), True)))"

definition c_cast_reports :: "nat \<Rightarrow> string \<Rightarrow> string \<Rightarrow> report list" where
  "c_cast_reports linenum line raw_line =
     (let (rs1, _) = CheckCStyleCast linenum line raw_line ''static_cast'' RE_STATIC_CAST;
          (rs2, found) = CheckCStyleCast linenum line raw_line ''const_cast'' RE_CONST_CAST
      in rs1 @ rs2 @ (if found then [] else fst (CheckCStyleCast linenum line raw_line ''reinterpret_cast'' RE_REINTERPRET_CAST)))"

definition function_cast_reports :: "clean_lines \<Rightarrow> nat \<Rightarrow> string \<Rightarrow> report list py" where
  "function_cast_reports cl linenum line =
     (case Search RE_FUNCTION_CAST line of
        None \<Rightarrow> Inr []
      | Some m \<Rightarrow>
          if m_group m 1 = None \<and> \<not> matches RE_MOCK_METHOD line \<and> \<not> matches RE_MOCK_CALLBACK line then
            py_bind (if linenum = 0 then Inr True
                     else py_bind (py_get (cl_elided cl) (int linenum - 1)) (\<lambda>prev. Inr (\<not> matches RE_MOCK_SPLIT prev))) (\<lambda>cast.
              Inr (report_if cast linenum ''readability/casting'' 4
                (''Using deprecated casting style.  Use static_cast<'' @ m_str m 2 @ ''>(...) instead'')))
          else Inr [])"

section \<open>References, strings, types\<close>

definition reference_reports :: "nat \<Rightarrow> string \<Rightarrow> report list" where
  "reference_reports linenum line =
     (let fnline = takeWhile (\<lambda>c. c \<noteq> CHR ''{'') line
      in report_if (length (finditer RE_REF_CONST_BEFORE fnline) + length (finditer RE_REF_CONST_AFTER fnline)
             < length (finditer RE_REF_ANY fnline) \<and> \<not> searches RE_REF_ALLOWED fnline)
           linenum ''runtime/references'' 2 ''Is this a non-const reference? If so, make const or use a pointer.'')"

definition global_string_reports :: "nat \<Rightarrow> string \<Rightarrow> report list" where
  \<open>global_string_reports linenum line =
     (case Match RE_GLOBAL_STRING line of
        None \<Rightarrow> []
      | Some m \<Rightarrow> report_if (\<not> matches RE_STRING_FUNCTION (m_str m 3)) linenum ''runtime/string'' 4
          (''For a static/global string constant, use a C style string instead: "'' @ m_str m 1 @ ''char '' @ m_str m 2 @ ''[]".''))\<close>

definition c_type_reports :: "nat \<Rightarrow> string \<Rightarrow> report list" where
  \<open>c_type_reports linenum line =
     (if searches RE_SHORT_PORT line then
        report_if (\<not> searches RE_UNSIGNED_SHORT_PORT line) linenum ''runtime/int'' 4 ''Use "unsigned short" for ports, not "short"''
      else case Search RE_C_INT line of
        None \<Rightarrow> []
      | Some m \<Rightarrow> report_if True linenum ''runtime/int'' 4 (''Use int16_t/int64_t/etc, rather than the C type '' @ m_str m 1))\<close>

section \<open>C functions\<close>

definition c_function_reports :: "nat \<Rightarrow> string \<Rightarrow> report list" where
  "c_function_reports linenum line =
     (case Search RE_SNPRINTF line of
        None \<Rightarrow> []
      | Some m \<Rightarrow> report_if (m_str m 2 \<noteq> ''0'') linenum ''runtime/printf'' 3
          (''If you can, use sizeof('' @ m_str m 1 @ '') instead of '' @ m_str m 2 @ '' as the 2nd arg to snprintf.''))
     @ report_if (searches RE_SPRINTF line) linenum ''runtime/printf'' 5 ''Never use sprintf.  Use snprintf instead.''
     @ (case Search RE_STRCPY line of
          None \<Rightarrow> []
        | Some m \<Rightarrow> report_if True linenum ''runtime/printf'' 4 (''Almost always, snprintf is better than '' @ m_str m 1))
     @ report_if (searches RE_SSCANF line) linenum ''runtime/printf'' 1 ''sscanf can be ok, but is slow and can overflow buffers.''"

definition printf_reports :: "nat \<Rightarrow> string \<Rightarrow> report list py" where
  \<open>printf_reports linenum line =
     py_bind (GetTextInside line RE_PRINTF_OPEN) (\<lambda>printf_args.
       case printf_args of
         None \<Rightarrow> Inr []
       | Some args \<Rightarrow>
           if args = [] then Inr []
           else case Match RE_PRINTF_ARG args of
             None \<Rightarrow> Inr []
           | Some m \<Rightarrow>
               if m_str m 1 = ''__VA_ARGS__'' then Inr []
               else case Search RE_PRINTF_NAME line of
                 None \<Rightarrow> Inl AttributeError
               | Some f \<Rightarrow> Inr (report_if True linenum ''runtime/printf'' 4
                   (''Potential format string bug. Do '' @ m_str f 1 @ ''("%s", '' @ m_str m 1 @ '') instead.'')))\<close>

definition memset_reports :: "nat \<Rightarrow> string \<Rightarrow> report list" where
  \<open>memset_reports linenum line =
     (case Search RE_MEMSET line of
        None \<Rightarrow> []
      | Some m \<Rightarrow> report_if (\<not> matches RE_MEMSET_VALUE (m_str m 2)) linenum ''runtime/memset'' 4
          (''Did you mean "memset('' @ m_str m 1 @ '', 0, '' @ m_str m 2 @ '')"?''))\<close>

section \<open>Arrays\<close>

definition constant_token :: "string \<Rightarrow> bool" where
  "constant_token tok \<longleftrightarrow> matches RE_DIGITS tok \<or> matches RE_HEX tok \<or> matches RE_K_CONSTANT tok
     \<or> matches RE_SCOPED_K_CONSTANT tok \<or> matches RE_CAPS_CONSTANT tok"

text \<open>The loop over the tokens of an array size; the flag is \<open>skip_next\<close>.\<close>

fun is_const :: "bool \<Rightarrow> string list \<Rightarrow> bool" where
  "is_const skip_next [] = True"
| "is_const True (tok # toks) = is_const False toks"
| "is_const False (tok # toks) =
     (if searches RE_SIZEOF_CALL tok \<or> searches RE_ARRAYSIZE_CALL tok then is_const False toks
      else let tok = rstrip_char (CHR '')'') (dropWhile (\<lambda>c. c = CHR ''('') tok)
           in if tok = [] \<or> constant_token tok then is_const False toks
              else if py_startswith tok ''sizeof'' then is_const True toks
              else False)"

definition array_reports :: "nat \<Rightarrow> string \<Rightarrow> report list" where
  "array_reports linenum line =
     (case Match RE_ARRAY_DECL line of
        None \<Rightarrow> []
      | Some m \<Rightarrow>
          report_if (m_str m 2 \<noteq> ''return'' \<and> m_str m 2 \<noteq> ''delete'' \<and> \<not> py_in '']'' (m_str m 3)
              \<and> \<not> is_const False (re_split RE_SIZE_DELIMITER (m_str m 3)))
            linenum ''runtime/arrays'' 1
            (''Do not use variable-length arrays.  Use an appropriately named ('' @ [CHR 0x27] @ ''k'' @ [CHR 0x27]
             @ '' followed by CamelCase) compile-time constant for the size.''))"

section \<open>CheckLanguage\<close>

definition disallow_reports :: "clean_lines \<Rightarrow> nat \<Rightarrow> string \<Rightarrow> report list py" where
  "disallow_reports cl linenum line =
     (case Match RE_DISALLOW_LAST line of
        None \<Rightarrow> Inr []
      | Some m \<Rightarrow>
          if linenum + 1 < NumLines cl then
            py_bind (py_get (cl_elided cl) (int linenum + 1)) (\<lambda>next_line.
              Inr (report_if (\<not> searches RE_CLASS_CLOSE next_line) linenum ''readability/constructors'' 3
                (m_str m 1 @ '' should be the last thing in the class'')))
          else Inr [])"

text \<open>The tests that \<open>CheckLanguage\<close> makes on a line of code.\<close>

definition language_reports :: "string \<Rightarrow> string \<Rightarrow> clean_lines \<Rightarrow> nat \<Rightarrow> string \<Rightarrow> string \<Rightarrow> report list py" where
  \<open>language_reports filename ext cl linenum line raw_line =
     py_bind (function_cast_reports cl linenum line) (\<lambda>casts.
     py_bind (printf_reports linenum line) (\<lambda>printfs.
     py_bind (disallow_reports cl linenum line) (\<lambda>disallows.
       Inr (reference_reports linenum line @ casts @ c_cast_reports linenum line raw_line
          @ CheckSizeOf linenum line RE_SIZEOF_TYPE
          @ report_if (searches RE_ADDRESS_OF_CAST line) linenum ''runtime/casting'' 0
              (''Are you taking an address of a cast?  This is dangerous: could be a temp var.  ''
               @ ''Take the address before doing the cast, rather than after'')
          @ global_string_reports linenum line
          @ report_if (searches RE_DYNAMIC_CAST line \<and> \<not> IsTestFilename filename) linenum ''runtime/rtti'' 3
              (''Be careful to dynamic_cast<>. If you need to cast within a class ''
               @ ''hierarchy, use static_cast<> to upcast. We suggest don'' @ [CHR 0x27] @ ''t use '' @ [CHR 0x27] @ ''RTTI.''
               @ [CHR 0x27] @ ''if virtual function is enough.'')
          @ report_if (searches RE_SELF_INIT line) linenum ''runtime/init'' 4
              ''You seem to be initializing a member variable with itself.''
          @ c_type_reports linenum line
          @ c_function_reports linenum line
          @ report_if (searches RE_UNARY_AMP line) linenum ''runtime/operator'' 4 ''Unary operator& is dangerous.  Do not use it.''
          @ report_if (searches RE_CLOSE_IF line) linenum ''readability/braces'' 4
              ''Did you mean "else if"? If not, start a new line for "if".''
          @ printfs
          @ memset_reports linenum line
          @ report_if (searches RE_USING_NAMESPACE line \<and> IsHeaderFileExtension ext) linenum ''build/namespaces'' 5
              ''Do not use namespace using-directives.  Use using-declarations instead.''
          @ array_reports linenum line
          @ disallows
          @ report_if (IsHeaderFileExtension ext \<and> searches RE_UNNAMED_NAMESPACE line \<and> last line \<noteq> CHR 0x5C) linenum
              ''build/namespaces'' 4
              (''Do not use unnamed namespaces in header files.  See ''
               @ ''http://google-styleguide.googlecode.com/svn/trunk/cppguide.xml#Namespaces for more information.'')))))\<close>

definition CheckLanguage ::
  "file_system \<Rightarrow> string \<Rightarrow> string \<Rightarrow> clean_lines \<Rightarrow> nat \<Rightarrow> include_state \<Rightarrow> (report list \<times> include_state) py" where
  "CheckLanguage fs filename ext cl linenum st =
     py_bind (py_get (cl_elided cl) (int linenum)) (\<lambda>line.
       if line = [] then Inr ([], st)
       else if searches RE_INCLUDE line \<or> searches RE_CONDITION_DIRECTIVE line then
         py_bind (py_get (cl_lines cl) (int linenum)) (\<lambda>include_line.
           CheckIncludeLine fs filename (int linenum) include_line st)
       else py_bind (py_get (cl_raw cl) (int linenum)) (\<lambda>raw_line.
            py_bind (language_reports filename ext cl linenum line raw_line) (\<lambda>rs. Inr (rs, st))))"

definition CheckMakePairUsesDeduction :: "clean_lines \<Rightarrow> nat \<Rightarrow> report list py" where
  "CheckMakePairUsesDeduction cl linenum =
     py_bind (py_get (cl_raw cl) (int linenum)) (\<lambda>line.
       Inr (report_if (searches RE_MAKE_PAIR line) linenum ''build/explicit_make_pair'' 4
         (''For C++11-compatibility, omit template arguments from make_pair''
          @ '' OR use pair directly OR if appropriate, construct a pair directly'')))"

end
