(* ===== verification/Include_Use.thy ===== *)
theory Include_Use
  imports Paths Include_State Cleansing Spacing_Checks Language_Patterns "HOL-Library.Multiset"
begin

text \<open>
  The check that a file includes the headers of the library templates it uses:
  \<open>UpdateIncludeState\<close>, \<open>CheckForIncludeWhatYouUse\<close> and the tables of templates.

  The order in which a Python 2 dictionary yields its keys is not specified. It is a parameter, a
  function on lists that permutes them, and the theorem on the reports holds for every such order.
\<close>

section \<open>Tables\<close>

definition HEADERS_CONTAINING_TEMPLATES :: "(string \<times> string list) list" where
  "HEADERS_CONTAINING_TEMPLATES =
     [(''<deque>'', [''deque'']),
      (''<functional>'', [''unary_function'', ''binary_function'', ''plus'', ''minus'',
         ''multiplies'', ''divides'', ''modulus'', ''negate'', ''equal_to'', ''not_equal_to'',
         ''greater'', ''less'', ''greater_equal'', ''less_equal'', ''logical_and'',
         ''logical_or'', ''logical_not'', ''unary_negate'', ''not1'', ''binary_negate'',
         ''not2'', ''bind1st'', ''bind2nd'', ''pointer_to_unary_function'',
         ''pointer_to_binary_function'', ''ptr_fun'', ''mem_fun_t'', ''mem_fun'',
         ''mem_fun1_t'', ''mem_fun1_ref_t'', ''mem_fun_ref_t'', ''const_mem_fun_t'',
         ''const_mem_fun1_t'', ''const_mem_fun_ref_t'', ''const_mem_fun1_ref_t'',
         ''mem_fun_ref'']),
      (''<limits>'', [''numeric_limits'']),
      (''<list>'', [''list'']),
      (''<map>'', [''map'', ''multimap'']),
      (''<memory>'', [''allocator'']),
      (''<queue>'', [''queue'', ''priority_queue'']),
      (''<set>'', [''set'', ''multiset'']),
      (''<stack>'', [''stack'']),
      (''<string>'', [''char_traits'', ''basic_string'']),
      (''<utility>'', [''pair'']),
      (''<vector>'', [''vector'']),
      (''<ext/hash_map>'', [''__gnu_cxx::hash_map'', ''__gnu_cxx::hash_multimap'']),
      (''<ext/hash_set>'', [''__gnu_cxx::hash_set'', ''__gnu_cxx::hash_multiset'']),
      (''<ext/slist>'', [''__gnu_cxx::slist''])]"

definition algorithm_templates :: "string list" where
  "algorithm_templates = [''std::copy'', ''std::max'', ''std::min'', ''std::min_element'', ''std::sort'', ''std::swap'', ''std::transform'']"

definition re_pattern_algorithm_header :: "(regex \<times> string \<times> string) list" where
  "re_pattern_algorithm_header =
     map (\<lambda>template. (rx (''[^>.]`b'' @ template @ ''(<.*?>)?`([^`)]''), template, ''<algorithm>'')) algorithm_templates"

definition re_pattern_templates :: "(regex \<times> string \<times> string) list" where
  "re_pattern_templates =
     concat (map (\<lambda>(header, templates).
       map (\<lambda>template. (rx (''(`<|`b)'' @ template @ ''`s*`<''), template @ ''<>'', header)) templates) HEADERS_CONTAINING_TEMPLATES)"

section \<open>Reading a header\<close>

text \<open>The lines of a decoded text with their ends, as the iteration over a \<open>codecs\<close> reader yields them.\<close>

definition line_break :: "char \<Rightarrow> bool" where
  "line_break c \<longleftrightarrow> in_range (CHR 0x0A) (CHR 0x0D) c \<or> in_range (CHR 0x1C) (CHR 0x1E) c \<or> c = CHR 0x85"

fun splitlines_from :: "string \<Rightarrow> string \<Rightarrow> string list" where
  "splitlines_from acc [] = (if acc = [] then [] else [rev acc])"
| "splitlines_from acc (c # s) =
     (if c = CHR 0x0D \<and> s \<noteq> [] \<and> hd s = CHR 0x0A then splitlines_from (c # acc) s
      else if line_break c then rev (c # acc) # splitlines_from [] s
      else splitlines_from (c # acc) s)"

text \<open>\<open>setdefault\<close>, on the keys: the values that it sets are never read.\<close>

definition add_key :: "string \<Rightarrow> string list \<Rightarrow> string list" where
  "add_key k ks = (if k \<in> set ks then ks else ks @ [k])"

definition include_of_line :: "string \<Rightarrow> string option" where
  "include_of_line line = map_option (\<lambda>m. m_str m 2) (Search RE_INCLUDE (CleanseComments line))"

definition UpdateIncludeState :: "file_system \<Rightarrow> string \<Rightarrow> string list \<Rightarrow> bool \<times> string list" where
  "UpdateIncludeState fs filename include_state =
     (case fs_text fs filename of
        None \<Rightarrow> (False, include_state)
      | Some content \<Rightarrow>
          (True, fold (\<lambda>line ks. case include_of_line line of None \<Rightarrow> ks | Some include \<Rightarrow> add_key include ks)
             (splitlines_from [] content) include_state))"

section \<open>CheckForIncludeWhatYouUse\<close>

text \<open>The headers that a line needs, with the name that needs each, in the order of the source.\<close>

definition string_use :: "string \<Rightarrow> (string \<times> string) list" where
  "string_use line =
     (case Search RE_STRING_WORD line of
        None \<Rightarrow> []
      | Some matched \<Rightarrow>
          (let pre = slice_to line (m_start matched 0)
           in if py_endswith pre ''std::'' \<or> \<not> py_endswith pre ''::'' then [(''<string>'', ''string'')] else []))"

definition pattern_uses :: "(regex \<times> string \<times> string) list \<Rightarrow> string \<Rightarrow> (string \<times> string) list" where
  "pattern_uses patterns line =
     map (\<lambda>(pattern, template, header). (header, template)) (filter (\<lambda>(pattern, template, header). searches pattern line) patterns)"

definition line_uses :: "string \<Rightarrow> (string \<times> string) list" where
  "line_uses line =
     (if line = [] \<or> hd line = CHR ''#'' then []
      else string_use line @ pattern_uses re_pattern_algorithm_header line
         @ (if py_in ''<'' line then pattern_uses re_pattern_templates line else []))"

text \<open>Assignment to a dictionary, as an association list in the order of first insertion.\<close>

fun dict_set :: "'k \<Rightarrow> 'v \<Rightarrow> ('k \<times> 'v) list \<Rightarrow> ('k \<times> 'v) list" where
  "dict_set k v [] = [(k, v)]"
| "dict_set k v ((k', v') # xs) = (if k = k' then (k, v) # xs else (k', v') # dict_set k v xs)"

definition required_of :: "clean_lines \<Rightarrow> (string \<times> nat \<times> string) list" where
  "required_of cl =
     fold (\<lambda>linenum req. fold (\<lambda>(header, template). dict_set header (linenum, template)) (line_uses (cl_elided cl ! linenum)) req)
       [0..<NumLines cl] []"

text \<open>The loop over the headers of the file: which of them belong to its module, and what they include.\<close>

fun module_headers :: "file_system \<Rightarrow> string \<Rightarrow> string list \<Rightarrow> bool \<Rightarrow> string list \<Rightarrow> bool \<times> string list" where
  "module_headers fs abs_filename [] header_found include_state = (header_found, include_state)"
| "module_headers fs abs_filename (header # header_keys) header_found include_state =
     (let (same_module, common_path) = FilesBelongToSameModule abs_filename header
      in if same_module then
           (let (found, include_state) = UpdateIncludeState fs (common_path @ header) include_state
            in module_headers fs abs_filename header_keys (header_found \<or> found) include_state)
         else module_headers fs abs_filename header_keys header_found include_state)"

definition strip_brackets :: "string \<Rightarrow> string" where
  "strip_brackets s = rev (dropWhile (\<lambda>c. c \<in> set ''<>'' \<or> c = CHR 0x22) (rev (dropWhile (\<lambda>c. c \<in> set ''<>'' \<or> c = CHR 0x22) s)))"

definition CheckForIncludeWhatYouUse ::
  "file_system \<Rightarrow> (string list \<Rightarrow> string list) \<Rightarrow> string \<Rightarrow> clean_lines \<Rightarrow> string list \<Rightarrow> report list" where
  "CheckForIncludeWhatYouUse fs dict_order filename cl header_keys =
     (let required = required_of cl;
          abs_filename = re_sub RE_FLYMAKE_CC (\<lambda>m. ''.cc'') (FullName fs filename);
          (header_found, include_state) = module_headers fs abs_filename header_keys False header_keys
      in if IsSourceFile filename \<and> \<not> header_found then []
         else concat (map (\<lambda>header.
                case map_of required header of
                  None \<Rightarrow> []
                | Some (linenum, template) \<Rightarrow>
                    report_if (strip_brackets header \<notin> set include_state) linenum ''build/include_what_you_use'' 4
                      (''Add #include '' @ header @ '' for '' @ template)) (dict_order (map fst required))))"

section \<open>What is required\<close>

lemma map_of_dict_set [simp]: "map_of (dict_set k v xs) = (map_of xs)(k \<mapsto> v)"
  by (induction k v xs rule: dict_set.induct) auto

text \<open>The last line of the first \<open>m\<close> that needs a header, and the last name on it that needs it.\<close>

definition last_use :: "clean_lines \<Rightarrow> nat \<Rightarrow> string \<Rightarrow> nat \<Rightarrow> string \<Rightarrow> bool" where
  "last_use cl m header n template \<longleftrightarrow>
     n < m \<and> map_of (rev (line_uses (cl_elided cl ! n))) header = Some template
     \<and> (\<forall>k. n < k \<and> k < m \<longrightarrow> header \<notin> fst ` set (line_uses (cl_elided cl ! k)))"

lemma line_required:
  "map_of (fold (\<lambda>(header, template). dict_set header (n, template)) us req) h =
     (case map_of (rev us) h of None \<Rightarrow> map_of req h | Some template \<Rightarrow> Some (n, template))"
  by (induction us arbitrary: req) (auto simp: map_add_def split: option.split)

lemma required_upto:
  "map_of (fold (\<lambda>linenum req. fold (\<lambda>(header, template). dict_set header (linenum, template)) (line_uses (cl_elided cl ! linenum)) req)
     [0..<m] []) h = Some (n, t) \<longleftrightarrow> last_use cl m h n t"
proof (induction m)
  case (Suc m)
  show ?case
  proof (cases "map_of (rev (line_uses (cl_elided cl ! m))) h")
    case None
    then have "h \<notin> fst ` set (line_uses (cl_elided cl ! m))" by (simp add: map_of_eq_None_iff)
    with Suc None show ?thesis by (auto simp: line_required last_use_def less_Suc_eq)
  next
    case (Some t')
    then have "h \<in> fst ` set (line_uses (cl_elided cl ! m))" by (metis image_set map_of_eq_None_iff option.distinct(1) set_rev)
    with Some show ?thesis by (auto simp: line_required last_use_def less_Suc_eq)
  qed
qed (simp add: last_use_def)

lemma required_last_use: "map_of (required_of cl) h = Some (n, t) \<longleftrightarrow> last_use cl (NumLines cl) h n t"
  unfolding required_of_def by (rule required_upto)

section \<open>Properties\<close>

text \<open>
  C10: Missing includes are reported exactly. A source file whose own header was not found gets no
  report; any other file gets, for each header that one of its lines needs and that neither it nor
  the headers of its module include, the report at the last such line with the last name there. This
  holds for every order in which a dictionary may yield its keys.
\<close>

theorem include_what_you_use_exact:
  assumes "\<And>ks. mset (dict_order ks) = mset ks"
    and "module_headers fs (re_sub RE_FLYMAKE_CC (\<lambda>m. ''.cc'') (FullName fs filename)) header_keys False header_keys = (found, included)"
  shows "set (CheckForIncludeWhatYouUse fs dict_order filename cl header_keys) =
    (if IsSourceFile filename \<and> \<not> found then {}
     else {mk_report (int n) ''build/include_what_you_use'' 4 (''Add #include '' @ header @ '' for '' @ template) | header n template.
             last_use cl (NumLines cl) header n template \<and> strip_brackets header \<notin> set included})"
proof -
  have keys: "set (dict_order (map fst (required_of cl))) = dom (map_of (required_of cl))"
    using assms(1) [of "map fst (required_of cl)"] by (metis dom_map_of_conv_image_fst image_set set_mset_mset)
  show ?thesis
    unfolding CheckForIncludeWhatYouUse_def Let_def assms(2) prod.case
    by (auto simp: keys report_if_def required_last_use split: option.splits) (metis domI option.inject prod.inject required_last_use)+
qed

lemma include_what_you_use_exact_witness:
  "mk_report 0 ''build/include_what_you_use'' 4 ''Add #include <string> for string''
     \<in> set (CheckForIncludeWhatYouUse no_files rev ''a.h'' (CleansedLines [''string s;'']) [])"
proof -
  let ?cl = "CleansedLines [''string s;'']"
  have m: "module_headers no_files (re_sub RE_FLYMAKE_CC (\<lambda>m. ''.cc'') (FullName no_files ''a.h'')) [] False [] = (False, [])" by simp
  have src: "\<not> IsSourceFile ''a.h''" by code_simp
  have el: "cl_elided ?cl = [''string s;'']" "NumLines ?cl = 1" by code_simp+
  have "string_use ''string s;'' = [(''<string>'', ''string'')]" by code_simp
  moreover have "map_of (rev (pattern_uses re_pattern_algorithm_header ''string s;'')) ''<string>'' = None"
    by (auto simp: map_of_eq_None_iff pattern_uses_def re_pattern_algorithm_header_def)
  moreover have "\<not> py_in ''<'' ''string s;''" by code_simp
  ultimately have "map_of (rev (line_uses ''string s;'')) ''<string>'' = Some ''string''"
    by (simp add: line_uses_def map_add_def)
  then have "last_use ?cl (NumLines ?cl) ''<string>'' 0 ''string''" by (simp add: last_use_def el)
  moreover have "strip_brackets ''<string>'' = ''string''" by code_simp
  ultimately show ?thesis
    using include_what_you_use_exact [of rev, OF _ m, of ?cl] src by fastforce
qed

end
