(* ===== verification/Function_State.thy ===== *)
theory Function_State
  imports Cleansing
begin

text \<open>
  Function lengths: the class \<open>_FunctionState\<close> and the check \<open>CheckForFunctionLengths\<close> that feeds it.

  The lemmas state when a long function is reported and with which confidence, that the counter
  counts the non-blank lines of a body, and what the check yields over a whole function, the failure
  for a negative verbosity included.
\<close>

section \<open>The state\<close>

record function_state =
  in_a_function :: bool
  lines_in_function :: nat
  current_function :: string

definition new_function_state :: function_state where
  "new_function_state = \<lparr>in_a_function = False, lines_in_function = 0, current_function = []\<rparr>"

definition NORMAL_TRIGGER :: nat where "NORMAL_TRIGGER = 250"

definition TEST_TRIGGER :: nat where "TEST_TRIGGER = 400"

definition fn_Begin :: "string \<Rightarrow> function_state \<Rightarrow> function_state" where
  "fn_Begin function_name st = st\<lparr>in_a_function := True, lines_in_function := 0, current_function := function_name\<rparr>"

definition fn_Count :: "function_state \<Rightarrow> function_state" where
  "fn_Count st = (if in_a_function st then st\<lparr>lines_in_function := Suc (lines_in_function st)\<rparr> else st)"

definition fn_End :: "function_state \<Rightarrow> function_state" where
  "fn_End st = st\<lparr>in_a_function := False\<rparr>"

definition base_trigger :: "function_state \<Rightarrow> nat" where
  "base_trigger st = (if matches RE_TEST_FN (current_function st) then TEST_TRIGGER else NORMAL_TRIGGER)"

text \<open>
  \<open>base_trigger * 2**verbose\<close>. For a negative verbosity Python computes a float, exact here; it is
  compared and printed (truncated) without rounding.
\<close>

definition exceeds_trigger :: "nat \<Rightarrow> int \<Rightarrow> nat \<Rightarrow> bool" where
  "exceeds_trigger base v lines =
     (if 0 \<le> v then base * 2 ^ nat v < lines else base < lines * 2 ^ nat (- v))"

definition printed_trigger :: "nat \<Rightarrow> int \<Rightarrow> nat" where
  "printed_trigger base v = (if 0 \<le> v then base * 2 ^ nat v else base div 2 ^ nat (- v))"

text \<open>\<open>int(math.log(n, 2))\<close> for a positive integer.\<close>

fun ilog2 :: "nat \<Rightarrow> nat" where
  "ilog2 n = (if n < 2 then 0 else Suc (ilog2 (n div 2)))"

declare ilog2.simps [simp del]

definition fn_Check :: "int \<Rightarrow> int \<Rightarrow> function_state \<Rightarrow> report list py" where
  "fn_Check verbose linenum st =
     (let base = base_trigger st; n = lines_in_function st
      in if exceeds_trigger base verbose n then
           if n div base = 0 then Inl ValueError
           else Inr [mk_report linenum ''readability/fn_size'' (int (min 5 (ilog2 (n div base))))
             (''Small and focused functions are preferred: '' @ current_function st @ '' has '' @ show_nat n
              @ '' non-comment lines (error triggered by exceeding '' @ show_nat (printed_trigger base verbose) @ '' lines).'')]
         else Inr [])"

section \<open>CheckForFunctionLengths\<close>

text \<open>The search for the start of the body: a declaration, a body with the joined lines, or nothing.\<close>

datatype body_start = NoBody | Declaration | BodyAfter string

fun find_body :: "string list \<Rightarrow> string \<Rightarrow> body_start" where
  "find_body [] joined_line = NoBody"
| "find_body (start_line # lines) joined_line =
     (let joined_line = joined_line @ '' '' @ py_lstrip start_line
      in if searches RE_SEMI_OR_CLOSE start_line then Declaration
         else if searches RE_OPEN_BRACE start_line then BodyAfter joined_line
         else find_body lines joined_line)"

definition starting_func :: "string \<Rightarrow> bool py" where
  "starting_func line =
     (case Match RE_FN_START line of
        None \<Rightarrow> Inr False
      | Some m \<Rightarrow>
          py_bind (py_get (py_words (m_str m 1)) (-1)) (\<lambda>function_name.
            Inr (function_name = ''TEST'' \<or> function_name = ''TEST_F'' \<or> \<not> matches RE_ALL_CAPS function_name)))"

definition function_title :: "string \<Rightarrow> string \<Rightarrow> string py" where
  "function_title line joined_line =
     (case Search RE_FN_NAME line of
        None \<Rightarrow> Inl AttributeError
      | Some m \<Rightarrow>
          (let function = m_str m 1
           in Inr (if matches RE_TEST_MACRO function
                   then (case Search RE_PARENS joined_line of None \<Rightarrow> function | Some p \<Rightarrow> function @ m_str p 1)
                   else function @ ''()'')))"

definition CheckForFunctionLengths ::
  "int \<Rightarrow> clean_lines \<Rightarrow> nat \<Rightarrow> function_state \<Rightarrow> (report list \<times> function_state) py" where
  "CheckForFunctionLengths verbose cl linenum st =
     py_bind (py_get (cl_lines cl) (int linenum)) (\<lambda>line.
     py_bind (starting_func line) (\<lambda>starting.
       if starting then
         (case find_body (drop linenum (take (NumLines cl) (cl_lines cl))) [] of
            NoBody \<Rightarrow> Inr ([mk_report (int linenum) ''readability/fn_size'' 5 ''Lint failed to find start of function body.''], st)
          | Declaration \<Rightarrow> Inr ([], st)
          | BodyAfter joined_line \<Rightarrow> py_bind (function_title line joined_line) (\<lambda>title. Inr ([], fn_Begin title st)))
       else if matches RE_FN_END line then
         py_bind (fn_Check verbose (int linenum) st) (\<lambda>rs. Inr (rs, fn_End st))
       else if \<not> matches RE_BLANK line then Inr ([], fn_Count st)
       else Inr ([], st)))"

section \<open>Logarithms\<close>

lemma ilog2_bounds: "0 < n \<Longrightarrow> 2 ^ ilog2 n \<le> n \<and> n < 2 ^ Suc (ilog2 n)"
proof (induction n rule: ilog2.induct)
  case (1 n)
  show ?case
  proof (cases "n < 2")
    case True
    with 1(2) have "n = 1" by simp
    then show ?thesis by (simp add: ilog2.simps)
  next
    case False
    with 1 have "2 ^ ilog2 (n div 2) \<le> n div 2 \<and> n div 2 < 2 ^ Suc (ilog2 (n div 2))" by simp
    moreover have "ilog2 n = Suc (ilog2 (n div 2))" using False by (subst ilog2.simps) simp
    ultimately show ?thesis by simp linarith
  qed
qed

lemma ilog2_ge: "2 ^ k \<le> n \<Longrightarrow> k \<le> ilog2 n"
proof (rule ccontr)
  assume k: "2 ^ k \<le> n" and "\<not> k \<le> ilog2 n"
  then have "(2 :: nat) ^ Suc (ilog2 n) \<le> 2 ^ k" by (intro power_increasing) auto
  moreover have "0 < n" using k by (metis gr0I not_less zero_less_power zero_less_numeral)
  ultimately show False using k ilog2_bounds [of n] by linarith
qed

lemma base_trigger_pos: "0 < base_trigger st"
  by (simp add: base_trigger_def TEST_TRIGGER_def NORMAL_TRIGGER_def)

lemma exceeds_div:
  assumes "exceeds_trigger base v n" "0 \<le> v" "0 < base"
  shows "2 ^ nat v \<le> n div base"
  using assms by (simp add: exceeds_trigger_def less_eq_div_iff_mult_less_eq mult.commute)

section \<open>Runs over a function\<close>

text \<open>A line of a body: it neither starts nor ends a function.\<close>

definition body_line :: "string \<Rightarrow> bool" where
  "body_line line \<longleftrightarrow> starting_func line = Inr False \<and> \<not> matches RE_FN_END line"

text \<open>The check on a sequence of lines: the reports collected and the state carried along.\<close>

definition check_lines :: "int \<Rightarrow> clean_lines \<Rightarrow> nat list \<Rightarrow> report list \<times> function_state \<Rightarrow> (report list \<times> function_state) py" where
  "check_lines v cl = py_fold (\<lambda>n (rs, st). py_bind (CheckForFunctionLengths v cl n st) (\<lambda>(rs', st'). Inr (rs @ rs', st')))"

lemma check_body_lines:
  assumes "in_a_function st" "\<forall>n\<in>set ns. n < length (cl_lines cl) \<and> body_line (cl_lines cl ! n)"
  shows "check_lines v cl ns (rs, st) =
    Inr (rs, st\<lparr>lines_in_function := lines_in_function st + length (filter (\<lambda>n. \<not> matches RE_BLANK (cl_lines cl ! n)) ns)\<rparr>)"
  using assms
proof (induction ns arbitrary: st)
  case (Cons n ns)
  let ?st = "if matches RE_BLANK (cl_lines cl ! n) then st else fn_Count st"
  have step: "CheckForFunctionLengths v cl n st = Inr ([], ?st)"
    using Cons.prems(2) by (simp add: CheckForFunctionLengths_def body_line_def)
  have "in_a_function ?st" using Cons.prems(1) by (simp add: fn_Count_def)
  from Cons.IH [OF this] Cons.prems step show ?case by (simp add: check_lines_def fn_Count_def)
qed (simp add: check_lines_def)

text \<open>A line that starts a function with the given title, and a line that ends one.\<close>

definition starts_function :: "clean_lines \<Rightarrow> nat \<Rightarrow> string \<Rightarrow> bool" where
  "starts_function cl n title \<longleftrightarrow> n < length (cl_lines cl) \<and> starting_func (cl_lines cl ! n) = Inr True
     \<and> (case find_body (drop n (take (NumLines cl) (cl_lines cl))) [] of
          BodyAfter joined \<Rightarrow> function_title (cl_lines cl ! n) joined = Inr title
        | _ \<Rightarrow> False)"

definition ends_function :: "clean_lines \<Rightarrow> nat \<Rightarrow> bool" where
  "ends_function cl n \<longleftrightarrow> n < length (cl_lines cl) \<and> starting_func (cl_lines cl ! n) = Inr False
     \<and> matches RE_FN_END (cl_lines cl ! n)"

lemma starts_function_begin:
  "starts_function cl n title \<Longrightarrow> CheckForFunctionLengths v cl n st = Inr ([], fn_Begin title st)"
  by (auto simp: starts_function_def CheckForFunctionLengths_def split: body_start.splits)

lemma ends_function_check:
  "ends_function cl n \<Longrightarrow> CheckForFunctionLengths v cl n st = py_bind (fn_Check v (int n) st) (\<lambda>rs. Inr (rs, fn_End st))"
  by (simp add: ends_function_def CheckForFunctionLengths_def)

lemma confidence_range:
  assumes "0 < base" "base \<le> k"
  shows "base * 2 ^ min 5 (ilog2 (k div base)) \<le> k"
    and "min 5 (ilog2 (k div base)) < 5 \<Longrightarrow> k < base * 2 ^ Suc (min 5 (ilog2 (k div base)))"
proof -
  have q: "0 < k div base" using assms by (simp add: div_greater_zero_iff)
  note b = ilog2_bounds [OF q]
  have "2 ^ min 5 (ilog2 (k div base)) \<le> (2 :: nat) ^ ilog2 (k div base)" by (intro power_increasing) auto
  then have "2 ^ min 5 (ilog2 (k div base)) \<le> k div base" using b by linarith
  then show "base * 2 ^ min 5 (ilog2 (k div base)) \<le> k"
    using assms(1) by (simp add: less_eq_div_iff_mult_less_eq mult.commute)
  assume "min 5 (ilog2 (k div base)) < 5"
  then have "k div base < 2 ^ Suc (min 5 (ilog2 (k div base)))" using b by (simp add: min_def split: if_splits)
  then show "k < base * 2 ^ Suc (min 5 (ilog2 (k div base)))"
    using assms(1) by (simp only: div_less_iff_less_mult) (simp add: mult.commute)
qed

section \<open>Properties\<close>

text \<open>
  C17: With a verbosity that is not negative the length check never fails. It reports exactly the
  functions longer than the trigger times two to the verbosity, and the report's confidence lies
  between 0 and 5 and is at least the verbosity, so that the verbosity itself does not hide it.
\<close>

theorem function_length_reported:
  assumes "0 \<le> verbose"
  shows "\<exists>rs. fn_Check verbose linenum st = Inr rs
    \<and> (rs = [] \<longleftrightarrow> lines_in_function st \<le> base_trigger st * 2 ^ nat verbose)
    \<and> (\<forall>r\<in>set rs. 0 \<le> r_confidence r \<and> r_confidence r \<le> 5 \<and> min verbose 5 \<le> r_confidence r
         \<and> base_trigger st * 2 ^ nat (r_confidence r) \<le> lines_in_function st)"
proof (cases "exceeds_trigger (base_trigger st) verbose (lines_in_function st)")
  case False
  then show ?thesis using assms by (simp add: fn_Check_def exceeds_trigger_def)
next
  case True
  define q where "q = lines_in_function st div base_trigger st"
  have q: "2 ^ nat verbose \<le> q" unfolding q_def by (rule exceeds_div [OF True assms base_trigger_pos])
  then have pos: "0 < q" by (metis gr0I not_less zero_less_power zero_less_numeral)
  have v: "nat verbose \<le> ilog2 q" by (rule ilog2_ge [OF q])
  have "2 ^ min 5 (ilog2 q) \<le> (2 :: nat) ^ ilog2 q" by (intro power_increasing) auto
  then have "2 ^ min 5 (ilog2 q) \<le> q" using ilog2_bounds [OF pos] by linarith
  then have "base_trigger st * 2 ^ min 5 (ilog2 q) \<le> base_trigger st * q" by simp
  also have "\<dots> \<le> lines_in_function st" by (simp add: q_def)
  finally have b: "base_trigger st * 2 ^ min 5 (ilog2 q) \<le> lines_in_function st" .
  have "min verbose 5 \<le> int (min 5 (ilog2 q))" using v by linarith
  then show ?thesis using True assms pos b
    by (auto simp: fn_Check_def Let_def q_def [symmetric] mk_report_def exceeds_trigger_def)
qed

lemma function_length_reported_witness:
  "\<exists>rs. fn_Check 1 9 \<lparr>in_a_function = True, lines_in_function = 501, current_function = ''f()''\<rparr> = Inr rs \<and> rs \<noteq> []"
proof -
  let ?st = "\<lparr>in_a_function = True, lines_in_function = 501, current_function = ''f()''\<rparr>"
  have "base_trigger ?st = 250" by code_simp
  with function_length_reported [of 1 9 ?st] show ?thesis by auto
qed

text \<open>
  C30: Inside a function, checking a sequence of body lines reports nothing and adds to the counter
  exactly the number of lines that are not blank.
\<close>

theorem function_lines_counted:
  assumes "in_a_function st" "\<forall>n\<in>set ns. n < length (cl_lines cl) \<and> body_line (cl_lines cl ! n)"
  shows "\<exists>st'. py_fold (\<lambda>n st. py_bind (CheckForFunctionLengths v cl n st) (\<lambda>(rs, st'). if rs = [] then Inr st' else Inl AssertionError)) ns st = Inr st'
    \<and> in_a_function st' \<and> current_function st' = current_function st
    \<and> lines_in_function st' = lines_in_function st + length (filter (\<lambda>n. \<not> matches RE_BLANK (cl_lines cl ! n)) ns)"
  using assms
proof (induction ns arbitrary: st)
  case (Cons n ns)
  let ?st = "if matches RE_BLANK (cl_lines cl ! n) then st else fn_Count st"
  have step: "CheckForFunctionLengths v cl n st = Inr ([], ?st)"
    using Cons.prems(2) by (simp add: CheckForFunctionLengths_def body_line_def)
  have "in_a_function ?st" using Cons.prems(1) by (simp add: fn_Count_def)
  from Cons.IH [OF this] Cons.prems step show ?case by (auto simp: fn_Count_def)
qed simp

lemma function_lines_counted_witness:
  "\<exists>st'. py_fold (\<lambda>n st. py_bind (CheckForFunctionLengths 1 (CleansedLines [''  a = b;'', [], ''  return a;'']) n st)
       (\<lambda>(rs, st'). if rs = [] then Inr st' else Inl AssertionError)) [0, 1, 2] (fn_Begin ''f()'' new_function_state) = Inr st'
     \<and> lines_in_function st' = 2"
proof -
  let ?cl = "CleansedLines [''  a = b;'', [], ''  return a;'']" and ?st = "fn_Begin ''f()'' new_function_state"
  have 1: "in_a_function ?st" by (simp add: fn_Begin_def)
  have 2: "\<forall>n\<in>set [0, 1, 2]. n < length (cl_lines ?cl) \<and> body_line (cl_lines ?cl ! n)" by code_simp
  have 3: "length (filter (\<lambda>n. \<not> matches RE_BLANK (cl_lines ?cl ! n)) [0, 1, 2]) = 2" by code_simp
  have 4: "lines_in_function ?st = 0" by (simp add: fn_Begin_def)
  from function_lines_counted [OF 1 2, of 1] show ?thesis unfolding 3 4 by auto
qed

text \<open>
  C40: The check over a whole function, for any verbosity and whatever was counted before. Let \<open>k\<close> be
  the number of lines of its body that are not blank and \<open>base\<close> the trigger for its name. When
  \<open>k\<close> does not exceed the trigger times two to the verbosity, nothing is reported. Otherwise, a
  function shorter than the base trigger, which only a negative verbosity lets come so far, raises
  \<open>ValueError\<close> (the logarithm of zero), and a longer one gets one report, at its last line, whose
  confidence is the largest power of two, up to 5, by which it exceeds the base trigger.
\<close>

theorem function_length_outcome:
  assumes "starts_function cl s title" "ends_function cl e"
    and "\<forall>n\<in>set ns. n < length (cl_lines cl) \<and> body_line (cl_lines cl ! n)"
    and "k = length (filter (\<lambda>n. \<not> matches RE_BLANK (cl_lines cl ! n)) ns)"
    and "base = (if matches RE_TEST_FN title then 400 else 250)"
  shows "\<exists>r. check_lines v cl (s # ns @ [e]) ([], st) =
      (if (if 0 \<le> v then k \<le> base * 2 ^ nat v else k * 2 ^ nat (- v) \<le> base)
       then Inr ([], fn_End ((fn_Begin title st)\<lparr>lines_in_function := k\<rparr>))
       else if k < base then Inl ValueError
       else Inr ([r], fn_End ((fn_Begin title st)\<lparr>lines_in_function := k\<rparr>)))
    \<and> r_line r = int e \<and> 0 \<le> r_confidence r \<and> r_confidence r \<le> 5
    \<and> (base \<le> k \<longrightarrow> base * 2 ^ nat (r_confidence r) \<le> k
        \<and> (r_confidence r < 5 \<longrightarrow> k < base * 2 ^ Suc (nat (r_confidence r))))"
proof -
  let ?st = "(fn_Begin title st)\<lparr>lines_in_function := k\<rparr>"
  have base: "base_trigger ?st = base" "0 < base"
    by (simp_all add: base_trigger_def fn_Begin_def assms(5) TEST_TRIGGER_def NORMAL_TRIGGER_def)
  have "in_a_function (fn_Begin title st)" "lines_in_function (fn_Begin title st) = 0" by (simp_all add: fn_Begin_def)
  then have body: "check_lines v cl ns ([], fn_Begin title st) = Inr ([], ?st)"
    using check_body_lines [OF _ assms(3)] assms(4) by simp
  have run: "check_lines v cl (s # ns @ [e]) ([], st) = py_bind (fn_Check v (int e) ?st) (\<lambda>rs. Inr (rs, fn_End ?st))"
    using body starts_function_begin [OF assms(1)] ends_function_check [OF assms(2)]
    by (simp add: check_lines_def py_bind_assoc)
  obtain msg where check: "fn_Check v (int e) ?st = (if exceeds_trigger base v k then
      if k div base = 0 then Inl ValueError else Inr [mk_report (int e) ''readability/fn_size'' (int (min 5 (ilog2 (k div base)))) msg]
      else Inr [])"
    by (simp add: fn_Check_def Let_def base)
  have "k div base = 0 \<longleftrightarrow> k < base" using base(2) by (auto simp: div_eq_0_iff)
  moreover have "exceeds_trigger base v k \<longleftrightarrow> \<not> (if 0 \<le> v then k \<le> base * 2 ^ nat v else k * 2 ^ nat (- v) \<le> base)"
    by (auto simp: exceeds_trigger_def not_le)
  moreover note confidence_range [OF base(2), of k]
  ultimately show ?thesis unfolding run check
    by (intro exI [of _ "mk_report (int e) ''readability/fn_size'' (int (min 5 (ilog2 (k div base)))) msg"])
      (simp add: mk_report_def)
qed

definition sample_function :: "nat \<Rightarrow> clean_lines" where
  "sample_function n = CleansedLines ([''void f() {''] @ replicate n ''  a = b;'' @ [''}''])"

lemma function_length_outcome_witness:
  "check_lines (-1) (sample_function 126) (0 # [1..<127] @ [127]) ([], new_function_state) = Inl ValueError
   \<and> (\<exists>r. check_lines 0 (sample_function 251) (0 # [1..<252] @ [252]) ([], new_function_state) =
        Inr ([r], fn_End ((fn_Begin ''f()'' new_function_state)\<lparr>lines_in_function := 251\<rparr>)) \<and> r_line r = 252)"
proof -
  have l: "CleanseComments ''void f() {'' = ''void f() {''" "CleanseComments ''  a = b;'' = ''  a = b;''" "CleanseComments ''}'' = ''}''" by code_simp+
  have lines: "cl_lines (sample_function n) = ''void f() {'' # replicate n ''  a = b;'' @ [''}'']" for n
    unfolding sample_function_def CleansedLines_def by (simp only: map_append list.map map_replicate l clean_lines.simps append_Cons append_Nil)
  have b: "body_line ''  a = b;''" "\<not> matches RE_BLANK ''  a = b;''" "starting_func ''void f() {'' = Inr True"
    "starting_func ''}'' = Inr False" "matches RE_FN_END ''}''" "\<not> matches RE_TEST_FN ''f()''"
    "find_body (''void f() {'' # ls) [] = BodyAfter '' void f() {''" "function_title ''void f() {'' '' void f() {'' = Inr ''f()''" for ls
    by code_simp+
  have len: "NumLines (sample_function n) = Suc (Suc n)" for n by (simp add: sample_function_def CleansedLines_def NumLines_def)
  have s: "starts_function (sample_function n) 0 ''f()''" for n
    unfolding starts_function_def lines len by (simp add: b del: find_body.simps)
  have e: "ends_function (sample_function n) (Suc n)" for n
    unfolding ends_function_def lines by (simp add: nth_append b)
  have m: "cl_lines (sample_function n) ! i = ''  a = b;''" if "i \<in> set [1..<Suc n]" for n i
  proof -
    have "i = Suc (i - 1)" "i - 1 < n" using that by (auto simp del: upt_Suc)
    then show ?thesis unfolding lines by (simp add: nth_Cons' nth_append)
  qed
  have k: "filter (\<lambda>i. \<not> matches RE_BLANK (cl_lines (sample_function n) ! i)) [1..<Suc n] = [1..<Suc n]" for n
    using m b(2) by (intro filter_True) simp
  have "\<forall>i\<in>set [1..<Suc n]. i < length (cl_lines (sample_function n)) \<and> body_line (cl_lines (sample_function n) ! i)" for n
    using m b(1) by (auto simp: lines simp del: upt_Suc)
  note out = function_length_outcome [OF s e this refl refl, unfolded k]
  from out [of "-1" 126 new_function_state] out [of 0 251 new_function_state] b(6) show ?thesis by auto
qed

end
