(* ===== verification/Known_Reports.thy ===== *)
theory Known_Reports
  imports Style_Checks Language_Checks Include_Use Function_State
begin

text \<open>
  What the built-in checks may report: each check, whatever the lines and the state it is given, only
  makes reports of the categories in \<open>_ERROR_CATEGORIES\<close>, with a confidence from 0 to 5. These are
  the categories that filters and NOLINT comments can name and the levels that a verbosity can select.
\<close>

section \<open>Known reports\<close>

definition known_report :: "report \<Rightarrow> bool" where
  "known_report r \<longleftrightarrow> r_category r \<in> set ERROR_CATEGORIES \<and> 0 \<le> r_confidence r \<and> r_confidence r \<le> 5"

lemma known_categories [simp]:
  "''build/class'' \<in> set ERROR_CATEGORIES" "''build/deprecated'' \<in> set ERROR_CATEGORIES" "''build/endif_comment'' \<in> set ERROR_CATEGORIES"
  "''build/explicit_make_pair'' \<in> set ERROR_CATEGORIES" "''build/forward_decl'' \<in> set ERROR_CATEGORIES"
  "''build/header_guard'' \<in> set ERROR_CATEGORIES" "''build/include'' \<in> set ERROR_CATEGORIES"
  "''build/include_alpha'' \<in> set ERROR_CATEGORIES" "''build/include_order'' \<in> set ERROR_CATEGORIES"
  "''build/include_what_you_use'' \<in> set ERROR_CATEGORIES" "''build/namespaces'' \<in> set ERROR_CATEGORIES"
  "''build/printf_format'' \<in> set ERROR_CATEGORIES" "''build/storage_class'' \<in> set ERROR_CATEGORIES"
  "''legal/copyright'' \<in> set ERROR_CATEGORIES" "''readability/alt_tokens'' \<in> set ERROR_CATEGORIES"
  "''readability/braces'' \<in> set ERROR_CATEGORIES" "''readability/casting'' \<in> set ERROR_CATEGORIES"
  "''readability/check'' \<in> set ERROR_CATEGORIES" "''readability/constructors'' \<in> set ERROR_CATEGORIES"
  "''readability/fn_size'' \<in> set ERROR_CATEGORIES" "''readability/function'' \<in> set ERROR_CATEGORIES"
  "''readability/multiline_comment'' \<in> set ERROR_CATEGORIES" "''readability/multiline_string'' \<in> set ERROR_CATEGORIES"
  "''readability/namespace'' \<in> set ERROR_CATEGORIES" "''readability/nolint'' \<in> set ERROR_CATEGORIES"
  "''readability/streams'' \<in> set ERROR_CATEGORIES" "''readability/todo'' \<in> set ERROR_CATEGORIES"
  "''runtime/arrays'' \<in> set ERROR_CATEGORIES" "''runtime/casting'' \<in> set ERROR_CATEGORIES" "''runtime/explicit'' \<in> set ERROR_CATEGORIES"
  "''runtime/int'' \<in> set ERROR_CATEGORIES" "''runtime/init'' \<in> set ERROR_CATEGORIES"
  "''runtime/invalid_increment'' \<in> set ERROR_CATEGORIES" "''runtime/member_string_references'' \<in> set ERROR_CATEGORIES"
  "''runtime/memset'' \<in> set ERROR_CATEGORIES" "''runtime/operator'' \<in> set ERROR_CATEGORIES" "''runtime/printf'' \<in> set ERROR_CATEGORIES"
  "''runtime/printf_format'' \<in> set ERROR_CATEGORIES" "''runtime/references'' \<in> set ERROR_CATEGORIES"
  "''runtime/rtti'' \<in> set ERROR_CATEGORIES" "''runtime/sizeof'' \<in> set ERROR_CATEGORIES" "''runtime/string'' \<in> set ERROR_CATEGORIES"
  "''runtime/threadsafe_fn'' \<in> set ERROR_CATEGORIES" "''whitespace/blank_line'' \<in> set ERROR_CATEGORIES"
  "''whitespace/braces'' \<in> set ERROR_CATEGORIES" "''whitespace/braces_pos'' \<in> set ERROR_CATEGORIES"
  "''whitespace/comma'' \<in> set ERROR_CATEGORIES" "''whitespace/comments'' \<in> set ERROR_CATEGORIES"
  "''whitespace/empty_loop_body'' \<in> set ERROR_CATEGORIES" "''whitespace/end_of_line'' \<in> set ERROR_CATEGORIES"
  "''whitespace/ending_newline'' \<in> set ERROR_CATEGORIES" "''whitespace/forcolon'' \<in> set ERROR_CATEGORIES"
  "''whitespace/indent'' \<in> set ERROR_CATEGORIES" "''whitespace/labels'' \<in> set ERROR_CATEGORIES"
  "''whitespace/line_length'' \<in> set ERROR_CATEGORIES" "''whitespace/newline'' \<in> set ERROR_CATEGORIES"
  "''whitespace/operators'' \<in> set ERROR_CATEGORIES" "''whitespace/parens'' \<in> set ERROR_CATEGORIES"
  "''whitespace/semicolon'' \<in> set ERROR_CATEGORIES" "''whitespace/tab'' \<in> set ERROR_CATEGORIES"
  "''whitespace/todo'' \<in> set ERROR_CATEGORIES"
  by (simp_all add: ERROR_CATEGORIES_def)

lemma known_mk_report [simp]:
  "known_report (mk_report l c k m) \<longleftrightarrow> c \<in> set ERROR_CATEGORIES \<and> 0 \<le> k \<and> k \<le> 5"
  by (simp add: known_report_def mk_report_def)

lemma known_report_if [simp]:
  "list_all known_report (report_if b n c k m) \<longleftrightarrow> (b \<longrightarrow> c \<in> set ERROR_CATEGORIES \<and> 0 \<le> k \<and> k \<le> 5)"
  by (simp add: report_if_def)

text \<open>A result whose reports, if it is reached, are known; \<open>out\<close> finds them in it.\<close>

definition yields :: "('a \<Rightarrow> report list) \<Rightarrow> 'a py \<Rightarrow> bool" where
  "yields out m \<longleftrightarrow> (\<forall>x. m = Inr x \<longrightarrow> list_all known_report (out x))"

abbreviation known :: "report list py \<Rightarrow> bool" where
  "known \<equiv> yields (\<lambda>rs. rs)"

lemma yields_simps [simp]:
  "yields out (Inl e)" "yields out (Inr x) \<longleftrightarrow> list_all known_report (out x)"
  by (simp_all add: yields_def)

lemma yields_bind: "(\<And>x. m = Inr x \<Longrightarrow> yields out (f x)) \<Longrightarrow> yields out (py_bind m f)"
  by (auto simp: yields_def py_bind_eq_Inr)

lemma yieldsD: "yields out m \<Longrightarrow> m = Inr x \<Longrightarrow> list_all known_report (out x)"
  by (simp add: yields_def)

lemma CheckForCopyright_known: "list_all known_report (CheckForCopyright y ls)"
  by (simp add: CheckForCopyright_def)

lemma guard_report_known: "known_report (guard_report n m)"
  by (simp add: guard_report_def)

lemma RemoveMultiLineComments_known: "list_all known_report (fst (RemoveMultiLineComments ls))"
proof -
  have "list_all known_report (fst (remove_comments_from i ls))" for i
  proof (induction i ls rule: remove_comments_from.induct)
    case (1 i ls)
    then show ?case by (subst remove_comments_from.simps) (auto simp: Let_def)
  qed
  then show ?thesis by (simp add: RemoveMultiLineComments_def)
qed

lemma CheckForNewlineAtEOF_known: "known (CheckForNewlineAtEOF ls)"
  unfolding CheckForNewlineAtEOF_def by (intro yields_bind) simp

lemma file_checks_known:
  "known (CheckForMultilineCommentsAndStrings cl n)" "known (CheckPosixThreading cl n)" "known (CheckInvalidIncrement cl n)"
  "list_all known_report (CheckComment s n)"
proof -
  have "known (threading_from fs line n)" for fs line
    by (induction fs line n rule: threading_from.induct) (auto intro!: yields_bind dest: yieldsD)
  then show "known (CheckPosixThreading cl n)" unfolding CheckPosixThreading_def by (intro yields_bind)
  show "known (CheckForMultilineCommentsAndStrings cl n)"
    unfolding CheckForMultilineCommentsAndStrings_def Let_def by (intro yields_bind) simp
  show "known (CheckInvalidIncrement cl n)"
    unfolding CheckInvalidIncrement_def by (intro yields_bind) simp
  show "list_all known_report (CheckComment s n)"
    by (simp add: CheckComment_def split: option.split)
qed

lemma brace_checks_known:
  "known (CheckAccess cl n st)" "known (CheckSectionSpacing cl c n)" "known (CheckBraces cl n)" "known (CheckEmptyLoopBody cl n)"
  "known (CheckCheck cl n)" "known (CheckAltTokens cl n)"
proof -
  show "known (CheckAccess cl n st)"
    unfolding CheckAccess_def by (intro yields_bind) (simp split: option.split list.split)
  show "known (CheckSectionSpacing cl c n)"
    unfolding CheckSectionSpacing_def by (auto intro!: yields_bind split: option.split)
  show "known (CheckBraces cl n)"
    unfolding CheckBraces_def Let_def by (intro yields_bind) simp
  show "known (CheckEmptyLoopBody cl n)"
    unfolding CheckEmptyLoopBody_def by (auto intro!: yields_bind)
  have "known (first_replaceable ops m line n)" for ops m line
    by (induction ops m line n rule: first_replaceable.induct) (auto intro!: yields_bind split: option.split)
  then show "known (CheckCheck cl n)"
    unfolding CheckCheck_def by (intro yields_bind) (auto intro!: yields_bind split: option.split)
  have "known (py_map (alt_token_report n) ms)" for ms
    by (induction ms) (auto intro!: yields_bind simp: alt_token_report_def dest: yieldsD split: option.splits)
  then show "known (CheckAltTokens cl n)"
    unfolding CheckAltTokens_def by (intro yields_bind) simp
qed

lemma spacing_parts_known:
  "known (block_start_reports cl n p)" "known (block_end_reports cl n)" "list_all known_report (comment_reports s n)"
  "known (operator_reports cl n s)" "list_all known_report (paren_reports n s)" "list_all known_report (CheckSpacingForFunctionCall s n)"
  "list_all known_report (semicolon_reports n s)"
proof -
  show "known (block_start_reports cl n p)"
    unfolding block_start_reports_def Let_def by (auto intro!: yields_bind)
  show "known (block_end_reports cl n)"
    unfolding block_end_reports_def by (auto intro!: yields_bind)
  show "list_all known_report (comment_reports s n)"
    by (simp add: comment_reports_def Let_def file_checks_known)
  have "known (angle_reports cl n s)"
    unfolding angle_reports_def Let_def by (auto intro!: yields_bind)
  then show "known (operator_reports cl n s)"
    unfolding operator_reports_def by (intro yields_bind) (auto dest: yieldsD split: option.split)
  show "list_all known_report (paren_reports n s)"
    by (simp add: paren_reports_def split: option.split)
  show "list_all known_report (CheckSpacingForFunctionCall s n)"
    by (simp add: CheckSpacingForFunctionCall_def Let_def)
  show "list_all known_report (semicolon_reports n s)"
    by (simp add: semicolon_reports_def)
qed

lemma blank_line_reports_known: "known (blank_line_reports cl n st s)"
  unfolding blank_line_reports_def
  by (auto intro!: yields_bind dest: yieldsD [OF spacing_parts_known(1)] yieldsD [OF spacing_parts_known(2)] split: option.split)

lemma CheckSpacing_known: "known (CheckSpacing cl n st)"
  unfolding CheckSpacing_def Let_def
  by (intro yields_bind) (auto simp: spacing_parts_known
    dest: yieldsD [OF blank_line_reports_known] yieldsD [OF spacing_parts_known(4)])

lemma CheckForNonStandardConstructs_known: "known (CheckForNonStandardConstructs cl n st)"
proof -
  have e: "known (explicit_reports st n s)" for s
    unfolding explicit_reports_def Let_def by (auto intro!: yields_bind split: option.split)
  show ?thesis unfolding CheckForNonStandardConstructs_def Let_def
    by (intro yields_bind) (auto dest: yieldsD [OF e])
qed

lemma CheckStyle_known: "known (CheckStyle fs fn ext cl n st)"
proof -
  have s: "known (style_reports fs fn ext cl n)"
    unfolding style_reports_def Let_def by (intro yields_bind) (simp add: line_length_reports_def Let_def)
  have c: "known (case InnermostClass st of None \<Rightarrow> Inr [] | Some (b, c) \<Rightarrow> CheckSectionSpacing cl c n)"
    by (auto simp: brace_checks_known split: option.split)
  show ?thesis unfolding CheckStyle_def
    by (intro yields_bind) (simp add: yieldsD [OF s] yieldsD [OF c] yieldsD [OF CheckSpacing_known] yieldsD [OF brace_checks_known(1)]
      yieldsD [OF brace_checks_known(3)] yieldsD [OF brace_checks_known(4)] yieldsD [OF brace_checks_known(5)] yieldsD [OF brace_checks_known(6)])
qed

lemma language_parts_known:
  "known (function_cast_reports cl n s)" "known (printf_reports n s)" "known (disallow_reports cl n s)"
  "list_all known_report (reference_reports n s)" "list_all known_report (c_cast_reports n s raw)" "list_all known_report (CheckSizeOf n s p)"
  "list_all known_report (global_string_reports n s)" "list_all known_report (c_type_reports n s)" "list_all known_report (c_function_reports n s)"
  "list_all known_report (memset_reports n s)" "list_all known_report (array_reports n s)"
proof -
  show "known (function_cast_reports cl n s)"
    unfolding function_cast_reports_def by (auto intro!: yields_bind split: option.split)
  show "known (printf_reports n s)"
    unfolding printf_reports_def by (intro yields_bind) (auto split: option.split)
  show "known (disallow_reports cl n s)"
    unfolding disallow_reports_def by (auto intro!: yields_bind split: option.split)
  have cast: "list_all known_report (fst (CheckCStyleCast n s raw t p))" for t p
    by (simp add: CheckCStyleCast_def Let_def split: option.split)
  show "list_all known_report (c_cast_reports n s raw)"
    by (simp add: c_cast_reports_def Let_def split_beta cast)
qed (simp_all add: reference_reports_def CheckSizeOf_def global_string_reports_def c_type_reports_def c_function_reports_def
    memset_reports_def array_reports_def Let_def split: option.split)

lemma CheckMakePair_known: "known (CheckMakePairUsesDeduction cl n)"
  unfolding CheckMakePairUsesDeduction_def by (intro yields_bind) simp

lemma include_parts_known:
  "list_all known_report (include_path_reports n s)" "list_all known_report (stream_reports fn n s)"
  "yields fst (record_include fs fn n inc sys sc)"
proof -
  show "list_all known_report (include_path_reports n s)" by (simp add: include_path_reports_def Let_def)
  show "list_all known_report (stream_reports fn n s)" by (simp add: stream_reports_def split: option.split)
  have a: "fst (CheckIncludeAlphabeticalOrder inc n sc) = Some (c, m) \<Longrightarrow> c \<in> set ERROR_CATEGORIES" for sc c m
    by (auto simp: CheckIncludeAlphabeticalOrder_def Let_def split: if_splits)
  have rs: "list_all known_report rs"
    if "(if e = [] then Inr [] else py_bind b (\<lambda>base. Inr [mk_report n ''build/include_order'' 4 (msg base)])) = Inr rs" for e b msg rs
    using that by (auto simp: py_bind_eq_Inr split: if_splits)
  show "yields fst (record_include fs fn n inc sys sc)"
    unfolding record_include_def Let_def split_beta
    by (auto intro!: yields_bind dest: a rs split: option.split)
qed

lemma CheckIncludeLine_known: "yields fst (CheckIncludeLine fs fn n s st)"
proof -
  have r: "yields fst (case Search RE_INCLUDE s of None \<Rightarrow> Inr ([], sc)
      | Some m \<Rightarrow> py_bind (record_include fs fn n (m_str m 2) (m_group m 1 = Some ''<'') sc) (\<lambda>(rs, sc).
          Inr (include_path_reports n (m_str m 2) @ rs, sc)))" for sc
    by (auto intro!: yields_bind dest: yieldsD [OF include_parts_known(3)] simp: include_parts_known split: option.split)
  have "yields fst (include_line fs fn n s st)"
    unfolding include_line_def Let_def by (intro yields_bind) (auto dest: yieldsD [OF r] simp: include_parts_known split: prod.split)
  then show ?thesis unfolding CheckIncludeLine_def by (auto intro!: yields_bind)
qed

lemma CheckLanguage_known: "yields fst (CheckLanguage fs fn ext cl n st)"
proof -
  have l: "known (language_reports fn ext cl n s raw)" for s raw
    unfolding language_reports_def
    by (intro yields_bind) (simp add: language_parts_known yieldsD [OF language_parts_known(1)] yieldsD [OF language_parts_known(2)] yieldsD [OF language_parts_known(3)])
  show ?thesis unfolding CheckLanguage_def
    by (intro yields_bind) (auto intro!: yields_bind simp: CheckIncludeLine_known dest: yieldsD [OF l])
qed

lemma CheckForFunctionLengths_known: "yields fst (CheckForFunctionLengths v cl n st)"
proof -
  have c: "known (fn_Check v m st)" for m by (simp add: fn_Check_def Let_def)
  show ?thesis unfolding CheckForFunctionLengths_def
    by (intro yields_bind) (auto intro!: yields_bind dest: yieldsD [OF c] split: body_start.split)
qed

lemma Update_known: "yields fst (Update cl n st)"
proof -
  have e: "known (CheckEnd raw n b)" for raw n b
    unfolding CheckEnd_def by (auto intro!: yields_bind split: block_kind.split)
  have b: "yields fst (consume_braces raw n line stack)" for raw n line stack
  proof (induction raw n line stack rule: consume_braces.induct)
    case (1 raw n line stack)
    show ?case
    proof (cases "Match RE_BRACE_TOKEN line")
      case (Some m)
      note ih = 1 [OF Some refl]
      show ?thesis
        using ih by (subst consume_braces.simps) (auto intro!: yields_bind dest: yieldsD [OF e] yieldsD simp: Some Let_def split: list.split)
    qed (subst consume_braces.simps, simp)
  qed
  show ?thesis unfolding Update_def Let_def split_beta by (intro yields_bind) (auto dest: yieldsD [OF b])
qed

lemma end_checks_known:
  "list_all known_report (CheckClassFinished st)" "list_all known_report (CheckForIncludeWhatYouUse fs ord fn cl keys)"
proof -
  show "list_all known_report (CheckClassFinished st)"
    by (auto simp: CheckClassFinished_def list_all_iff split: option.splits)
  show "list_all known_report (CheckForIncludeWhatYouUse fs ord fn cl keys)"
    by (auto simp: CheckForIncludeWhatYouUse_def Let_def list_all_iff report_if_def split: prod.splits option.splits if_splits)
qed

end
