(* ===== verification/Process.thy ===== *)
theory Process
  imports Known_Reports
begin

text \<open>
  The processing of lines and files: \<open>ProcessLine\<close>, \<open>ProcessFileData\<close>, \<open>ReadWithEncodingDetect\<close> and
  \<open>ProcessFile\<close>. The reports of each check go to the error handler in the order of the source.

  The lemmas state that everything written while a file is checked is one message for each counted
  error, that the counters stay consistent, and what happens to files that are not checked.
\<close>

section \<open>The environment\<close>

text \<open>
  What the run reads from outside: the file system, the current year, the iteration orders of the
  dictionary of headers and of other dictionaries, the two decodings (as UTF-8 and as GBK) of each
  file that can be opened, and standard input.
\<close>

record py_env =
  env_fs :: file_system
  env_year :: nat
  env_keys :: "(string \<rightharpoonup> int) \<Rightarrow> string list"
  env_order :: "string list \<Rightarrow> string list"
  env_decode :: "string \<Rightarrow> (string \<times> string) option"
  env_stdin :: string

text \<open>The objects that live while one file is processed.\<close>

record line_state =
  ls_include :: include_state
  ls_function :: function_state
  ls_nesting :: nesting_state

type_synonym check_fn = "string \<Rightarrow> clean_lines \<Rightarrow> nat \<Rightarrow> report list py"

section \<open>ProcessLine\<close>

text \<open>Run a check and hand its reports to the error handler.\<close>

definition run_check :: "string \<Rightarrow> report list py \<Rightarrow> world \<Rightarrow> world py" where
  "run_check filename rs w = py_bind rs (\<lambda>rs. emit_all filename rs w)"

definition in_asm :: "nesting_state \<Rightarrow> bool" where
  "in_asm st \<longleftrightarrow> (case nest_stack st of [] \<Rightarrow> False | b # _ \<Rightarrow> inline_asm b \<noteq> NO_ASM)"

definition ProcessLine ::
  "py_env \<Rightarrow> check_fn list \<Rightarrow> string \<Rightarrow> string \<Rightarrow> clean_lines \<Rightarrow> nat \<Rightarrow> line_state \<times> world \<Rightarrow> (line_state \<times> world) py" where
  "ProcessLine env extra filename ext cl line lw =
     (let (ls, w) = lw
      in py_bind (py_get (cl_raw cl) (int line)) (\<lambda>raw_line.
         py_bind (ParseNolintSuppressions filename raw_line (int line) w) (\<lambda>w.
         py_bind (Update cl line (ls_nesting ls)) (\<lambda>(rs, nesting).
         py_bind (emit_all filename rs w) (\<lambda>w.
           let ls = ls\<lparr>ls_nesting := nesting\<rparr>
           in if in_asm nesting then Inr (ls, w)
              else
                py_bind (CheckForFunctionLengths (verbose_level (lint w)) cl line (ls_function ls)) (\<lambda>(rs, fn).
                py_bind (emit_all filename rs w) (\<lambda>w.
                py_bind (run_check filename (CheckForMultilineCommentsAndStrings cl line) w) (\<lambda>w.
                py_bind (run_check filename (CheckStyle (env_fs env) filename ext cl line nesting) w) (\<lambda>w.
                py_bind (CheckLanguage (env_fs env) filename ext cl line (ls_include ls)) (\<lambda>(rs, inc).
                py_bind (emit_all filename rs w) (\<lambda>w.
                py_bind (run_check filename (CheckForNonStandardConstructs cl line nesting) w) (\<lambda>w.
                py_bind (run_check filename (CheckPosixThreading cl line) w) (\<lambda>w.
                py_bind (run_check filename (CheckInvalidIncrement cl line) w) (\<lambda>w.
                py_bind (run_check filename (CheckMakePairUsesDeduction cl line) w) (\<lambda>w.
                py_bind (py_fold (\<lambda>check_fn. run_check filename (check_fn filename cl line)) extra w) (\<lambda>w.
                  Inr (ls\<lparr>ls_function := fn, ls_include := inc\<rparr>, w)))))))))))))))))"

section \<open>ProcessFileData\<close>

definition new_line_state :: line_state where
  "new_line_state = \<lparr>ls_include = new_include_state, ls_function = new_function_state, ls_nesting = new_nesting_state\<rparr>"

definition first_marker :: string where
  "first_marker = ''// marker so line numbers and indices both start at 1''"

definition last_marker :: string where
  "last_marker = ''// marker so line numbers end in a known way''"

text \<open>
  \<open>RemoveMultiLineComments\<close> changes the list in place, so that the checks after it see its result.
  The test for the Unicode replacement character, which is not in the Latin-1 range, never reports.
\<close>

definition ProcessFileData :: "py_env \<Rightarrow> check_fn list \<Rightarrow> string \<Rightarrow> string \<Rightarrow> string list \<Rightarrow> world \<Rightarrow> world py" where
  "ProcessFileData env extra filename ext lines w =
     (let lines = first_marker # lines @ [last_marker]
      in py_bind (ParseGlobalNolintSuppressions filename lines w) (\<lambda>w.
         py_bind (emit_all filename (CheckForCopyright (env_year env) lines) (ResetNolintSuppressions w)) (\<lambda>w.
         py_bind (if IsHeaderFileExtension ext then CheckForHeaderGuard (env_fs env) filename lines w else Inr w) (\<lambda>w.
           let (rs, lines) = RemoveMultiLineComments lines; cl = CleansedLines lines
           in py_bind (emit_all filename rs w) (\<lambda>w.
              py_bind (py_fold (ProcessLine env extra filename ext cl) [0..<NumLines cl] (new_line_state, w)) (\<lambda>(ls, w).
              py_bind (emit_all filename (CheckClassFinished (ls_nesting ls)) w) (\<lambda>w.
              py_bind (emit_all filename (CheckForIncludeWhatYouUse (env_fs env) (env_order env) filename cl
                         (env_keys env (get_all (ls_include ls)))) w) (\<lambda>w.
                run_check filename (CheckForNewlineAtEOF lines) w))))))))"

section \<open>ProcessFile\<close>

definition ReadWithEncodingDetect :: "py_env \<Rightarrow> string \<Rightarrow> string list py" where
  "ReadWithEncodingDetect env filename =
     (case env_decode env filename of
        None \<Rightarrow> Inl IOError
      | Some (utf8, gbk) \<Rightarrow>
          (let utf8_lines = py_split utf8 [CHR 0x0A]; gbk_lines = py_split gbk [CHR 0x0A]
           in Inr (if length utf8_lines > length gbk_lines then utf8_lines else gbk_lines)))"

definition strip_cr :: "string \<Rightarrow> string" where
  "strip_cr line = (if py_endswith line [CHR 0x0D] then rstrip_char (CHR 0x0D) line else line)"

definition write_err :: "string \<Rightarrow> world \<Rightarrow> world" where
  "write_err s w = w\<lparr>stderr := stderr w @ [s]\<rparr>"

definition write_unless_quiet :: "string \<Rightarrow> world \<Rightarrow> world" where
  "write_unless_quiet s w = (if quiet (lint w) then w else write_err s w)"

text \<open>The extension, which is the whole name when it has no dot, and \<open>repr\<close> of the list of extensions.\<close>

definition extension_of :: "string \<Rightarrow> string" where
  "extension_of filename = slice_from filename (py_rfind filename ''.'' + 1)"

definition repr_list :: "string list \<Rightarrow> string" where
  "repr_list xs = ''['' @ py_join '', '' (map (\<lambda>x. [CHR 0x27] @ x @ [CHR 0x27]) xs) @ '']''"

definition cr_message :: string where
  "cr_message = ''One or more unexpected '' @ [CHR 0x5C] @ ''r (^M) found;better to use only a '' @ [CHR 0x5C] @ ''n''"

definition read_lines :: "py_env \<Rightarrow> string \<Rightarrow> string list py" where
  "read_lines env filename =
     (if filename = ''-'' then Inr (py_split (env_stdin env) [CHR 0x0A]) else ReadWithEncodingDetect env filename)"

text \<open>On a POSIX system, where \<open>os.linesep\<close> is a newline. An \<open>IOError\<close> while reading skips the file.\<close>

definition ProcessFile :: "py_env \<Rightarrow> check_fn list \<Rightarrow> string \<Rightarrow> int \<Rightarrow> world \<Rightarrow> world py" where
  "ProcessFile env extra filename vlevel w =
     (let w = w\<lparr>lint := snd (SetVerboseLevel vlevel (lint w))\<rparr>
      in case read_lines env filename of
           Inl e \<Rightarrow>
             if e = IOError then
               Inr (write_unless_quiet (''Skipping input '' @ [CHR 0x27] @ filename @ [CHR 0x27] @ '': Can'' @ [CHR 0x27]
                 @ ''t open for reading'' @ [CHR 0x0A]) w)
             else Inl e
         | Inr lines \<Rightarrow>
             (let carriage_return_found = list_ex (\<lambda>l. py_endswith l [CHR 0x0D]) lines;
                  lines = map strip_cr lines; ext = extension_of filename
              in py_bind
                   (if filename \<noteq> ''-'' \<and> ext \<notin> set ALL_EXTENSIONS then
                      Inr (write_unless_quiet (''Ignoring '' @ filename @ ''; not a '' @ repr_list ALL_EXTENSIONS @ '' file'' @ [CHR 0x0A]) w)
                    else py_bind (ProcessFileData env extra filename ext lines w) (\<lambda>w.
                      if carriage_return_found then Error filename (mk_report 0 ''whitespace/newline'' 1 cr_message) w else Inr w))
                   (\<lambda>w. Inr (write_unless_quiet (''Done processing '' @ filename @ [CHR 0x0A]) w))))"

section \<open>What is written while a file is checked\<close>

text \<open>
  One message for each counted error, and counters that stay consistent: the relation between the
  globals before and after any step.
\<close>

definition reported :: "world \<Rightarrow> world \<Rightarrow> bool" where
  "reported w w' \<longleftrightarrow>
     (\<exists>msgs. stderr w' = stderr w @ msgs \<and> error_count (lint w') = error_count (lint w) + length msgs
        \<and> (msgs = [] \<longrightarrow> errors_by_category (lint w') = errors_by_category (lint w)))
     \<and> (counts_ok (lint w) \<longrightarrow> counts_ok (lint w'))
     \<and> quiet (lint w') = quiet (lint w) \<and> verbose_level (lint w') = verbose_level (lint w)
     \<and> counting (lint w') = counting (lint w)"

lemma reported_refl [simp]: "reported w w"
  by (simp add: reported_def)

lemma reported_trans: "reported u v \<Longrightarrow> reported v w \<Longrightarrow> reported u w"
  by (fastforce simp: reported_def)

lemma Error_reported: "Error fn r w = Inr w' \<Longrightarrow> reported w w'"
  by (auto simp: Error_def py_bind_eq_Inr reported_def IncrementErrorCount_ok split: if_splits)

text \<open>
  Steps in sequence. A result that is reached is related to the globals \<open>w\<close> it started from; the
  steps that change the globals extend this, all others leave it.
\<close>

definition since :: "(world \<Rightarrow> world \<Rightarrow> bool) \<Rightarrow> world \<Rightarrow> ('a \<Rightarrow> world) \<Rightarrow> 'a py \<Rightarrow> bool" where
  "since R w out m \<longleftrightarrow> (\<forall>x. m = Inr x \<longrightarrow> R w (out x))"

lemma since_bind:
  fixes m :: "world py"
  shows "since R w (\<lambda>v. v) m \<Longrightarrow> (\<And>v. R w v \<Longrightarrow> since R w out (f v)) \<Longrightarrow> since R w out (py_bind m f)"
  by (auto simp: since_def py_bind_eq_Inr)

text \<open>A check that yields its reports with a new state of its own, and the handler run on them.\<close>

lemma since_bind_state:
  fixes m :: "(line_state \<times> world) py"
  shows "since R w snd m \<Longrightarrow> (\<And>ls v. R w v \<Longrightarrow> since R w out (f (ls, v))) \<Longrightarrow> since R w out (py_bind m f)"
  by (auto simp: since_def py_bind_eq_Inr)

lemma since_skip:
  fixes m :: "'m py"
  shows "(\<And>x. since R w out (f x)) \<Longrightarrow> since R w out (py_bind m f)"
  by (auto simp: since_def py_bind_eq_Inr)

lemma since_skip_reports:
  fixes m :: "(report list \<times> 'm) py"
  shows "yields fst m \<Longrightarrow> (\<And>x. list_all known_report (fst x) \<Longrightarrow> since R w out (f x)) \<Longrightarrow> since R w out (py_bind m f)"
  by (auto simp: since_def yields_def py_bind_eq_Inr)

lemma since_raise [simp]: "since R w out (Inl e)"
  by (simp add: since_def)

lemma since_if: "since R w out x \<Longrightarrow> since R w out y \<Longrightarrow> since R w out (if b then x else y)"
  by simp

lemma since_done: "R w v \<Longrightarrow> since R w snd (Inr (ls, v))"
  by (simp add: since_def)

lemmas since_pure [intro] =
  since_skip [where 'm = string] since_skip [where 'm = regex]
  since_skip_reports [OF Update_known] since_skip_reports [OF CheckForFunctionLengths_known]
  since_skip_reports [OF CheckLanguage_known]

text \<open>
  The contract between the handler and the code that calls it: a relation between the globals before
  and after, which the handler keeps on the reports it accepts and which does not depend on the
  suppressions and filters. The handler accepts what the built-in checks and the additional ones
  report. Then every step of the run over a file keeps the relation.
\<close>

locale reporting =
  fixes R :: "world \<Rightarrow> world \<Rightarrow> bool" and accepts :: "report \<Rightarrow> bool" and fn :: string and extra :: "check_fn list"
  assumes stays: "R w w"
    and joins: "R u v \<Longrightarrow> R v w \<Longrightarrow> R u w"
    and handled: "accepts r \<Longrightarrow> Error fn r w = Inr w' \<Longrightarrow> R w w'"
    and suppressing: "R w (w\<lparr>error_suppressions := sups\<rparr>)"
    and filtering: "R w (w\<lparr>lint := (lint w)\<lparr>filters := fs\<rparr>\<rparr>)"
    and known_accepted: "known_report r \<Longrightarrow> accepts r"
    and extra_accepted: "f \<in> set extra \<Longrightarrow> f fn cl n = Inr rs \<Longrightarrow> list_all accepts rs"
begin

lemma loop:
  "(\<And>x s s'. x \<in> set xs \<Longrightarrow> step x s = Inr s' \<Longrightarrow> R (globals s) (globals s')) \<Longrightarrow> py_fold step xs s = Inr s'
     \<Longrightarrow> R (globals s) (globals s')"
proof (induction xs arbitrary: s)
  case (Cons x xs)
  from Cons.prems(2) obtain t where t: "step x s = Inr t" "py_fold step xs t = Inr s'" by (auto simp: py_bind_eq_Inr)
  have "R (globals s) (globals t)" by (rule Cons.prems(1) [OF _ t(1)]) simp
  moreover have "R (globals t) (globals s')" by (rule Cons.IH [OF _ t(2)], rule Cons.prems(1)) auto
  ultimately show ?case by (rule joins)
qed (simp add: stays)

lemma emit_all_keeps: "list_all accepts rs \<Longrightarrow> emit_all fn rs w = Inr w' \<Longrightarrow> R w w'"
  unfolding emit_all_def by (rule loop) (auto simp: list_all_iff intro: handled)

lemma known_list: "list_all known_report rs \<Longrightarrow> list_all accepts rs"
  by (auto simp: list_all_iff known_accepted)

lemma suppression_keeps [simp]: "R w (add_suppression k n w)" "R w (ResetNolintSuppressions w)"
  by (simp_all add: add_suppression_def ResetNolintSuppressions_def suppressing)

lemma unknown_nolint_keeps: "Error fn (mk_report n ''readability/nolint'' 5 m) w = Inr w' \<Longrightarrow> R w w'"
  by (rule handled [OF known_accepted]) simp_all

lemma ParseNolint_keeps: "ParseNolintSuppressions fn l n w = Inr w' \<Longrightarrow> R w w'"
  by (auto simp: ParseNolintSuppressions_def Let_def stays dest: unknown_nolint_keeps split: option.splits if_splits)

lemma global_nolint_keeps: "global_nolint_from fn n ls w = Inr w' \<Longrightarrow> R w w'"
proof (induction ls arbitrary: n w)
  case (Cons l ls)
  show ?case
    using Cons.prems Cons.IH filtering joins unknown_nolint_keeps stays
    by (simp add: Let_def split: option.splits if_splits) blast+
qed (simp add: stays)

lemma steps:
  assumes "R w v"
  shows "list_all known_report rs \<Longrightarrow> since R w (\<lambda>v. v) (emit_all fn rs v)" "known c \<Longrightarrow> since R w (\<lambda>v. v) (run_check fn c v)"
    "known_report r \<Longrightarrow> since R w (\<lambda>v. v) (Error fn r v)"
    "since R w (\<lambda>v. v) (ParseNolintSuppressions fn l n v)" "since R w (\<lambda>v. v) (Inr v)"
    "since R w (\<lambda>v. v) (py_fold (\<lambda>check_fn. run_check fn (check_fn fn cl k)) extra v)"
proof -
  note k = joins [OF assms]
  show "list_all known_report rs \<Longrightarrow> since R w (\<lambda>v. v) (emit_all fn rs v)"
    by (auto simp: since_def intro: k emit_all_keeps known_list)
  show "known c \<Longrightarrow> since R w (\<lambda>v. v) (run_check fn c v)"
    by (auto simp: since_def run_check_def py_bind_eq_Inr yields_def intro!: k emit_all_keeps known_list)
  show "known_report r \<Longrightarrow> since R w (\<lambda>v. v) (Error fn r v)"
    by (auto simp: since_def intro: k handled known_accepted)
  show "since R w (\<lambda>v. v) (ParseNolintSuppressions fn l n v)" by (auto simp: since_def intro: k ParseNolint_keeps)
  show "since R w (\<lambda>v. v) (Inr v)" using assms by (simp add: since_def)
  have "R v v'" if "py_fold (\<lambda>check_fn. run_check fn (check_fn fn cl k)) extra v = Inr v'" for v'
    by (rule loop [OF _ that]) (auto simp: run_check_def py_bind_eq_Inr dest: extra_accepted emit_all_keeps)
  then show "since R w (\<lambda>v. v) (py_fold (\<lambda>check_fn. run_check fn (check_fn fn cl k)) extra v)"
    by (auto simp: since_def intro: k)
qed

lemmas reports_known =
  file_checks_known CheckStyle_known CheckForNonStandardConstructs_known CheckMakePair_known end_checks_known
  CheckForCopyright_known RemoveMultiLineComments_known CheckForNewlineAtEOF_known

lemma ProcessLine_since: "since R (snd lw) snd (ProcessLine env extra fn ext cl n lw)"
  unfolding ProcessLine_def Let_def split_beta
  by (intro since_pure since_bind since_if steps since_done stays reports_known; assumption?)

lemma HeaderGuard_since: "R v w \<Longrightarrow> since R v (\<lambda>w. w) (CheckForHeaderGuard fs fn ls w)"
  unfolding CheckForHeaderGuard_def check_guard_names_def Let_def split_beta
  by (intro since_pure; simp split: option.split;
      intro conjI allI impI since_pure since_bind since_if steps guard_report_known; (assumption | simp)?)

lemma ProcessFileData_since: "since R w (\<lambda>w. w) (ProcessFileData env extra fn ext ls w)"
proof -
  have global: "since R w (\<lambda>w. w) (ParseGlobalNolintSuppressions fn ls' w)" for ls'
    by (auto simp: since_def ParseGlobalNolintSuppressions_def dest: global_nolint_keeps)
  have loop: "since R w snd (py_fold (ProcessLine env extra fn ext cl) ns (ls0, v))" if "R w v" for cl ns ls0 v
  proof -
    have "R (snd (ls0, v)) (snd x)" if "py_fold (ProcessLine env extra fn ext cl) ns (ls0, v) = Inr x" for x
      by (rule loop [OF _ that]) (use ProcessLine_since in \<open>auto simp: since_def\<close>)
    then show ?thesis using joins [OF that] by (simp add: since_def)
  qed
  have reset: "R w v \<Longrightarrow> R w (ResetNolintSuppressions v)" for v
    using joins suppression_keeps(2) by blast
  show ?thesis
    unfolding ProcessFileData_def Let_def split_beta
    by (intro since_bind since_bind_state global since_if HeaderGuard_since loop steps reports_known; (erule reset | assumption | simp)?)
qed

end

interpretation counted: reporting reported "\<lambda>_. True" fn extra for fn extra
  by unfold_locales
    (auto intro: reported_trans Error_reported simp: list_all_iff, auto simp: reported_def counts_ok_def)

text \<open>What is written: the messages of known reports whose confidence reaches the verbosity.\<close>

definition wrote :: "string \<Rightarrow> world \<Rightarrow> world \<Rightarrow> bool" where
  "wrote fn w w' \<longleftrightarrow>
     (\<exists>rs. stderr w' = stderr w @ map (format_error w fn) rs \<and> error_count (lint w') = error_count (lint w) + length rs
        \<and> list_all (\<lambda>r. known_report r \<and> verbose_level (lint w) \<le> r_confidence r) rs)
     \<and> output_format (lint w') = output_format (lint w) \<and> color w' = color w \<and> verbose_level (lint w') = verbose_level (lint w)"

lemma format_error_settings:
  "output_format (lint v) = output_format (lint w) \<Longrightarrow> color v = color w \<Longrightarrow> format_error v = format_error w"
  by (intro ext) (simp add: format_error_def Let_def)

lemma IncrementErrorCount_settings [simp]:
  "output_format (IncrementErrorCount c l) = output_format l" "verbose_level (IncrementErrorCount c l) = verbose_level l"
  "error_count (IncrementErrorCount c l) = Suc (error_count l)"
  by (simp_all add: IncrementErrorCount_def Let_def)

lemma wrote_refl: "wrote fn w w"
  unfolding wrote_def by (auto intro: exI [of _ "[]"])

lemma wrote_trans:
  assumes "wrote fn u v" "wrote fn v w"
  shows "wrote fn u w"
proof -
  from assms obtain rs1 rs2 where
    "stderr v = stderr u @ map (format_error u fn) rs1" "stderr w = stderr v @ map (format_error v fn) rs2"
    "error_count (lint v) = error_count (lint u) + length rs1" "error_count (lint w) = error_count (lint v) + length rs2"
    "list_all (\<lambda>r. known_report r \<and> verbose_level (lint u) \<le> r_confidence r) (rs1 @ rs2)"
    by (auto simp: wrote_def)
  with assms show ?thesis
    unfolding wrote_def by (auto intro!: exI [of _ "rs1 @ rs2"] simp: format_error_settings [of v u])
qed

lemma Error_wrote:
  assumes "known_report r" "Error fn r w = Inr w'"
  shows "wrote fn w w'"
proof (cases "w' = w")
  case False
  with assms(2) have "w' = w\<lparr>lint := IncrementErrorCount (r_category r) (lint w), stderr := stderr w @ [format_error w fn r]\<rparr>"
      "verbose_level (lint w) \<le> r_confidence r"
    by (auto simp: Error_def ShouldPrintError_def py_bind_eq_Inr split: if_splits)
  with assms(1) show ?thesis unfolding wrote_def by (auto intro!: exI [of _ "[r]"])
qed (simp add: wrote_refl)

interpretation written: reporting "wrote fn" known_report fn "[]" for fn
  by unfold_locales
    (auto intro: wrote_refl wrote_trans Error_wrote, auto simp: wrote_def intro: exI [of _ "[]"])

text \<open>
  The run over the lines of a file as a step relation: a state reached before line \<open>m\<close> and one reached
  before line \<open>n\<close>.
\<close>

inductive line_steps :: "py_env \<Rightarrow> check_fn list \<Rightarrow> string \<Rightarrow> string \<Rightarrow> clean_lines
    \<Rightarrow> nat \<times> line_state \<times> world \<Rightarrow> nat \<times> line_state \<times> world \<Rightarrow> bool"
  for env extra fn ext cl where
  stay: "line_steps env extra fn ext cl s s"
| step: "line_steps env extra fn ext cl s (n, lw) \<Longrightarrow> n < NumLines cl \<Longrightarrow> ProcessLine env extra fn ext cl n lw = Inr lw'
    \<Longrightarrow> line_steps env extra fn ext cl s (Suc n, lw')"

lemma line_steps_fold:
  "m \<le> n \<Longrightarrow> n \<le> NumLines cl \<Longrightarrow> py_fold (ProcessLine env extra fn ext cl) [m..<n] lw = Inr lw' \<Longrightarrow>
     line_steps env extra fn ext cl (m, lw) (n, lw')"
proof (induction n arbitrary: lw' rule: dec_induct)
  case (step n)
  then show ?case by (auto simp: py_bind_eq_Inr intro: line_steps.step)
qed (simp add: line_steps.stay)

lemma ProcessLine_include:
  assumes "ProcessLine env extra fn ext cl n lw = Inr lw'" "wf_include (ls_include (fst lw))"
  shows "wf_include (ls_include (fst lw')) \<and> dom (get_all (ls_include (fst lw))) \<subseteq> dom (get_all (ls_include (fst lw')))"
proof -
  from assms(1) consider "ls_include (fst lw') = ls_include (fst lw)"
    | rs where "CheckLanguage (env_fs env) fn ext cl n (ls_include (fst lw)) = Inr (rs, ls_include (fst lw'))"
    unfolding ProcessLine_def Let_def split_beta by (auto simp: py_bind_eq_Inr split: if_split_asm)
  then show ?thesis
  proof cases
    case 2
    then consider "ls_include (fst lw') = ls_include (fst lw)"
      | line where "CheckIncludeLine (env_fs env) fn (int n) line (ls_include (fst lw)) = Inr (rs, ls_include (fst lw'))"
      by (auto simp: CheckLanguage_def py_bind_eq_Inr split: if_split_asm)
    then show ?thesis
    proof cases
      case 2
      from CheckIncludeLine_step [OF assms(2) this] show ?thesis by blast
    qed (use assms(2) in simp)
  qed (use assms(2) in simp)
qed

lemma ProcessFile_quiet:
  assumes "quiet (lint w)" "ProcessFile env extra fn (verbose_level (lint w)) w = Inr w'"
  shows "reported w w'"
proof -
  have w: "w\<lparr>lint := snd (SetVerboseLevel (verbose_level (lint w)) (lint w))\<rparr> = w" by (simp add: SetVerboseLevel_def)
  have q: "reported w v \<Longrightarrow> write_unless_quiet s v = v" for s v using assms(1) by (simp add: write_unless_quiet_def reported_def)
  show ?thesis
  proof (cases "read_lines env fn")
    case (Inl e)
    with assms(2) show ?thesis unfolding ProcessFile_def w Let_def by (simp add: q split: if_split_asm)
  next
    case (Inr ls)
    show ?thesis
    proof (cases "fn \<noteq> ''-'' \<and> extension_of fn \<notin> set ALL_EXTENSIONS")
      case True
      with Inr assms(2) show ?thesis unfolding ProcessFile_def w Let_def by (simp add: q del: append.simps)
    next
      case False
      with Inr assms(2) obtain u v where v: "ProcessFileData env extra fn (extension_of fn) (map strip_cr ls) w = Inr u"
          "(if list_ex (\<lambda>l. py_endswith l [CHR 0x0D]) ls then Error fn (mk_report 0 ''whitespace/newline'' 1 cr_message) u else Inr u) = Inr v"
          "w' = write_unless_quiet (''Done processing '' @ fn @ [CHR 0x0A]) v"
        unfolding ProcessFile_def w Let_def by (auto simp: py_bind_eq_Inr simp del: append.simps)
      then have "reported w u" using counted.ProcessFileData_since [of w env extra fn] by (auto simp: since_def)
      with v(2) have "reported w v" using Error_reported reported_trans by (auto split: if_split_asm)
      with v(3) q show ?thesis by simp
    qed
  qed
qed

section \<open>Properties\<close>

text \<open>
  C4: While the data of a file are checked, one message is written for each error that is counted and
  nothing else is written; the counters of the categories still add up to the total, and the
  verbosity, the counting style and the quiet flag are as before.
\<close>

theorem file_messages_counted:
  assumes "ProcessFileData env extra filename ext lines w = Inr w'"
  shows "\<exists>msgs. stderr w' = stderr w @ msgs \<and> error_count (lint w') = error_count (lint w) + length msgs
    \<and> (counts_ok (lint w) \<longrightarrow> counts_ok (lint w')) \<and> quiet (lint w') = quiet (lint w)
    \<and> verbose_level (lint w') = verbose_level (lint w) \<and> counting (lint w') = counting (lint w)"
  using counted.ProcessFileData_since [of w env extra filename ext lines] assms by (auto simp: since_def reported_def)

definition sample_env :: py_env where
  "sample_env = \<lparr>env_fs = no_files, env_year = 2015, env_keys = (\<lambda>_. []), env_order = (\<lambda>ks. ks),
     env_decode = (\<lambda>_. None), env_stdin = []\<rparr>"

lemma file_messages_counted_witness:
  "\<exists>w' msgs. ProcessFileData sample_env [] ''a.cc'' ''cc'' [] sample_world = Inr w' \<and> stderr w' = msgs
     \<and> error_count (lint w') = length msgs"
proof -
  have "returns (ProcessFileData sample_env [] ''a.cc'' ''cc'' [] sample_world)" by code_simp
  then obtain w' where w': "ProcessFileData sample_env [] ''a.cc'' ''cc'' [] sample_world = Inr w'"
    by (auto simp: returns_def)
  have "stderr sample_world = []" "error_count (lint sample_world) = 0"
    by (simp_all add: sample_world_def init_cpplint_state_def)
  with file_messages_counted [OF w'] w' show ?thesis by auto
qed

text \<open>
  C37: Every message that the built-in checks write about a file is that of a report whose category
  is one of the known ones (so that a filter or a NOLINT comment can name it) and whose confidence is
  between the verbosity and 5, in the format of the run; each of them is counted once.
\<close>

theorem file_messages_known:
  assumes "ProcessFileData env [] filename ext lines w = Inr w'"
  shows "\<exists>rs. stderr w' = stderr w @ map (format_error w filename) rs \<and> error_count (lint w') = error_count (lint w) + length rs
    \<and> (\<forall>r \<in> set rs. r_category r \<in> set ERROR_CATEGORIES \<and> verbose_level (lint w) \<le> r_confidence r
         \<and> 0 \<le> r_confidence r \<and> r_confidence r \<le> 5)"
  using written.ProcessFileData_since [of filename w env ext lines] assms
  by (auto simp: since_def wrote_def list_all_iff known_report_def)

lemma file_messages_known_witness:
  "\<exists>w' rs. ProcessFileData sample_env [] ''a.cc'' ''cc'' [] sample_world = Inr w' \<and> stderr w' = map (format_error sample_world ''a.cc'') rs
     \<and> rs \<noteq> [] \<and> (\<forall>r \<in> set rs. r_category r \<in> set ERROR_CATEGORIES)"
proof -
  have "(case ProcessFileData sample_env [] ''a.cc'' ''cc'' [] sample_world of Inl e \<Rightarrow> False | Inr w' \<Rightarrow> stderr w' \<noteq> [])"
    by code_simp
  then obtain w' where w': "ProcessFileData sample_env [] ''a.cc'' ''cc'' [] sample_world = Inr w'" "stderr w' \<noteq> []"
    by (auto split: sum.split_asm)
  have "stderr sample_world = []" by (simp add: sample_world_def)
  with file_messages_known [OF w'(1)] w' show ?thesis by auto
qed

text \<open>
  C11: While the lines of a file are processed, the stack of include scopes stays consistent with its
  store, a header once recorded is never forgotten, and whatever is written is one message for each
  counted error, between any two states that the run reaches.
\<close>

theorem line_run_monotone:
  assumes "line_steps env extra filename ext cl (0, new_line_state, w) (m, ls1, w1)"
    and "line_steps env extra filename ext cl (m, ls1, w1) (n, ls2, w2)"
  shows "m \<le> n \<and> wf_include (ls_include ls2) \<and> dom (get_all (ls_include ls1)) \<subseteq> dom (get_all (ls_include ls2))
    \<and> (\<exists>msgs. stderr w2 = stderr w1 @ msgs \<and> error_count (lint w2) = error_count (lint w1) + length msgs)"
proof -
  have run: "wf_include (ls_include (fst (snd s))) \<Longrightarrow> fst s \<le> fst t \<and> wf_include (ls_include (fst (snd t)))
      \<and> dom (get_all (ls_include (fst (snd s)))) \<subseteq> dom (get_all (ls_include (fst (snd t)))) \<and> reported (snd (snd s)) (snd (snd t))"
    if "line_steps env extra filename ext cl s t" for s t
    using that
  proof (induction rule: line_steps.induct)
    case (step s n lw lw')
    then have s: "fst s \<le> n" "wf_include (ls_include (fst lw))" "reported (snd (snd s)) (snd lw)"
        "dom (get_all (ls_include (fst (snd s)))) \<subseteq> dom (get_all (ls_include (fst lw)))" by auto
    have "reported (snd lw) (snd lw')"
      using counted.ProcessLine_since [of lw env extra filename ext cl n] step.hyps(3) by (auto simp: since_def)
    with s ProcessLine_include [OF step.hyps(3) s(2)] reported_trans show ?case by fastforce
  qed auto
  have "wf_include (ls_include new_line_state)" by (simp add: new_line_state_def new_include_state_def wf_include_def)
  from run [OF assms(1)] this have "wf_include (ls_include ls1)" by simp
  with run [OF assms(2)] show ?thesis by (auto simp: reported_def)
qed

lemma line_run_monotone_witness:
  "\<exists>ls w. ProcessLine sample_env [] ''a.cc'' ''cc'' (CleansedLines [''#include <map>'']) 0 (new_line_state, sample_world) = Inr (ls, w)
     \<and> wf_include (ls_include ls) \<and> (\<exists>msgs. stderr w = msgs \<and> error_count (lint w) = length msgs)"
proof -
  let ?cl = "CleansedLines [''#include <map>'']"
  have "returns (ProcessLine sample_env [] ''a.cc'' ''cc'' ?cl 0 (new_line_state, sample_world))" by code_simp
  then obtain ls w where p: "ProcessLine sample_env [] ''a.cc'' ''cc'' ?cl 0 (new_line_state, sample_world) = Inr (ls, w)"
    by (auto simp: returns_def)
  have n: "0 < NumLines ?cl" by (simp add: NumLines_def CleansedLines_def)
  from line_run_monotone [OF line_steps.stay line_steps.step [OF line_steps.stay n p]] p show ?thesis
    by (auto simp: sample_world_def init_cpplint_state_def)
qed

text \<open>
  C34: A file that cannot be opened, or whose extension is not one of a C++ file, is not checked: the
  counters, the filters and the suppressions stay as they are, and with the quiet flag nothing is
  written.
\<close>

theorem skipped_file:
  assumes "filename \<noteq> ''-''" "env_decode env filename = None \<or> extension_of filename \<notin> set ALL_EXTENSIONS"
  shows "\<exists>w'. ProcessFile env extra filename vlevel w = Inr w' \<and> error_suppressions w' = error_suppressions w
    \<and> lint w' = (lint w)\<lparr>verbose_level := vlevel\<rparr> \<and> (quiet (lint w) \<longrightarrow> stderr w' = stderr w)"
proof (cases "env_decode env filename")
  case None
  with assms(1) show ?thesis
    by (auto simp: ProcessFile_def Let_def read_lines_def ReadWithEncodingDetect_def write_unless_quiet_def write_err_def SetVerboseLevel_def)
next
  case (Some d)
  with assms(2) have ext: "extension_of filename \<notin> set ALL_EXTENSIONS" by simp
  have "\<exists>ls. read_lines env filename = Inr ls"
    using Some assms(1) by (simp add: read_lines_def ReadWithEncodingDetect_def Let_def split_beta)
  with ext assms(1) show ?thesis
    by (auto simp: ProcessFile_def Let_def write_unless_quiet_def write_err_def SetVerboseLevel_def)
qed

lemma skipped_file_witness:
  "\<exists>w'. ProcessFile sample_env [] ''a.cc'' 3 (sample_world\<lparr>lint := (lint sample_world)\<lparr>quiet := True\<rparr>\<rparr>) = Inr w' \<and> stderr w' = stderr sample_world"
  using skipped_file [of "''a.cc''" sample_env "[]" 3 "sample_world\<lparr>lint := (lint sample_world)\<lparr>quiet := True\<rparr>\<rparr>"]
  by (auto simp: sample_env_def)

end
