(* ===== verification/Main_Program.thy ===== *)
theory Main_Program
  imports Process
begin

text \<open>
  The command line: \<open>getopt\<close> as \<open>ParseArguments\<close> uses it, \<open>ParseArguments\<close>, \<open>PrintUsage\<close>,
  \<open>PrintCategories\<close> and \<open>main\<close>.

  A run ends with an exit status and the globals, or with an exception. The lemmas state which
  settings the arguments install, and that the exit status says whether an error was reported.
\<close>

section \<open>getopt\<close>

text \<open>
  \<open>getopt.getopt\<close> with no short options: an argument that starts with two dashes is a long option,
  which may be abbreviated; any other that starts with a dash, except a dash alone, is an error
  (\<open>None\<close>). A name that ends in an equals sign takes a value.
\<close>

definition long_has_args :: "string list \<Rightarrow> string \<Rightarrow> (bool \<times> string) option" where
  "long_has_args longopts opt =
     (let possibilities = filter (\<lambda>o'. py_startswith o' opt) longopts
      in if possibilities = [] then None
         else if opt \<in> set possibilities then Some (False, opt)
         else if opt @ ''='' \<in> set possibilities then Some (True, opt)
         else if 1 < length possibilities then None
         else let unique_match = hd possibilities
              in if py_endswith unique_match ''='' then Some (True, butlast unique_match) else Some (False, unique_match))"

text \<open>An option with its value, and the arguments after it.\<close>

definition do_longs :: "string list \<Rightarrow> string \<Rightarrow> string list \<Rightarrow> ((string \<times> string) \<times> string list) option" where
  "do_longs longopts opt args =
     (let name = takeWhile (\<lambda>c. c \<noteq> CHR ''='') opt;
          optarg = (if CHR ''='' \<in> set opt then Some (tl (dropWhile (\<lambda>c. c \<noteq> CHR ''='') opt)) else None)
      in case long_has_args longopts name of
           None \<Rightarrow> None
         | Some (True, full) \<Rightarrow>
             (case optarg of
                Some v \<Rightarrow> Some ((''--'' @ full, v), args)
              | None \<Rightarrow> (case args of [] \<Rightarrow> None | a # as \<Rightarrow> Some ((''--'' @ full, a), as)))
         | Some (False, full) \<Rightarrow> (case optarg of None \<Rightarrow> Some ((''--'' @ full, []), args) | Some _ \<Rightarrow> None))"

lemma do_longs_shorter: "do_longs longopts opt args = Some (p, rest) \<Longrightarrow> length rest \<le> length args"
  by (auto simp: do_longs_def Let_def split: option.splits bool.splits list.splits)

function getopt :: "string list \<Rightarrow> string list \<Rightarrow> ((string \<times> string) list \<times> string list) option" where
  "getopt longopts [] = Some ([], [])"
| "getopt longopts (a # args) =
     (if \<not> py_startswith a ''-'' \<or> a = ''-'' then Some ([], a # args)
      else if a = ''--'' then Some ([], args)
      else if py_startswith a ''--'' then
        (case do_longs longopts (drop 2 a) args of
           None \<Rightarrow> None
         | Some (p, rest) \<Rightarrow> map_option (\<lambda>(opts, files). (p # opts, files)) (getopt longopts rest))
      else None)"
  by pat_completeness auto
termination
  by (relation "measure (\<lambda>(l, args). length args)") (auto dest: do_longs_shorter simp: less_Suc_eq_le)

declare getopt.simps(2) [simp del]

definition long_options :: "string list" where
  "long_options = [''help'', ''output='', ''verbose='', ''counting='', ''filter='', ''quiet'']"

text \<open>\<open>int(s)\<close> for a byte string: white space around an optional sign and decimal digits.\<close>

definition str_space :: "char \<Rightarrow> bool" where
  "str_space c \<longleftrightarrow> c = CHR '' '' \<or> in_range (CHR 0x09) (CHR 0x0D) c"

definition py_int :: "string \<Rightarrow> int py" where
  "py_int s =
     (let t = rev (dropWhile str_space (rev (dropWhile str_space s)));
          sgn = (if t \<noteq> [] \<and> hd t = CHR ''-'' then -1 else 1);
          ds = (if t \<noteq> [] \<and> (hd t = CHR ''-'' \<or> hd t = CHR ''+'') then tl t else t)
      in if ds \<noteq> [] \<and> list_all ascii_digit ds then Inr (sgn * int (digits_value ds)) else Inl ValueError)"

section \<open>ParseArguments\<close>

text \<open>
  The end of a run with \<open>sys.exit\<close>: the status and what is written before it. \<open>sys.exit\<close> with a
  message writes it and exits with status 1; the usage text is a parameter.
\<close>

datatype 'a outcome = Exit nat "string list" | Go 'a

record settings =
  s_verbosity :: int
  s_output_format :: string
  s_filters :: string
  s_counting_style :: string
  s_quiet :: bool

definition PrintUsage :: "string \<Rightarrow> string option \<Rightarrow> 'a outcome" where
  "PrintUsage usage message =
     (case message of
        None \<Rightarrow> Exit 1 [usage]
      | Some m \<Rightarrow> Exit 1 [usage, [CHR 0x0A] @ ''FATAL ERROR: '' @ m @ [CHR 0x0A]])"

definition PrintCategories :: "'a outcome" where
  "PrintCategories = Exit 0 [concat (map (\<lambda>cat. ''  '' @ cat @ [CHR 0x0A]) ERROR_CATEGORIES)]"

text \<open>The loop over the options; a value of \<open>--verbose\<close> that is no number raises \<open>ValueError\<close>.\<close>

fun set_options :: "string \<Rightarrow> (string \<times> string) list \<Rightarrow> settings \<Rightarrow> settings outcome py" where
  "set_options usage [] s = Inr (Go s)"
| "set_options usage ((opt, val) # opts) s =
     (if opt = ''--help'' then Inr (PrintUsage usage None)
      else if opt = ''--output'' then
        if val \<noteq> ''emacs'' \<and> val \<noteq> ''vs7'' then
          Inr (PrintUsage usage (Some ''The only allowed output formats are emacs and vs7.''))
        else set_options usage opts (s\<lparr>s_output_format := val\<rparr>)
      else if opt = ''--verbose'' then py_bind (py_int val) (\<lambda>v. set_options usage opts (s\<lparr>s_verbosity := v\<rparr>))
      else if opt = ''--filter'' then
        if val = [] then Inr PrintCategories else set_options usage opts (s\<lparr>s_filters := val\<rparr>)
      else if opt = ''--counting'' then
        if val \<notin> {''total'', ''toplevel'', ''detailed''} then
          Inr (PrintUsage usage (Some ''Valid counting options are total, toplevel, and detailed''))
        else set_options usage opts (s\<lparr>s_counting_style := val\<rparr>)
      else if opt = ''--quiet'' then set_options usage opts (s\<lparr>s_quiet := True\<rparr>)
      else set_options usage opts s)"

definition default_settings :: "cpplint_state \<Rightarrow> settings" where
  "default_settings st = \<lparr>s_verbosity = verbose_level st, s_output_format = output_format st, s_filters = [],
     s_counting_style = [], s_quiet = False\<rparr>"

definition install_settings :: "settings \<Rightarrow> cpplint_state \<Rightarrow> cpplint_state py" where
  "install_settings s st =
     py_bind (SetFilters (s_filters s) (snd (SetVerboseLevel (s_verbosity s) (SetOutputFormat (s_output_format s) st)))) (\<lambda>st.
       Inr (SetQuiet (s_quiet s) (SetCountingStyle (s_counting_style s) st)))"

definition ParseArguments :: "string \<Rightarrow> string list \<Rightarrow> cpplint_state \<Rightarrow> (string list \<times> cpplint_state) outcome py" where
  "ParseArguments usage args st =
     (case getopt long_options args of
        None \<Rightarrow> Inr (PrintUsage usage (Some ''Invalid arguments.''))
      | Some (opts, filenames) \<Rightarrow>
          py_bind (set_options usage opts (default_settings st)) (\<lambda>res.
            case res of
              Exit n out \<Rightarrow> Inr (Exit n out)
            | Go s \<Rightarrow>
                if filenames = [] then Inr (PrintUsage usage (Some ''No files were specified.''))
                else py_bind (install_settings s st) (\<lambda>st. Inr (Go (filenames, st)))))"

section \<open>main\<close>



section \<open>Properties\<close>

text \<open>
  C18: Arguments that name a file leave the settings well formed: every filter has a sign, the output
  format and the counting style are among those the program knows (the style is empty unless one is
  given), and the counters are not touched.
\<close>

theorem arguments_well_formed:
  assumes "ParseArguments usage args st = Inr (Go (filenames, st'))"
  shows "filenames \<noteq> [] \<and> list_all wf_filter (filters st') \<and> counting st' \<in> {[], ''total'', ''toplevel'', ''detailed''}
    \<and> output_format st' \<in> {output_format st, ''emacs'', ''vs7''}
    \<and> error_count st' = error_count st \<and> errors_by_category st' = errors_by_category st"
proof -
  have opts: "s_counting_style s' \<in> {[], ''total'', ''toplevel'', ''detailed''} \<and> s_output_format s' \<in> {f, ''emacs'', ''vs7''}"
    if "set_options usage opts s = Inr (Go s')" "s_counting_style s \<in> {[], ''total'', ''toplevel'', ''detailed''}"
      "s_output_format s \<in> {f, ''emacs'', ''vs7''}" for opts s s' f
    using that
  proof (induction usage opts s rule: set_options.induct)
    case (2 usage opt val opts s)
    then show ?case
      by (auto simp: py_bind_eq_Inr PrintUsage_def PrintCategories_def split: if_split_asm)
  qed auto
  from assms obtain opts fs res where o': "getopt long_options args = Some (opts, fs)" "set_options usage opts (default_settings st) = Inr res"
    by (auto simp: ParseArguments_def py_bind_eq_Inr PrintUsage_def split: option.split_asm)
  with assms obtain s where s: "set_options usage opts (default_settings st) = Inr (Go s)" "filenames \<noteq> []"
      "install_settings s st = Inr st'"
    by (cases res) (auto simp: ParseArguments_def py_bind_eq_Inr PrintUsage_def split: if_split_asm)
  have "s_counting_style s \<in> {[], ''total'', ''toplevel'', ''detailed''} \<and> s_output_format s \<in> {output_format st, ''emacs'', ''vs7''}"
    by (rule opts [OF s(1)]) (simp_all add: default_settings_def)
  with s(2,3) show ?thesis
    by (auto simp: install_settings_def py_bind_eq_Inr SetFilters_def Let_def SetQuiet_def SetCountingStyle_def
        SetVerboseLevel_def SetOutputFormat_def split: if_split_asm)
qed

lemma arguments_well_formed_witness:
  "\<exists>st'. ParseArguments [] [''--filter=-build'', ''--output'', ''vs7'', ''a.cc''] init_cpplint_state = Inr (Go ([''a.cc''], st'))
     \<and> counting st' = [] \<and> list_all wf_filter (filters st')"
proof -
  have "case ParseArguments [] [''--filter=-build'', ''--output'', ''vs7'', ''a.cc''] init_cpplint_state of
      Inr (Go (fs, st)) \<Rightarrow> fs = [''a.cc''] \<and> counting st = [] | _ \<Rightarrow> False"
    by code_simp
  then obtain st' where st': "ParseArguments [] [''--filter=-build'', ''--output'', ''vs7'', ''a.cc''] init_cpplint_state = Inr (Go ([''a.cc''], st'))"
      "counting st' = []"
    by (auto split: sum.splits outcome.splits)
  with arguments_well_formed [OF st'(1)] show ?thesis by blast
qed




end
