(* ===== verification/Spec2Isabelle.thy ===== *)
theory Spec2Isabelle
  imports Main_Program
begin

text \<open>
  A verification library for \<open>cpplint\<close>, the C++ style checker in \<open>src/utils/tools/cpplint.py\<close>, the
  Python program of this repository. The C++ server, tools and utilities are not modelled.

  \<^bold>\<open>The program and its theories.\<close> A run (\<open>main\<close>) parses its arguments, then reads each file, cuts it
  into lines, removes comments and strings, and passes every line to the checks. The checks call one
  error handler, which decides by the suppressions, the verbosity and the filters whether a report
  is written and counted. From the bottom up:

  \<^item> \<open>Prelude\<close> and \<open>Py_String\<close>: results of Python code (\<open>'a py\<close>, an exception or a value), indexing and
    slicing with signed indices, the methods of strings.
  \<^item> \<open>Regex\<close>, \<open>Regex_Parser\<close>: a backtracking matcher with captures and the compiler of pattern text,
    for the fragment of \<open>re\<close> in use; \<open>Scanning\<close> and \<open>Literal_Patterns\<close> hold what patterns of common
    shapes match. \<open>Patterns\<close>, \<open>Check_Patterns\<close> and \<open>Language_Patterns\<close> hold the patterns of the
    program, written as in the source; \<open>Tables\<close> its constant tables.
  \<^item> \<open>Lint_State\<close>: \<open>_CppLintState\<close>, the NOLINT suppressions, \<open>_ShouldPrintError\<close>, \<open>Error\<close>. The record
    \<open>world\<close> holds the globals and what has been written to standard error.
  \<^item> \<open>Paths\<close>: \<open>FileInfo\<close>, \<open>_ClassifyInclude\<close>, \<open>FilesBelongToSameModule\<close>, \<open>GetHeaderGuardCPPVariable\<close>.
  \<^item> \<open>Include_State\<close>: \<open>_ScopedIncludeState\<close>, \<open>_IncludeState\<close>, \<open>CheckIncludeLine\<close>.
  \<^item> \<open>Cleansing\<close>: \<open>RemoveMultiLineComments\<close>, \<open>CleanseComments\<close>, \<open>CleansedLines\<close>.
  \<^item> \<open>Expressions\<close>: \<open>CloseExpression\<close>, \<open>_GetTextInside\<close>, the searches for angle brackets, blank lines.
  \<^item> \<open>Nesting\<close>: \<open>_BlockInfo\<close> and its subclasses, \<open>_PreprocessorInfo\<close>, \<open>_NestingState\<close>.
  \<^item> \<open>Function_State\<close>: \<open>_FunctionState\<close>, \<open>CheckForFunctionLengths\<close>.
  \<^item> \<open>File_Checks\<close>, \<open>Brace_Checks\<close>, \<open>Spacing_Checks\<close>, \<open>Style_Checks\<close>, \<open>Language_Checks\<close>, \<open>Include_Use\<close>:
    the checks, each with the name of its function in the source; a long function is cut into parts
    in the order of the source.
  \<^item> \<open>Known_Reports\<close>: what each of these checks may report.
  \<^item> \<open>Process\<close> and \<open>Main_Program\<close>: \<open>ProcessLine\<close>, \<open>ProcessFileData\<close>, \<open>ProcessFile\<close>, \<open>ParseArguments\<close> with
    \<open>getopt\<close>, \<open>main\<close>.

  \<^bold>\<open>State and effects.\<close> Objects are records that the operations return updated. A check that needs
  no state yields the list of its reports, or an exception; \<open>ProcessLine\<close> hands the reports to the
  handler in order. An exception ends the run, so that what was written before it is not kept in
  the result. The stack of include scopes keeps references into a store, since the source keeps
  each scope on the stack and in a second list; the copies that \<open>_PreprocessorInfo\<close> keeps are values.

  \<^bold>\<open>Loops.\<close> Every loop is a recursive function with a termination proof. Three loops of the source may
  run forever (\<open>FindBladeRootDir\<close>, the climb in \<open>RepositoryName\<close>, \<open>CheckBraces\<close>): there the total
  function yields \<open>Hang\<close>, and for the first and the last it is proved equal to the loop written with
  \<open>partial_function\<close>. There is no fuel, except that the matcher bounds the iterations of a repetition by
  the length of the remaining text, which is proved to lose no match (\<open>iter_set\<close>).

  \<^bold>\<open>Interfaces.\<close> The locale \<open>consuming\<close> (steps of the matcher), \<open>token_scanner\<close> (a loop that cuts tokens
  off a line is a fold over them), \<open>substitution\<close> (a pattern that cuts a text as a scanner does is
  substituted by that scanner), \<open>error_handler\<close> (a handler never fails under its invariant and counts
  at most one error), \<open>scope_stack\<close> (pushing and popping scopes) and \<open>reporting\<close> (a relation between the
  globals before and after that the handler keeps on the reports it accepts is kept by the run over
  a file). Each is interpreted on the definitions above; \<open>reporting\<close> twice, for the counting of errors
  and for the kind of message written.

  \<^bold>\<open>What is shown.\<close>
  \<^item> Reports: the last applicable filter decides; exactly the reports decided upon are written and
    counted, in order; NOLINT with a category suppresses that category on its line; the counters per
    category add up; \<open>SetFilters\<close> fails exactly on a field that starts with neither sign, and the
    argument parser leaves well-formed settings.
  \<^item> Files: while a file is checked one message is written per counted error, of a known category and
    a confidence that the verbosity selects; a quiet run exits with 0 exactly when it wrote nothing;
    unreadable and foreign files are skipped; repository names and modules are found as specified.
  \<^item> Text: comment removal equals a one-pass reference, collapsing strings equals three scanners on
    every line; found brackets are balanced and on the line stated, the angle bracket searches equal one
    automaton.
  \<^item> Structure: the nesting parser refines a brace counter on code without declarations; conditional
    compilation restores the stack it saved; functions are counted and reported with the right
    confidence, or the check fails, for every verbosity; includes are recorded, ordered and required
    exactly as specified; the warning about a blank line at the start of a block is never given.
  \<^item> Errors and termination: where the program raises or hangs on its input (header guards with two
    plus signs, directives without an \<open>#if\<close>, negative verbosity, braces without a line above, a
    directory of version control beside every directory above).

  \<^bold>\<open>Parameters.\<close> The file system, the current year, the two decodings of a file's bytes, standard
  input, the usage text and the iteration orders of dictionaries are arguments. The orders are those
  of Python 2 dictionaries, about which nothing is assumed but that they list the keys.

  \<^bold>\<open>Not modelled.\<close> Text is in the Latin-1 range, since characters are bytes in HOL:
  \<open>CheckForUnicodeReplacementCharacters\<close> and the width of wide and combining characters in
  \<open>GetLineWidth\<close> are left out. The codecs, the re-encoding of standard error and the cache of compiled
  patterns are left out; the iteration order in \<open>PrintErrorCounts\<close> is the order of first insertion.
\<close>

end
